(* ===== verification/Prelude.thy ===== *)
theory Prelude
  imports Main "HOL-Library.Sublist"
begin

text \<open>
  Shared vocabulary of the development: the result type of fallible Go code, the part of Go's
  \<open>strings\<close>, \<open>strconv\<close> and \<open>unicode\<close> packages the sources call, and
  the generic list lemmas the components share.

  A Go string is a sequence of bytes, so \<^typ>\<open>string\<close> (a list of 8-bit \<^typ>\<open>char\<close>)
  models it exactly; an index \<open>i\<close> into \<open>s\<close> is kept as the pair of the consumed
  prefix and the remaining suffix.
\<close>

section \<open>Results of fallible code\<close>

text \<open>
  \<open>Ok v\<close> is a normal return, \<open>Err e\<close> a returned error and \<open>Panic\<close> a Go
  run-time panic (a slice out of range and the like).
\<close>

datatype ('e, 'a) result = Ok 'a | Err 'e | Panic

fun res_map :: "('a \<Rightarrow> 'b) \<Rightarrow> ('e, 'a) result \<Rightarrow> ('e, 'b) result" where
  "res_map f (Ok x) = Ok (f x)"
| "res_map f (Err e) = Err e"
| "res_map f Panic = Panic"

text \<open>
  Code that returns a value or an error, where the error needs no further handling: the sum type
  with its bind, and the loop that converts a list and stops at the first error.
\<close>

definition bindE :: "'e + 'a \<Rightarrow> ('a \<Rightarrow> 'e + 'b) \<Rightarrow> 'e + 'b" where
  "bindE r f = (case r of Inl e \<Rightarrow> Inl e | Inr x \<Rightarrow> f x)"

fun mapE :: "('a \<Rightarrow> 'e + 'b) \<Rightarrow> 'a list \<Rightarrow> 'e + 'b list" where
  "mapE f [] = Inr []"
| "mapE f (x # xs) = bindE (f x) (\<lambda>y. bindE (mapE f xs) (\<lambda>ys. Inr (y # ys)))"

lemma bindE_simps [simp]: "bindE (Inl e) f = Inl e" "bindE (Inr x) f = f x"
  by (simp_all add: bindE_def)

lemma bindE_Inr_iff [simp]: "bindE r f = Inr y \<longleftrightarrow> (\<exists>x. r = Inr x \<and> f x = Inr y)"
  by (cases r) auto

lemma bindE_Inl_iff: "bindE r f = Inl e \<longleftrightarrow> r = Inl e \<or> (\<exists>x. r = Inr x \<and> f x = Inl e)"
  by (cases r) auto

lemma bindE_cong [fundef_cong]:
  "r = r' \<Longrightarrow> (\<And>x. r' = Inr x \<Longrightarrow> f x = f' x) \<Longrightarrow> bindE r f = bindE r' f'"
  by (cases r') auto

lemma mapE_cong [fundef_cong]:
  "xs = ys \<Longrightarrow> (\<And>x. x \<in> set ys \<Longrightarrow> f x = g x) \<Longrightarrow> mapE f xs = mapE g ys"
proof (induction ys arbitrary: xs)
  case (Cons y ys)
  from Cons.prems Cons.IH [of ys] show ?case by simp
qed simp

lemma mapE_Inr_iff: "mapE f xs = Inr ys \<longleftrightarrow> list_all2 (\<lambda>x y. f x = Inr y) xs ys"
  by (induction xs arbitrary: ys) (auto simp: list_all2_Cons1)

lemma mapE_mem: "mapE f xs = Inr ys \<Longrightarrow> x \<in> set xs \<Longrightarrow> \<exists>y \<in> set ys. f x = Inr y"
  by (induction xs arbitrary: ys) auto

lemma mapE_Inl_ex: "mapE f xs = Inl e \<Longrightarrow> \<exists>x \<in> set xs. f x = Inl e"
  by (induction xs) (auto simp: bindE_Inl_iff)

text \<open>The answers of the Kubernetes API the code tells apart.\<close>

datatype 'a api_result = ApiOk 'a | ApiNotFound | ApiAlreadyExists | ApiConflict | ApiError string

lemma res_map_Ok_iff [simp]: "res_map f r = Ok y \<longleftrightarrow> (\<exists>x. r = Ok x \<and> y = f x)"
  by (cases r) auto

lemma res_map_Err_iff [simp]: "res_map f r = Err e \<longleftrightarrow> r = Err e"
  by (cases r) auto

lemma res_map_Panic_iff [simp]: "res_map f r = Panic \<longleftrightarrow> r = Panic"
  by (cases r) auto

section \<open>Characters\<close>

abbreviation dquote :: char where "dquote \<equiv> CHR 0x22"
abbreviation squote :: char where "squote \<equiv> CHR 0x27"
abbreviation backslash :: char where "backslash \<equiv> CHR 0x5C"
abbreviation newline :: char where "newline \<equiv> CHR 0x0A"

text \<open>The byte value of a character.\<close>

definition byte :: "char \<Rightarrow> nat" where
  "byte c = of_char c"

definition is_digit :: "char \<Rightarrow> bool" where
  "is_digit c \<longleftrightarrow> 48 \<le> byte c \<and> byte c \<le> 57"

definition is_upper :: "char \<Rightarrow> bool" where
  "is_upper c \<longleftrightarrow> 65 \<le> byte c \<and> byte c \<le> 90"

definition is_lower :: "char \<Rightarrow> bool" where
  "is_lower c \<longleftrightarrow> 97 \<le> byte c \<and> byte c \<le> 122"

text \<open>
  \<open>unicode.IsLetter(rune(b))\<close> for one byte: the rune is a Latin-1 code point, and the
  Latin-1 letters beyond ASCII are U+00AA, U+00B5, U+00BA, U+00C0 to U+00D6, U+00D8 to U+00F6 and
  U+00F8 to U+00FF.
\<close>

definition latin1_letter :: "char \<Rightarrow> bool" where
  "latin1_letter c \<longleftrightarrow> is_upper c \<or> is_lower c \<or> byte c = 170 \<or> byte c = 181 \<or> byte c = 186 \<or>
     (192 \<le> byte c \<and> byte c \<le> 214) \<or> (216 \<le> byte c \<and> byte c \<le> 246) \<or> 248 \<le> byte c"

text \<open>
  ASCII case folding. \<open>strings.ToLower\<close> and \<open>strings.ToUpper\<close> agree with it on
  ASCII strings; on other strings they also fold non-ASCII runes.
\<close>

definition lower_char :: "char \<Rightarrow> char" where
  "lower_char c = (if is_upper c then char_of (byte c + 32) else c)"

definition upper_char :: "char \<Rightarrow> char" where
  "upper_char c = (if is_lower c then char_of (byte c - 32) else c)"

abbreviation to_lower :: "string \<Rightarrow> string" where
  "to_lower s \<equiv> map lower_char s"

abbreviation to_upper :: "string \<Rightarrow> string" where
  "to_upper s \<equiv> map upper_char s"

section \<open>Prefixes, suffixes and search\<close>

definition has_prefix :: "string \<Rightarrow> string \<Rightarrow> bool" where
  "has_prefix s p \<longleftrightarrow> take (length p) s = p"

definition has_suffix :: "string \<Rightarrow> string \<Rightarrow> bool" where
  "has_suffix s p \<longleftrightarrow> length p \<le> length s \<and> drop (length s - length p) s = p"

definition trim_prefix :: "string \<Rightarrow> string \<Rightarrow> string" where
  "trim_prefix s p = (if has_prefix s p then drop (length p) s else s)"

definition trim_suffix :: "string \<Rightarrow> string \<Rightarrow> string" where
  "trim_suffix s p = (if has_suffix s p then take (length s - length p) s else s)"

lemma has_prefix_iff: "has_prefix s p \<longleftrightarrow> (\<exists>t. s = p @ t)"
  unfolding has_prefix_def by (metis append_eq_conv_conj append_take_drop_id)

lemma has_prefix_append [simp]: "has_prefix (p @ t) p"
  by (simp add: has_prefix_def)

lemma has_suffix_iff: "has_suffix s p \<longleftrightarrow> (\<exists>t. s = t @ p)"
proof
  assume "has_suffix s p"
  then have "s = take (length s - length p) s @ p"
    unfolding has_suffix_def by (metis append_take_drop_id)
  then show "\<exists>t. s = t @ p" ..
qed (auto simp: has_suffix_def)

lemma trim_prefix_append [simp]: "trim_prefix (p @ t) p = t"
  by (simp add: trim_prefix_def)

lemma trim_suffix_append [simp]: "trim_suffix (t @ p) p = t"
  by (simp add: trim_suffix_def has_suffix_def)

text \<open>\<open>strings.Index\<close>: the first position of a substring.\<close>

fun str_index :: "string \<Rightarrow> string \<Rightarrow> nat option" where
  "str_index [] p = (if p = [] then Some 0 else None)"
| "str_index (c # s) p = (if has_prefix (c # s) p then Some 0 else map_option Suc (str_index s p))"

definition str_contains :: "string \<Rightarrow> string \<Rightarrow> bool" where
  "str_contains s p \<longleftrightarrow> str_index s p \<noteq> None"

definition contains_any :: "string \<Rightarrow> string \<Rightarrow> bool" where
  "contains_any s cs \<longleftrightarrow> list_ex (\<lambda>c. c \<in> set cs) s"

lemma str_index_Some:
  "str_index s p = Some i \<Longrightarrow> i \<le> length s \<and> has_prefix (drop i s) p"
proof (induction s p arbitrary: i rule: str_index.induct)
  case (1 p)
  then show ?case by (auto simp: has_prefix_def split: if_splits)
next
  case (2 c s p)
  then show ?case by (auto split: if_splits)
qed

lemma str_index_None: "str_index s p = None \<longleftrightarrow> (\<forall>u v. s \<noteq> u @ p @ v)"
proof (induction s p rule: str_index.induct)
  case (1 p)
  then show ?case by auto
next
  case (2 c s p)
  show ?case
  proof (cases "has_prefix (c # s) p")
    case True
    then obtain t where "c # s = [] @ p @ t" by (auto simp: has_prefix_iff)
    with True show ?thesis by (metis option.distinct(1) str_index.simps(2))
  next
    case False
    have "(\<forall>u v. c # s \<noteq> u @ p @ v) \<longleftrightarrow> (\<forall>u v. s \<noteq> u @ p @ v)"
    proof
      assume *: "\<forall>u v. c # s \<noteq> u @ p @ v"
      show "\<forall>u v. s \<noteq> u @ p @ v"
        using * by (metis append_Cons)
    next
      assume *: "\<forall>u v. s \<noteq> u @ p @ v"
      show "\<forall>u v. c # s \<noteq> u @ p @ v"
      proof (intro allI notI)
        fix u v
        assume eq: "c # s = u @ p @ v"
        show False
        proof (cases u)
          case Nil
          with eq False show False by (auto simp: has_prefix_iff)
        next
          case (Cons d u')
          with eq * show False by auto
        qed
      qed
    qed
    with 2 False show ?thesis by simp
  qed
qed

lemma str_contains_iff: "str_contains s p \<longleftrightarrow> (\<exists>u v. s = u @ p @ v)"
  using str_index_None by (auto simp: str_contains_def)

text \<open>\<open>strings.ReplaceAll\<close> with a nonempty \<open>old\<close>.\<close>

function replace_all :: "string \<Rightarrow> string \<Rightarrow> string \<Rightarrow> string" where
  "replace_all old new s =
     (if old \<noteq> [] \<and> has_prefix s old then new @ replace_all old new (drop (length old) s)
      else case s of [] \<Rightarrow> [] | c # t \<Rightarrow> c # replace_all old new t)"
  by pat_completeness auto
termination
proof (relation "measure (\<lambda>(old, new, s). length s)")
  fix old new s :: string
  assume "old \<noteq> [] \<and> has_prefix s old"
  then show "((old, new, drop (length old) s), old, new, s) \<in> measure (\<lambda>(old, new, s). length s)"
    by (auto simp: has_prefix_iff)
qed auto

declare replace_all.simps [simp del]

section \<open>Trimming\<close>

text \<open>
  \<open>strings.TrimSpace\<close> strips the runes of \<open>unicode.IsSpace\<close>. Each of them is one
  byte or a fixed UTF-8 sequence, and decoding a rune at either end of a string recognises exactly
  these byte sequences.
\<close>

definition space_seqs :: "string list" where
  "space_seqs =
     [[CHR 0x09], [CHR 0x0A], [CHR 0x0B], [CHR 0x0C], [CHR 0x0D], [CHR 0x20],
      [CHR 0xC2, CHR 0x85], [CHR 0xC2, CHR 0xA0], [CHR 0xE1, CHR 0x9A, CHR 0x80],
      [CHR 0xE2, CHR 0x80, CHR 0x80], [CHR 0xE2, CHR 0x80, CHR 0x81],
      [CHR 0xE2, CHR 0x80, CHR 0x82], [CHR 0xE2, CHR 0x80, CHR 0x83],
      [CHR 0xE2, CHR 0x80, CHR 0x84], [CHR 0xE2, CHR 0x80, CHR 0x85],
      [CHR 0xE2, CHR 0x80, CHR 0x86], [CHR 0xE2, CHR 0x80, CHR 0x87],
      [CHR 0xE2, CHR 0x80, CHR 0x88], [CHR 0xE2, CHR 0x80, CHR 0x89],
      [CHR 0xE2, CHR 0x80, CHR 0x8A], [CHR 0xE2, CHR 0x80, CHR 0xA8],
      [CHR 0xE2, CHR 0x80, CHR 0xA9], [CHR 0xE2, CHR 0x80, CHR 0xAF],
      [CHR 0xE2, CHR 0x81, CHR 0x9F], [CHR 0xE3, CHR 0x80, CHR 0x80]]"

lemma space_seqs_nonempty: "w \<in> set space_seqs \<Longrightarrow> w \<noteq> []"
  by (auto simp: space_seqs_def)

definition lead_space :: "string \<Rightarrow> string option" where
  "lead_space s = find (\<lambda>w. has_prefix s w) space_seqs"

lemma lead_space_Some:
  "lead_space s = Some w \<Longrightarrow> w \<noteq> [] \<and> has_prefix s w"
  unfolding lead_space_def by (auto simp: find_Some_iff dest!: space_seqs_nonempty [OF nth_mem])

function trim_left_space :: "string \<Rightarrow> string" where
  "trim_left_space s =
     (case lead_space s of None \<Rightarrow> s | Some w \<Rightarrow> trim_left_space (drop (length w) s))"
  by pat_completeness auto
termination
proof (relation "measure length")
  fix s w
  assume "lead_space s = Some w"
  then show "(drop (length w) s, s) \<in> measure length"
    by (auto dest!: lead_space_Some simp: has_prefix_iff)
qed auto

declare trim_left_space.simps [simp del]

definition trail_space :: "string \<Rightarrow> string option" where
  "trail_space s = find (\<lambda>w. has_suffix s w) space_seqs"

lemma trail_space_Some:
  "trail_space s = Some w \<Longrightarrow> w \<noteq> [] \<and> has_suffix s w"
  unfolding trail_space_def by (auto simp: find_Some_iff dest!: space_seqs_nonempty [OF nth_mem])

function trim_right_space :: "string \<Rightarrow> string" where
  "trim_right_space s =
     (case trail_space s of None \<Rightarrow> s | Some w \<Rightarrow> trim_right_space (take (length s - length w) s))"
  by pat_completeness auto
termination
proof (relation "measure length")
  fix s w
  assume "trail_space s = Some w"
  then show "(take (length s - length w) s, s) \<in> measure length"
    by (auto dest!: trail_space_Some simp: has_suffix_iff)
qed auto

declare trim_right_space.simps [simp del]

definition trim_space :: "string \<Rightarrow> string" where
  "trim_space s = trim_right_space (trim_left_space s)"

lemma trim_left_space_id: "lead_space s = None \<Longrightarrow> trim_left_space s = s"
  by (subst trim_left_space.simps) simp

lemma trim_right_space_id: "trail_space s = None \<Longrightarrow> trim_right_space s = s"
  by (subst trim_right_space.simps) simp

lemma trim_space_id: "lead_space s = None \<Longrightarrow> trail_space s = None \<Longrightarrow> trim_space s = s"
  by (simp add: trim_space_def trim_left_space_id trim_right_space_id)

lemma lead_space_Nil [simp]: "lead_space [] = None"
  by (auto simp: lead_space_def find_None_iff has_prefix_def dest: space_seqs_nonempty)

lemma trail_space_Nil [simp]: "trail_space [] = None"
  by (auto simp: trail_space_def find_None_iff has_suffix_def dest: space_seqs_nonempty)

lemma trim_space_Nil [simp]: "trim_space [] = []"
  by (simp add: trim_space_id)

lemma suffix_trim_left: "suffix (trim_left_space s) s"
proof (induction s rule: trim_left_space.induct)
  case (1 s)
  show ?case
  proof (cases "lead_space s")
    case None
    then show ?thesis by (simp add: trim_left_space_id)
  next
    case (Some w)
    with 1 have "suffix (trim_left_space (drop (length w) s)) (drop (length w) s)" by simp
    then have "suffix (trim_left_space (drop (length w) s)) s"
      using suffix_drop suffix_order.trans by blast
    with Some show ?thesis by (subst trim_left_space.simps) simp
  qed
qed

lemma prefix_trim_right: "prefix (trim_right_space s) s"
proof (induction s rule: trim_right_space.induct)
  case (1 s)
  show ?case
  proof (cases "trail_space s")
    case None
    then show ?thesis by (simp add: trim_right_space_id)
  next
    case (Some w)
    with 1 have "prefix (trim_right_space (take (length s - length w) s)) (take (length s - length w) s)"
      by simp
    then have "prefix (trim_right_space (take (length s - length w) s)) s"
      using take_is_prefix prefix_order.trans by blast
    with Some show ?thesis by (subst trim_right_space.simps) simp
  qed
qed

text \<open>\<open>strings.Trim\<close> and \<open>strings.TrimRight\<close> with an ASCII cut set.\<close>

definition trim_right_set :: "string \<Rightarrow> string \<Rightarrow> string" where
  "trim_right_set s cs = rev (dropWhile (\<lambda>c. c \<in> set cs) (rev s))"

definition trim_set :: "string \<Rightarrow> string \<Rightarrow> string" where
  "trim_set s cs = trim_right_set (dropWhile (\<lambda>c. c \<in> set cs) s) cs"

section \<open>Splitting and joining\<close>

text \<open>\<open>strings.Split\<close> on a one-byte separator and \<open>strings.Join\<close>.\<close>

fun split_on :: "char \<Rightarrow> string \<Rightarrow> string list" where
  "split_on k [] = [[]]"
| "split_on k (c # s) =
     (if c = k then [] # split_on k s
      else case split_on k s of [] \<Rightarrow> [[c]] | w # ws \<Rightarrow> (c # w) # ws)"

fun join :: "string \<Rightarrow> string list \<Rightarrow> string" where
  "join sep [] = []"
| "join sep [x] = x"
| "join sep (x # y # ys) = x @ sep @ join sep (y # ys)"

lemma split_on_nonempty [simp]: "split_on k s \<noteq> []"
  by (induction s) (auto split: list.splits)

lemma split_on_no_sep: "w \<in> set (split_on k s) \<Longrightarrow> k \<notin> set w"
proof (induction s arbitrary: w)
  case Nil
  then show ?case by simp
next
  case (Cons c s)
  obtain v vs where "split_on k s = v # vs" by (cases "split_on k s") auto
  with Cons show ?case by (fastforce split: if_splits)
qed

lemma join_Cons: "xs \<noteq> [] \<Longrightarrow> join sep (x # xs) = x @ sep @ join sep xs"
  by (cases xs) auto

lemma join_split_on: "join [k] (split_on k s) = s"
proof (induction s)
  case Nil
  then show ?case by simp
next
  case (Cons c s)
  obtain v vs where v: "split_on k s = v # vs" by (cases "split_on k s") auto
  with Cons show ?case by (cases vs) auto
qed

lemma split_on_single: "k \<notin> set w \<Longrightarrow> split_on k w = [w]"
  by (induction w) auto

lemma split_on_append:
  "k \<notin> set w \<Longrightarrow> split_on k (w @ k # s) = w # split_on k s"
  by (induction w) auto

lemma split_on_join:
  assumes "xs \<noteq> []" and "\<And>w. w \<in> set xs \<Longrightarrow> k \<notin> set w"
  shows "split_on k (join [k] xs) = xs"
  using assms
proof (induction xs)
  case Nil
  then show ?case by simp
next
  case (Cons x xs)
  show ?case
  proof (cases xs)
    case Nil
    with Cons.prems show ?thesis by (simp add: split_on_single)
  next
    case (Cons y ys)
    with Cons.prems Cons.IH show ?thesis by (simp add: split_on_append)
  qed
qed

section \<open>Decimal numbers\<close>

text \<open>\<open>strconv.Itoa\<close> and the \<open>%d\<close> verb.\<close>

definition digit_char :: "nat \<Rightarrow> char" where
  "digit_char d = char_of (48 + d)"

fun nat_to_dec :: "nat \<Rightarrow> string" where
  "nat_to_dec n = (if n < 10 then [digit_char n] else nat_to_dec (n div 10) @ [digit_char (n mod 10)])"

declare nat_to_dec.simps [simp del]

definition itoa :: "int \<Rightarrow> string" where
  "itoa i = (if i < 0 then CHR ''-'' # nat_to_dec (nat (- i)) else nat_to_dec (nat i))"

text \<open>The value of a string of decimal digits, \<open>None\<close> for any other string.\<close>

fun dec_acc :: "nat \<Rightarrow> string \<Rightarrow> nat option" where
  "dec_acc n [] = Some n"
| "dec_acc n (c # s) = (if is_digit c then dec_acc (10 * n + (byte c - 48)) s else None)"

definition dec_to_nat :: "string \<Rightarrow> nat option" where
  "dec_to_nat s = (if s = [] then None else dec_acc 0 s)"

text \<open>
  \<open>strconv.Atoi\<close> on a 64-bit platform: an optional sign, decimal digits, and the value
  must fit an \<open>int\<close>.
\<close>

definition int_min :: int where "int_min = - (2 ^ 63)"
definition int_max :: int where "int_max = 2 ^ 63 - 1"

definition in_int_range :: "int \<Rightarrow> bool" where
  "in_int_range i \<longleftrightarrow> int_min \<le> i \<and> i \<le> int_max"

definition atoi :: "string \<Rightarrow> int option" where
  "atoi s =
     (let (neg, ds) =
        (case s of [] \<Rightarrow> (False, [])
         | c # t \<Rightarrow> if c = CHR ''-'' then (True, t) else if c = CHR ''+'' then (False, t) else (False, s))
      in case dec_to_nat ds of
           None \<Rightarrow> None
         | Some n \<Rightarrow> (let i = (if neg then - int n else int n) in if in_int_range i then Some i else None))"

lemma byte_digit_char: "d < 10 \<Longrightarrow> byte (digit_char d) = 48 + d"
  by (simp add: byte_def digit_char_def)

lemma is_digit_digit_char [simp]: "d < 10 \<Longrightarrow> is_digit (digit_char d)"
  by (simp add: is_digit_def byte_digit_char)

lemma dec_acc_append:
  "dec_acc n (s @ t) = (case dec_acc n s of None \<Rightarrow> None | Some m \<Rightarrow> dec_acc m t)"
  by (induction n s rule: dec_acc.induct) auto

lemma nat_to_dec_nonempty [simp]: "nat_to_dec n \<noteq> []"
  by (subst nat_to_dec.simps) auto

lemma dec_acc_nat_to_dec: "dec_acc 0 (nat_to_dec n) = Some n"
proof (induction n rule: nat_to_dec.induct)
  case (1 n)
  show ?case
  proof (cases "n < 10")
    case True
    then show ?thesis by (subst nat_to_dec.simps) (simp add: byte_digit_char)
  next
    case False
    with 1 show ?thesis
      by (subst nat_to_dec.simps) (simp add: dec_acc_append byte_digit_char)
  qed
qed

lemma dec_to_nat_nat_to_dec [simp]: "dec_to_nat (nat_to_dec n) = Some n"
  by (simp add: dec_to_nat_def dec_acc_nat_to_dec)

lemma nat_to_dec_digits: "c \<in> set (nat_to_dec n) \<Longrightarrow> is_digit c"
proof (induction n rule: nat_to_dec.induct)
  case (1 n)
  then show ?case
    by (cases "n < 10") (auto simp: nat_to_dec.simps [of n])
qed

lemma nat_to_dec_inj [simp]: "nat_to_dec m = nat_to_dec n \<longleftrightarrow> m = n"
  by (metis dec_to_nat_nat_to_dec option.inject)

lemma atoi_itoa:
  assumes "in_int_range i"
  shows "atoi (itoa i) = Some i"
proof (cases "i < 0")
  case True
  with assms show ?thesis by (simp add: atoi_def itoa_def)
next
  case False
  obtain c t where ct: "nat_to_dec (nat i) = c # t" by (cases "nat_to_dec (nat i)") auto
  then have "is_digit c" using nat_to_dec_digits [of c "nat i"] by simp
  then have "c \<noteq> CHR ''-''" and "c \<noteq> CHR ''+''" by (auto simp: is_digit_def byte_def)
  with False assms ct show ?thesis
    using dec_to_nat_nat_to_dec [of "nat i"] by (simp add: atoi_def itoa_def)
qed

section \<open>Generic list lemmas\<close>

lemma list_all_imp_list_all: "list_all P xs \<Longrightarrow> (\<And>x. x \<in> set xs \<Longrightarrow> P x \<Longrightarrow> Q x) \<Longrightarrow> list_all Q xs"
  by (auto simp: list_all_iff)

end
