(* ===== verification/PromQL.thy ===== *)
theory PromQL
  imports Prelude
begin

text \<open>
  The PromQL rewriter of the query subresource, \<open>internal/subresourceapi/promql_scope.go\<close>:
  every vector selector of a tenant's query is rewritten so that it carries the identity matchers
  \<open>waf_namespace\<close> and \<open>waf_name\<close> of an authorised WAF.

  The Go code walks an index over the query. Here a scanner takes the remaining suffix and returns
  the consumed text and the new suffix; the text between two indices is the difference of two
  suffixes. Errors keep the message of the source as a constructor, and the slice expression of
  \<open>rewriteRangeFuncCall\<close> that can go out of range yields \<open>Panic\<close>.
\<close>

section \<open>Data\<close>

record WAFIdentity =
  id_Namespace :: string
  id_Name :: string

datatype promql_error =
    EmptyQuery
  | MissingWAFIdentity
  | InvalidWAFIdentity
  | UnterminatedString
  | UnterminatedSelector
  | UnterminatedRange
  | UnterminatedGrouping
  | UnterminatedMatcherString
  | ExpectedBrace
  | ExpectedBracket
  | ExpectedParen
  | IdentityNotExact string
  | IdentityEscapesScope

definition promqlKeywords :: "string list" where
  "promqlKeywords =
     [''and'', ''or'', ''unless'', ''by'', ''without'', ''on'', ''ignoring'', ''group_left'',
      ''group_right'', ''bool'', ''offset'', ''inf'', ''nan'', ''atan2'']"

definition promqlAggregators :: "string list" where
  "promqlAggregators =
     [''sum'', ''min'', ''max'', ''avg'', ''group'', ''stddev'', ''stdvar'', ''count'',
      ''count_values'', ''bottomk'', ''topk'', ''quantile'']"

definition rangeVectorFuncs :: "string list" where
  "rangeVectorFuncs =
     [''increase'', ''rate'', ''irate'', ''delta'', ''idelta'', ''deriv'', ''resets'', ''changes'',
      ''predict_linear'', ''avg_over_time'', ''min_over_time'', ''max_over_time'',
      ''sum_over_time'', ''count_over_time'', ''stddev_over_time'', ''stdvar_over_time'',
      ''last_over_time'', ''present_over_time'', ''absent_over_time'', ''holt_winters'']"

definition maxPromQLUnionWAFs :: nat where
  "maxPromQLUnionWAFs = 256"

section \<open>Scanners\<close>

definition isIdentStart :: "char \<Rightarrow> bool" where
  "isIdentStart c \<longleftrightarrow> c = CHR ''_'' \<or> c = CHR '':'' \<or> latin1_letter c"

definition isIdentCont :: "char \<Rightarrow> bool" where
  "isIdentCont c \<longleftrightarrow> isIdentStart c \<or> is_digit c"

definition is_query_space :: "char \<Rightarrow> bool" where
  "is_query_space c \<longleftrightarrow> c = CHR '' '' \<or> c = CHR 0x09 \<or> c = CHR 0x0A \<or> c = CHR 0x0D"

definition skipSpace :: "string \<Rightarrow> string" where
  "skipSpace s = dropWhile is_query_space s"

definition readIdent :: "string \<Rightarrow> string \<times> string" where
  "readIdent s =
     (case s of [] \<Rightarrow> ([], [])
      | c # t \<Rightarrow> if isIdentStart c then (c # takeWhile isIdentCont t, dropWhile isIdentCont t)
                 else ([], s))"

text \<open>\<open>skipQuoted\<close>: the loop after the opening quote \<open>k\<close>.\<close>

fun skip_quoted_body :: "char \<Rightarrow> string \<Rightarrow> (string \<times> string) option" where
  "skip_quoted_body k [] = None"
| "skip_quoted_body k [c] = (if c = k then Some ([c], []) else None)"
| "skip_quoted_body k (c # d # s) =
     (if c = backslash then map_option (map_prod (\<lambda>a. c # d # a) id) (skip_quoted_body k s)
      else if c = k then Some ([c], d # s)
      else map_option (map_prod (Cons c) id) (skip_quoted_body k (d # s)))"

definition skipQuoted :: "string \<Rightarrow> (promql_error, string \<times> string) result" where
  "skipQuoted s =
     (case s of [] \<Rightarrow> Err UnterminatedString
      | k # t \<Rightarrow> (case skip_quoted_body k t of None \<Rightarrow> Err UnterminatedString
                  | Some (a, r) \<Rightarrow> Ok (k # a, r)))"

text \<open>
  The common loop of \<open>skipBracket\<close> and \<open>skipParen\<close>: nesting depth \<open>d\<close>
  and the open quote, if any.
\<close>

fun scan_nested :: "char \<Rightarrow> char \<Rightarrow> char option \<Rightarrow> int \<Rightarrow> string \<Rightarrow> (string \<times> string) option" where
  "scan_nested opn cls qt d [] = None"
| "scan_nested opn cls (Some k) d [c] = None"
| "scan_nested opn cls (Some k) d (c # e # s) =
     (if c = backslash
      then map_option (map_prod (\<lambda>a. c # e # a) id) (scan_nested opn cls (Some k) d s)
      else map_option (map_prod (Cons c) id)
             (scan_nested opn cls (if c = k then None else Some k) d (e # s)))"
| "scan_nested opn cls None d (c # s) =
     (if c = dquote \<or> c = squote
      then map_option (map_prod (Cons c) id) (scan_nested opn cls (Some c) d s)
      else if c = opn then map_option (map_prod (Cons c) id) (scan_nested opn cls None (d + 1) s)
      else if c = cls
      then (if d - 1 = 0 then Some ([c], s)
            else map_option (map_prod (Cons c) id) (scan_nested opn cls None (d - 1) s))
      else map_option (map_prod (Cons c) id) (scan_nested opn cls None d s))"

definition skipBracket :: "string \<Rightarrow> (promql_error, string \<times> string) result" where
  "skipBracket s =
     (if s = [] \<or> hd s \<noteq> CHR ''['' then Err ExpectedBracket
      else case scan_nested (CHR ''['') (CHR '']'') None 0 s of
             None \<Rightarrow> Err UnterminatedRange | Some p \<Rightarrow> Ok p)"

definition skipParen :: "string \<Rightarrow> (promql_error, string \<times> string) result" where
  "skipParen s =
     (if s = [] \<or> hd s \<noteq> CHR ''('' then Err ExpectedParen
      else case scan_nested (CHR ''('') (CHR '')'') None 0 s of
             None \<Rightarrow> Err UnterminatedGrouping | Some p \<Rightarrow> Ok p)"

text \<open>\<open>readSelector\<close>: the loop after the opening brace.\<close>

fun read_selector_body :: "char option \<Rightarrow> string \<Rightarrow> (string \<times> string) option" where
  "read_selector_body qt [] = None"
| "read_selector_body (Some k) [c] = None"
| "read_selector_body (Some k) (c # e # s) =
     (if c = backslash then map_option (map_prod (\<lambda>a. c # e # a) id) (read_selector_body (Some k) s)
      else map_option (map_prod (Cons c) id)
             (read_selector_body (if c = k then None else Some k) (e # s)))"
| "read_selector_body None (c # s) =
     (if c = dquote \<or> c = squote
      then map_option (map_prod (Cons c) id) (read_selector_body (Some c) s)
      else if c = CHR ''}'' then Some ([c], s)
      else map_option (map_prod (Cons c) id) (read_selector_body None s))"

definition readSelector :: "string \<Rightarrow> (promql_error, string \<times> string) result" where
  "readSelector s =
     (case s of [] \<Rightarrow> Err ExpectedBrace
      | c # t \<Rightarrow>
          if c \<noteq> CHR ''{'' then Err ExpectedBrace
          else case read_selector_body None t of None \<Rightarrow> Err UnterminatedSelector
               | Some (a, r) \<Rightarrow> Ok (c # a, r))"

definition isNumberStart :: "string \<Rightarrow> bool" where
  "isNumberStart s =
     (case s of [] \<Rightarrow> False
      | c # t \<Rightarrow> is_digit c \<or> (c = CHR ''.'' \<and> t \<noteq> [] \<and> is_digit (hd t)))"

text \<open>\<open>skipNumber\<close> returns the suffix after the number.\<close>

definition skip_exponent :: "string \<Rightarrow> string" where
  "skip_exponent s =
     (case s of [] \<Rightarrow> s
      | c # t \<Rightarrow>
          if c = CHR ''e'' \<or> c = CHR ''E''
          then (let u = (if t \<noteq> [] \<and> (hd t = CHR ''+'' \<or> hd t = CHR ''-'') then tl t else t)
                in if u \<noteq> [] \<and> is_digit (hd u) then dropWhile is_digit u else s)
          else s)"

definition skipNumber :: "string \<Rightarrow> string" where
  "skipNumber s =
     (let s1 = dropWhile is_digit s;
          s2 = (if s1 \<noteq> [] \<and> hd s1 = CHR ''.'' then dropWhile is_digit (tl s1) else s1)
      in skip_exponent s2)"

section \<open>Label matchers\<close>

text \<open>
  \<open>splitMatchers\<close>: \<open>cur\<close> is the text of the current part, \<open>qt\<close> the open
  quote; \<open>None\<close> stands for the error of an unterminated matcher string.
\<close>

fun split_matchers_loop :: "char option \<Rightarrow> string \<Rightarrow> string \<Rightarrow> string list option" where
  "split_matchers_loop (Some k) cur [] = None"
| "split_matchers_loop None cur [] = Some (if trim_space cur \<noteq> [] then [trim_space cur] else [])"
| "split_matchers_loop (Some k) cur [c] =
     split_matchers_loop (if c = k then None else Some k) (cur @ [c]) []"
| "split_matchers_loop (Some k) cur (c # d # s) =
     (if c = backslash then split_matchers_loop (Some k) (cur @ [c, d]) s
      else split_matchers_loop (if c = k then None else Some k) (cur @ [c]) (d # s))"
| "split_matchers_loop None cur (c # s) =
     (if c = dquote \<or> c = squote then split_matchers_loop (Some c) (cur @ [c]) s
      else if c = CHR '','' then map_option (Cons (trim_space cur)) (split_matchers_loop None [] s)
      else split_matchers_loop None (cur @ [c]) s)"

definition splitMatchers :: "string \<Rightarrow> (promql_error, string list) result" where
  "splitMatchers inner =
     (let s = trim_space inner in
      if s = [] then Ok []
      else case split_matchers_loop None [] s of
             None \<Rightarrow> Err UnterminatedMatcherString | Some ms \<Rightarrow> Ok ms)"

definition unquoteProm :: "string \<Rightarrow> string" where
  "unquoteProm s0 =
     (let s = trim_space s0 in
      if length s \<ge> 2 \<and> (hd s = dquote \<or> hd s = squote) \<and> last s = hd s
      then take (length s - 2) (tl s) else s)"

text \<open>
  \<open>parseMatcher\<close> tries the operators in this order; \<open>None\<close> stands for
  \<open>ok = false\<close>.
\<close>

fun parse_matcher_ops :: "string list \<Rightarrow> string \<Rightarrow> (string \<times> string \<times> string) option" where
  "parse_matcher_ops [] m = None"
| "parse_matcher_ops (cand # cands) m =
     (case str_index m cand of
        Some (Suc i) \<Rightarrow>
          (let key = trim_space (take (Suc i) m);
               val = unquoteProm (trim_space (drop (Suc i + length cand) m))
           in if key \<noteq> [] then Some (key, cand, val) else None)
      | _ \<Rightarrow> parse_matcher_ops cands m)"

definition parseMatcher :: "string \<Rightarrow> (string \<times> string \<times> string) option" where
  "parseMatcher m = parse_matcher_ops [''=~'', ''!~'', ''!='', ''=''] (trim_space m)"

definition is_identity_key :: "string \<Rightarrow> bool" where
  "is_identity_key key \<longleftrightarrow> key = ''waf_namespace'' \<or> key = ''waf_name''"

fun extract_identity_loop ::
  "string \<Rightarrow> string \<Rightarrow> string list \<Rightarrow> (promql_error, string \<times> string) result" where
  "extract_identity_loop ns name [] = Ok (ns, name)"
| "extract_identity_loop ns name (m # ms) =
     (case parseMatcher m of
        None \<Rightarrow> extract_identity_loop ns name ms
      | Some (key, opr, val) \<Rightarrow>
          if opr \<noteq> ''='' then
            (if is_identity_key key then Err (IdentityNotExact key)
             else extract_identity_loop ns name ms)
          else if key = ''waf_namespace'' then extract_identity_loop val name ms
          else if key = ''waf_name'' then extract_identity_loop ns val ms
          else extract_identity_loop ns name ms)"

definition extractIdentityMatchers :: "string \<Rightarrow> (promql_error, string \<times> string) result" where
  "extractIdentityMatchers inner =
     (case splitMatchers inner of
        Ok ms \<Rightarrow> extract_identity_loop [] [] ms
      | Err e \<Rightarrow> Err e | Panic \<Rightarrow> Panic)"

definition is_identity_matcher :: "string \<Rightarrow> bool" where
  "is_identity_matcher m =
     (case parseMatcher m of None \<Rightarrow> False | Some (key, _, _) \<Rightarrow> is_identity_key key)"

definition stripIdentityMatchers :: "string \<Rightarrow> string" where
  "stripIdentityMatchers inner =
     (case splitMatchers inner of
        Ok ms \<Rightarrow> join '','' (filter (\<lambda>m. \<not> is_identity_matcher m) ms)
      | _ \<Rightarrow> inner)"

definition rejectForeignIdentity :: "string \<Rightarrow> WAFIdentity list \<Rightarrow> (promql_error, unit) result" where
  "rejectForeignIdentity inner allowed =
     (case extractIdentityMatchers inner of
        Err e \<Rightarrow> Err e
      | Panic \<Rightarrow> Panic
      | Ok (ns, name) \<Rightarrow>
          if ns = [] \<and> name = [] then Ok ()
          else if list_ex (\<lambda>i. (ns = [] \<or> ns = id_Namespace i) \<and> (name = [] \<or> name = id_Name i)) allowed
          then Ok ()
          else Err IdentityEscapesScope)"

section \<open>Injecting the identity\<close>

text \<open>
  The \<open>%q\<close> verb on an ASCII string: \<open>strconv.Quote\<close> escapes the quote, the
  backslash and the control characters. Bytes from 0x80 are rendered as \<open>\xNN\<close>, which is
  what Go prints for bytes that are not part of a printable rune.
\<close>

definition hex_char :: "nat \<Rightarrow> char" where
  "hex_char d = (if d < 10 then char_of (48 + d) else char_of (87 + d))"

definition quote_char :: "char \<Rightarrow> string" where
  "quote_char c =
     (if c = dquote \<or> c = backslash then [backslash, c]
      else if 32 \<le> byte c \<and> byte c < 127 then [c]
      else if c = CHR 0x07 then [backslash, CHR ''a'']
      else if c = CHR 0x08 then [backslash, CHR ''b'']
      else if c = CHR 0x0C then [backslash, CHR ''f'']
      else if c = CHR 0x0A then [backslash, CHR ''n'']
      else if c = CHR 0x0D then [backslash, CHR ''r'']
      else if c = CHR 0x09 then [backslash, CHR ''t'']
      else if c = CHR 0x0B then [backslash, CHR ''v'']
      else [backslash, CHR ''x'', hex_char (byte c div 16), hex_char (byte c mod 16)])"

definition go_quote :: "string \<Rightarrow> string" where
  "go_quote s = dquote # concat (map quote_char s) @ [dquote]"

definition identity_scope :: "WAFIdentity \<Rightarrow> string" where
  "identity_scope i =
     ''waf_namespace='' @ go_quote (id_Namespace i) @ '',waf_name='' @ go_quote (id_Name i)"

definition injectIdentity :: "string \<Rightarrow> string \<Rightarrow> WAFIdentity \<Rightarrow> (promql_error, string) result" where
  "injectIdentity metric inner i =
     (if id_Namespace i = [] \<or> id_Name i = [] then Err InvalidWAFIdentity
      else let body = (if trim_space inner = [] then identity_scope i
                       else identity_scope i @ '','' @ trim_space inner)
           in Ok (metric @ ''{'' @ body @ ''}''))"

fun inject_all :: "string \<Rightarrow> string \<Rightarrow> string \<Rightarrow> WAFIdentity list \<Rightarrow> (promql_error, string list) result" where
  "inject_all metric cleaned rng [] = Ok []"
| "inject_all metric cleaned rng (i # ids) =
     (case injectIdentity metric cleaned i of
        Err e \<Rightarrow> Err e | Panic \<Rightarrow> Panic
      | Ok sel \<Rightarrow> res_map (Cons (sel @ rng)) (inject_all metric cleaned rng ids))"

text \<open>The text between the suffixes \<open>s\<close> and \<open>r\<close> of one query: \<open>q[i:j]\<close>.\<close>

definition between :: "string \<Rightarrow> string \<Rightarrow> string" where
  "between s r = take (length s - length r) s"

definition scopedSelectorParts ::
  "string \<Rightarrow> string \<Rightarrow> string \<Rightarrow> WAFIdentity list \<Rightarrow> (promql_error, string list \<times> string) result" where
  "scopedSelectorParts metric inner afterSel ids =
     (case rejectForeignIdentity inner ids of
        Err e \<Rightarrow> Err e | Panic \<Rightarrow> Panic
      | Ok _ \<Rightarrow>
          (let cleaned = stripIdentityMatchers inner; j = skipSpace afterSel in
           if j \<noteq> [] \<and> hd j = CHR ''[''
           then (case skipBracket j of
                   Err e \<Rightarrow> Err e | Panic \<Rightarrow> Panic
                 | Ok (_, r) \<Rightarrow>
                     res_map (\<lambda>parts. (parts, r)) (inject_all metric cleaned (between afterSel r) ids))
           else res_map (\<lambda>parts. (parts, afterSel)) (inject_all metric cleaned [] ids)))"

definition or_union :: "string list \<Rightarrow> string" where
  "or_union parts =
     (if length parts = 1 then hd parts else ''('' @ join '' or '' parts @ '')'')"

definition emitScopedSelectors ::
  "string \<Rightarrow> string \<Rightarrow> string \<Rightarrow> WAFIdentity list \<Rightarrow> (promql_error, string \<times> string) result" where
  "emitScopedSelectors metric inner afterSel ids =
     res_map (\<lambda>(parts, after). (or_union parts, after)) (scopedSelectorParts metric inner afterSel ids)"

definition selector_inner :: "string \<Rightarrow> string" where
  "selector_inner sel = trim_space (trim_prefix (trim_suffix sel ''}'') ''{'')"

definition rewriteSelectorAt ::
  "string \<Rightarrow> string \<Rightarrow> WAFIdentity list \<Rightarrow> (promql_error, string \<times> string) result" where
  "rewriteSelectorAt metric s ids =
     (case readSelector s of
        Err e \<Rightarrow> Err e | Panic \<Rightarrow> Panic
      | Ok (sel, after) \<Rightarrow> emitScopedSelectors metric (selector_inner sel) after ids)"

definition rewriteNamedMetric ::
  "string \<Rightarrow> string \<Rightarrow> WAFIdentity list \<Rightarrow> (promql_error, string \<times> string) result" where
  "rewriteNamedMetric metric afterIdent ids = emitScopedSelectors metric [] afterIdent ids"

text \<open>
  \<open>rewriteRangeFuncCall\<close> on the suffix \<open>p\<close> that starts at the opening parenthesis:
  \<open>Ok None\<close> is the fall-back \<open>ok = false\<close>. The first part locates the argument:
  the metric, the inner text and the suffix after the selector.
\<close>

definition range_func_arg ::
  "string \<Rightarrow> (promql_error, (string \<times> string \<times> string) option) result" where
  "range_func_arg p =
     (let s1 = skipSpace (tl p);
          (metric, s2) = (if s1 \<noteq> [] \<and> isIdentStart (hd s1)
                          then (let (m, r) = readIdent s1 in (m, skipSpace r)) else ([], s1))
      in if s2 \<noteq> [] \<and> hd s2 = CHR ''{''
         then (case readSelector s2 of
                 Err e \<Rightarrow> Err e | Panic \<Rightarrow> Panic
               | Ok (sel, after) \<Rightarrow> Ok (Some (metric, selector_inner sel, after)))
         else if metric = [] then Ok None
         else Ok (Some (metric, [], s2)))"

definition rewriteRangeFuncCall ::
  "string \<Rightarrow> string \<Rightarrow> WAFIdentity list \<Rightarrow> (promql_error, (string \<times> string) option) result" where
  "rewriteRangeFuncCall ident p ids =
     (case range_func_arg p of
        Err e \<Rightarrow> Err e | Panic \<Rightarrow> Panic
      | Ok None \<Rightarrow> Ok None
      | Ok (Some (metric, inner, afterSel)) \<Rightarrow>
          (case scopedSelectorParts metric inner afterSel ids of
             Err e \<Rightarrow> Err e | Panic \<Rightarrow> Panic
           | Ok (parts, afterSel') \<Rightarrow>
               (case skipParen p of
                  Err e \<Rightarrow> Err e | Panic \<Rightarrow> Panic
                | Ok (_, end_) \<Rightarrow>
                    if length afterSel' < length end_ + 1 then Panic
                    else let extra = take (length afterSel' - (length end_ + 1)) afterSel' in
                      if contains_any extra ''{}'' then Ok None
                      else Ok (Some (or_union (map (\<lambda>p. ident @ ''('' @ p @ extra @ '')'') parts), end_)))))"

section \<open>The main loop\<close>

definition isGroupingKeyword :: "string \<Rightarrow> bool" where
  "isGroupingKeyword low \<longleftrightarrow>
     low \<in> set [''by'', ''without'', ''on'', ''ignoring'', ''group_left'', ''group_right'']"

definition isAggModifier :: "string \<Rightarrow> bool" where
  "isAggModifier s =
     (if s = [] then False
      else if hd s = CHR ''('' then True
      else let (ident, next) = readIdent s; low = to_lower ident in
           if low \<noteq> ''by'' \<and> low \<noteq> ''without'' then False
           else (let k = skipSpace next in k \<noteq> [] \<and> hd k = CHR ''(''))"

text \<open>\<open>copyGroupingList\<close>: the text it writes and the new suffix.\<close>

definition copyGroupingList :: "string \<Rightarrow> string \<times> string" where
  "copyGroupingList s =
     (let j = skipSpace s in
      if j = [] \<or> hd j \<noteq> CHR ''('' then ([], s)
      else case skipParen j of Ok (_, r) \<Rightarrow> (between s r, r) | _ \<Rightarrow> ([], s))"

text \<open>The branch of the loop for an identifier, split the way the source nests its conditions.\<close>

definition rewrite_ident ::
  "WAFIdentity list \<Rightarrow> string \<Rightarrow> (promql_error, string \<times> string) result" where
  "rewrite_ident ids s =
     (let (ident, next) = readIdent s; low = to_lower ident in
      if low \<in> set promqlKeywords then
        (if isGroupingKeyword low
         then (let (w, r) = copyGroupingList next in Ok (ident @ w, r))
         else Ok (ident, next))
      else let j = skipSpace next in
        if j \<noteq> [] \<and> hd j = CHR ''('' then
          (if low \<in> set rangeVectorFuncs then
             (case rewriteRangeFuncCall ident j ids of
                Err e \<Rightarrow> Err e | Panic \<Rightarrow> Panic
              | Ok (Some p) \<Rightarrow> Ok p
              | Ok None \<Rightarrow> Ok (ident, next))
           else Ok (ident, next))
        else if low \<in> set promqlAggregators \<and> isAggModifier j then Ok (ident, next)
        else if j \<noteq> [] \<and> hd j = CHR ''{'' then rewriteSelectorAt ident j ids
        else rewriteNamedMetric ident next ids)"

text \<open>One iteration: the text written and the suffix the next iteration starts at.\<close>

definition rewrite_step ::
  "WAFIdentity list \<Rightarrow> string \<Rightarrow> (promql_error, string \<times> string) result" where
  "rewrite_step ids s =
     (if hd s = dquote \<or> hd s = squote then skipQuoted s
      else if isNumberStart s then Ok (between s (skipNumber s), skipNumber s)
      else if hd s = CHR ''['' then skipBracket s
      else if hd s = CHR ''{'' then rewriteSelectorAt [] s ids
      else if isIdentStart (hd s) then rewrite_ident ids s
      else Ok ([hd s], tl s))"

subsection \<open>Every scanner returns a suffix of its input\<close>

named_theorems scan_simps \<open>the consumed text and the remaining suffix make up the input\<close>

lemma map_prod_Some_iff [simp]:
  "map_option (map_prod f id) x = Some (a, r) \<longleftrightarrow> (\<exists>b. x = Some (b, r) \<and> a = f b)"
  by (cases x) auto

lemma skip_quoted_body_split: "skip_quoted_body k s = Some (a, r) \<Longrightarrow> s = a @ r \<and> a \<noteq> []"
  by (induction k s arbitrary: a rule: skip_quoted_body.induct) (auto split: if_splits)

lemma skipQuoted_split [scan_simps]: "skipQuoted s = Ok (a, r) \<Longrightarrow> s = a @ r \<and> a \<noteq> []"
  by (auto simp: skipQuoted_def split: list.splits option.splits dest: skip_quoted_body_split)

lemma scan_nested_split: "scan_nested opn cls qt d s = Some (a, r) \<Longrightarrow> s = a @ r \<and> a \<noteq> []"
proof (induction opn cls qt d s arbitrary: a rule: scan_nested.induct)
  case (4 opn cls d c s)
  consider "c = dquote \<or> c = squote" | "\<not> (c = dquote \<or> c = squote)" "c = opn"
    | "\<not> (c = dquote \<or> c = squote)" "c \<noteq> opn" "c = cls" "d - 1 = 0"
    | "\<not> (c = dquote \<or> c = squote)" "c \<noteq> opn" "c = cls" "d - 1 \<noteq> 0"
    | "\<not> (c = dquote \<or> c = squote)" "c \<noteq> opn" "c \<noteq> cls"
    by argo
  then show ?case
    using "4.prems" "4.IH" by cases (simp only: scan_nested.simps simp_thms if_True if_False, fastforce)+
qed (auto split: if_splits)

lemma skipBracket_split [scan_simps]: "skipBracket s = Ok (a, r) \<Longrightarrow> s = a @ r \<and> a \<noteq> []"
  by (auto simp: skipBracket_def split: if_splits option.splits dest: scan_nested_split)

lemma skipParen_split [scan_simps]: "skipParen s = Ok (a, r) \<Longrightarrow> s = a @ r \<and> a \<noteq> []"
  by (auto simp: skipParen_def split: if_splits option.splits dest: scan_nested_split)

lemma skipBracket_suffix: "skipBracket s = Ok (a, r) \<Longrightarrow> suffix r s"
  using skipBracket_split by (auto simp: suffix_def)

lemma read_selector_body_split: "read_selector_body qt s = Some (a, r) \<Longrightarrow> s = a @ r \<and> a \<noteq> []"
  by (induction qt s arbitrary: a rule: read_selector_body.induct) (auto split: if_splits)

lemma readSelector_split [scan_simps]: "readSelector s = Ok (a, r) \<Longrightarrow> s = a @ r \<and> a \<noteq> []"
  by (auto simp: readSelector_def split: list.splits if_splits option.splits
      dest: read_selector_body_split)

lemma readIdent_split: "readIdent s = (a, r) \<Longrightarrow> s = a @ r"
  by (auto simp: readIdent_def split: list.splits if_splits)

lemma readIdent_nonempty: "readIdent s = (a, r) \<Longrightarrow> s \<noteq> [] \<Longrightarrow> isIdentStart (hd s) \<Longrightarrow> a \<noteq> []"
  by (auto simp: readIdent_def split: list.splits if_splits)

lemma suffix_skipSpace: "suffix (skipSpace s) s"
  by (simp add: skipSpace_def suffix_dropWhile)

lemma suffix_dropWhile_Cons: "suffix (dropWhile P t) (c # t)" "suffix (dropWhile P (tl t)) (c # t)"
  by (meson suffix_ConsI suffix_dropWhile suffix_order.trans suffix_tl)+

lemma suffix_skip_exponent: "suffix (skip_exponent s) s"
  by (cases s) (simp_all add: skip_exponent_def Let_def suffix_dropWhile_Cons)

lemma suffix_skipNumber: "suffix (skipNumber s) s"
proof -
  let ?s1 = "dropWhile is_digit s"
  let ?s2 = "if ?s1 \<noteq> [] \<and> hd ?s1 = CHR ''.'' then dropWhile is_digit (tl ?s1) else ?s1"
  have "suffix ?s2 ?s1"
    by (auto intro: suffix_order.trans [OF suffix_dropWhile suffix_tl])
  then have "suffix ?s2 s" using suffix_dropWhile suffix_order.trans by blast
  then show ?thesis
    unfolding skipNumber_def Let_def using suffix_skip_exponent suffix_order.trans by blast
qed

lemma skipNumber_shorter:
  assumes "isNumberStart s"
  shows "length (skipNumber s) < length s"
proof -
  obtain c t where s: "s = c # t" using assms by (cases s) (auto simp: isNumberStart_def)
  let ?s1 = "dropWhile is_digit s"
  let ?s2 = "if ?s1 \<noteq> [] \<and> hd ?s1 = CHR ''.'' then dropWhile is_digit (tl ?s1) else ?s1"
  have "length ?s2 < length s"
  proof (cases "is_digit c")
    case True
    then have "length ?s1 < length s" using s by (simp add: le_imp_less_Suc length_dropWhile_le)
    moreover have "length ?s2 \<le> length ?s1"
      by (auto intro: order.trans [OF length_dropWhile_le])
    ultimately show ?thesis by linarith
  next
    case False
    with assms s have "c = CHR ''.''" by (simp add: isNumberStart_def)
    with False s show ?thesis by (simp add: le_imp_less_Suc length_dropWhile_le)
  qed
  moreover have "length (skip_exponent ?s2) \<le> length ?s2"
    using suffix_length_le suffix_skip_exponent by blast
  ultimately show ?thesis unfolding skipNumber_def Let_def by linarith
qed

lemma between_suffix: "suffix r s \<Longrightarrow> between s r @ r = s"
  by (auto simp: suffix_def between_def)

subsection \<open>Progress of one iteration\<close>

lemma scopedSelectorParts_suffix:
  "scopedSelectorParts metric inner s ids = Ok (parts, r) \<Longrightarrow> suffix r s"
  unfolding scopedSelectorParts_def Let_def
  by (auto split: result.splits if_splits dest!: skipBracket_suffix
      intro: suffix_order.trans [OF _ suffix_skipSpace])

lemma emitScopedSelectors_suffix:
  "emitScopedSelectors metric inner s ids = Ok (out, r) \<Longrightarrow> suffix r s"
  by (auto simp: emitScopedSelectors_def dest: scopedSelectorParts_suffix)

lemma rewriteSelectorAt_shorter:
  assumes "rewriteSelectorAt metric s ids = Ok (out, r)"
  shows "suffix r s \<and> length r < length s"
proof -
  obtain sel after where "readSelector s = Ok (sel, after)"
    and "emitScopedSelectors metric (selector_inner sel) after ids = Ok (out, r)"
    using assms by (auto simp: rewriteSelectorAt_def split: result.splits)
  then have "s = sel @ after \<and> sel \<noteq> []" and "suffix r after"
    using readSelector_split emitScopedSelectors_suffix by blast+
  then show ?thesis by (auto simp: suffix_def)
qed

lemma rewriteRangeFuncCall_suffix:
  assumes "rewriteRangeFuncCall ident p ids = Ok (Some (out, r))"
  shows "suffix r p"
proof -
  obtain a where "skipParen p = Ok (a, r)"
    using assms by (auto simp: rewriteRangeFuncCall_def Let_def split: result.splits option.splits if_splits)
  then show ?thesis using skipParen_split by (auto simp: suffix_def)
qed

lemma copyGroupingList_split:
  assumes "copyGroupingList s = (w, r)"
  shows "s = w @ r"
proof (cases "w = [] \<and> r = s")
  case True
  then show ?thesis by simp
next
  case False
  then obtain x where x: "skipParen (skipSpace s) = Ok (x, r)" and w: "w = between s r"
    using assms by (auto simp: copyGroupingList_def Let_def split: if_splits result.splits)
  have "suffix r (skipSpace s)" using skipParen_split [OF x] by (auto simp: suffix_def)
  then have "suffix r s" using suffix_skipSpace suffix_order.trans by blast
  then show ?thesis using between_suffix w by metis
qed

lemma rewrite_ident_cases [consumes 2, case_names grouping keyword range_call call agg selector metric]:
  assumes ok: "rewrite_ident ids s = Ok (out, r)" and id: "readIdent s = (ident, next)"
  obtains w where "to_lower ident \<in> set promqlKeywords" "isGroupingKeyword (to_lower ident)"
      "copyGroupingList next = (w, r)" "out = ident @ w"
  | "to_lower ident \<in> set promqlKeywords" "out = ident" "r = next"
  | "skipSpace next \<noteq> []" "hd (skipSpace next) = CHR ''(''"
      "rewriteRangeFuncCall ident (skipSpace next) ids = Ok (Some (out, r))"
      "to_lower ident \<in> set rangeVectorFuncs"
  | "skipSpace next \<noteq> []" "hd (skipSpace next) = CHR ''(''" "out = ident" "r = next"
  | "to_lower ident \<in> set promqlAggregators" "isAggModifier (skipSpace next)" "out = ident" "r = next"
  | "skipSpace next \<noteq> []" "hd (skipSpace next) = CHR ''{''"
      "rewriteSelectorAt ident (skipSpace next) ids = Ok (out, r)"
  | "rewriteNamedMetric ident next ids = Ok (out, r)"
proof -
  let ?j = "skipSpace next" and ?low = "to_lower ident"
  consider "?low \<in> set promqlKeywords"
    | "?low \<notin> set promqlKeywords" "?j \<noteq> [] \<and> hd ?j = CHR ''(''"
    | "?low \<notin> set promqlKeywords" "\<not> (?j \<noteq> [] \<and> hd ?j = CHR ''('')"
    by blast
  then show thesis
  proof cases
    case 1
    obtain w r' where c: "copyGroupingList next = (w, r')" by fastforce
    note eq = ok [unfolded rewrite_ident_def Let_def id prod.case if_P [OF 1] c]
    show ?thesis
    proof (cases "isGroupingKeyword ?low")
      case True
      with eq have "out = ident @ w" "r = r'" by simp_all
      with 1 True c show ?thesis using that(1) by blast
    next
      case False
      with eq have "out = ident" "r = next" by simp_all
      with 1 show ?thesis by (rule that(2))
    qed
  next
    case 2
    note eq = ok [unfolded rewrite_ident_def Let_def id prod.case if_not_P [OF 2(1)] if_P [OF 2(2)]]
    have "rewriteRangeFuncCall ident ?j ids = Ok (Some (out, r)) \<and> ?low \<in> set rangeVectorFuncs \<or>
        (out = ident \<and> r = next)"
      using eq by (auto split: if_splits result.splits option.splits)
    with 2(2) show ?thesis using that(3) that(4) by blast
  next
    case 3
    note eq = ok [unfolded rewrite_ident_def Let_def id prod.case if_not_P [OF 3(1)] if_not_P [OF 3(2)]]
    show ?thesis
    proof (cases "?low \<in> set promqlAggregators \<and> isAggModifier ?j")
      case True
      with eq have "out = ident" "r = next" by simp_all
      with True show ?thesis using that(5) by blast
    next
      case nagg: False
      note eq' = eq [unfolded if_not_P [OF nagg]]
      show ?thesis
      proof (cases "?j \<noteq> [] \<and> hd ?j = CHR ''{''")
        case True
        show ?thesis
          by (rule that(6) [OF True [THEN conjunct1] True [THEN conjunct2] eq' [unfolded if_P [OF True]]])
      next
        case False
        show ?thesis by (rule that(7) [OF eq' [unfolded if_not_P [OF False]]])
      qed
    qed
  qed
qed

lemma rewrite_ident_shorter:
  assumes ok: "rewrite_ident ids s = Ok (out, r)" and ne: "s \<noteq> []" and st: "isIdentStart (hd s)"
  shows "suffix r s \<and> length r < length s"
proof -
  obtain ident nxt where id: "readIdent s = (ident, nxt)" by fastforce
  then have s: "s = ident @ nxt" and ine: "ident \<noteq> []"
    using readIdent_split readIdent_nonempty ne st by blast+
  have sp: "suffix t (skipSpace nxt) \<Longrightarrow> suffix t nxt" for t
    using suffix_skipSpace suffix_order.trans by blast
  from ok id have "suffix r nxt"
  proof (cases rule: rewrite_ident_cases)
    case (grouping w)
    then show ?thesis using copyGroupingList_split by (metis suffixI)
  next
    case range_call
    then show ?thesis using rewriteRangeFuncCall_suffix sp by blast
  next
    case selector
    then show ?thesis using rewriteSelectorAt_shorter sp by blast
  next
    case metric
    then show ?thesis using emitScopedSelectors_suffix by (auto simp: rewriteNamedMetric_def)
  qed auto
  with s ine show ?thesis by (auto simp: suffix_def)
qed

lemma rewrite_step_shorter:
  assumes ok: "rewrite_step ids s = Ok (out, r)" and ne: "s \<noteq> []"
  shows "suffix r s \<and> length r < length s"
proof -
  have split: "s = a @ r \<and> a \<noteq> [] \<Longrightarrow> suffix r s \<and> length r < length s" for a
    by (auto simp: suffix_def)
  show ?thesis
    using ok ne skipQuoted_split [of s out r] skipBracket_split [of s out r] split
      rewriteSelectorAt_shorter [of "[]" s ids out r] rewrite_ident_shorter [of ids s out r]
      skipNumber_shorter [of s] suffix_skipNumber [of s]
    by (auto simp: rewrite_step_def suffix_tl split: if_splits)
qed

function rewritePromQL :: "WAFIdentity list \<Rightarrow> string \<Rightarrow> (promql_error, string) result" where
  "rewritePromQL ids s =
     (if s = [] then Ok []
      else case rewrite_step ids s of
             Err e \<Rightarrow> Err e | Panic \<Rightarrow> Panic
           | Ok (out, r) \<Rightarrow> res_map (append out) (rewritePromQL ids r))"
  by pat_completeness auto
termination
  by (relation "measure (\<lambda>(ids, s). length s)") (auto dest: rewrite_step_shorter)

declare rewritePromQL.simps [simp del]

section \<open>Entry points\<close>

definition ScopePromQL :: "string \<Rightarrow> string \<Rightarrow> string \<Rightarrow> (promql_error, string) result" where
  "ScopePromQL query ns name =
     (if trim_space query = [] then Err EmptyQuery
      else if ns = [] \<or> name = [] then Err MissingWAFIdentity
      else rewritePromQL [\<lparr> id_Namespace = ns, id_Name = name \<rparr>] query)"

definition ScopePromQLToWAFs :: "string \<Rightarrow> WAFIdentity list \<Rightarrow> (promql_error, string) result" where
  "ScopePromQLToWAFs query ids =
     (if trim_space query = [] then Err EmptyQuery
      else if ids = [] then Ok ''vector(0)''
      else rewritePromQL (if length ids > maxPromQLUnionWAFs then take maxPromQLUnionWAFs ids else ids) query)"

end
