(* ===== verification/PromQLScope.thy ===== *)
theory PromQLScope
  imports PromQL
begin

text \<open>
  Correctness of the PromQL rewriter: what an injected selector body means when it is read back,
  which text of a query is copied without a scope, and the inputs on which the rewriter departs
  from its contract.
\<close>

section \<open>Trimming is idempotent and does not look across a comma\<close>

lemma lead_space_None_iff: "lead_space s = None \<longleftrightarrow> (\<forall>w \<in> set space_seqs. \<not> has_prefix s w)"
  by (auto simp: lead_space_def find_None_iff)

lemma trail_space_None_iff: "trail_space s = None \<longleftrightarrow> (\<forall>w \<in> set space_seqs. \<not> has_suffix s w)"
  by (auto simp: trail_space_def find_None_iff)

lemma lead_space_trim_left: "lead_space (trim_left_space s) = None"
proof (induction s rule: trim_left_space.induct)
  case (1 s)
  then show ?case by (cases "lead_space s") (simp_all add: trim_left_space.simps [of s])
qed

lemma trail_space_trim_right: "trail_space (trim_right_space s) = None"
proof (induction s rule: trim_right_space.induct)
  case (1 s)
  then show ?case by (cases "trail_space s") (simp_all add: trim_right_space.simps [of s])
qed

lemma lead_space_prefix: "lead_space s = None \<Longrightarrow> prefix p s \<Longrightarrow> lead_space p = None"
  by (auto simp: lead_space_None_iff has_prefix_iff prefix_def)

lemma lead_space_trim [simp]: "lead_space (trim_space s) = None"
  unfolding trim_space_def using lead_space_trim_left lead_space_prefix prefix_trim_right by blast

lemma trail_space_trim [simp]: "trail_space (trim_space s) = None"
  unfolding trim_space_def by (rule trail_space_trim_right)

lemma trim_space_idem [simp]: "trim_space (trim_space s) = trim_space s"
  by (rule trim_space_id) simp_all

definition space_byte :: "char \<Rightarrow> bool" where
  "space_byte c \<longleftrightarrow> (\<exists>w \<in> set space_seqs. c \<in> set w)"

lemma space_byte_ascii: "33 \<le> byte c \<Longrightarrow> byte c < 127 \<Longrightarrow> \<not> space_byte c"
  by (auto simp: space_byte_def space_seqs_def byte_def)

lemma lead_space_Cons: "\<not> space_byte c \<Longrightarrow> lead_space (c # s) = None"
  by (auto simp: lead_space_None_iff has_prefix_iff space_byte_def Cons_eq_append_conv
      dest: space_seqs_nonempty)

lemma trail_space_snoc: "\<not> space_byte c \<Longrightarrow> trail_space (s @ [c]) = None"
proof -
  assume c: "\<not> space_byte c"
  have "\<not> has_suffix (s @ [c]) w" if w: "w \<in> set space_seqs" for w
  proof
    assume "has_suffix (s @ [c]) w"
    then obtain t where "s @ [c] = t @ w" by (auto simp: has_suffix_iff)
    moreover have "w \<noteq> []" using w by (rule space_seqs_nonempty)
    ultimately have "last w = c" by (metis last_append last_snoc)
    with \<open>w \<noteq> []\<close> have "c \<in> set w" by (metis last_in_set)
    with c w show False by (auto simp: space_byte_def)
  qed
  then show ?thesis by (simp add: trail_space_None_iff)
qed

lemma lead_space_append:
  assumes "lead_space a = None" and c: "\<not> space_byte c"
  shows "lead_space (a @ c # b) = None"
  unfolding lead_space_None_iff
proof (intro ballI notI)
  fix w
  assume w: "w \<in> set space_seqs" and "has_prefix (a @ c # b) w"
  then obtain t where t: "a @ c # b = w @ t" by (auto simp: has_prefix_iff)
  then have "has_prefix a w \<or> c \<in> set w"
    by (auto simp: append_eq_append_conv2 has_prefix_iff Cons_eq_append_conv)
  with assms w show False by (auto simp: lead_space_None_iff space_byte_def)
qed

lemma trail_space_append:
  assumes "trail_space b = None" and c: "\<not> space_byte c"
  shows "trail_space (a @ c # b) = None"
  unfolding trail_space_None_iff
proof (intro ballI notI)
  fix w
  assume w: "w \<in> set space_seqs" and "has_suffix (a @ c # b) w"
  then obtain t where t: "a @ c # b = t @ w" by (auto simp: has_suffix_iff)
  then have "has_suffix b w \<or> c \<in> set w"
    by (auto simp: append_eq_append_conv2 has_suffix_iff Cons_eq_append_conv)
  with assms w show False by (auto simp: trail_space_None_iff space_byte_def)
qed

section \<open>The quote automaton of a matcher list\<close>

datatype qstate = Out | In char | Esc char

fun qstep :: "qstate \<Rightarrow> char \<Rightarrow> qstate" where
  "qstep Out c = (if c = dquote \<or> c = squote then In c else Out)"
| "qstep (In k) c = (if c = backslash then Esc k else if c = k then Out else In k)"
| "qstep (Esc k) c = In k"

abbreviation qrun :: "qstate \<Rightarrow> string \<Rightarrow> qstate" where
  "qrun \<equiv> foldl qstep"

fun comma_free :: "qstate \<Rightarrow> string \<Rightarrow> bool" where
  "comma_free q [] = True"
| "comma_free q (c # s) \<longleftrightarrow> \<not> (q = Out \<and> c = CHR '','') \<and> comma_free (qstep q c) s"

definition closed_part :: "string \<Rightarrow> bool" where
  "closed_part s \<longleftrightarrow> comma_free Out s \<and> qrun Out s = Out"

fun qstate_of :: "char option \<Rightarrow> qstate" where
  "qstate_of None = Out"
| "qstate_of (Some k) = In k"

lemma comma_free_append: "comma_free q (s @ t) \<longleftrightarrow> comma_free q s \<and> comma_free (qrun q s) t"
  by (induction s arbitrary: q) auto

definition quote_free :: "string \<Rightarrow> bool" where
  "quote_free s \<longleftrightarrow> dquote \<notin> set s \<and> squote \<notin> set s"

lemma qrun_quote_free: "quote_free s \<Longrightarrow> qrun Out s = Out"
  by (induction s) (auto simp: quote_free_def)

fun in_quotes :: "qstate \<Rightarrow> bool" where
  "in_quotes Out = False"
| "in_quotes (In k) = (k = dquote \<or> k = squote)"
| "in_quotes (Esc k) = (k = dquote \<or> k = squote)"

lemma qstep_in_quotes: "in_quotes q \<Longrightarrow> c \<noteq> dquote \<Longrightarrow> c \<noteq> squote \<Longrightarrow> in_quotes (qstep q c)"
  by (cases q) auto

lemma qrun_in_quotes: "quote_free s \<Longrightarrow> in_quotes q \<Longrightarrow> in_quotes (qrun q s)"
proof (induction s arbitrary: q)
  case (Cons c s)
  then have "in_quotes (qstep q c)" by (intro qstep_in_quotes) (auto simp: quote_free_def)
  with Cons show ?case by (simp add: quote_free_def)
qed simp

lemma qrun_states: "qrun Out s = Out \<or> in_quotes (qrun Out s)"
proof (induction s rule: rev_induct)
  case (snoc c s)
  then show ?case by (cases "qrun Out s") simp_all
qed simp

lemma quote_free_space: "w \<in> set space_seqs \<Longrightarrow> quote_free w"
  by (auto simp: space_seqs_def quote_free_def)

lemma closed_part_drop_lead:
  assumes "closed_part (w @ s)" "quote_free w"
  shows "closed_part s"
  using assms by (auto simp: closed_part_def comma_free_append qrun_quote_free)

lemma closed_part_drop_trail:
  assumes "closed_part (s @ w)" "quote_free w"
  shows "closed_part s"
proof -
  have "qrun Out s = Out"
  proof (rule ccontr)
    assume "qrun Out s \<noteq> Out"
    then have "in_quotes (qrun (qrun Out s) w)"
      using qrun_in_quotes [OF assms(2)] qrun_states [of s] by blast
    with assms(1) show False by (simp add: closed_part_def)
  qed
  with assms(1) show ?thesis by (simp add: closed_part_def comma_free_append)
qed

lemma closed_part_trim_left: "closed_part s \<Longrightarrow> closed_part (trim_left_space s)"
proof (induction s rule: trim_left_space.induct)
  case (1 s)
  show ?case
  proof (cases "lead_space s")
    case None
    with 1 show ?thesis by (simp add: trim_left_space_id)
  next
    case (Some w)
    then obtain t where t: "s = w @ t" and w: "w \<in> set space_seqs"
      using lead_space_Some by (auto simp: has_prefix_iff lead_space_def find_Some_iff)
    with 1(2) have "closed_part t" using closed_part_drop_lead quote_free_space by blast
    with 1(1) [OF Some] Some t show ?thesis by (subst trim_left_space.simps) simp
  qed
qed

lemma closed_part_trim_right: "closed_part s \<Longrightarrow> closed_part (trim_right_space s)"
proof (induction s rule: trim_right_space.induct)
  case (1 s)
  show ?case
  proof (cases "trail_space s")
    case None
    with 1 show ?thesis by (simp add: trim_right_space_id)
  next
    case (Some w)
    then obtain t where t: "s = t @ w" and w: "w \<in> set space_seqs"
      using trail_space_Some by (auto simp: has_suffix_iff trail_space_def find_Some_iff)
    with 1(2) have "closed_part t" using closed_part_drop_trail quote_free_space by blast
    with 1(1) [OF Some] Some t show ?thesis by (subst trim_right_space.simps) simp
  qed
qed

lemma closed_part_trim: "closed_part s \<Longrightarrow> closed_part (trim_space s)"
  by (simp add: trim_space_def closed_part_trim_left closed_part_trim_right)

lemma split_matchers_parts:
  "split_matchers_loop qt cur s = Some ms \<Longrightarrow> comma_free Out cur \<Longrightarrow> qrun Out cur = qstate_of qt
   \<Longrightarrow> m \<in> set ms \<Longrightarrow> closed_part m \<and> trim_space m = m"
proof (induction qt cur s arbitrary: ms m rule: split_matchers_loop.induct)
  case (2 cur)
  then show ?case by (auto simp: closed_part_def [of cur] intro!: closed_part_trim split: if_splits)
next
  case (3 k cur c)
  show ?case
    by (rule "3.IH")
      (use "3.prems" qrun_states [of cur] in \<open>auto simp: comma_free_append split: if_splits\<close>)
next
  case (4 k cur c d s)
  show ?case
  proof (cases "c = backslash")
    case True
    show ?thesis
      by (rule "4.IH"(1) [OF True]) (use "4.prems" True in \<open>auto simp: comma_free_append\<close>)
  next
    case False
    show ?thesis
      by (rule "4.IH"(2) [OF False])
        (use "4.prems" False in \<open>simp_all add: comma_free_append split: if_splits\<close>)
  qed
next
  case (5 cur c s)
  consider (q) "c = dquote \<or> c = squote" | (comma) "\<not> (c = dquote \<or> c = squote)" "c = CHR '',''"
    | (other) "\<not> (c = dquote \<or> c = squote)" "c \<noteq> CHR '',''"
    by blast
  then show ?case
  proof cases
    case q
    show ?thesis
      by (rule "5.IH"(1) [OF q]) (use "5.prems" q in \<open>auto simp: comma_free_append\<close>)
  next
    case comma
    then obtain ms' where ms': "split_matchers_loop None [] s = Some ms'" "ms = trim_space cur # ms'"
      using "5.prems"(1) by auto
    have "closed_part cur" using "5.prems" by (simp add: closed_part_def)
    then show ?thesis
      using ms' "5.prems"(4) "5.IH"(2) [OF comma ms'(1)] closed_part_trim by auto
  next
    case other
    show ?thesis
      by (rule "5.IH"(3) [OF other]) (use "5.prems" other in \<open>auto simp: comma_free_append\<close>)
  qed
qed auto

lemma split_matchers_skip:
  assumes "comma_free (qstate_of qt) x" and "qrun (qstate_of qt) x = Out"
  shows "split_matchers_loop qt cur (x @ s) = split_matchers_loop None (cur @ x) s"
  using assms
proof (induction "length x" arbitrary: x qt cur rule: less_induct)
  case less
  show ?case
  proof (cases x)
    case Nil
    with less.prems show ?thesis by (cases qt) auto
  next
    case (Cons c y)
    show ?thesis
    proof (cases qt)
      case None
      let ?qt = "if c = dquote \<or> c = squote then Some c else None"
      have "split_matchers_loop ?qt (cur @ [c]) (y @ s) = split_matchers_loop None ((cur @ [c]) @ y) s"
        using less.prems None Cons by (intro less.hyps) (auto split: if_splits)
      moreover have "c \<noteq> CHR '',''" using less.prems None Cons by auto
      ultimately show ?thesis using None Cons by (cases "c = dquote \<or> c = squote") simp_all
    next
      case (Some k)
      show ?thesis
      proof (cases "c = backslash")
        case True
        with less.prems Some Cons obtain d z where y: "y = d # z" by (cases y) auto
        have "split_matchers_loop (Some k) (cur @ [c, d]) (z @ s) =
            split_matchers_loop None ((cur @ [c, d]) @ z) s"
          using less.prems Some Cons y True by (intro less.hyps) auto
        with Some Cons y True show ?thesis by simp
      next
        case False
        let ?qt = "if c = k then None else Some k"
        have IH: "split_matchers_loop ?qt (cur @ [c]) (y @ s) =
            split_matchers_loop None ((cur @ [c]) @ y) s"
          using less.prems Some Cons False by (intro less.hyps) (auto split: if_splits)
        have "split_matchers_loop (Some k) cur (c # y @ s) = split_matchers_loop ?qt (cur @ [c]) (y @ s)"
          using False by (cases "y @ s") auto
        with IH Some Cons show ?thesis by simp
      qed
    qed
  qed
qed

lemmas split_matchers_part = split_matchers_skip [where qt = None and cur = "[]", simplified]

lemma split_matchers_cons:
  assumes "closed_part p"
  shows "split_matchers_loop None [] (p @ CHR '','' # s) =
    map_option (Cons (trim_space p)) (split_matchers_loop None [] s)"
  using split_matchers_part [of p "CHR '','' # s"] assms by (simp add: closed_part_def)

lemma split_matchers_last:
  assumes "closed_part p"
  shows "split_matchers_loop None [] p = Some (if trim_space p \<noteq> [] then [trim_space p] else [])"
  using split_matchers_part [of p "[]"] assms by (simp add: closed_part_def)

lemma split_matchers_join:
  assumes "ps \<noteq> []" and "\<And>p. p \<in> set ps \<Longrightarrow> closed_part p \<and> trim_space p = p"
  shows "\<exists>ms. split_matchers_loop None [] (join '','' ps) = Some ms \<and>
    filter (\<lambda>m. m \<noteq> []) ms = filter (\<lambda>m. m \<noteq> []) ps"
  using assms
proof (induction ps)
  case (Cons p ps)
  show ?case
  proof (cases "ps = []")
    case True
    with Cons.prems show ?thesis by (auto simp: split_matchers_last)
  next
    case False
    then obtain ms where "split_matchers_loop None [] (join '','' ps) = Some ms"
      and "filter (\<lambda>m. m \<noteq> []) ms = filter (\<lambda>m. m \<noteq> []) ps"
      using Cons.IH Cons.prems by auto
    with False Cons.prems show ?thesis
      by (auto simp: join_Cons split_matchers_cons)
  qed
qed simp

lemma comma_not_space [simp]: "\<not> space_byte (CHR '','')"
  by (rule space_byte_ascii) (simp_all add: byte_def)

lemma lead_space_join: "(\<And>p. p \<in> set ps \<Longrightarrow> lead_space p = None) \<Longrightarrow> lead_space (join '','' ps) = None"
  by (induction ps rule: induct_list012) (auto simp: lead_space_append)

lemma trail_space_join: "(\<And>p. p \<in> set ps \<Longrightarrow> trail_space p = None) \<Longrightarrow> trail_space (join '','' ps) = None"
  by (induction ps rule: induct_list012) (auto simp: trail_space_append)

lemma trimmed_lead: "trim_space p = p \<Longrightarrow> lead_space p = None"
  using lead_space_trim [of p] by simp

lemma trimmed_trail: "trim_space p = p \<Longrightarrow> trail_space p = None"
  using trail_space_trim [of p] by simp

lemma trim_join: "(\<And>p. p \<in> set ps \<Longrightarrow> trim_space p = p) \<Longrightarrow> trim_space (join '','' ps) = join '','' ps"
  by (rule trim_space_id [OF lead_space_join trail_space_join]) (simp_all add: trimmed_lead trimmed_trail)

lemma join_Nil_parts: "join '','' ps = [] \<Longrightarrow> filter (\<lambda>m. m \<noteq> []) ps = []"
  by (cases ps; cases "tl ps") auto

section \<open>Stripping the identity matchers\<close>

lemma splitMatchers_parts:
  assumes "splitMatchers inner = Ok ms" and "m \<in> set ms"
  shows "closed_part m \<and> trim_space m = m"
  using assms split_matchers_parts [of None "[]" "trim_space inner" ms m]
  by (auto simp: splitMatchers_def Let_def split: if_splits option.splits)

definition user_matchers :: "string list \<Rightarrow> string list" where
  "user_matchers ms = filter (\<lambda>m. m \<noteq> [] \<and> \<not> is_identity_matcher m) ms"

lemma is_identity_matcher_Nil [simp]: "\<not> is_identity_matcher []"
  by (simp add: is_identity_matcher_def parseMatcher_def)

lemma user_matchers_nonempty: "user_matchers (filter (\<lambda>m. m \<noteq> []) ms) = user_matchers ms"
  unfolding user_matchers_def filter_filter by (rule filter_cong) auto

lemma stripped_matchers:
  assumes "splitMatchers inner = Ok ms"
  shows "\<exists>ms'. splitMatchers (stripIdentityMatchers inner) = Ok ms' \<and>
    user_matchers ms' = user_matchers ms \<and> (\<forall>m \<in> set ms'. \<not> is_identity_matcher m) \<and>
    trim_space (stripIdentityMatchers inner) = stripIdentityMatchers inner"
proof -
  let ?keep = "filter (\<lambda>m. \<not> is_identity_matcher m) ms"
  have strip: "stripIdentityMatchers inner = join '','' ?keep"
    using assms by (simp add: stripIdentityMatchers_def)
  have parts: "closed_part p \<and> trim_space p = p" if "p \<in> set ?keep" for p
    using that splitMatchers_parts [OF assms] by auto
  have trim: "trim_space (join '','' ?keep) = join '','' ?keep"
    by (rule trim_join) (simp add: parts)
  have keep: "user_matchers ?keep = user_matchers ms"
    unfolding user_matchers_def filter_filter by (rule filter_cong) auto
  obtain ms' where ms': "splitMatchers (join '','' ?keep) = Ok ms'"
    and ne: "filter (\<lambda>m. m \<noteq> []) ms' = filter (\<lambda>m. m \<noteq> []) ?keep"
  proof (cases "join '','' ?keep = []")
    case True
    then have "filter (\<lambda>m. m \<noteq> []) ?keep = []"
      by (rule join_Nil_parts)
    with True show thesis using that [of "[]"] by (simp add: splitMatchers_def)
  next
    case False
    then have "?keep \<noteq> []" by auto
    from split_matchers_join [OF this parts] False trim show thesis
      using that by (auto simp: splitMatchers_def)
  qed
  have "user_matchers ms' = user_matchers ms"
    using ne keep user_matchers_nonempty by metis
  moreover have "\<not> is_identity_matcher m" if "m \<in> set ms'" for m
  proof (cases "m = []")
    case False
    with that have "m \<in> set (filter (\<lambda>m. m \<noteq> []) ms')" by simp
    then show ?thesis unfolding ne by simp
  qed simp
  ultimately show ?thesis using ms' trim strip by auto
qed

section \<open>Reading an injected identity back\<close>

text \<open>The names Kubernetes admits for namespaces and objects: lower-case DNS names.\<close>

definition dns_char :: "char \<Rightarrow> bool" where
  "dns_char c \<longleftrightarrow> is_lower c \<or> is_digit c \<or> c = CHR ''-'' \<or> c = CHR ''.''"

definition dns_name :: "string \<Rightarrow> bool" where
  "dns_name s \<longleftrightarrow> s \<noteq> [] \<and> list_all dns_char s"

lemma dns_char_neq:
  "dns_char c \<Longrightarrow> c \<noteq> dquote \<and> c \<noteq> squote \<and> c \<noteq> backslash \<and> c \<noteq> CHR ''='' \<and> c \<noteq> CHR ''~'' \<and> c \<noteq> CHR ''!''
    \<and> c \<noteq> CHR ''/'' \<and> c \<noteq> CHR ''_''"
  by (auto simp: dns_char_def is_lower_def is_digit_def byte_def)

lemma dns_char_byte: "dns_char c \<Longrightarrow> 33 \<le> byte c \<and> byte c < 127"
  by (auto simp: dns_char_def is_lower_def is_digit_def byte_def)

lemma quote_char_dns: "dns_char c \<Longrightarrow> quote_char c = [c]"
  using dns_char_neq [of c] dns_char_byte [of c] unfolding quote_char_def by simp

lemma go_quote_dns: "list_all dns_char n \<Longrightarrow> go_quote n = dquote # n @ [dquote]"
  unfolding go_quote_def by (induction n) (auto simp: quote_char_dns)

lemma qrun_dns:
  "list_all dns_char n \<Longrightarrow> comma_free (In dquote) n \<and> qrun (In dquote) n = In dquote"
  by (induction n) (auto dest: dns_char_neq)

lemma str_index_char: "c \<notin> set a \<Longrightarrow> str_index (a @ c # b) [c] = Some (length a)"
  by (induction a) (auto simp: has_prefix_def)

lemma str_index_absent: "c \<in> set p \<Longrightarrow> c \<notin> set s \<Longrightarrow> str_index s p = None"
  by (auto simp: str_index_None)

lemma parse_identity_matcher:
  assumes key: "key = c # k" "\<forall>x \<in> set key. dns_char x \<or> x = CHR ''_''" and n: "list_all dns_char n"
  shows "parseMatcher (key @ ''='' @ go_quote n) = Some (key, ''='', n)"
proof -
  let ?v = "dquote # n @ [dquote]" and ?m = "key @ ''='' @ dquote # n @ [dquote]"
  have keys: "x \<noteq> CHR ''='' \<and> x \<noteq> CHR ''~'' \<and> x \<noteq> CHR ''!'' \<and> \<not> space_byte x" if "x \<in> set key" for x
    using that key(2) dns_char_neq dns_char_byte space_byte_ascii [of x] by (force simp: byte_def)
  have dq: "\<not> space_byte dquote" by (rule space_byte_ascii) (simp_all add: byte_def)
  have vs: "trim_space ?v = ?v"
    using lead_space_Cons [OF dq] trail_space_snoc [OF dq, of "dquote # n"] by (intro trim_space_id) simp_all
  have ks: "trim_space key = key"
  proof (rule trim_space_id)
    show "lead_space key = None" using keys key(1) by (auto intro: lead_space_Cons)
    have "key \<noteq> []" using key(1) by simp
    then show "trail_space key = None"
      using keys [of "last key"] trail_space_snoc [of "last key" "butlast key"]
      by (simp only: append_butlast_last_id last_in_set simp_thms)
  qed
  have ms: "trim_space ?m = ?m"
  proof (rule trim_space_id)
    show "lead_space ?m = None" using keys key(1) by (auto intro: lead_space_Cons)
    show "trail_space ?m = None" using trail_space_snoc [OF dq, of "key @ ''='' @ dquote # n"] by simp
  qed
  have "CHR ''~'' \<notin> set ?m" "CHR ''!'' \<notin> set ?m"
    using keys n by (auto simp: list_all_iff dest: dns_char_neq)
  then have "str_index ?m ''=~'' = None" "str_index ?m ''!~'' = None" "str_index ?m ''!='' = None"
    by (auto intro: str_index_absent [of "CHR ''~''"] str_index_absent [of "CHR ''!''"])
  moreover have "str_index ?m ''='' = Some (length key)"
    using str_index_char [of "CHR ''=''" key ?v] keys by auto
  moreover have "unquoteProm ?v = n" by (simp add: unquoteProm_def vs)
  ultimately show ?thesis
    using ms vs ks key(1) by (simp add: parseMatcher_def go_quote_dns [OF n])
qed

lemma closed_identity_matcher:
  assumes "key = ''waf_namespace'' \<or> key = ''waf_name''" and n: "list_all dns_char n"
  shows "closed_part (key @ ''='' @ go_quote n)" and
    "trim_space (key @ ''='' @ go_quote n) = key @ ''='' @ go_quote n"
proof -
  have dq: "\<not> space_byte dquote" by (rule space_byte_ascii) (simp_all add: byte_def)
  have w: "\<not> space_byte (CHR ''w'')" by (rule space_byte_ascii) (simp_all add: byte_def)
  show "closed_part (key @ ''='' @ go_quote n)"
    using assms qrun_dns [OF n]
    by (elim disjE) (simp_all add: closed_part_def go_quote_dns comma_free_append)
  show "trim_space (key @ ''='' @ go_quote n) = key @ ''='' @ go_quote n"
    using assms trail_space_snoc [OF dq, of "key @ ''='' @ dquote # n"] lead_space_Cons [OF w]
    by (intro trim_space_id) (auto simp: go_quote_dns)
qed

lemma extract_no_identity:
  "(\<forall>m \<in> set ms. \<not> is_identity_matcher m) \<Longrightarrow> extract_identity_loop ns name ms = Ok (ns, name)"
  by (induction ns name ms rule: extract_identity_loop.induct)
    (auto simp: is_identity_matcher_def is_identity_key_def split: option.splits)

abbreviation ns_matcher :: "WAFIdentity \<Rightarrow> string" where
  "ns_matcher i \<equiv> ''waf_namespace'' @ ''='' @ go_quote (id_Namespace i)"

abbreviation name_matcher :: "WAFIdentity \<Rightarrow> string" where
  "name_matcher i \<equiv> ''waf_name'' @ ''='' @ go_quote (id_Name i)"

lemma identity_scope_eq: "identity_scope i = ns_matcher i @ CHR '','' # name_matcher i"
  by (simp add: identity_scope_def)

definition dns_identity :: "WAFIdentity \<Rightarrow> bool" where
  "dns_identity i \<longleftrightarrow> dns_name (id_Namespace i) \<and> dns_name (id_Name i)"

lemma identity_matchers:
  assumes "dns_identity i"
  shows "parseMatcher (ns_matcher i) = Some (''waf_namespace'', ''='', id_Namespace i)"
    and "parseMatcher (name_matcher i) = Some (''waf_name'', ''='', id_Name i)"
proof -
  have n: "list_all dns_char (id_Namespace i)" "list_all dns_char (id_Name i)"
    using assms by (auto simp: dns_identity_def dns_name_def)
  show "parseMatcher (ns_matcher i) = Some (''waf_namespace'', ''='', id_Namespace i)"
    by (rule parse_identity_matcher [OF refl _ n(1)]) (simp add: dns_char_def is_lower_def byte_def)
  show "parseMatcher (name_matcher i) = Some (''waf_name'', ''='', id_Name i)"
    by (rule parse_identity_matcher [OF refl _ n(2)]) (simp add: dns_char_def is_lower_def byte_def)
qed

lemma split_identity_scope:
  assumes i: "dns_identity i" and t: "trim_space c = c" "splitMatchers c = Ok ms"
  shows "splitMatchers (identity_scope i @ (if c = [] then [] else '','' @ c)) =
    Ok (ns_matcher i # name_matcher i # ms)"
proof -
  let ?b = "identity_scope i @ (if c = [] then [] else '','' @ c)"
  have n: "list_all dns_char (id_Namespace i)" "list_all dns_char (id_Name i)"
    using i by (auto simp: dns_identity_def dns_name_def)
  note ns = closed_identity_matcher [OF disjI1 [OF refl] n(1)]
  note nm = closed_identity_matcher [OF disjI2 [OF refl] n(2)]
  have w: "\<not> space_byte (CHR ''w'')" by (rule space_byte_ascii) (simp_all add: byte_def)
  have "trim_space ?b = ?b"
  proof (rule trim_space_id)
    show "lead_space ?b = None" using lead_space_Cons [OF w] by (simp add: identity_scope_def)
    have "trail_space (ns_matcher i @ CHR '','' # name_matcher i) = None"
      using trimmed_trail [OF nm(2)] by (rule trail_space_append) simp
    moreover have "trail_space (identity_scope i @ CHR '','' # c) = None"
      using trimmed_trail [OF t(1)] by (rule trail_space_append) simp
    ultimately show "trail_space ?b = None" by (simp add: identity_scope_eq)
  qed
  moreover have "?b \<noteq> []" by (simp add: identity_scope_def)
  moreover have "split_matchers_loop None [] ?b = Some (ns_matcher i # name_matcher i # ms)"
  proof (cases "c = []")
    case True
    with t have "ms = []" by (simp add: splitMatchers_def)
    moreover have "split_matchers_loop None [] (name_matcher i) = Some [name_matcher i]"
      using split_matchers_last [OF nm(1)] nm(2) by simp
    ultimately show ?thesis
      using True split_matchers_cons [OF ns(1), of "name_matcher i"] ns(2)
      by (simp only: identity_scope_eq simp_thms if_True append_Nil2 option.map)
  next
    case False
    then have "split_matchers_loop None [] c = Some ms"
      using t by (simp add: splitMatchers_def split: option.splits)
    then have "split_matchers_loop None [] (name_matcher i @ CHR '','' # c) = Some (name_matcher i # ms)"
      using split_matchers_cons [OF nm(1), of c] nm(2) by (simp only: option.map)
    then show ?thesis
      using False split_matchers_cons [OF ns(1), of "name_matcher i @ CHR '','' # c"] ns(2)
      by (simp only: identity_scope_eq if_False append_assoc append_Cons append_Nil option.map)
  qed
  ultimately show ?thesis by (simp add: splitMatchers_def del: append_Cons append_assoc)
qed

text \<open>
  C15: the body of every selector the rewriter emits, read back by the rewriter's own matcher
  parser, names exactly the authorised WAF, and keeps exactly the caller's other matchers in
  order, whatever identity matchers the caller wrote.
\<close>

theorem injected_identity_read_back:
  assumes "dns_identity i" and "splitMatchers inner = Ok ms"
  shows "\<exists>body ms'. injectIdentity metric (stripIdentityMatchers inner) i = Ok (metric @ ''{'' @ body @ ''}'') \<and>
    extractIdentityMatchers body = Ok (id_Namespace i, id_Name i) \<and>
    splitMatchers body = Ok ms' \<and> user_matchers ms' = user_matchers ms"
proof -
  let ?c = "stripIdentityMatchers inner"
  let ?b = "identity_scope i @ (if ?c = [] then [] else '','' @ ?c)"
  obtain ms' where c: "splitMatchers ?c = Ok ms'" "user_matchers ms' = user_matchers ms"
    "\<forall>m \<in> set ms'. \<not> is_identity_matcher m" "trim_space ?c = ?c"
    using stripped_matchers [OF assms(2)] by blast
  note split = split_identity_scope [OF assms(1) c(4) c(1)]
  have ids: "is_identity_matcher (ns_matcher i)" "is_identity_matcher (name_matcher i)"
    by (simp_all only: is_identity_matcher_def identity_matchers [OF assms(1)]) (simp_all add: is_identity_key_def)
  have "injectIdentity metric ?c i = Ok (metric @ ''{'' @ ?b @ ''}'')"
    using assms(1) c(4) by (simp add: injectIdentity_def dns_identity_def dns_name_def)
  moreover have "extractIdentityMatchers ?b = Ok (id_Namespace i, id_Name i)"
    unfolding extractIdentityMatchers_def split result.case extract_identity_loop.simps
      identity_matchers [OF assms(1)] using extract_no_identity [OF c(3)] by simp
  moreover have "user_matchers (ns_matcher i # name_matcher i # ms') = user_matchers ms"
    using ids c(2) by (simp only: user_matchers_def filter.simps simp_thms if_False)
  ultimately show ?thesis using split by blast
qed

theorem injected_identity_read_back_witness:
  "\<exists>body ms'. injectIdentity ''up''
      (stripIdentityMatchers (''waf_name='' @ [dquote] @ ''v'' @ [dquote] @ '',job='' @ [dquote] @ ''x'' @ [dquote]))
      \<lparr> id_Namespace = ''a'', id_Name = ''w'' \<rparr> = Ok (''up'' @ ''{'' @ body @ ''}'') \<and>
    extractIdentityMatchers body = Ok (''a'', ''w'') \<and>
    splitMatchers body = Ok ms' \<and> user_matchers ms' = [''job='' @ [dquote] @ ''x'' @ [dquote]]"
proof -
  let ?i = "\<lparr> id_Namespace = ''a'', id_Name = ''w'' \<rparr>"
  let ?inner = "''waf_name='' @ [dquote] @ ''v'' @ [dquote] @ '',job='' @ [dquote] @ ''x'' @ [dquote]"
  let ?ms = "[''waf_name='' @ [dquote] @ ''v'' @ [dquote], ''job='' @ [dquote] @ ''x'' @ [dquote]]"
  have "dns_identity ?i" by code_simp
  moreover have "splitMatchers ?inner = Ok ?ms" by code_simp
  moreover have "user_matchers ?ms = [''job='' @ [dquote] @ ''x'' @ [dquote]]" by code_simp
  ultimately show ?thesis
    using injected_identity_read_back [of ?i ?inner ?ms "''up''"] by simp
qed

end
