(* ===== verification/PromQLWalk.thy ===== *)
theory PromQLWalk
  imports PromQLScope
begin

text \<open>
  The main loop of the PromQL rewriter against a declarative account of what it may emit: text
  copied as it stands, selectors replaced by the union of their scoped copies, and range-function
  calls distributed over that union.
\<close>

section \<open>Specification\<close>

text \<open>One scoped copy of a selector: the identity first, then the cleaned matchers, then the range.\<close>

definition scoped_text :: "string \<Rightarrow> string \<Rightarrow> string \<Rightarrow> WAFIdentity \<Rightarrow> string" where
  "scoped_text metric cleaned rng i =
     metric @ ''{'' @ (identity_scope i @ (if trim_space cleaned = [] then [] else '','' @ trim_space cleaned))
       @ ''}'' @ rng"

text \<open>\<open>selector_text a metric inner rng\<close>: \<open>a\<close> is a selector with these parts.\<close>

definition selector_text :: "string \<Rightarrow> string \<Rightarrow> string \<Rightarrow> string \<Rightarrow> bool" where
  "selector_text a metric inner rng \<longleftrightarrow>
     (\<exists>sp. list_all is_query_space sp \<and>
        ((metric \<noteq> [] \<and> inner = [] \<and> a = metric @ sp @ rng) \<or>
         (\<exists>sel. inner = selector_inner sel \<and> readSelector sel = Ok (sel, []) \<and> a = metric @ sp @ sel @ rng)))"

text \<open>
  Text the walker may copy without a scope: a string literal, a bracketed range, a number, a
  single character that starts no token, or an identifier that is a keyword, a called function or
  an aggregation operator.
\<close>

definition unscoped_ident :: "string \<Rightarrow> string \<Rightarrow> bool" where
  "unscoped_ident ident rest \<longleftrightarrow>
     to_lower ident \<in> set promqlKeywords \<or>
     (skipSpace rest \<noteq> [] \<and> hd (skipSpace rest) = CHR ''('') \<or>
     (to_lower ident \<in> set promqlAggregators \<and> isAggModifier (skipSpace rest))"

definition copyable :: "string \<Rightarrow> string \<Rightarrow> bool" where
  "copyable a rest \<longleftrightarrow>
     skipQuoted (a @ rest) = Ok (a, rest) \<and> (hd a = dquote \<or> hd a = squote) \<or>
     skipBracket (a @ rest) = Ok (a, rest) \<or>
     isNumberStart (a @ rest) \<and> rest = skipNumber (a @ rest) \<or>
     (\<exists>c. a = [c] \<and> \<not> isIdentStart c \<and> c \<notin> {CHR ''{'', CHR ''['', dquote, squote}) \<or>
     (\<exists>ident w. a = ident @ w \<and> readIdent (a @ rest) = (ident, w @ rest) \<and>
        (w = [] \<and> unscoped_ident ident rest \<or>
         isGroupingKeyword (to_lower ident) \<and> copyGroupingList (w @ rest) = (w, rest)))"

inductive scoped_rewrite :: "WAFIdentity list \<Rightarrow> string \<Rightarrow> string \<Rightarrow> bool" for ids where
  finished: "scoped_rewrite ids [] []"
| copied: "a \<noteq> [] \<Longrightarrow> copyable a rest \<Longrightarrow> scoped_rewrite ids rest out
    \<Longrightarrow> scoped_rewrite ids (a @ rest) (a @ out)"
| selector: "selector_text a metric inner rng \<Longrightarrow> rejectForeignIdentity inner ids = Ok () \<Longrightarrow>
    scoped_rewrite ids rest out \<Longrightarrow>
    scoped_rewrite ids (a @ rest)
      (or_union (map (scoped_text metric (stripIdentityMatchers inner) rng) ids) @ out)"
| range_call: "to_lower fn \<in> set rangeVectorFuncs \<Longrightarrow> list_all is_query_space sp \<Longrightarrow>
    list_all is_query_space sp' \<Longrightarrow> selector_text a metric inner rng \<Longrightarrow>
    rejectForeignIdentity inner ids = Ok () \<Longrightarrow> \<not> contains_any extra ''{}'' \<Longrightarrow>
    scoped_rewrite ids rest out \<Longrightarrow>
    scoped_rewrite ids (fn @ sp @ ''('' @ sp' @ a @ extra @ '')'' @ rest)
      (or_union (map (\<lambda>i. fn @ ''('' @ scoped_text metric (stripIdentityMatchers inner) rng i @ extra @ '')'') ids)
        @ out)"

section \<open>The walker implements the specification\<close>

lemma skipSpace_split: "\<exists>sp. s = sp @ skipSpace s \<and> list_all is_query_space sp"
  using takeWhile_dropWhile_id [of is_query_space s, symmetric]
  by (metis list_all_iff set_takeWhileD skipSpace_def)

lemma inject_all_Ok: "inject_all m c r ids = Ok parts \<Longrightarrow> parts = map (scoped_text m c r) ids"
proof (induction ids arbitrary: parts)
  case (Cons i ids)
  then show ?case
    by (auto simp: injectIdentity_def scoped_text_def Let_def split: if_splits result.splits)
qed simp

lemma scopedSelectorParts_Ok:
  assumes "scopedSelectorParts metric inner s ids = Ok (parts, r)"
  shows "rejectForeignIdentity inner ids = Ok () \<and>
    (\<exists>rng. s = rng @ r \<and> parts = map (scoped_text metric (stripIdentityMatchers inner) rng) ids)"
proof -
  have rej: "rejectForeignIdentity inner ids = Ok ()"
    using assms by (auto simp: scopedSelectorParts_def split: result.splits)
  note eq = assms [unfolded scopedSelectorParts_def rej result.case Let_def]
  show ?thesis
  proof (cases "skipSpace s \<noteq> [] \<and> hd (skipSpace s) = CHR ''[''")
    case True
    with eq obtain x where x: "skipBracket (skipSpace s) = Ok (x, r)"
      and p: "inject_all metric (stripIdentityMatchers inner) (between s r) ids = Ok parts"
      by (auto split: result.splits)
    have "suffix r s"
      using skipBracket_suffix [OF x] suffix_skipSpace suffix_order.trans by blast
    then have "s = between s r @ r" by (simp add: between_suffix)
    with rej inject_all_Ok [OF p] show ?thesis by blast
  next
    case False
    note eq' = eq [unfolded if_not_P [OF False]]
    then have "inject_all metric (stripIdentityMatchers inner) [] ids = Ok parts" "r = s" by auto
    with rej inject_all_Ok show ?thesis by auto
  qed
qed

lemma read_selector_body_prefix:
  "read_selector_body qt s = Some (a, r) \<Longrightarrow> read_selector_body qt a = Some (a, [])"
proof (induction qt s arbitrary: a rule: read_selector_body.induct)
  case (3 k c e s)
  show ?case
  proof (cases "c = backslash")
    case True
    with 3 show ?thesis by auto
  next
    case False
    with "3.prems" obtain b where b: "read_selector_body (if c = k then None else Some k) (e # s) = Some (b, r)"
      "a = c # b" by auto
    moreover have "b \<noteq> []" using read_selector_body_split [OF b(1)] by simp
    moreover have "read_selector_body (if c = k then None else Some k) b = Some (b, [])"
      using "3.IH"(2) [OF False b(1)] .
    ultimately show ?thesis using False by (cases b) auto
  qed
next
  case (4 c s)
  consider "c = dquote \<or> c = squote" | "\<not> (c = dquote \<or> c = squote)" "c = CHR ''}''"
    | "\<not> (c = dquote \<or> c = squote)" "c \<noteq> CHR ''}''" by blast
  then show ?case using 4 by cases auto
qed auto

lemma readSelector_self: "readSelector s = Ok (sel, r) \<Longrightarrow> readSelector sel = Ok (sel, [])"
  by (auto simp: readSelector_def split: list.splits if_splits option.splits
      dest: read_selector_body_prefix)

lemma rewriteSelectorAt_Ok:
  assumes "rewriteSelectorAt metric s ids = Ok (out, r)"
  shows "\<exists>sel rng. s = sel @ rng @ r \<and> readSelector sel = Ok (sel, []) \<and>
    rejectForeignIdentity (selector_inner sel) ids = Ok () \<and>
    out = or_union (map (scoped_text metric (stripIdentityMatchers (selector_inner sel)) rng) ids)"
proof -
  obtain sel after parts where sel: "readSelector s = Ok (sel, after)"
    and parts: "scopedSelectorParts metric (selector_inner sel) after ids = Ok (parts, r)"
    and out: "out = or_union parts"
    using assms by (auto simp: rewriteSelectorAt_def emitScopedSelectors_def split: result.splits)
  from scopedSelectorParts_Ok [OF parts] obtain rng where "after = rng @ r"
    "parts = map (scoped_text metric (stripIdentityMatchers (selector_inner sel)) rng) ids"
    and "rejectForeignIdentity (selector_inner sel) ids = Ok ()" by blast
  with out readSelector_split [OF sel] readSelector_self [OF sel] show ?thesis by auto
qed

lemma rewriteNamedMetric_Ok:
  assumes "rewriteNamedMetric metric s ids = Ok (out, r)"
  shows "\<exists>rng. s = rng @ r \<and> rejectForeignIdentity [] ids = Ok () \<and>
    out = or_union (map (scoped_text metric (stripIdentityMatchers []) rng) ids)"
proof -
  obtain parts where parts: "scopedSelectorParts metric [] s ids = Ok (parts, r)"
    and "out = or_union parts"
    using assms by (auto simp: rewriteNamedMetric_def emitScopedSelectors_def)
  with scopedSelectorParts_Ok [OF parts] show ?thesis by auto
qed

lemma scan_nested_last: "scan_nested opn cls qt d s = Some (a, r) \<Longrightarrow> a \<noteq> [] \<and> last a = cls"
proof (induction opn cls qt d s arbitrary: a rule: scan_nested.induct)
  case (3 opn cls k d c e s)
  show ?case
  proof (cases "c = backslash")
    case True
    with "3.prems" obtain b where "scan_nested opn cls (Some k) d s = Some (b, r)" "a = c # e # b" by auto
    with "3.IH"(1) [OF True] show ?thesis by auto
  next
    case False
    with "3.prems" obtain b where
      "scan_nested opn cls (if c = k then None else Some k) d (e # s) = Some (b, r)" "a = c # b" by auto
    with "3.IH"(2) [OF False] show ?thesis by auto
  qed
next
  case (4 opn cls d c s)
  consider (quote) "c = dquote \<or> c = squote" | (opens) "\<not> (c = dquote \<or> c = squote)" "c = opn"
    | (stop) "\<not> (c = dquote \<or> c = squote)" "c \<noteq> opn" "c = cls" "d - 1 = 0"
    | (closes) "\<not> (c = dquote \<or> c = squote)" "c \<noteq> opn" "c = cls" "d - 1 \<noteq> 0"
    | (other) "\<not> (c = dquote \<or> c = squote)" "c \<noteq> opn" "c \<noteq> cls"
    by argo
  then show ?case
  proof cases
    case quote
    with "4.prems" obtain b where "scan_nested opn cls (Some c) d s = Some (b, r)" "a = c # b" by auto
    with "4.IH"(1) [OF quote] show ?thesis by auto
  next
    case opens
    with "4.prems" obtain b where "scan_nested opn cls None (d + 1) s = Some (b, r)" "a = c # b" by auto
    with "4.IH"(2) [OF opens] show ?thesis by auto
  next
    case stop
    with "4.prems" show ?thesis by auto
  next
    case closes
    with "4.prems" obtain b where "scan_nested opn cls None (d - 1) s = Some (b, r)" "a = c # b" by auto
    with "4.IH"(3) [OF closes] show ?thesis by auto
  next
    case other
    with "4.prems" obtain b where "scan_nested opn cls None d s = Some (b, r)" "a = c # b" by auto
    with "4.IH"(4) [OF other] show ?thesis by auto
  qed
qed auto

lemma skipParen_last: "skipParen s = Ok (a, r) \<Longrightarrow> last a = CHR '')''"
  by (auto simp: skipParen_def split: if_splits option.splits dest: scan_nested_last)

lemma suffix_before_last:
  assumes "u @ t = x @ r" and "last x = c" and "length r + 1 \<le> length t"
  shows "t = take (length t - (length r + 1)) t @ [c] @ r"
proof -
  from assms(1,3) have "length u < length x" by (metis add_le_cancel_left add_less_cancel_right
    less_le_trans length_append less_add_one add.commute linorder_not_le)
  with assms(1) obtain y where y: "x = u @ y" "t = y @ r"
    by (auto simp: append_eq_append_conv2)
  with \<open>length u < length x\<close> have "y \<noteq> []" by auto
  with assms(2) y have "y = butlast y @ [c]" by (metis append_butlast_last_id last_append)
  then obtain z where "y = z @ [c]" by blast
  with y show ?thesis by simp
qed

lemma range_func_arg_Ok:
  assumes "range_func_arg p = Ok (Some (metric, inner, after))"
  shows "\<exists>sp b. tl p = sp @ b @ after \<and> list_all is_query_space sp \<and>
    (\<forall>rng. selector_text (b @ rng) metric inner rng)"
proof -
  obtain sp where sp: "tl p = sp @ skipSpace (tl p)" "list_all is_query_space sp"
    using skipSpace_split by blast
  let ?s1 = "skipSpace (tl p)"
  obtain m r where id: "readIdent ?s1 = (m, r)" by fastforce
  obtain sp2 where sp2: "r = sp2 @ skipSpace r" "list_all is_query_space sp2"
    using skipSpace_split by blast
  obtain s2 sp' where s2: "range_func_arg p =
      (if s2 \<noteq> [] \<and> hd s2 = CHR ''{''
       then (case readSelector s2 of Err e \<Rightarrow> Err e | Panic \<Rightarrow> Panic
             | Ok (sel, after) \<Rightarrow> Ok (Some (metric, selector_inner sel, after)))
       else if metric = [] then Ok None else Ok (Some (metric, [], s2)))"
    and s1: "?s1 = metric @ sp' @ s2" and sp': "list_all is_query_space sp'"
  proof (cases "?s1 \<noteq> [] \<and> isIdentStart (hd ?s1)")
    case True
    then have e: "range_func_arg p =
      (if skipSpace r \<noteq> [] \<and> hd (skipSpace r) = CHR ''{''
       then (case readSelector (skipSpace r) of Err e \<Rightarrow> Err e | Panic \<Rightarrow> Panic
             | Ok (sel, after) \<Rightarrow> Ok (Some (m, selector_inner sel, after)))
       else if m = [] then Ok None else Ok (Some (m, [], skipSpace r)))"
      by (simp add: range_func_arg_def id Let_def)
    with assms have m: "metric = m" by (auto split: if_splits result.splits)
    show thesis
    proof (rule that)
      show "?s1 = metric @ sp2 @ skipSpace r" using readIdent_split [OF id] sp2(1) m by simp
    qed (simp_all only: e m sp2(2))
  next
    case False
    then have e: "range_func_arg p =
      (if ?s1 \<noteq> [] \<and> hd ?s1 = CHR ''{''
       then (case readSelector ?s1 of Err e \<Rightarrow> Err e | Panic \<Rightarrow> Panic
             | Ok (sel, after) \<Rightarrow> Ok (Some ([], selector_inner sel, after)))
       else Ok None)"
      by (simp only: range_func_arg_def Let_def if_False prod.case simp_thms if_True)
    with assms have m: "metric = []" by (auto split: if_splits result.splits)
    show thesis
      by (rule that [of ?s1 "[]"]) (simp_all only: e m simp_thms if_True append_Nil list.pred_inject)
  qed
  show ?thesis
  proof (cases "s2 \<noteq> [] \<and> hd s2 = CHR ''{''")
    case True
    with s2 assms obtain sel where sel: "readSelector s2 = Ok (sel, after)" "inner = selector_inner sel"
      by (auto split: result.splits)
    then have "s2 = sel @ after" "readSelector sel = Ok (sel, [])"
      using readSelector_split readSelector_self by blast+
    with sel sp sp' s1 show ?thesis
      by (intro exI [of _ sp] exI [of _ "metric @ sp' @ sel"]) (auto simp: selector_text_def)
  next
    case False
    note eq = s2 [unfolded if_not_P [OF False]]
    with assms have "metric \<noteq> []" "inner = []" "after = s2" by (auto split: if_splits)
    with sp sp' s1 show ?thesis
      by (intro exI [of _ sp] exI [of _ "metric @ sp'"]) (auto simp: selector_text_def)
  qed
qed

lemma rewriteRangeFuncCall_Ok:
  assumes "rewriteRangeFuncCall fn p ids = Ok (Some (out, r))" and p: "p \<noteq> []" "hd p = CHR ''(''"
  shows "\<exists>sp a metric inner rng extra. p = ''('' @ sp @ a @ extra @ '')'' @ r \<and>
    list_all is_query_space sp \<and> selector_text a metric inner rng \<and>
    rejectForeignIdentity inner ids = Ok () \<and> \<not> contains_any extra ''{}'' \<and>
    out = or_union (map (\<lambda>i. fn @ ''('' @ scoped_text metric (stripIdentityMatchers inner) rng i @ extra @ '')'') ids)"
proof -
  obtain metric inner after parts after' x where arg: "range_func_arg p = Ok (Some (metric, inner, after))"
    and parts: "scopedSelectorParts metric inner after ids = Ok (parts, after')"
    and par: "skipParen p = Ok (x, r)" and len: "length r + 1 \<le> length after'"
    and brace: "\<not> contains_any (take (length after' - (length r + 1)) after') ''{}''"
    and out: "out = or_union (map (\<lambda>q. fn @ ''('' @ q @ take (length after' - (length r + 1)) after' @ '')'') parts)"
    using assms(1) by (auto simp: rewriteRangeFuncCall_def Let_def split: result.splits option.splits if_splits)
  let ?extra = "take (length after' - (length r + 1)) after'"
  from scopedSelectorParts_Ok [OF parts] obtain rng where rng: "after = rng @ after'"
    "parts = map (scoped_text metric (stripIdentityMatchers inner) rng) ids"
    and rej: "rejectForeignIdentity inner ids = Ok ()" by blast
  from range_func_arg_Ok [OF arg] obtain sp b where b: "tl p = sp @ b @ after" "list_all is_query_space sp"
    "selector_text (b @ rng) metric inner rng" by blast
  have pe: "p = ''('' @ sp @ (b @ rng) @ after'"
    using p b(1) rng(1) by (cases p) auto
  have x: "p = x @ r" "last x = CHR '')''" using skipParen_last [OF par] skipParen_split [OF par] by auto
  have "(''('' @ sp @ b @ rng) @ after' = x @ r" using x(1) pe by simp
  then have "after' = ?extra @ '')'' @ r" using x(2) len by (rule suffix_before_last)
  with pe b(2,3) rej brace out rng(2) show ?thesis
    by (intro exI [of _ sp] exI [of _ "b @ rng"] exI [of _ metric] exI [of _ inner] exI [of _ rng]
        exI [of _ ?extra]) (simp add: comp_def)
qed

lemma rewrite_ident_scoped:
  assumes ok: "rewrite_ident ids s = Ok (out, r)" and ne: "s \<noteq> []" "isIdentStart (hd s)"
    and rest: "scoped_rewrite ids r out'"
  shows "scoped_rewrite ids s (out @ out')"
proof -
  obtain ident nxt where id: "readIdent s = (ident, nxt)" by fastforce
  then have s: "s = ident @ nxt" and ine: "ident \<noteq> []"
    using readIdent_split readIdent_nonempty ne by blast+
  obtain sp where sp: "nxt = sp @ skipSpace nxt" "list_all is_query_space sp"
    using skipSpace_split by blast
  have copy: "scoped_rewrite ids s (ident @ out')" if "r = nxt" "unscoped_ident ident nxt"
    using scoped_rewrite.copied [of ident r ids out'] that ine id rest s
    by (auto simp: copyable_def)
  from ok id show ?thesis
  proof (cases rule: rewrite_ident_cases)
    case (grouping w)
    then have "nxt = w @ r" by (simp add: copyGroupingList_split)
    with grouping id s ine have "copyable (ident @ w) r" by (auto simp: copyable_def)
    from scoped_rewrite.copied [OF _ this rest] ine grouping s \<open>nxt = w @ r\<close> show ?thesis by simp
  next
    case keyword
    then show ?thesis using copy by (simp add: unscoped_ident_def)
  next
    case range_call
    from rewriteRangeFuncCall_Ok [OF range_call(3,1,2)]
    obtain sp' a metric inner rng extra where *: "skipSpace nxt = ''('' @ sp' @ a @ extra @ '')'' @ r"
      "list_all is_query_space sp'" "selector_text a metric inner rng"
      "rejectForeignIdentity inner ids = Ok ()" "\<not> contains_any extra ''{}''"
      "out = or_union (map (\<lambda>i. ident @ ''('' @ scoped_text metric (stripIdentityMatchers inner) rng i @ extra @ '')'') ids)"
      by blast
    from scoped_rewrite.range_call [OF range_call(4) sp(2) *(2-5) rest] *(1,6) s sp(1)
    show ?thesis by simp
  next
    case call
    then show ?thesis using copy by (simp add: unscoped_ident_def)
  next
    case agg
    then show ?thesis using copy by (simp add: unscoped_ident_def)
  next
    case selector
    from rewriteSelectorAt_Ok [OF selector(3)] obtain sel rng where *: "skipSpace nxt = sel @ rng @ r"
      "readSelector sel = Ok (sel, [])" "rejectForeignIdentity (selector_inner sel) ids = Ok ()"
      "out = or_union (map (scoped_text ident (stripIdentityMatchers (selector_inner sel)) rng) ids)" by blast
    have "selector_text (ident @ sp @ sel @ rng) ident (selector_inner sel) rng"
      using *(2) sp(2) by (auto simp: selector_text_def)
    from scoped_rewrite.selector [OF this *(3) rest] *(1,4) s sp(1) show ?thesis by simp
  next
    case metric
    from rewriteNamedMetric_Ok [OF metric] obtain rng where *: "nxt = rng @ r"
      "rejectForeignIdentity [] ids = Ok ()"
      "out = or_union (map (scoped_text ident (stripIdentityMatchers []) rng) ids)" by blast
    have "selector_text (ident @ rng) ident [] rng"
      using ine unfolding selector_text_def by (intro exI [of _ "[]"]) simp
    from scoped_rewrite.selector [OF this *(2) rest] *(1,3) s show ?thesis by simp
  qed
qed

lemma rewrite_step_scoped:
  assumes ok: "rewrite_step ids s = Ok (out, r)" and ne: "s \<noteq> []" and rest: "scoped_rewrite ids r out'"
  shows "scoped_rewrite ids s (out @ out')"
proof -
  have copy: "scoped_rewrite ids s (out @ out')" if "s = out @ r" "out \<noteq> []" "copyable out r"
    using scoped_rewrite.copied [OF that(2,3) rest] that(1) by simp
  consider (quoted) "hd s = dquote \<or> hd s = squote"
    | (number) "\<not> (hd s = dquote \<or> hd s = squote)" "isNumberStart s"
    | (bracket) "\<not> (hd s = dquote \<or> hd s = squote)" "\<not> isNumberStart s" "hd s = CHR ''[''"
    | (brace) "\<not> (hd s = dquote \<or> hd s = squote)" "\<not> isNumberStart s" "hd s \<noteq> CHR ''[''" "hd s = CHR ''{''"
    | (ident) "\<not> (hd s = dquote \<or> hd s = squote)" "\<not> isNumberStart s" "hd s \<noteq> CHR ''[''" "hd s \<noteq> CHR ''{''"
        "isIdentStart (hd s)"
    | (other) "\<not> (hd s = dquote \<or> hd s = squote)" "\<not> isNumberStart s" "hd s \<noteq> CHR ''[''" "hd s \<noteq> CHR ''{''"
        "\<not> isIdentStart (hd s)"
    by argo
  then show ?thesis
  proof cases
    case quoted
    with ok have q: "skipQuoted s = Ok (out, r)" by (simp add: rewrite_step_def)
    with skipQuoted_split [OF q] quoted show ?thesis by (intro copy) (auto simp: copyable_def)
  next
    case number
    with ok have o: "out = between s (skipNumber s)" and r: "r = skipNumber s"
      by (auto simp: rewrite_step_def)
    have s: "s = out @ r" unfolding o r by (rule between_suffix [OF suffix_skipNumber, symmetric])
    have "length r < length s" unfolding r by (rule skipNumber_shorter [OF number(2)])
    with s have "out \<noteq> []" by (metis append_Nil less_irrefl)
    moreover have "copyable out r" unfolding copyable_def s [symmetric] using number(2) r by blast
    ultimately show ?thesis using s by (intro copy)
  next
    case bracket
    with ok have q: "skipBracket s = Ok (out, r)" by (simp add: rewrite_step_def)
    with skipBracket_split [OF q] show ?thesis by (intro copy) (auto simp: copyable_def)
  next
    case brace
    with ok have q: "rewriteSelectorAt [] s ids = Ok (out, r)" by (simp add: rewrite_step_def)
    from rewriteSelectorAt_Ok [OF q] obtain sel rng where *: "s = sel @ rng @ r"
      "readSelector sel = Ok (sel, [])" "rejectForeignIdentity (selector_inner sel) ids = Ok ()"
      "out = or_union (map (scoped_text [] (stripIdentityMatchers (selector_inner sel)) rng) ids)" by blast
    have "selector_text (sel @ rng) [] (selector_inner sel) rng"
      using *(2) unfolding selector_text_def by (intro exI [of _ "[]"]) auto
    from scoped_rewrite.selector [OF this *(3) rest] *(1,4) show ?thesis by simp
  next
    case ident
    with ok have "rewrite_ident ids s = Ok (out, r)" by (simp add: rewrite_step_def)
    from rewrite_ident_scoped [OF this ne ident(5) rest] show ?thesis .
  next
    case other
    with ok have "out = [hd s]" "r = tl s" by (auto simp: rewrite_step_def)
    with other ne show ?thesis by (intro copy) (auto simp: copyable_def)
  qed
qed



section \<open>Identity matchers of the caller\<close>

lemma extract_not_exact:
  assumes "m \<in> set ms" "parseMatcher m = Some (key, opr, val)" "is_identity_key key" "opr \<noteq> ''=''"
  shows "\<exists>k. extract_identity_loop ns name ms = Err (IdentityNotExact k)"
  using assms
proof (induction ns name ms rule: extract_identity_loop.induct)
  case (2 ns name m' ms)
  show ?case
  proof (cases "m' = m")
    case True
    with 2 show ?thesis by simp
  next
    case False
    with 2 show ?thesis by (auto split: option.splits)
  qed
qed simp





section \<open>Bare metric names\<close>

lemma readIdent_ident:
  "m \<noteq> [] \<Longrightarrow> isIdentStart (hd m) \<Longrightarrow> list_all isIdentCont m \<Longrightarrow> readIdent m = (m, [])"
  by (cases m) (auto simp: readIdent_def list_all_iff takeWhile_eq_all_conv dropWhile_eq_Nil_conv)

lemma ident_start_char:
  assumes "isIdentStart c"
  shows "c \<noteq> dquote \<and> c \<noteq> squote \<and> c \<noteq> CHR ''['' \<and> c \<noteq> CHR ''{'' \<and> c \<noteq> CHR ''.'' \<and> \<not> is_digit c \<and> \<not> is_query_space c"
  using assms
  by (auto simp: isIdentStart_def latin1_letter_def is_upper_def is_lower_def is_digit_def is_query_space_def byte_def)

lemma scopedSelectorParts_bare:
  assumes "id_Namespace i \<noteq> []" "id_Name i \<noteq> []"
  shows "scopedSelectorParts metric [] [] [i] = Ok ([metric @ ''{'' @ identity_scope i @ ''}''], [])"
  using assms
  by (simp add: scopedSelectorParts_def rejectForeignIdentity_def extractIdentityMatchers_def
      splitMatchers_def stripIdentityMatchers_def injectIdentity_def skipSpace_def)

lemma trim_space_Cons: "\<not> space_byte c \<Longrightarrow> trim_space (c # s) \<noteq> []"
proof
  assume c: "\<not> space_byte c" and n: "trim_space (c # s) = []"
  then have r: "trim_right_space (c # s) = []"
    by (simp add: trim_space_def trim_left_space_id lead_space_Cons)
  have "c \<in> set (trim_right_space t) \<or> c \<notin> set t" for t
  proof (induction t rule: trim_right_space.induct)
    case (1 t)
    show ?case
    proof (cases "trail_space t")
      case None
      then show ?thesis by (simp add: trim_right_space_id)
    next
      case (Some w)
      then obtain u where u: "t = u @ w" "w \<in> set space_seqs"
        by (auto simp: has_suffix_iff trail_space_def find_Some_iff)
      with c have "c \<notin> set w" by (auto simp: space_byte_def)
      with 1 [OF Some] Some u(1) show ?thesis by (subst trim_right_space.simps) simp
    qed
  qed
  from this [of "c # s"] r show False by simp
qed

text \<open>
  A query that is one metric name is answered by that metric restricted to the WAF, for every
  identifier that is not a PromQL keyword.
\<close>

theorem scope_bare_metric:
  assumes "m \<noteq> []" "isIdentStart (hd m)" "list_all isIdentCont m" "to_lower m \<notin> set promqlKeywords"
    and "\<not> space_byte (hd m)" and "ns \<noteq> []" "name \<noteq> []"
  shows "ScopePromQL m ns name = Ok (m @ ''{'' @ identity_scope \<lparr> id_Namespace = ns, id_Name = name \<rparr> @ ''}'')"
proof -
  let ?i = "\<lparr> id_Namespace = ns, id_Name = name \<rparr>"
  note c = ident_start_char [OF assms(2)]
  have "isNumberStart m = False" using c assms(1) by (cases m) (auto simp: isNumberStart_def)
  moreover have "rewrite_ident [?i] m = Ok (m @ ''{'' @ identity_scope ?i @ ''}'', [])"
    using readIdent_ident [OF assms(1-3)] assms(4,6,7)
    by (simp add: rewrite_ident_def skipSpace_def isAggModifier_def rewriteNamedMetric_def
        emitScopedSelectors_def scopedSelectorParts_bare or_union_def)
  ultimately have "rewrite_step [?i] m = Ok (m @ ''{'' @ identity_scope ?i @ ''}'', [])"
    using c assms(2) by (simp add: rewrite_step_def)
  moreover have "trim_space m \<noteq> []" using assms(1,5) trim_space_Cons by (cases m) auto
  ultimately show ?thesis
    using assms by (simp add: ScopePromQL_def rewritePromQL.simps [of _ m] rewritePromQL.simps [of _ "[]"])
qed

theorem scope_bare_metric_witness:
  "ScopePromQL ''up'' ''a'' ''w'' = Ok (''up'' @ ''{'' @ identity_scope \<lparr> id_Namespace = ''a'', id_Name = ''w'' \<rparr> @ ''}'')"
  by (rule scope_bare_metric) (simp_all add: space_byte_ascii byte_def isIdentStart_def isIdentCont_def
      latin1_letter_def is_lower_def promqlKeywords_def lower_char_def is_upper_def)

section \<open>Inputs outside the contract\<close>

lemmas append_normal = append_assoc append_Nil2 append_Cons append_Nil

text \<open>
  Text after the first selector of a range-function call is copied without a scope when it has
  no brace: the second argument of \<open>predict_linear\<close> reads the unrestricted metric.
\<close>

theorem range_call_extra_unscoped:
  "ScopePromQL ''predict_linear(up[1h],scalar(up))'' (c # ns) (d # name) =
    Ok (''predict_linear(up{'' @ identity_scope \<lparr> id_Namespace = c # ns, id_Name = d # name \<rparr>
      @ ''}[1h],scalar(up))'')"
  by (code_simp, simp only: append_normal)

text \<open>
  The walker knows no comments, so a quote inside a comment line opens a string literal for it:
  this query is returned unchanged, with a metric name on its own line and no scope.
\<close>

theorem comment_hides_metric:
  "ScopePromQL (''# '' @ [dquote, newline] @ ''up # '' @ [dquote]) (c # ns) (d # name) =
    Ok (''# '' @ [dquote, newline] @ ''up # '' @ [dquote])"
  by code_simp

text \<open>
  A closing parenthesis inside the braces of a range-function argument makes the slice
  expression of \<open>rewriteRangeFuncCall\<close> run backwards, a run-time panic.
\<close>

theorem range_call_panics:
  "ScopePromQL ''rate(x{)}'' (c # ns) (d # name) = Panic"
  by code_simp

text \<open>
  A duration outside brackets is read as a number followed by a metric name: the unit of an
  \<open>offset\<close> modifier gets a selector of its own.
\<close>

theorem offset_unit_scoped:
  "ScopePromQL ''up offset 5m'' (c # ns) (d # name) =
    Ok (''up{'' @ identity_scope \<lparr> id_Namespace = c # ns, id_Name = d # name \<rparr> @ ''} offset 5m{''
      @ identity_scope \<lparr> id_Namespace = c # ns, id_Name = d # name \<rparr> @ ''}'')"
  by (code_simp, simp only: append_normal)

end
