(* ===== verification/SecLangTypes.thy ===== *)
theory SecLangTypes
  imports Prelude
begin

text \<open>
  The custom resources of \<open>api/seclang/v1beta1\<close>: the structs as records and the
  string-typed enumerations as strings (Go's \<open>type T string\<close> admits every string; the
  declared constants are the lists below). A nil pointer is \<open>None\<close>; a Go map is a
  partial function. Of \<open>metav1.ObjectMeta\<close> the fields the sources read are kept.
\<close>

section \<open>Object metadata\<close>

record ObjectMeta =
  om_Name :: string
  om_Namespace :: string
  om_Labels :: "string \<rightharpoonup> string"
  om_Annotations :: "string \<rightharpoonup> string"

text \<open>Reading a Go map of strings: a missing key reads as the empty string.\<close>

definition map_get :: "(string \<rightharpoonup> string) \<Rightarrow> string \<Rightarrow> string" where
  "map_get m k = (case m k of None \<Rightarrow> [] | Some v \<Rightarrow> v)"

record RuleSetRef =
  rsr_Name :: string
  rsr_Namespace :: string
  rsr_Kind :: string
  rsr_Group :: string
  rsr_Version :: string

section \<open>Rule metadata\<close>

text \<open>\<open>SecRuleMetadata\<close> with its embedded \<open>OnlyPhaseMetadata\<close> and \<open>CommentMetadata\<close>.\<close>

record CommentMetadata =
  md_Comment :: string

record OnlyPhaseMetadata = CommentMetadata +
  md_Phase :: string

record SecRuleMetadata = OnlyPhaseMetadata +
  md_Id :: int
  md_Msg :: string
  md_Maturity :: string
  md_Rev :: string
  md_Severity :: string
  md_Tags :: "string list"
  md_Ver :: string

section \<open>Conditions\<close>

type_synonym VariableName = string
type_synonym CollectionName = string
type_synonym OperatorType = string
type_synonym Transformation = string

record Variable =
  var_Name :: VariableName
  var_Excluded :: bool

record Collection =
  col_Name :: CollectionName
  col_Arguments :: "string list"
  col_Excluded :: "string list"
  col_Count :: bool

record Operator =
  op_Negate :: bool
  op_Name :: OperatorType
  op_Value :: string

record Condition =
  cond_Variables :: "Variable list"
  cond_Collections :: "Collection list"
  cond_Operator :: Operator
  cond_Transformations :: "Transformation list"
  cond_AlwaysMatch :: bool
  cond_Script :: string

section \<open>Actions\<close>

type_synonym DisruptiveActionType = string
type_synonym NonDisruptiveActionType = string
type_synonym FlowActionType = string
type_synonym DataActionType = string

record DisruptiveAction =
  da_Type :: DisruptiveActionType
  da_Value :: string

record NonDisruptiveAction =
  nda_Type :: NonDisruptiveActionType
  nda_Value :: string

record FlowAction =
  fa_Type :: FlowActionType
  fa_Value :: string

record DataAction =
  dta_Type :: DataActionType
  dta_Value :: string

record SecRuleActions =
  act_Data :: "DataAction list"
  act_DisruptiveAction :: "DisruptiveAction option"
  act_Flow :: "FlowAction list"
  act_NonDisruptive :: "NonDisruptiveAction list"

definition Chain :: FlowActionType where "Chain = ''chain''"
definition Skip :: FlowActionType where "Skip = ''skip''"
definition SkipAfter :: FlowActionType where "SkipAfter = ''skipAfter''"
definition FlowUnknown :: FlowActionType where "FlowUnknown = ''flowUnknown''"

section \<open>SecRule\<close>

record Match =
  match_Variables :: "Variable list"
  match_Collections :: "Collection list"
  match_Operator :: Operator
  match_Transformations :: "Transformation list"
  match_AlwaysMatch :: bool
  match_Script :: string
  match_Actions :: "SecRuleActions option"

definition ToCondition :: "Match \<Rightarrow> Condition" where
  "ToCondition m =
     \<lparr> cond_Variables = match_Variables m, cond_Collections = match_Collections m,
       cond_Operator = match_Operator m, cond_Transformations = match_Transformations m,
       cond_AlwaysMatch = match_AlwaysMatch m, cond_Script = match_Script m \<rparr>"

record SecLangSecRule =
  slr_Metadata :: "SecRuleMetadata option"
  slr_Conditions :: "Condition list"
  slr_Actions :: "SecRuleActions option"
  slr_ChainedRule :: bool
  slr_SecMarker :: string

record SecRuleSpec =
  spec_Order :: int
  spec_MarkerAfter :: string
  spec_Metadata :: "SecRuleMetadata option"
  spec_Match :: "Match list"
  spec_Actions :: "SecRuleActions option"
  spec_SecRules :: "SecLangSecRule list"

definition IsSingleRuleForm :: "SecRuleSpec \<Rightarrow> bool" where
  "IsSingleRuleForm s \<longleftrightarrow>
     spec_Metadata s \<noteq> None \<or> length (spec_Match s) > 0 \<or>
     (spec_Actions s \<noteq> None \<and> length (spec_SecRules s) = 0)"

record SecRuleStatus =
  st_SecRuleString :: string
  st_RuleID :: int
  st_IDSource :: string
  st_AssignedIDs :: "int list"
  st_RuleSetRefs :: "RuleSetRef list"

record SecRule =
  sr_Meta :: ObjectMeta
  sr_Spec :: SecRuleSpec
  sr_Status :: SecRuleStatus

text \<open>\<open>AddRuleSetRef\<close>, shared by \<open>SecRule\<close> and \<open>SecAction\<close>: the list of references with the new
  one appended, and whether it changed. The referenced object is its kind, name and namespace.\<close>

definition AddRuleSetRef :: "string \<Rightarrow> string \<Rightarrow> string \<Rightarrow> RuleSetRef list \<Rightarrow> bool \<times> RuleSetRef list" where
  "AddRuleSetRef kind name ns refs =
     (if list_ex (\<lambda>r. rsr_Name r = name \<and> rsr_Namespace r = ns \<and> rsr_Kind r = kind) refs
      then (False, refs)
      else (True, refs @ [\<lparr> rsr_Name = name, rsr_Namespace = ns, rsr_Kind = kind,
                            rsr_Group = [], rsr_Version = [] \<rparr>]))"

definition GetSecLangRule :: "SecRule \<Rightarrow> string" where
  "GetSecLangRule sr = st_SecRuleString (sr_Status sr)"

section \<open>SecAction\<close>

record SecActionSpec = SecRuleActions +
  sa_Metadata :: "SecRuleMetadata option"
  sa_Transformations :: "Transformation list"

record SecActionStatus =
  sas_SecRuleString :: string
  sas_RuleSetRefs :: "RuleSetRef list"

record SecAction =
  sa_Meta :: ObjectMeta
  sa_Spec :: SecActionSpec
  sa_Status :: SecActionStatus

section \<open>Labels and constants\<close>

definition LabelID :: string where "LabelID = ''seclang.kubewaf.io/id''"
definition LabelPhase :: string where "LabelPhase = ''seclang.kubewaf.io/phase''"
definition LabelIDSource :: string where "LabelIDSource = ''seclang.kubewaf.io/id-source''"
definition LabelOrder :: string where "LabelOrder = ''seclang.kubewaf.io/order''"
definition LabelTagPrefix :: string where "LabelTagPrefix = ''seclang.kubewaf.io/tag.''"
definition AnnotationAssignedID :: string where
  "AnnotationAssignedID = ''seclang.kubewaf.io/assigned-id''"
definition IDSourceSpec :: string where "IDSourceSpec = ''Spec''"
definition IDSourceAuto :: string where "IDSourceAuto = ''Auto''"
definition IDSourceMixed :: string where "IDSourceMixed = ''Mixed''"
definition DefaultIDPoolName :: string where "DefaultIDPoolName = ''cluster''"
definition DefaultIDPoolMin :: int where "DefaultIDPoolMin = 100000"
definition DefaultIDPoolMax :: int where "DefaultIDPoolMax = 999999"

section \<open>Reference lists stay duplicate free\<close>

definition ref_key :: "RuleSetRef \<Rightarrow> string \<times> string \<times> string" where
  "ref_key r = (rsr_Kind r, rsr_Name r, rsr_Namespace r)"

lemma AddRuleSetRef_distinct:
  "distinct (map ref_key refs) \<Longrightarrow> distinct (map ref_key (snd (AddRuleSetRef kind name ns refs)))"
  by (auto simp: AddRuleSetRef_def ref_key_def list_ex_iff)

lemma AddRuleSetRef_mem:
  "(kind, name, ns) \<in> set (map ref_key (snd (AddRuleSetRef kind name ns refs)))"
  by (force simp: AddRuleSetRef_def ref_key_def list_ex_iff)

end
