(* ===== verification/IdPool.thy ===== *)
theory IdPool
  imports SecLangTypes
begin

text \<open>
  Allocation of cluster-unique rule ids, \<open>internal/controller/seclang/id_pool.go\<close>, with
  the pool resource of \<open>api/seclang/v1beta1/secrule_id_pool_types.go\<close>.

  The API server is a parameter: a \<open>pool_client\<close> gives the three calls the code makes, each
  a function of an abstract cluster state \<open>'w\<close>. A successful call returns the object as the
  server stored it, which the Go client writes back into its argument.
\<close>

section \<open>The pool resource\<close>

record SecRuleIDPool =
  pool_Name :: string
  pool_Labels :: "(string \<times> string) list"
  pool_MinID :: int
  pool_MaxID :: int
  pool_NextID :: int
  pool_LastAllocatedID :: int
  pool_AllocatedCount :: int

definition EffectiveMin :: "SecRuleIDPool \<Rightarrow> int" where
  "EffectiveMin p = (if pool_MinID p \<le> 0 then DefaultIDPoolMin else pool_MinID p)"

definition EffectiveMax :: "SecRuleIDPool \<Rightarrow> int" where
  "EffectiveMax p = (if pool_MaxID p \<le> 0 then DefaultIDPoolMax else pool_MaxID p)"

section \<open>The API calls\<close>

record 'w pool_client =
  cl_Get :: "'w \<Rightarrow> SecRuleIDPool api_result \<times> 'w"
  cl_Create :: "SecRuleIDPool \<Rightarrow> 'w \<Rightarrow> SecRuleIDPool api_result \<times> 'w"
  cl_StatusUpdate :: "SecRuleIDPool \<Rightarrow> 'w \<Rightarrow> SecRuleIDPool api_result \<times> 'w"

datatype pool_error =
    PoolApi "SecRuleIDPool api_result"
  | PoolBadRange string
  | PoolExhausted string int int
  | PoolTooManyConflicts

definition newClusterIDPool :: SecRuleIDPool where
  "newClusterIDPool =
     \<lparr> pool_Name = DefaultIDPoolName,
       pool_Labels = [(''app.kubernetes.io/managed-by'', ''kubewaf''),
                      (''app.kubernetes.io/name'', ''secrule-id-pool'')],
       pool_MinID = DefaultIDPoolMin, pool_MaxID = DefaultIDPoolMax,
       pool_NextID = 0, pool_LastAllocatedID = 0, pool_AllocatedCount = 0 \<rparr>"

definition ensureClusterIDPool ::
  "'w pool_client \<Rightarrow> 'w \<Rightarrow> (pool_error + SecRuleIDPool) \<times> 'w" where
  "ensureClusterIDPool c w =
     (case cl_Get c w of
        (ApiOk p, w1) \<Rightarrow> (Inr p, w1)
      | (ApiNotFound, w1) \<Rightarrow>
          (case cl_Create c newClusterIDPool w1 of
             (ApiOk p, w2) \<Rightarrow>
               (let p1 = p\<lparr> pool_NextID := EffectiveMin p \<rparr> in
                case cl_StatusUpdate c p1 w2 of
                  (ApiOk p2, w3) \<Rightarrow> (Inr p2, w3)
                | (_, w3) \<Rightarrow> (Inr p1, w3))
           | (ApiAlreadyExists, w2) \<Rightarrow>
               (case cl_Get c w2 of
                  (ApiOk p, w3) \<Rightarrow> (Inr p, w3)
                | (e, w3) \<Rightarrow> (Inl (PoolApi e), w3))
           | (e, w2) \<Rightarrow> (Inl (PoolApi e), w2))
      | (e, w1) \<Rightarrow> (Inl (PoolApi e), w1))"

section \<open>Finding a free id\<close>

function findFree :: "int \<Rightarrow> int \<Rightarrow> int set \<Rightarrow> int option" where
  "findFree from to used =
     (if to < from then None
      else if from \<notin> used then Some from
      else findFree (from + 1) to used)"
  by pat_completeness auto
termination
  by (relation "measure (\<lambda>(from, to, used). nat (to - from + 1))") auto

declare findFree.simps [simp del]

text \<open>The decision of one attempt of \<open>allocateOne\<close>: the granted id and the advanced pool.\<close>

definition pickID :: "SecRuleIDPool \<Rightarrow> int set \<Rightarrow> pool_error + (int \<times> SecRuleIDPool)" where
  "pickID pool used =
     (let minID = EffectiveMin pool; maxID = EffectiveMax pool in
      if maxID < minID then Inl (PoolBadRange (pool_Name pool))
      else
        let nxt = (if pool_NextID pool < minID then minID else pool_NextID pool);
            found = (case findFree nxt maxID used of
                       Some rid \<Rightarrow> Some rid | None \<Rightarrow> findFree minID (nxt - 1) used)
        in case found of
             None \<Rightarrow> Inl (PoolExhausted (pool_Name pool) minID maxID)
           | Some rid \<Rightarrow>
               Inr (rid, pool\<lparr> pool_NextID := (if rid + 1 > maxID then minID else rid + 1),
                              pool_LastAllocatedID := rid,
                              pool_AllocatedCount := pool_AllocatedCount pool + 1 \<rparr>))"

fun allocate_attempts ::
  "nat \<Rightarrow> 'w pool_client \<Rightarrow> int set \<Rightarrow> 'w \<Rightarrow> (pool_error + int) \<times> 'w" where
  "allocate_attempts 0 c used w = (Inl PoolTooManyConflicts, w)"
| "allocate_attempts (Suc n) c used w =
     (case ensureClusterIDPool c w of
        (Inl e, w1) \<Rightarrow> (Inl e, w1)
      | (Inr pool, w1) \<Rightarrow>
          (case pickID pool used of
             Inl e \<Rightarrow> (Inl e, w1)
           | Inr (rid, pool') \<Rightarrow>
               (case cl_StatusUpdate c pool' w1 of
                  (ApiOk _, w2) \<Rightarrow> (Inr rid, w2)
                | (ApiConflict, w2) \<Rightarrow> allocate_attempts n c used w2
                | (e, w2) \<Rightarrow> (Inl (PoolApi e), w2))))"

definition maxAttempts :: nat where "maxAttempts = 32"

definition allocateOne :: "'w pool_client \<Rightarrow> int set \<Rightarrow> 'w \<Rightarrow> (pool_error + int) \<times> 'w" where
  "allocateOne c used w = allocate_attempts maxAttempts c used w"

section \<open>Claims of the rules\<close>

text \<open>The id of an optional metadata block; 0 when absent.\<close>

definition metaID :: "SecRuleMetadata option \<Rightarrow> int" where
  "metaID m = (case m of None \<Rightarrow> 0 | Some md \<Rightarrow> md_Id md)"

definition annotationID :: "SecRule \<Rightarrow> int option" where
  "annotationID sr =
     (let ann = map_get (om_Annotations (sr_Meta sr)) AnnotationAssignedID in
      if ann = [] then None else atoi ann)"

definition pos_set :: "int list \<Rightarrow> int set" where
  "pos_set ids = set (filter (\<lambda>i. i > 0) ids)"

definition claimedIDs :: "SecRule \<Rightarrow> int set" where
  "claimedIDs sr =
     pos_set (st_AssignedIDs (sr_Status sr)) \<union> pos_set [st_RuleID (sr_Status sr)] \<union>
     pos_set [metaID (spec_Metadata (sr_Spec sr))] \<union>
     pos_set (map (\<lambda>r. metaID (slr_Metadata r)) (spec_SecRules (sr_Spec sr))) \<union>
     (case annotationID sr of None \<Rightarrow> {} | Some i \<Rightarrow> pos_set [i])"

text \<open>\<open>collectUsedIDs\<close> on the listed rules (the \<open>List\<close> call itself is the API's).\<close>

definition collectUsedIDs :: "SecRule list \<Rightarrow> int set" where
  "collectUsedIDs items = \<Union> (set (map claimedIDs items))"

definition freeSelfClaims :: "SecRule \<Rightarrow> int set \<Rightarrow> int set" where
  "freeSelfClaims sr used =
     (let u1 = used - set (st_AssignedIDs (sr_Status sr));
          u2 = (if st_RuleID (sr_Status sr) > 0 then u1 - {st_RuleID (sr_Status sr)} else u1)
      in case annotationID sr of None \<Rightarrow> u2 | Some i \<Rightarrow> u2 - {i})"

section \<open>Allocation for one resource\<close>

text \<open>\<open>resolveOneID\<close> threads the set of used ids, which the Go code mutates in place.\<close>

definition resolveOneID ::
  "'w pool_client \<Rightarrow> SecRule \<Rightarrow> int \<Rightarrow> nat \<Rightarrow> int set \<Rightarrow> 'w \<Rightarrow>
   (pool_error + (int \<times> string \<times> int set)) \<times> 'w" where
  "resolveOneID c sr meta index used w =
     (let ids = st_AssignedIDs (sr_Status sr) in
      if meta > 0 then (Inr (meta, IDSourceSpec, insert meta used), w)
      else if index < length ids \<and> ids ! index > 0
      then (Inr (ids ! index, IDSourceAuto, insert (ids ! index) used), w)
      else
        case (if index = 0 then annotationID sr else None) of
          Some parsed \<Rightarrow>
            if parsed > 0 then (Inr (parsed, IDSourceAuto, insert parsed used), w)
            else (case allocateOne c used w of
                    (Inl e, w1) \<Rightarrow> (Inl e, w1)
                  | (Inr rid, w1) \<Rightarrow> (Inr (rid, IDSourceAuto, insert rid used), w1))
        | None \<Rightarrow>
            (case allocateOne c used w of
               (Inl e, w1) \<Rightarrow> (Inl e, w1)
             | (Inr rid, w1) \<Rightarrow> (Inr (rid, IDSourceAuto, insert rid used), w1)))"

fun allocate_bag ::
  "'w pool_client \<Rightarrow> SecRule \<Rightarrow> nat \<Rightarrow> SecLangSecRule list \<Rightarrow> int set \<Rightarrow> 'w \<Rightarrow>
   (pool_error + ((int \<times> string) list \<times> int set)) \<times> 'w" where
  "allocate_bag c sr index [] used w = (Inr ([], used), w)"
| "allocate_bag c sr index (r # rs) used w =
     (case resolveOneID c sr (metaID (slr_Metadata r)) index used w of
        (Inl e, w1) \<Rightarrow> (Inl e, w1)
      | (Inr (rid, src, used1), w1) \<Rightarrow>
          (case allocate_bag c sr (Suc index) rs used1 w1 of
             (Inl e, w2) \<Rightarrow> (Inl e, w2)
           | (Inr (ids, used2), w2) \<Rightarrow> (Inr ((rid, src) # ids, used2), w2)))"

definition bagSource :: "string list \<Rightarrow> string" where
  "bagSource srcs =
     (let spec = length (filter (\<lambda>s. s = IDSourceSpec) srcs);
          auto = length (filter (\<lambda>s. s \<noteq> IDSourceSpec) srcs)
      in if auto > 0 \<and> spec > 0 then IDSourceMixed
         else if auto > 0 then IDSourceAuto else IDSourceSpec)"

record allocation =
  al_Assigned :: "int list"
  al_Primary :: int
  al_Source :: string
  al_Used :: "int set"

definition allocateIDs ::
  "'w pool_client \<Rightarrow> SecRule \<Rightarrow> int set \<Rightarrow> 'w \<Rightarrow> (pool_error + allocation) \<times> 'w" where
  "allocateIDs c sr used0 w =
     (let used = freeSelfClaims sr used0; spec = sr_Spec sr in
      if IsSingleRuleForm spec then
        (case resolveOneID c sr (metaID (spec_Metadata spec)) 0 used w of
           (Inl e, w1) \<Rightarrow> (Inl e, w1)
         | (Inr (rid, src, used1), w1) \<Rightarrow>
             (Inr \<lparr> al_Assigned = [rid], al_Primary = rid, al_Source = src, al_Used = used1 \<rparr>, w1))
      else if spec_SecRules spec = []
      then (Inr \<lparr> al_Assigned = [], al_Primary = 0, al_Source = [], al_Used = used \<rparr>, w)
      else
        (case allocate_bag c sr 0 (spec_SecRules spec) used w of
           (Inl e, w1) \<Rightarrow> (Inl e, w1)
         | (Inr (ids, used1), w1) \<Rightarrow>
             (Inr \<lparr> al_Assigned = map fst ids, al_Primary = hd (map fst ids),
                    al_Source = bagSource (map snd ids), al_Used = used1 \<rparr>, w1)))"

end
