(* ===== verification/IdPoolThms.thy ===== *)
theory IdPoolThms
  imports IdPool
begin

text \<open>
  Correctness of rule id allocation: the search, the optimistic-concurrency loop, freshness and
  stability of the ids of one resource, and two inputs on which a granted id is wrong.
\<close>

section \<open>A concrete cluster for the examples\<close>

text \<open>A stored pool and a number of updates that will conflict before one succeeds.\<close>

definition demo_client :: "(SecRuleIDPool \<times> nat) pool_client" where
  "demo_client =
     \<lparr> cl_Get = (\<lambda>(p, k). (ApiOk p, (p, k))), cl_Create = (\<lambda>p w. (ApiAlreadyExists, w)),
       cl_StatusUpdate = (\<lambda>p (q, k). if 0 < k then (ApiConflict, (q, k - 1)) else (ApiOk p, (p, 0))) \<rparr>"

definition demo_pool :: "int \<Rightarrow> int \<Rightarrow> int \<Rightarrow> SecRuleIDPool" where
  "demo_pool lo hi nxt =
     \<lparr> pool_Name = DefaultIDPoolName, pool_Labels = [], pool_MinID = lo, pool_MaxID = hi,
       pool_NextID = nxt, pool_LastAllocatedID = 0, pool_AllocatedCount = 0 \<rparr>"

definition demo_meta :: "int \<Rightarrow> SecRuleMetadata option" where
  "demo_meta i = (if i = 0 then None else
     Some \<lparr> md_Comment = [], md_Phase = ''2'', md_Id = i, md_Msg = [], md_Maturity = [], md_Rev = [],
            md_Severity = [], md_Tags = [], md_Ver = [] \<rparr>)"

definition demo_rule :: "string \<Rightarrow> int list \<Rightarrow> int list \<Rightarrow> SecRule" where
  "demo_rule name metas assigned =
     \<lparr> sr_Meta = \<lparr> om_Name = name, om_Namespace = ''ns'', om_Labels = Map.empty, om_Annotations = Map.empty \<rparr>,
       sr_Spec = \<lparr> spec_Order = 0, spec_MarkerAfter = [], spec_Metadata = None, spec_Match = [],
                   spec_Actions = None,
                   spec_SecRules = map (\<lambda>i. \<lparr> slr_Metadata = demo_meta i, slr_Conditions = [],
                     slr_Actions = None, slr_ChainedRule = False, slr_SecMarker = [] \<rparr>) metas \<rparr>,
       sr_Status = \<lparr> st_SecRuleString = [], st_RuleID = 0, st_IDSource = [], st_AssignedIDs = assigned,
                     st_RuleSetRefs = [] \<rparr> \<rparr>"

section \<open>Search\<close>

lemma interval_step:
  fixes lo :: int
  assumes "lo \<in> used"
  shows "{lo..<r} \<subseteq> used \<longleftrightarrow> {lo + 1..<r} \<subseteq> used"
proof -
  have "{lo + 1..<r} \<subseteq> {lo..<r}" "{lo..<r} \<subseteq> insert lo {lo + 1..<r}" by auto
  with assms show ?thesis by blast
qed

lemma findFree_Some_iff:
  "findFree lo hi used = Some r \<longleftrightarrow> lo \<le> r \<and> r \<le> hi \<and> r \<notin> used \<and> {lo..<r} \<subseteq> used"
proof (induction lo hi used rule: findFree.induct)
  case (1 lo hi used)
  show ?case
  proof (cases "hi < lo \<or> lo \<notin> used")
    case True
    then show ?thesis by (force simp: findFree.simps [of lo] subset_iff)
  next
    case False
    then have "{lo..<r} \<subseteq> used \<longleftrightarrow> {lo + 1..<r} \<subseteq> used"
      using interval_step by blast
    moreover have "lo \<noteq> r" if "r \<notin> used" using that False by auto
    ultimately show ?thesis using 1 False by (auto simp: findFree.simps [of lo])
  qed
qed

lemma findFree_None_iff: "findFree lo hi used = None \<longleftrightarrow> {lo..hi} \<subseteq> used"
proof (induction lo hi used rule: findFree.induct)
  case (1 lo hi used)
  show ?case
  proof (cases "hi < lo \<or> lo \<notin> used")
    case True
    then show ?thesis by (force simp: findFree.simps [of lo] subset_iff)
  next
    case False
    then have "{lo..hi} \<subseteq> used \<longleftrightarrow> {lo + 1..hi} \<subseteq> used"
      using interval_step [of lo used "hi + 1"] by (simp add: atLeastLessThanPlusOne_atLeastAtMost_int)
    with 1 False show ?thesis by (simp add: findFree.simps [of lo])
  qed
qed

definition cursor :: "SecRuleIDPool \<Rightarrow> int" where
  "cursor p = (if pool_NextID p < EffectiveMin p then EffectiveMin p else pool_NextID p)"

text \<open>A pool whose cursor has not run past its range.\<close>

definition pool_ok :: "SecRuleIDPool \<Rightarrow> bool" where
  "pool_ok p \<longleftrightarrow> EffectiveMin p \<le> EffectiveMax p \<and> cursor p \<le> EffectiveMax p + 1"

lemma pickID_Inr:
  assumes "pickID p used = Inr (r, p')"
  shows "EffectiveMin p \<le> EffectiveMax p" and "r \<notin> used" and "EffectiveMin p \<le> r"
    and "r \<le> max (EffectiveMax p) (cursor p - 1)"
    and "p' = p\<lparr> pool_NextID := (if r + 1 > EffectiveMax p then EffectiveMin p else r + 1),
                  pool_LastAllocatedID := r, pool_AllocatedCount := pool_AllocatedCount p + 1 \<rparr>"
  using assms
  by (auto simp: pickID_def cursor_def Let_def findFree_Some_iff split: if_splits option.splits)

lemma pickID_Inl_iff:
  "(\<exists>e. pickID p used = Inl e) \<longleftrightarrow>
     EffectiveMax p < EffectiveMin p \<or> {EffectiveMin p .. max (EffectiveMax p) (cursor p - 1)} \<subseteq> used"
proof (cases "EffectiveMax p < EffectiveMin p")
  case True
  then show ?thesis by (simp add: pickID_def)
next
  case False
  have "{EffectiveMin p .. max (EffectiveMax p) (cursor p - 1)} =
      {cursor p .. EffectiveMax p} \<union> {EffectiveMin p .. cursor p - 1}"
    using False by (auto simp: cursor_def)
  with False show ?thesis
    by (auto simp: pickID_def cursor_def [symmetric] Let_def findFree_None_iff [symmetric] split: option.splits)
qed



section \<open>The allocation loop\<close>

lemma allocate_attempts_fresh:
  "allocate_attempts n c used w = (Inr r, w') \<Longrightarrow> r \<notin> used \<and> 0 < r"
proof (induction n c used w rule: allocate_attempts.induct)
  case (2 n c used w)
  obtain e w1 where e: "ensureClusterIDPool c w = (e, w1)" by fastforce
  with "2.prems" obtain p where p: "e = Inr p" by (cases e) auto
  obtain x where x: "pickID p used = x" by blast
  with e p "2.prems" obtain r' p' where x': "x = Inr (r', p')" by (cases x) auto
  obtain u w2 where u: "cl_StatusUpdate c p' w1 = (u, w2)" by fastforce
  have "0 < EffectiveMin p" by (simp add: EffectiveMin_def DefaultIDPoolMin_def)
  with pickID_Inr [OF x [unfolded x']] have fresh: "r' \<notin> used \<and> 0 < r'" by auto
  show ?case
  proof (cases u)
    case (ApiOk q)
    with "2.prems" e p x x' u fresh show ?thesis by simp
  next
    case ApiConflict
    have "allocate_attempts n c used w2 = (Inr r, w')"
      using "2.prems" e p x x' u ApiConflict by simp
    with "2.IH" [OF e [symmetric] p x' [folded x] refl u [symmetric] ApiConflict] show ?thesis by simp
  qed (use "2.prems" e p x x' u in simp_all)
qed simp

text \<open>
  \<open>conflicts c used k w\<close>: from cluster state \<open>w\<close> the server answers reads, and the
  status updates of the next \<open>k\<close> attempts conflict before one succeeds.
\<close>

inductive conflicts :: "'w pool_client \<Rightarrow> int set \<Rightarrow> nat \<Rightarrow> 'w \<Rightarrow> bool" for c used where
  granted: "cl_Get c w = (ApiOk p, w1) \<Longrightarrow> pickID p used = Inr (r, p') \<Longrightarrow>
    cl_StatusUpdate c p' w1 = (ApiOk q, w2) \<Longrightarrow> conflicts c used 0 w"
| conflict: "cl_Get c w = (ApiOk p, w1) \<Longrightarrow> pickID p used = Inr (r, p') \<Longrightarrow>
    cl_StatusUpdate c p' w1 = (ApiConflict, w2) \<Longrightarrow> conflicts c used k w2 \<Longrightarrow> conflicts c used (Suc k) w"

lemma allocate_attempts_conflicts:
  assumes "conflicts c used k w"
  shows "(k < n \<longrightarrow> (\<exists>r w'. allocate_attempts n c used w = (Inr r, w'))) \<and>
    (n \<le> k \<longrightarrow> (\<exists>w'. allocate_attempts n c used w = (Inl PoolTooManyConflicts, w')))"
  using assms
proof (induction arbitrary: n rule: conflicts.induct)
  case (granted w p w1 r p' q w2)
  then show ?case by (cases n) (simp_all add: ensureClusterIDPool_def)
next
  case (conflict w p w1 r p' w2 k)
  show ?case
  proof (cases n)
    case (Suc m)
    from conflict(1-3) Suc
    have "allocate_attempts n c used w = allocate_attempts m c used w2"
      by (simp add: ensureClusterIDPool_def)
    with conflict.IH [of m] Suc show ?thesis by simp
  qed simp
qed


lemma demo_conflicts:
  assumes "pickID p used = Inr (r, p')"
  shows "conflicts demo_client used k (p, k)"
proof (induction k)
  case 0
  have "cl_Get demo_client (p, 0) = (ApiOk p, (p, 0))"
    "cl_StatusUpdate demo_client p' (p, 0) = (ApiOk p', (p', 0))" by (simp_all add: demo_client_def)
  from granted [OF this(1) assms this(2)] show ?case .
next
  case (Suc k)
  have "cl_Get demo_client (p, Suc k) = (ApiOk p, (p, Suc k))"
    "cl_StatusUpdate demo_client p' (p, Suc k) = (ApiConflict, (p, k))" by (simp_all add: demo_client_def)
  from conflict [OF this(1) assms this(2) Suc] show ?case .
qed


section \<open>Allocation for one resource\<close>

lemma allocateOne_fresh: "allocateOne c used w = (Inr r, w') \<Longrightarrow> r \<notin> used \<and> 0 < r"
  unfolding allocateOne_def by (rule allocate_attempts_fresh)

text \<open>An index without an id of its own: neither in the spec, nor sticky in status or annotation.\<close>

definition unassigned :: "SecRule \<Rightarrow> int \<Rightarrow> nat \<Rightarrow> bool" where
  "unassigned sr meta i \<longleftrightarrow>
     \<not> 0 < meta \<and> \<not> (i < length (st_AssignedIDs (sr_Status sr)) \<and> 0 < st_AssignedIDs (sr_Status sr) ! i) \<and>
     \<not> (i = 0 \<and> (case annotationID sr of Some a \<Rightarrow> 0 < a | None \<Rightarrow> False))"

lemma resolveOneID_Inr:
  assumes "resolveOneID c sr meta i used w = (Inr (r, src, used'), w')"
  shows "0 < r" and "used' = insert r used" and "unassigned sr meta i \<Longrightarrow> r \<notin> used"
    and "0 < meta \<Longrightarrow> r = meta \<and> src = IDSourceSpec" and "\<not> 0 < meta \<Longrightarrow> src = IDSourceAuto"
    and "\<not> unassigned sr meta i \<Longrightarrow> w' = w"
  using assms allocateOne_fresh [of c used w]
  by (auto simp: resolveOneID_def unassigned_def Let_def split: if_splits option.splits sum.splits prod.splits)

lemma allocate_bag_Inr:
  assumes "allocate_bag c sr k rs used w = (Inr (ids, used'), w')"
  shows "length ids = length rs \<and> used' = used \<union> set (map fst ids) \<and> (\<forall>r \<in> set (map fst ids). 0 < r) \<and>
    (\<forall>i < length rs. 0 < metaID (slr_Metadata (rs ! i)) \<longrightarrow> fst (ids ! i) = metaID (slr_Metadata (rs ! i))) \<and>
    (\<forall>i < length rs. unassigned sr (metaID (slr_Metadata (rs ! i))) (k + i) \<longrightarrow>
      fst (ids ! i) \<notin> used \<and> (\<forall>j < i. fst (ids ! j) \<noteq> fst (ids ! i)))"
  using assms
proof (induction c sr k rs used w arbitrary: ids used' w' rule: allocate_bag.induct)
  case (2 c sr k r rs used w)
  obtain x w1 where x: "resolveOneID c sr (metaID (slr_Metadata r)) k used w = (x, w1)" by fastforce
  with "2.prems" obtain i src u1 where x': "x = Inr (i, src, u1)" by (cases x) auto
  obtain y w2 where y: "allocate_bag c sr (Suc k) rs u1 w1 = (y, w2)" by fastforce
  with "2.prems" x x' obtain ids' u2 where y': "y = Inr (ids', u2)" by (cases y) auto
  from "2.prems" x x' y y' have ids: "ids = (i, src) # ids'" "used' = u2" by auto
  note res = resolveOneID_Inr [OF x [unfolded x']]
  note IH = "2.IH" [OF x [symmetric] x' refl refl y [unfolded y']]
  have "fst (ids ! m) \<notin> used \<and> (\<forall>j < m. fst (ids ! j) \<noteq> fst (ids ! m))"
    if m: "m < length (r # rs)" "unassigned sr (metaID (slr_Metadata ((r # rs) ! m))) (k + m)" for m
  proof (cases m)
    case 0
    with m ids res show ?thesis by simp
  next
    case (Suc n)
    with m have "n < length rs" "unassigned sr (metaID (slr_Metadata (rs ! n))) (Suc k + n)" by simp_all
    with IH have n: "fst (ids' ! n) \<notin> u1" "\<forall>j < n. fst (ids' ! j) \<noteq> fst (ids' ! n)" by auto
    have "fst (ids ! j) \<noteq> fst (ids ! m)" if "j < m" for j
      using that n res(2) Suc ids by (cases j) auto
    with n res(2) Suc ids show ?thesis by auto
  qed
  moreover have "fst (ids ! m) = metaID (slr_Metadata ((r # rs) ! m))"
    if "m < length (r # rs)" "0 < metaID (slr_Metadata ((r # rs) ! m))" for m
    using that IH res ids by (cases m) auto
  ultimately show ?case using IH res ids by auto
qed auto

text \<open>The spec ids of the rules of a resource: one in the single-rule form, else one per bag entry.\<close>

definition rule_metas :: "SecRule \<Rightarrow> int list" where
  "rule_metas sr =
     (if IsSingleRuleForm (sr_Spec sr) then [metaID (spec_Metadata (sr_Spec sr))]
      else map (\<lambda>r. metaID (slr_Metadata r)) (spec_SecRules (sr_Spec sr)))"

lemma allocateIDs_slots:
  assumes "allocateIDs c sr used w = (Inr al, w')"
  shows "length (al_Assigned al) = length (rule_metas sr)"
    and "\<And>r. r \<in> set (al_Assigned al) \<Longrightarrow> 0 < r"
    and "\<And>i. i < length (rule_metas sr) \<Longrightarrow> 0 < rule_metas sr ! i \<Longrightarrow> al_Assigned al ! i = rule_metas sr ! i"
    and "\<And>i. i < length (rule_metas sr) \<Longrightarrow> unassigned sr (rule_metas sr ! i) i \<Longrightarrow>
      al_Assigned al ! i \<notin> freeSelfClaims sr used \<and> (\<forall>j < i. al_Assigned al ! j \<noteq> al_Assigned al ! i)"
    and "al_Used al = freeSelfClaims sr used \<union> set (al_Assigned al)"
proof -
  let ?u = "freeSelfClaims sr used" and ?s = "sr_Spec sr"
  consider (single) "IsSingleRuleForm ?s" | (empty) "\<not> IsSingleRuleForm ?s" "spec_SecRules ?s = []"
    | (bag) "\<not> IsSingleRuleForm ?s" "spec_SecRules ?s \<noteq> []" by blast
  then have "length (al_Assigned al) = length (rule_metas sr) \<and> (\<forall>r \<in> set (al_Assigned al). 0 < r) \<and>
    (\<forall>i < length (rule_metas sr). 0 < rule_metas sr ! i \<longrightarrow> al_Assigned al ! i = rule_metas sr ! i) \<and>
    (\<forall>i < length (rule_metas sr). unassigned sr (rule_metas sr ! i) i \<longrightarrow>
      al_Assigned al ! i \<notin> ?u \<and> (\<forall>j < i. al_Assigned al ! j \<noteq> al_Assigned al ! i)) \<and>
    al_Used al = ?u \<union> set (al_Assigned al)"
  proof cases
    case single
    obtain x w1 where x: "resolveOneID c sr (metaID (spec_Metadata ?s)) 0 ?u w = (x, w1)" by fastforce
    with assms single obtain i src u1 where x': "x = Inr (i, src, u1)"
      by (cases x) (auto simp: allocateIDs_def Let_def)
    have "al = \<lparr> al_Assigned = [i], al_Primary = i, al_Source = src, al_Used = u1 \<rparr>"
      using assms single x x' by (auto simp: allocateIDs_def Let_def)
    with resolveOneID_Inr [OF x [unfolded x']] single show ?thesis by (auto simp: rule_metas_def)
  next
    case empty
    with assms show ?thesis by (auto simp: allocateIDs_def rule_metas_def Let_def)
  next
    case bag
    obtain x w1 where x: "allocate_bag c sr 0 (spec_SecRules ?s) ?u w = (x, w1)" by fastforce
    with assms bag obtain ids u1 where x': "x = Inr (ids, u1)"
      by (cases x) (auto simp: allocateIDs_def Let_def)
    have "al_Assigned al = map fst ids" "al_Used al = u1"
      using assms bag x x' by (auto simp: allocateIDs_def Let_def)
    with allocate_bag_Inr [OF x [unfolded x']] bag show ?thesis by (auto simp: rule_metas_def)
  qed
  then show "length (al_Assigned al) = length (rule_metas sr)"
    and "\<And>r. r \<in> set (al_Assigned al) \<Longrightarrow> 0 < r"
    and "\<And>i. i < length (rule_metas sr) \<Longrightarrow> 0 < rule_metas sr ! i \<Longrightarrow> al_Assigned al ! i = rule_metas sr ! i"
    and "\<And>i. i < length (rule_metas sr) \<Longrightarrow> unassigned sr (rule_metas sr ! i) i \<Longrightarrow>
      al_Assigned al ! i \<notin> ?u \<and> (\<forall>j < i. al_Assigned al ! j \<noteq> al_Assigned al ! i)"
    and "al_Used al = ?u \<union> set (al_Assigned al)"
    by blast+
qed

definition selfClaims :: "SecRule \<Rightarrow> int set" where
  "selfClaims sr = set (st_AssignedIDs (sr_Status sr)) \<union> {st_RuleID (sr_Status sr)} \<union>
     (case annotationID sr of None \<Rightarrow> {} | Some i \<Rightarrow> {i})"

lemma freeSelfClaims_keeps: "used - selfClaims sr \<subseteq> freeSelfClaims sr used"
  by (auto simp: freeSelfClaims_def selfClaims_def Let_def split: option.splits)


definition demo_al :: allocation where
  "demo_al = \<lparr> al_Assigned = [7, 102], al_Primary = 7, al_Source = IDSourceMixed, al_Used = {7, 101, 102} \<rparr>"

lemma demo_allocate:
  "allocateIDs demo_client (demo_rule ''a'' [7, 0] []) (collectUsedIDs [demo_rule ''b'' [0] [101]])
     (demo_pool 100 102 101, 0) =
   (Inr demo_al, ((demo_pool 100 102 100)\<lparr> pool_LastAllocatedID := 102, pool_AllocatedCount := 1 \<rparr>, 0))"
  by code_simp


section \<open>Stability\<close>

definition with_assigned :: "int list \<Rightarrow> SecRule \<Rightarrow> SecRule" where
  "with_assigned ids sr = sr\<lparr> sr_Status := (sr_Status sr)\<lparr> st_AssignedIDs := ids \<rparr> \<rparr>"

lemma with_assigned_simps [simp]:
  "sr_Spec (with_assigned ids sr) = sr_Spec sr" "rule_metas (with_assigned ids sr) = rule_metas sr"
  "st_AssignedIDs (sr_Status (with_assigned ids sr)) = ids"
  by (simp_all add: with_assigned_def rule_metas_def)

lemma resolveOneID_sticky:
  assumes "i < length (st_AssignedIDs (sr_Status sr))" "0 < st_AssignedIDs (sr_Status sr) ! i"
    and "0 < meta \<Longrightarrow> st_AssignedIDs (sr_Status sr) ! i = meta"
  shows "\<exists>src. resolveOneID c sr meta i used w =
    (Inr (st_AssignedIDs (sr_Status sr) ! i, src, insert (st_AssignedIDs (sr_Status sr) ! i) used), w)"
  using assms by (cases "0 < meta") (auto simp: resolveOneID_def Let_def)

lemma allocate_bag_sticky:
  assumes "\<And>i. i < length rs \<Longrightarrow> k + i < length (st_AssignedIDs (sr_Status sr)) \<and>
      0 < st_AssignedIDs (sr_Status sr) ! (k + i) \<and>
      (0 < metaID (slr_Metadata (rs ! i)) \<longrightarrow> st_AssignedIDs (sr_Status sr) ! (k + i) = metaID (slr_Metadata (rs ! i)))"
  shows "\<exists>ids used'. allocate_bag c sr k rs used w = (Inr (ids, used'), w) \<and>
    map fst ids = take (length rs) (drop k (st_AssignedIDs (sr_Status sr)))"
  using assms
proof (induction rs arbitrary: k used)
  case (Cons r rs)
  let ?as = "st_AssignedIDs (sr_Status sr)"
  have k: "k < length ?as" "0 < ?as ! k" "0 < metaID (slr_Metadata r) \<Longrightarrow> ?as ! k = metaID (slr_Metadata r)"
    using Cons.prems [of 0] by auto
  obtain src where r: "resolveOneID c sr (metaID (slr_Metadata r)) k used w = (Inr (?as ! k, src, insert (?as ! k) used), w)"
    using resolveOneID_sticky [OF k(1,2), of "metaID (slr_Metadata r)" c used w] k(3) by blast
  have "Suc k + i < length ?as \<and> 0 < ?as ! (Suc k + i) \<and>
      (0 < metaID (slr_Metadata (rs ! i)) \<longrightarrow> ?as ! (Suc k + i) = metaID (slr_Metadata (rs ! i)))"
    if "i < length rs" for i
    using Cons.prems [of "Suc i"] that by simp
  from Cons.IH [OF this] obtain ids used' where
    "allocate_bag c sr (Suc k) rs (insert (?as ! k) used) w = (Inr (ids, used'), w)"
    "map fst ids = take (length rs) (drop (Suc k) ?as)" by blast
  with r k(1) show ?case by (auto simp: Cons_nth_drop_Suc [symmetric])
qed simp



section \<open>Inputs outside the contract\<close>

text \<open>
  When the cursor stored in the pool lies beyond a lowered \<open>maxId\<close>, the wrap-around
  search covers the ids up to the cursor, so an id above the range is granted.
\<close>

theorem pickID_above_max:
  assumes "0 < lo" "lo \<le> hi" "hi + 1 < nxt"
  shows "\<exists>p'. pickID (demo_pool lo hi nxt) {lo..hi} = Inr (hi + 1, p')"
proof -
  have "findFree nxt hi {lo..hi} = None" using assms by (simp add: findFree_None_iff)
  moreover have "findFree lo (nxt - 1) {lo..hi} = Some (hi + 1)"
    using assms by (auto simp: findFree_Some_iff)
  ultimately show ?thesis
    using assms by (simp add: pickID_def demo_pool_def EffectiveMin_def EffectiveMax_def)
qed

theorem pickID_above_max_witness: "\<exists>p'. pickID (demo_pool 1 5 100) {1..5} = Inr (6, p')"
  using pickID_above_max [of 1 5 100] by simp

text \<open>
  An id kept from the status is not checked against the spec ids of the same resource: a bag
  whose first rule holds an assigned id and whose second rule declares the same id in its spec
  ends up with that id twice.
\<close>

theorem bag_duplicate_ids:
  assumes "0 < i"
  shows "\<exists>al. allocateIDs c (demo_rule name [0, i] [i]) used w = (Inr al, w) \<and> al_Assigned al = [i, i]"
  using assms
  by (simp add: allocateIDs_def demo_rule_def IsSingleRuleForm_def resolveOneID_def metaID_def demo_meta_def)

theorem bag_duplicate_ids_witness:
  "\<exists>al. allocateIDs demo_client (demo_rule ''a'' [0, 100000] [100000]) {} (demo_pool 1 1 1, 0) =
     (Inr al, (demo_pool 1 1 1, 0)) \<and> al_Assigned al = [100000, 100000]"
  by (rule bag_duplicate_ids) simp

end
