(* ===== verification/WafTypes.thy ===== *)
theory WafTypes
  imports SecLangTypes "HOL-Library.AList"
begin

text \<open>
  The \<open>WAF\<close> resource of \<open>api/waf/v1beta1/waf_types.go\<close>, the portable configuration the
  operator derives from it (\<open>internal/dataplane/config/build.go\<close>, types) and JSON values.

  Go maps are association lists read with \<open>map_of\<close> and written with
  \<open>AList.update\<close>/\<open>AList.delete\<close>; enumerations typed by strings are strings.
\<close>

section \<open>JSON values\<close>

datatype json = JNull | JBool bool | JInt int | JStr string | JList "json list" | JObj "(string \<times> json) list"

type_synonym json_obj = "(string \<times> json) list"
type_synonym string_map = "(string \<times> string) list"

definition jput :: "string \<Rightarrow> json \<Rightarrow> json_obj \<Rightarrow> json_obj" where
  "jput k v ob = AList.update k v ob"

definition smap_get :: "string_map \<Rightarrow> string \<Rightarrow> string" where
  "smap_get m k = (case map_of m k of None \<Rightarrow> [] | Some v \<Rightarrow> v)"

lemma map_of_jput [simp]: "map_of (jput k v ob) = (map_of ob)(k \<mapsto> v)"
  by (simp add: jput_def update_conv')

section \<open>Enumerations\<close>

type_synonym ProviderType = string
type_synonym EngineType = string
type_synonym WAFMode = string
type_synonym TelemetryMode = string
type_synonym PhraseListPolicy = string

definition ProviderAuto :: ProviderType where "ProviderAuto = ''Auto''"
definition ProviderEnvoyGateway :: ProviderType where "ProviderEnvoyGateway = ''EnvoyGateway''"
definition ProviderIstio :: ProviderType where "ProviderIstio = ''Istio''"
definition ProviderCilium :: ProviderType where "ProviderCilium = ''Cilium''"
definition EngineModSecurity :: EngineType where "EngineModSecurity = ''ModSecurity''"
definition WAFModeBlocking :: WAFMode where "WAFModeBlocking = ''Blocking''"
definition WAFModeDetectionOnly :: WAFMode where "WAFModeDetectionOnly = ''DetectionOnly''"
definition TelemetryModeNone :: TelemetryMode where "TelemetryModeNone = ''None''"
definition TelemetryModeManaged :: TelemetryMode where "TelemetryModeManaged = ''Managed''"
definition PhraseListPolicyFailClosed :: PhraseListPolicy where
  "PhraseListPolicyFailClosed = ''FailClosed''"
definition PhraseListPolicyIgnoreUnknown :: PhraseListPolicy where
  "PhraseListPolicyIgnoreUnknown = ''IgnoreUnknown''"

section \<open>Specification blocks\<close>

text \<open>A Gateway API policy target reference: the fields the sources read.\<close>

record TargetRef =
  tr_Group :: string
  tr_Kind :: string
  tr_Name :: string

record PolicyTargetReferences =
  ptr_TargetRef :: "TargetRef option"
  ptr_TargetRefs :: "TargetRef list"

record IstioProvider =
  ip_WorkloadSelector :: string_map
  ip_Context :: string

record CiliumProvider =
  cp_ServiceName :: string
  cp_ServiceNamespace :: string

record WAFProvider =
  wp_Type :: ProviderType
  wp_ECDSCluster :: string
  wp_ECDSService :: string
  wp_Istio :: "IstioProvider option"
  wp_Cilium :: "CiliumProvider option"

record SecretKeyRef =
  skr_Name :: string
  skr_Key :: string

record ChallengeSpec =
  ch_Enabled :: "bool option"
  ch_Secret :: string
  ch_SecretRef :: "SecretKeyRef option"
  ch_BaseDifficulty :: "int option"
  ch_MinDifficulty :: "int option"
  ch_MaxDifficulty :: "int option"
  ch_Header :: string
  ch_HeaderValue :: string

record TargetExclusion =
  te_ID :: int
  te_RemoveTargets :: "string list"

record CRSTuning =
  crs_ParanoiaLevel :: "int option"
  crs_InboundAnomalyThreshold :: "int option"
  crs_OutboundAnomalyThreshold :: "int option"
  crs_RemoveByID :: "int list"
  crs_RemoveByTag :: "string list"
  crs_UpdateTargetByID :: "TargetExclusion list"

record WAFBlock =
  bl_Message :: string
  bl_AddBlockedHeader :: "bool option"
  bl_BlockedHeader :: string
  bl_AddRequestIDHeader :: "bool option"
  bl_RequestIDHeader :: string

record WAFMetrics =
  wm_Name :: "string option"
  wm_RootID :: "string option"
  wm_ExtraLabels :: string_map
  wm_IncludeRuleID :: "bool option"
  wm_EnableStats :: "bool option"

record WAFTelemetryTraces =
  tt_Enabled :: "bool option"
  tt_SampleRate :: string
  tt_SampleDisruptive :: string
  tt_Redact :: "bool option"
  tt_IncludeMatchData :: "bool option"

record WAFTelemetry =
  wt_Mode :: TelemetryMode
  wt_Traces :: "WAFTelemetryTraces option"

text \<open>
  \<open>RuleRef\<close> and \<open>RuleSet\<close> of \<open>ruleset_types.go\<close>. A label
  selector is the Kubernetes struct: match labels and match expressions.
\<close>

record LabelRequirement =
  lr_Key :: string
  lr_Operator :: string
  lr_Values :: "string list"

record LabelSelector =
  ls_MatchLabels :: string_map
  ls_MatchExpressions :: "LabelRequirement list"

record RuleRef =
  rr_Kind :: string
  rr_Name :: string
  rr_Namespace :: string
  rr_Version :: string
  rr_Group :: string
  rr_Selector :: "LabelSelector option"

record RuleNamespaces =
  rn_From :: "string option"
  rn_Selector :: "LabelSelector option"

record RuleSetSpec =
  rss_RuleRefs :: "RuleRef list"
  rss_AllowedRules :: RuleNamespaces
  rss_PhraseListRefs :: "string list"
  rss_IPListRefs :: "string list"

record WAFSpec =
  ws_Targets :: PolicyTargetReferences
  ws_ParentRefs :: "PolicyTargetReferences option"
  ws_Provider :: "WAFProvider option"
  ws_Challenge :: "ChallengeSpec option"
  ws_RuleSetRefs :: "RuleRef list"
  ws_CRSEnable :: bool
  ws_Mode :: WAFMode
  ws_LogLevel :: int
  ws_Metrics :: "WAFMetrics option"
  ws_Telemetry :: "WAFTelemetry option"
  ws_Block :: "WAFBlock option"
  ws_CRS :: "CRSTuning option"
  ws_PhraseListPolicy :: PhraseListPolicy

definition EffectivePolicyTargets :: "WAFSpec \<Rightarrow> PolicyTargetReferences" where
  "EffectivePolicyTargets s =
     (if ptr_TargetRef (ws_Targets s) \<noteq> None \<or> length (ptr_TargetRefs (ws_Targets s)) > 0
      then ws_Targets s
      else case ws_ParentRefs s of Some p \<Rightarrow> p | None \<Rightarrow> ws_Targets s)"

record WAF =
  waf_Namespace :: string
  waf_Name :: string
  waf_Annotations :: string_map
  waf_Spec :: WAFSpec

section \<open>The portable configuration\<close>

type_synonym ModuleID = string
type_synonym FilterRole = string

definition FilterRoleChallenge :: FilterRole where "FilterRoleChallenge = ''challenge''"
definition FilterRoleWAF :: FilterRole where "FilterRoleWAF = ''waf''"

record PortableFilter =
  pf_ExtensionName :: string
  pf_Role :: FilterRole
  pf_ModuleID :: ModuleID
  pf_WasmName :: string
  pf_RootID :: string
  pf_HTTPURL :: string
  pf_SHA256 :: string
  pf_PluginJSON :: json_obj

record PortableConfig =
  pc_ExtensionName :: string
  pc_Namespace :: string
  pc_Name :: string
  pc_Provider :: ProviderType
  pc_Engine :: EngineType
  pc_Filters :: "PortableFilter list"
  pc_WasmName :: string
  pc_RootID :: string
  pc_Image :: string
  pc_HTTPURL :: string
  pc_SHA256 :: string
  pc_PluginJSON :: json_obj
  pc_Directives :: "string list"
  pc_ECDSCluster :: string
  pc_ECDSHost :: string
  pc_ECDSPort :: nat
  pc_OTelCluster :: string
  pc_OTelHost :: string
  pc_OTelPort :: nat
  pc_TelemetryManaged :: bool
  pc_PolicyTargets :: PolicyTargetReferences
  pc_IstioWorkloadSelector :: string_map
  pc_IstioContext :: string
  pc_CiliumServiceName :: string
  pc_CiliumServiceNamespace :: string

record TelemetryDefaults =
  td_Profile :: string
  td_SampleNonDisruptive :: string
  td_SampleDisruptive :: string
  td_Redact :: bool
  td_IncludeMatchData :: bool

record BuildOptions =
  bo_DefaultECDSHost :: string
  bo_DefaultECDSPort :: nat
  bo_DefaultModuleHTTP :: string_map
  bo_DefaultModuleSHA256 :: string_map
  bo_DefaultWasmHTTPURL :: string
  bo_DefaultWasmSHA256 :: string
  bo_ChallengeSecrets :: string_map
  bo_ChallengeHMAC :: string
  bo_DetectedProvider :: ProviderType
  bo_DetectedCiliumServiceName :: string
  bo_DetectedCiliumServiceNamespace :: string
  bo_PhraseFiles :: string_map
  bo_DirectivesOverride :: "string list option"
  bo_OverrideCRSCount :: int
  bo_DefaultOTelHost :: string
  bo_DefaultOTelPort :: nat
  bo_TelemetryDefaults :: TelemetryDefaults

section \<open>The provider types are distinct\<close>

lemma providers_distinct [simp]:
  "ProviderEnvoyGateway \<noteq> []" "ProviderIstio \<noteq> []" "ProviderCilium \<noteq> []"
  "ProviderEnvoyGateway \<noteq> ProviderAuto" "ProviderIstio \<noteq> ProviderAuto" "ProviderCilium \<noteq> ProviderAuto"
  "ProviderIstio \<noteq> ProviderCilium" "ProviderCilium \<noteq> ProviderIstio" "ProviderIstio \<noteq> ProviderEnvoyGateway"
  "ProviderEnvoyGateway \<noteq> ProviderIstio" "ProviderCilium \<noteq> ProviderEnvoyGateway" "ProviderEnvoyGateway \<noteq> ProviderCilium"
  by (simp_all add: ProviderIstio_def ProviderCilium_def ProviderEnvoyGateway_def ProviderAuto_def)

end
