(* ===== verification/Base64.thy ===== *)
theory Base64
  imports Prelude
begin

text \<open>
  Standard base64 with padding (Go's \<open>base64.StdEncoding\<close>), used for the plugin
  configuration, with the round trip of encoding and decoding. Decoding covers the strings the
  encoder produces: groups of four, padding at the end only, zero trailing bits not checked.
\<close>

definition b64_char :: "nat \<Rightarrow> char" where
  "b64_char n =
     (if n < 26 then char_of (65 + n) else if n < 52 then char_of (71 + n)
      else if n < 62 then char_of (n - 4) else if n = 62 then CHR ''+'' else CHR ''/'')"

definition b64_val :: "char \<Rightarrow> nat option" where
  "b64_val c =
     (if is_upper c then Some (byte c - 65) else if is_lower c then Some (byte c - 71)
      else if is_digit c then Some (byte c + 4)
      else if c = CHR ''+'' then Some 62 else if c = CHR ''/'' then Some 63 else None)"

fun base64Encode :: "string \<Rightarrow> string" where
  "base64Encode [] = []"
| "base64Encode [a] =
     [b64_char (byte a div 4), b64_char (byte a mod 4 * 16), CHR ''='', CHR ''='']"
| "base64Encode [a, b] =
     [b64_char (byte a div 4), b64_char (byte a mod 4 * 16 + byte b div 16),
      b64_char (byte b mod 16 * 4), CHR ''='']"
| "base64Encode (a # b # c # s) =
     b64_char (byte a div 4) # b64_char (byte a mod 4 * 16 + byte b div 16)
       # b64_char (byte b mod 16 * 4 + byte c div 64) # b64_char (byte c mod 64) # base64Encode s"

fun base64Decode :: "string \<Rightarrow> string option" where
  "base64Decode [] = Some []"
| "base64Decode (w # x # y # z # s) =
     (case (b64_val w, b64_val x) of
        (Some p, Some q) \<Rightarrow>
          (let c1 = char_of (p * 4 + q div 16) in
           if y = CHR ''='' then (if z = CHR ''='' \<and> s = [] then Some [c1] else None)
           else case b64_val y of None \<Rightarrow> None
             | Some r \<Rightarrow>
                 (let c2 = char_of (q mod 16 * 16 + r div 4) in
                  if z = CHR ''='' then (if s = [] then Some [c1, c2] else None)
                  else case b64_val z of None \<Rightarrow> None
                    | Some t \<Rightarrow>
                        map_option (\<lambda>u. c1 # c2 # char_of (r mod 4 * 64 + t) # u) (base64Decode s)))
      | _ \<Rightarrow> None)"
| "base64Decode _ = None"

lemma byte_less: "byte c < 256"
  using nat_of_char_less_256 by (simp add: byte_def)

lemma char_of_byte [simp]: "char_of (byte c) = c"
  by (simp add: byte_def)

lemma b64_val_char: "n < 64 \<Longrightarrow> b64_val (b64_char n) = Some n"
proof -
  assume n: "n < 64"
  consider "n < 26" | "26 \<le> n" "n < 52" | "52 \<le> n" "n < 62" | "n = 62" | "n = 63"
    using n by linarith
  then show ?thesis
    by cases (auto simp: b64_val_def b64_char_def is_upper_def is_lower_def is_digit_def byte_def)
qed

lemma b64_char_not_pad: "n < 64 \<Longrightarrow> b64_char n \<noteq> CHR ''=''"
  using b64_val_char [of n] by (auto simp: b64_val_def is_upper_def is_lower_def is_digit_def byte_def)

lemma quotients: "byte c div 4 < 64" "byte c div 16 < 16" "byte c div 64 < 4"
  using byte_less [of c] by (simp_all add: less_mult_imp_div_less)

lemma digit_pair:
  fixes x y k :: nat
  assumes "y < k"
  shows "(x * k + y) div k = x" "(x * k + y) mod k = y" "x < m \<Longrightarrow> x * k + y < m * k"
proof -
  show "(x * k + y) div k = x" "(x * k + y) mod k = y" using assms by simp_all
  assume "x < m"
  then have "(x + 1) * k \<le> m * k" by (intro mult_le_mono1) simp
  with assms show "x * k + y < m * k" by simp
qed

lemma sextets:
  "byte a div 4 < 64" "byte a mod 4 * 16 < 64" "byte a mod 4 * 16 + byte b div 16 < 64"
  "byte b mod 16 * 4 < 64" "byte b mod 16 * 4 + byte c div 64 < 64" "byte c mod 64 < 64"
proof -
  have m: "byte a mod 4 < 4" "byte b mod 16 < 16" by simp_all
  show "byte a div 4 < 64" by (rule quotients)
  show "byte a mod 4 * 16 < 64" using m(1) by linarith
  show "byte b mod 16 * 4 < 64" using m(2) by linarith
  show "byte a mod 4 * 16 + byte b div 16 < 64" using m(1) quotients(2) [of b] by linarith
  show "byte b mod 16 * 4 + byte c div 64 < 64" using m(2) quotients(3) [of c] by linarith
  show "byte c mod 64 < 64" by simp
qed

lemma octets:
  "byte a div 4 * 4 + (byte a mod 4 * 16 + byte b div 16) div 16 = byte a"
  "byte a div 4 * 4 + (byte a mod 4 * 16) div 16 = byte a"
  "(byte a mod 4 * 16 + byte b div 16) mod 16 * 16 + (byte b mod 16 * 4 + byte c div 64) div 4 = byte b"
  "(byte a mod 4 * 16 + byte b div 16) mod 16 * 16 + (byte b mod 16 * 4) div 4 = byte b"
  "(byte b mod 16 * 4 + byte c div 64) mod 4 * 64 + byte c mod 64 = byte c"
  using digit_pair [OF quotients(2) [of b], of "byte a mod 4"]
    digit_pair [OF quotients(3) [of c], of "byte b mod 16"]
  by (simp_all only: div_mult_mod_eq nonzero_mult_div_cancel_right numeral_neq_zero simp_thms)

lemmas b64_simps = base64Encode.simps base64Decode.simps b64_val_char [OF sextets(1)] b64_val_char [OF sextets(2)]
  b64_val_char [OF sextets(3)] b64_val_char [OF sextets(4)] b64_val_char [OF sextets(5)]
  b64_val_char [OF sextets(6)] sextets [THEN b64_char_not_pad] octets char_of_byte
  Let_def prod.case option.case option.map if_True if_False simp_thms

lemma base64_roundtrip: "base64Decode (base64Encode s) = Some s"
proof (induction s rule: base64Encode.induct)
  case (4 a b c s)
  show ?case by (simp only: b64_simps 4)
qed (simp_all only: b64_simps)

end
