(* ===== verification/Directives.thy ===== *)
theory Directives
  imports WafTypes Base64
begin

text \<open>
  Building the portable configuration of a WAF: \<open>internal/dataplane/config/build.go\<close>,
  \<open>compress.go\<close> and the module catalogue of \<open>internal/dataplane/engine/engine.go\<close>.
  Compression itself (DEFLATE) is a parameter: \<open>gz\<close> compresses, \<open>gunz\<close> inflates, and
  \<open>None\<close> is an error of either.
\<close>

section \<open>Engine catalogue\<close>

definition ModuleModSecurity :: ModuleID where "ModuleModSecurity = ''modsecurity''"
definition ModuleChallenge :: ModuleID where "ModuleChallenge = ''challenge''"

record engine_module =
  mod_ID :: ModuleID
  mod_DisplayName :: string
  mod_HTTPPath :: string
  mod_DefaultFile :: string
  mod_DefaultImage :: string
  mod_DefaultWasmName :: string

definition ProductModule :: engine_module where
  "ProductModule =
     \<lparr> mod_ID = ModuleModSecurity, mod_DisplayName = ''ModSecurity'',
       mod_HTTPPath = ''/wasm/modsecurity-proxy-wasm.wasm'',
       mod_DefaultFile = ''/wasm/modsecurity-proxy-wasm.wasm'',
       mod_DefaultImage = ''ghcr.io/kubewaf-io/modsecurity-proxy-wasm:0.1.0-alpha16'',
       mod_DefaultWasmName = ''kubewaf.modsecurity'' \<rparr>"

definition ChallengeModule :: engine_module where
  "ChallengeModule =
     \<lparr> mod_ID = ModuleChallenge, mod_DisplayName = ''Challenge (PoW)'',
       mod_HTTPPath = ''/wasm/challenge-proxy-wasm.wasm'',
       mod_DefaultFile = ''/wasm/challenge-proxy-wasm.wasm'',
       mod_DefaultImage = ''ghcr.io/kubewaf-io/pow-proxy-wasm:0.1.0-alpha1'',
       mod_DefaultWasmName = ''kubewaf.challenge'' \<rparr>"

definition Catalog :: "ModuleID \<Rightarrow> engine_module option" where
  "Catalog i = (if i = ModuleModSecurity then Some ProductModule
                else if i = ModuleChallenge then Some ChallengeModule else None)"

definition HTTPPath :: "ModuleID \<Rightarrow> string" where
  "HTTPPath i = (case Catalog i of Some m \<Rightarrow> mod_HTTPPath m | None \<Rightarrow> ''/wasm/'' @ i @ ''.wasm'')"

definition PublicURL :: "string \<Rightarrow> nat \<Rightarrow> ModuleID \<Rightarrow> string" where
  "PublicURL serviceHost port i =
     ''http://'' @ serviceHost @ '':'' @ nat_to_dec port @
     (case Catalog i of None \<Rightarrow> ''/wasm/'' @ i @ ''.wasm'' | Some m \<Rightarrow> mod_HTTPPath m)"

definition ParseModuleFromPath :: "string \<Rightarrow> ModuleID option" where
  "ParseModuleFromPath p0 =
     (let p = trim_suffix p0 ''/'' in
      if p = mod_HTTPPath ProductModule then Some ModuleModSecurity
      else if p = mod_HTTPPath ChallengeModule then Some ModuleChallenge
      else if p = ''/wasm/modsec.wasm'' then Some ModuleModSecurity
      else if p = ''/wasm/pow-proxy-wasm.wasm'' \<or> p = ''/wasm/challenge.wasm'' then Some ModuleChallenge
      else None)"

section \<open>Names\<close>

definition ExtensionName :: "string \<Rightarrow> string \<Rightarrow> string" where
  "ExtensionName ns name = ''kubewaf/'' @ ns @ ''/'' @ name"

definition ChallengeExtensionName :: "string \<Rightarrow> string \<Rightarrow> string" where
  "ChallengeExtensionName ns name = ''kubewaf/'' @ ns @ ''/'' @ name @ ''/challenge''"

definition AllExtensionNames :: "PortableConfig \<Rightarrow> string list" where
  "AllExtensionNames p =
     (if length (pc_Filters p) > 0 then map pf_ExtensionName (pc_Filters p) else [pc_ExtensionName p])"

section \<open>Directives\<close>

definition crsSetupVersionStamp :: int where "crsSetupVersionStamp = 427"

definition CRSSetupActions :: "CRSTuning option \<Rightarrow> string list" where
  "CRSSetupActions tuning =
     (case tuning of None \<Rightarrow> []
      | Some crs \<Rightarrow>
          (let sets = [''setvar:tx.crs_setup_version='' @ itoa crsSetupVersionStamp] @
             (case crs_ParanoiaLevel crs of None \<Rightarrow> []
              | Some pl \<Rightarrow> [''setvar:tx.detection_paranoia_level='' @ itoa pl,
                            ''setvar:tx.blocking_paranoia_level='' @ itoa pl]) @
             (case crs_InboundAnomalyThreshold crs of None \<Rightarrow> []
              | Some n \<Rightarrow> [''setvar:tx.inbound_anomaly_score_threshold='' @ itoa n]) @
             (case crs_OutboundAnomalyThreshold crs of None \<Rightarrow> []
              | Some n \<Rightarrow> [''setvar:tx.outbound_anomaly_score_threshold='' @ itoa n])
           in [''SecAction '' @ [dquote] @ ''id:900990,phase:1,nolog,pass,'' @ join '','' sets @ [dquote]]))"

definition target_update :: "TargetExclusion \<Rightarrow> string list" where
  "target_update te =
     (if length (te_RemoveTargets te) = 0 then []
      else [''SecRuleUpdateTargetById '' @ itoa (te_ID te) @ '' '' @ [dquote] @
            join ''|'' (map (\<lambda>t. ''!'' @ t) (te_RemoveTargets te)) @ [dquote]])"

definition CRSExclusions :: "CRSTuning option \<Rightarrow> string list" where
  "CRSExclusions tuning =
     (case tuning of None \<Rightarrow> []
      | Some crs \<Rightarrow>
          map (\<lambda>i. ''SecRuleRemoveById '' @ itoa i) (crs_RemoveByID crs) @
          map (\<lambda>t. ''SecRuleRemoveByTag '' @ t) (crs_RemoveByTag crs) @
          concat (map target_update (crs_UpdateTargetByID crs)))"

definition secRuleEngineValue :: "WAF \<Rightarrow> string" where
  "secRuleEngineValue waf =
     (if ws_Mode (waf_Spec waf) = WAFModeDetectionOnly then ''DetectionOnly'' else ''On'')"

definition AnnotationFTWProfile :: string where
  "AnnotationFTWProfile = ''kubewaf.io/ftw-profile''"

definition ftwProfileEnabled :: "WAF \<Rightarrow> bool" where
  "ftwProfileEnabled waf =
     (case map_of (waf_Annotations waf) AnnotationFTWProfile of None \<Rightarrow> False
      | Some v \<Rightarrow> to_lower (trim_space v) \<in> set [''true'', ''1'', ''yes''])"

definition BuildDirectives :: "WAF \<Rightarrow> string list \<Rightarrow> string list" where
  "BuildDirectives waf rules =
     (let spec = waf_Spec waf;
          logLevel = (if ws_LogLevel spec = 0 then 1 else ws_LogLevel spec);
          crs = ws_CRS spec
      in [''Include @kubewaf-defaults''] @
         [''SecRuleEngine '' @ secRuleEngineValue waf, ''SecDebugLogLevel '' @ itoa logLevel] @
         (if ftwProfileEnabled waf then [''Include @ftw-conf''] else []) @
         (if ws_CRSEnable spec
          then [''Include @crs-setup-conf''] @ CRSSetupActions crs @ [''Include @owasp_crs/*.conf''] @
               CRSExclusions crs
          else CRSSetupActions crs) @
         rules @
         (if \<not> ws_CRSEnable spec \<and> crs \<noteq> None then CRSExclusions crs else []))"

section \<open>Compression\<close>

definition DirectivesEncodingGzipBase64 :: string where
  "DirectivesEncodingGzipBase64 = ''gzip+base64''"

definition DirectivesCompressThreshold :: int where "DirectivesCompressThreshold = 4 * 1024"
definition DirectivesMaxInflatedBytes :: nat where "DirectivesMaxInflatedBytes = 32 * 1024 * 1024"

definition joined_directives :: "string list \<Rightarrow> string" where
  "joined_directives ds =
     (let j = join [newline] ds in
      if j \<noteq> [] \<and> \<not> has_suffix j [newline] then j @ [newline] else j)"

definition CompressBytesGzipBase64 ::
  "(string \<Rightarrow> string option) \<Rightarrow> string \<Rightarrow> (string \<times> nat \<times> nat) option" where
  "CompressBytesGzipBase64 gz raw =
     (case gz raw of None \<Rightarrow> None | Some z \<Rightarrow> Some (base64Encode z, length raw, length z))"

definition CompressDirectivesGzipBase64 ::
  "(string \<Rightarrow> string option) \<Rightarrow> string list \<Rightarrow> (string \<times> nat \<times> nat) option" where
  "CompressDirectivesGzipBase64 gz ds =
     (case gz (joined_directives ds) of None \<Rightarrow> None
      | Some z \<Rightarrow> Some (base64Encode z, length (joined_directives ds), length z))"

text \<open>The loop of \<open>ShouldCompressDirectives\<close>: running size \<open>n\<close>, \<open>first\<close> on the first line.\<close>

fun should_compress_loop :: "int \<Rightarrow> bool \<Rightarrow> int \<Rightarrow> string list \<Rightarrow> bool" where
  "should_compress_loop thr first n [] = False"
| "should_compress_loop thr first n (d # ds) =
     (let n' = n + int (length d) + (if first then 0 else 1) in
      if n' \<ge> thr then True else should_compress_loop thr False n' ds)"

definition ShouldCompressDirectives :: "int \<Rightarrow> string list \<Rightarrow> bool" where
  "ShouldCompressDirectives thr ds =
     (if thr \<le> 0 then length ds > 0 else should_compress_loop thr True 0 ds)"

datatype inflate_error = InflateBase64 | InflateGzip | InflateTooLarge

definition DecompressDirectivesGzipBase64 ::
  "(string \<Rightarrow> string option) \<Rightarrow> string \<Rightarrow> inflate_error + string" where
  "DecompressDirectivesGzipBase64 gunz encoded =
     (case base64Decode (filter (\<lambda>c. c \<noteq> CHR 0x0A \<and> c \<noteq> CHR 0x0D) encoded) of
        None \<Rightarrow> Inl InflateBase64
      | Some raw \<Rightarrow>
          (case gunz raw of None \<Rightarrow> Inl InflateGzip
           | Some body \<Rightarrow> if length body > DirectivesMaxInflatedBytes then Inl InflateTooLarge else Inr body))"

section \<open>Plugin configuration\<close>

definition attachDirectives ::
  "(string \<Rightarrow> string option) \<Rightarrow> json_obj \<Rightarrow> string list \<Rightarrow> json_obj" where
  "attachDirectives gz plugin ds =
     (let plain = jput ''directives_map'' (JObj [(''default'', JList (map JStr ds))]) plugin in
      if \<not> ShouldCompressDirectives DirectivesCompressThreshold ds then plain
      else case CompressDirectivesGzipBase64 gz ds of
             None \<Rightarrow> plain
           | Some (encoded, rawN, compN) \<Rightarrow>
               jput ''directives_stats''
                 (JObj [(''raw_bytes'', JInt (int rawN)), (''compressed_bytes'', JInt (int compN)),
                        (''encoding'', JStr DirectivesEncodingGzipBase64)])
                 (jput ''directives_map'' (JObj [(''default'', JStr encoded)])
                   (jput ''directives_encoding'' (JStr DirectivesEncodingGzipBase64) plugin)))"

text \<open>One file of \<open>attachDataFiles\<close>: its encoding and the compressed size when it was compressed.\<close>

definition encode_data_file ::
  "(string \<Rightarrow> string option) \<Rightarrow> bool \<Rightarrow> string \<Rightarrow> string \<times> nat option" where
  "encode_data_file gz useGzip body =
     (if useGzip
      then (case CompressBytesGzipBase64 gz body of
              None \<Rightarrow> (base64Encode body, None)
            | Some (encoded, _, compN) \<Rightarrow> (encoded, Some compN))
      else (base64Encode body, None))"

definition attachDataFiles ::
  "(string \<Rightarrow> string option) \<Rightarrow> json_obj \<Rightarrow> string_map \<Rightarrow> int \<Rightarrow> json_obj" where
  "attachDataFiles gz plugin files overrideCRS =
     (if length files = 0 then plugin
      else
        let rawTotal = sum_list (map (\<lambda>(n, b). length b) files);
            useGzip = (rawTotal \<ge> 4 * 1024);
            enc = map (\<lambda>(n, b). (n, encode_data_file gz useGzip b)) files;
            comp = List.map_filter (\<lambda>(n, e, c). c) enc
        in jput ''data_files_stats''
             (JObj [(''count'', JInt (int (length files))), (''raw_bytes'', JInt (int rawTotal)),
                    (''compressed_bytes'', JInt (int (sum_list comp))),
                    (''override_crs_count'', JInt overrideCRS)])
             (jput ''data_files_encoding''
               (JStr (if useGzip \<and> length comp > 0 then DirectivesEncodingGzipBase64 else ''base64''))
               (jput ''data_files'' (JObj (map (\<lambda>(n, e, c). (n, JStr e)) enc)) plugin)))"

definition opt_or :: "'a \<Rightarrow> 'a option \<Rightarrow> 'a" where
  "opt_or d v = (case v of None \<Rightarrow> d | Some x \<Rightarrow> x)"

definition str_or :: "string \<Rightarrow> string \<Rightarrow> string" where
  "str_or d v = (if v = [] then d else v)"

definition buildTelemetryPluginJSON :: "WAF \<Rightarrow> TelemetryDefaults \<Rightarrow> json_obj option" where
  "buildTelemetryPluginJSON waf defaults =
     (case ws_Telemetry (waf_Spec waf) of None \<Rightarrow> None
      | Some t \<Rightarrow>
          (let mode = str_or TelemetryModeNone (wt_Mode t); out = [(''mode'', JStr mode)] in
           if mode \<noteq> TelemetryModeManaged then Some out
           else
             let enabled0 = (to_lower (td_Profile defaults) = ''full'');
                 rate0 = str_or ''0.25'' (td_SampleNonDisruptive defaults);
                 disruptive0 = str_or ''1.0'' (td_SampleDisruptive defaults);
                 redact0 = (if td_Profile defaults \<noteq> [] then td_Redact defaults else True);
                 match0 = td_IncludeMatchData defaults;
                 (enabled, rate, disruptive, redact, mtch) =
                   (case wt_Traces t of None \<Rightarrow> (enabled0, rate0, disruptive0, redact0, match0)
                    | Some tr \<Rightarrow> (opt_or enabled0 (tt_Enabled tr), str_or rate0 (tt_SampleRate tr),
                                  str_or disruptive0 (tt_SampleDisruptive tr),
                                  opt_or redact0 (tt_Redact tr), opt_or match0 (tt_IncludeMatchData tr)))
             in Some (jput ''traces''
                  (JObj [(''enabled'', JBool enabled), (''sample_rate'', JStr rate),
                         (''sample_disruptive'', JStr disruptive), (''redact'', JBool redact),
                         (''include_match_data'', JBool mtch)]) out)))"

definition buildBlockPluginJSON :: "WAFBlock option \<Rightarrow> json_obj" where
  "buildBlockPluginJSON b =
     (let (message, blockedHeader, addBlocked, addReq, reqHeader) =
        (case b of None \<Rightarrow> (''Forbidden'', ''x-blocked'', True, False, ''x-request-id'')
         | Some bl \<Rightarrow> (str_or ''Forbidden'' (bl_Message bl), str_or ''x-blocked'' (bl_BlockedHeader bl),
                       opt_or True (bl_AddBlockedHeader bl), opt_or False (bl_AddRequestIDHeader bl),
                       str_or ''x-request-id'' (bl_RequestIDHeader bl)))
      in [(''message'', JStr message),
          (''blocked_header'', JStr (if addBlocked then blockedHeader else [])),
          (''add_rule_id_header'', JBool False), (''rule_id_header'', JStr ''x-blocked-rule-id''),
          (''add_request_id_header'', JBool addReq), (''request_id_header'', JStr reqHeader)])"

definition reservedMetricLabelKeys :: "string list" where
  "reservedMetricLabelKeys = [''waf_namespace'', ''waf_name'', ''engine'', ''owner'']"

definition metricLabels :: "WAF \<Rightarrow> string_map" where
  "metricLabels waf =
     (let extra = (case ws_Metrics (waf_Spec waf) of None \<Rightarrow> [] | Some m \<Rightarrow> wm_ExtraLabels m);
          kept = fold AList.delete reservedMetricLabelKeys extra
      in AList.update ''owner'' ''modsecurity-proxy-wasm''
           (AList.update ''engine'' ''modsecurity''
             (AList.update ''waf_name'' (waf_Name waf)
               (AList.update ''waf_namespace'' (waf_Namespace waf) kept))))"

definition buildWAFPluginJSON ::
  "(string \<Rightarrow> string option) \<Rightarrow> WAF \<Rightarrow> string list \<Rightarrow> string_map \<Rightarrow> int \<Rightarrow> TelemetryDefaults \<Rightarrow> json_obj" where
  "buildWAFPluginJSON gz waf ds files overrideCRS defaults =
     (let p0 = [(''default_directives'', JStr ''default''), (''mode'', JStr ''kubewaf''),
                (''allow_fallback'', JBool False),
                (''config_id'', JStr (ExtensionName (waf_Namespace waf) (waf_Name waf)))];
          p1 = attachDataFiles gz (attachDirectives gz p0 ds) files overrideCRS;
          p2 = jput ''metric_labels'' (JObj (map (\<lambda>(k, v). (k, JStr v)) (metricLabels waf))) p1;
          p3 = (case buildTelemetryPluginJSON waf defaults of None \<Rightarrow> p2
                | Some tel \<Rightarrow> jput ''telemetry'' (JObj tel) p2);
          (perRuleID, enabled) =
            (case ws_Metrics (waf_Spec waf) of None \<Rightarrow> (True, True)
             | Some m \<Rightarrow> (opt_or True (wm_IncludeRuleID m), opt_or True (wm_EnableStats m)))
      in jput ''block'' (JObj (buildBlockPluginJSON (ws_Block (waf_Spec waf))))
           (jput ''metrics_rule_tags'' (JBool True)
             (jput ''metrics_per_rule_id'' (JBool perRuleID)
               (jput ''metrics''
                 (JObj [(''enabled'', JBool enabled), (''per_rule_id'', JBool perRuleID),
                        (''rule_tags'', JBool True)]) p3))))"

section \<open>Challenge filter\<close>

datatype build_error =
    WafIsNil
  | WasmURLMissing
  | WasmSHAMissing string
  | ChallengeIsNil
  | ChallengeSecretTooShort nat
  | ChallengeURLMissing
  | ChallengeSHAMissing string

definition moduleURL :: "BuildOptions \<Rightarrow> ModuleID \<Rightarrow> string" where
  "moduleURL opts i = smap_get (bo_DefaultModuleHTTP opts) i"

definition moduleSHA :: "BuildOptions \<Rightarrow> ModuleID \<Rightarrow> string" where
  "moduleSHA opts i = smap_get (bo_DefaultModuleSHA256 opts) i"

definition ChallengeEnabled :: "ChallengeSpec option \<Rightarrow> bool" where
  "ChallengeEnabled ch =
     (case ch of None \<Rightarrow> False
      | Some c \<Rightarrow> (case ch_Enabled c of None \<Rightarrow> True | Some b \<Rightarrow> b))"

definition challengeSecret :: "WAF \<Rightarrow> BuildOptions \<Rightarrow> ChallengeSpec \<Rightarrow> string" where
  "challengeSecret waf opts ch =
     (let s0 = bo_ChallengeHMAC opts;
          s1 = (if s0 = [] then ch_Secret ch else s0)
      in if s1 = []
         then (case ch_SecretRef ch of None \<Rightarrow> s1
               | Some r \<Rightarrow>
                   (case map_of (bo_ChallengeSecrets opts)
                           (waf_Namespace waf @ ''/'' @ skr_Name r @ ''/'' @ skr_Key r) of
                      None \<Rightarrow> s1 | Some v \<Rightarrow> v))
         else s1)"

definition challengePlugin :: "string \<Rightarrow> ChallengeSpec \<Rightarrow> json_obj" where
  "challengePlugin secret ch =
     (let p0 = (if secret \<noteq> [] then [(''secret'', JStr secret)] else []);
          p1 = jput ''base_difficulty'' (JInt (opt_or 18 (ch_BaseDifficulty ch))) p0;
          p2 = (case ch_MinDifficulty ch of None \<Rightarrow> p1 | Some n \<Rightarrow> jput ''min_difficulty'' (JInt n) p1);
          p3 = (case ch_MaxDifficulty ch of None \<Rightarrow> p2 | Some n \<Rightarrow> jput ''max_difficulty'' (JInt n) p2)
      in if ch_Header ch \<noteq> []
         then (let p4 = jput ''header'' (JStr (ch_Header ch)) p3
               in if ch_HeaderValue ch \<noteq> [] then jput ''value'' (JStr (ch_HeaderValue ch)) p4 else p4)
         else p3)"

definition buildChallengeFilter :: "WAF \<Rightarrow> BuildOptions \<Rightarrow> build_error + PortableFilter" where
  "buildChallengeFilter waf opts =
     (case ws_Challenge (waf_Spec waf) of None \<Rightarrow> Inl ChallengeIsNil
      | Some ch \<Rightarrow>
          (let secret = challengeSecret waf opts ch in
           if secret \<noteq> [] \<and> length secret < 32 then Inl (ChallengeSecretTooShort (length secret))
           else
             let httpURL = moduleURL opts ModuleChallenge; sha = moduleSHA opts ModuleChallenge in
             if httpURL = [] then Inl ChallengeURLMissing
             else if trim_space sha = [] then Inl (ChallengeSHAMissing httpURL)
             else Inr \<lparr> pf_ExtensionName = ChallengeExtensionName (waf_Namespace waf) (waf_Name waf),
                        pf_Role = FilterRoleChallenge, pf_ModuleID = ModuleChallenge,
                        pf_WasmName = mod_DefaultWasmName ChallengeModule, pf_RootID = [],
                        pf_HTTPURL = httpURL, pf_SHA256 = sha,
                        pf_PluginJSON = challengePlugin secret ch \<rparr>))"

section \<open>Provider resolution\<close>

definition DefaultECDSCluster :: string where "DefaultECDSCluster = ''kubewaf_ecds''"
definition DefaultOTelCluster :: string where "DefaultOTelCluster = ''kubewaf_otel''"
definition DefaultOTelPort :: nat where "DefaultOTelPort = 4317"
definition DefaultProvider :: ProviderType where "DefaultProvider = ProviderEnvoyGateway"

text \<open>\<open>strings.LastIndex\<close> of a single byte.\<close>

definition last_index :: "char \<Rightarrow> string \<Rightarrow> nat option" where
  "last_index c s = (if c \<in> set s then Some (length s - 1 - length (takeWhile (\<lambda>x. x \<noteq> c) (rev s))) else None)"

definition ParseHostPort :: "string \<Rightarrow> nat \<Rightarrow> (string \<times> nat) option" where
  "ParseHostPort service0 defaultPort =
     (let s1 = trim_space service0 in
      if s1 = [] then None
      else
        let s = trim_prefix (trim_prefix s1 ''https://'') ''http://'' in
        case last_index (CHR '':'') s of
          Some (Suc i) \<Rightarrow>
            (case dec_to_nat (drop (Suc (Suc i)) s) of
               Some p \<Rightarrow> if p < 2 ^ 32 then Some (take (Suc i) s, p) else Some (s, defaultPort)
             | None \<Rightarrow> Some (s, defaultPort))
        | _ \<Rightarrow> Some (s, defaultPort))"

record provider_resolution =
  pr_provider :: ProviderType
  pr_cluster :: string
  pr_host :: string
  pr_port :: nat
  pr_istioSel :: string_map
  pr_istioCtx :: string
  pr_ciliumSvc :: string
  pr_ciliumNS :: string

definition provider_defaults :: "WAF \<Rightarrow> BuildOptions \<Rightarrow> provider_resolution" where
  "provider_defaults waf opts =
     \<lparr> pr_provider = (if bo_DetectedProvider opts \<noteq> [] \<and> bo_DetectedProvider opts \<noteq> ProviderAuto
                      then bo_DetectedProvider opts else DefaultProvider),
       pr_cluster = DefaultECDSCluster, pr_host = bo_DefaultECDSHost opts,
       pr_port = (if bo_DefaultECDSPort opts = 0 then 18001 else bo_DefaultECDSPort opts),
       pr_istioSel = [(''istio'', ''ingressgateway'')], pr_istioCtx = ''GATEWAY'',
       pr_ciliumSvc = str_or (waf_Name waf) (bo_DetectedCiliumServiceName opts),
       pr_ciliumNS = (if bo_DetectedCiliumServiceName opts \<noteq> []
                      then str_or (waf_Namespace waf) (bo_DetectedCiliumServiceNamespace opts)
                      else waf_Namespace waf) \<rparr>"

definition resolveProvider :: "WAF \<Rightarrow> BuildOptions \<Rightarrow> provider_resolution" where
  "resolveProvider waf opts =
     (let d = provider_defaults waf opts in
      case ws_Provider (waf_Spec waf) of None \<Rightarrow> d
      | Some p \<Rightarrow>
          (let prov = (if wp_Type p = ProviderIstio then ProviderIstio
                       else if wp_Type p = ProviderCilium then ProviderCilium
                       else if wp_Type p = ProviderEnvoyGateway then ProviderEnvoyGateway
                       else if wp_Type p = ProviderAuto \<or> wp_Type p = [] then pr_provider d
                       else wp_Type p);
               (host, port) =
                 (if wp_ECDSService p \<noteq> []
                  then (case ParseHostPort (wp_ECDSService p) (pr_port d) of
                          Some hp \<Rightarrow> hp | None \<Rightarrow> (pr_host d, pr_port d))
                  else (pr_host d, pr_port d));
               (sel, ctx) =
                 (case wp_Istio p of None \<Rightarrow> (pr_istioSel d, pr_istioCtx d)
                  | Some i \<Rightarrow> (if length (ip_WorkloadSelector i) > 0 then ip_WorkloadSelector i else pr_istioSel d,
                               str_or (pr_istioCtx d) (ip_Context i)));
               (svc, ns) =
                 (case wp_Cilium p of None \<Rightarrow> (pr_ciliumSvc d, pr_ciliumNS d)
                  | Some c \<Rightarrow> (str_or (pr_ciliumSvc d) (cp_ServiceName c),
                               str_or (pr_ciliumNS d) (cp_ServiceNamespace c)))
           in \<lparr> pr_provider = prov, pr_cluster = str_or (pr_cluster d) (wp_ECDSCluster p),
                pr_host = host, pr_port = port, pr_istioSel = sel, pr_istioCtx = ctx,
                pr_ciliumSvc = svc, pr_ciliumNS = ns \<rparr>))"

section \<open>BuildFromWAF\<close>

fun firstNonEmpty :: "string list \<Rightarrow> string" where
  "firstNonEmpty [] = []"
| "firstNonEmpty (v # vs) = (if v \<noteq> [] then v else firstNonEmpty vs)"

definition wasm_name :: "WAF \<Rightarrow> string" where
  "wasm_name waf =
     (case ws_Metrics (waf_Spec waf) of None \<Rightarrow> mod_DefaultWasmName ProductModule
      | Some m \<Rightarrow> (case wm_Name m of None \<Rightarrow> mod_DefaultWasmName ProductModule
                   | Some n \<Rightarrow> str_or (mod_DefaultWasmName ProductModule) n))"

definition wasm_root_id :: "WAF \<Rightarrow> string" where
  "wasm_root_id waf =
     (case ws_Metrics (waf_Spec waf) of None \<Rightarrow> [] | Some m \<Rightarrow> opt_or [] (wm_RootID m))"

text \<open>The final struct of \<open>BuildFromWAF\<close>, from the values computed before it.\<close>

definition portable_config ::
  "WAF \<Rightarrow> BuildOptions \<Rightarrow> PortableFilter list \<Rightarrow> PortableFilter \<Rightarrow> string list \<Rightarrow> PortableConfig" where
  "portable_config waf opts filters flt ds =
     (let r = resolveProvider waf opts; spec = waf_Spec waf in
      \<lparr> pc_ExtensionName = pf_ExtensionName flt, pc_Namespace = waf_Namespace waf, pc_Name = waf_Name waf,
        pc_Provider = pr_provider r, pc_Engine = EngineModSecurity, pc_Filters = filters,
        pc_WasmName = pf_WasmName flt, pc_RootID = pf_RootID flt,
        pc_Image = mod_DefaultImage ProductModule, pc_HTTPURL = pf_HTTPURL flt, pc_SHA256 = pf_SHA256 flt,
        pc_PluginJSON = pf_PluginJSON flt, pc_Directives = ds, pc_ECDSCluster = pr_cluster r,
        pc_ECDSHost = pr_host r, pc_ECDSPort = pr_port r, pc_OTelCluster = DefaultOTelCluster,
        pc_OTelHost = bo_DefaultOTelHost opts,
        pc_OTelPort = (if bo_DefaultOTelPort opts = 0 then DefaultOTelPort else bo_DefaultOTelPort opts),
        pc_TelemetryManaged = (case ws_Telemetry spec of None \<Rightarrow> False
                               | Some t \<Rightarrow> wt_Mode t = TelemetryModeManaged),
        pc_PolicyTargets = EffectivePolicyTargets spec,
        pc_IstioWorkloadSelector = pr_istioSel r, pc_IstioContext = pr_istioCtx r,
        pc_CiliumServiceName = pr_ciliumSvc r, pc_CiliumServiceNamespace = pr_ciliumNS r \<rparr>)"

definition BuildFromWAF ::
  "(string \<Rightarrow> string option) \<Rightarrow> WAF option \<Rightarrow> string list \<Rightarrow> BuildOptions \<Rightarrow> build_error + PortableConfig" where
  "BuildFromWAF gz mwaf rules opts =
     (case mwaf of None \<Rightarrow> Inl WafIsNil
      | Some waf \<Rightarrow>
          (let ds = opt_or (BuildDirectives waf rules) (bo_DirectivesOverride opts);
               plugin = buildWAFPluginJSON gz waf ds (bo_PhraseFiles opts) (bo_OverrideCRSCount opts)
                          (bo_TelemetryDefaults opts);
               httpURL = firstNonEmpty [moduleURL opts ModuleModSecurity, bo_DefaultWasmHTTPURL opts];
               sha = firstNonEmpty [moduleSHA opts ModuleModSecurity, bo_DefaultWasmSHA256 opts]
           in if httpURL = [] then Inl WasmURLMissing
              else if trim_space sha = [] then Inl (WasmSHAMissing httpURL)
              else
                let flt = \<lparr> pf_ExtensionName = ExtensionName (waf_Namespace waf) (waf_Name waf),
                           pf_Role = FilterRoleWAF, pf_ModuleID = ModuleModSecurity,
                           pf_WasmName = wasm_name waf, pf_RootID = wasm_root_id waf,
                           pf_HTTPURL = httpURL, pf_SHA256 = sha, pf_PluginJSON = plugin \<rparr>
                in if ChallengeEnabled (ws_Challenge (waf_Spec waf))
                   then (case buildChallengeFilter waf opts of
                           Inl e \<Rightarrow> Inl e
                         | Inr ch \<Rightarrow> Inr (portable_config waf opts [ch, flt] flt ds))
                   else Inr (portable_config waf opts [flt] flt ds)))"

end
