(* ===== verification/DirectivesThms.thy ===== *)
theory DirectivesThms
  imports Directives
begin

text \<open>
  Correctness of the configuration build: directive order, the compression decision and round trip,
  pinned metric labels, host and port parsing, and the shape of every configuration that is built.
\<close>

section \<open>Compression\<close>

lemma length_join_newline:
  "length (join [newline] ds) = sum_list (map length ds) + (length ds - 1)"
  by (induction ds rule: induct_list012) auto

lemma should_compress_loop_iff:
  "0 < thr \<Longrightarrow> n < thr \<Longrightarrow>
   should_compress_loop thr first n ds \<longleftrightarrow>
     thr \<le> n + int (sum_list (map length ds)) + (if first then int (length ds - 1) else int (length ds))"
proof (induction ds arbitrary: first n)
  case (Cons d ds)
  let ?n = "n + int (length d) + (if first then 0 else 1)"
  show ?case
  proof (cases "thr \<le> ?n")
    case True
    then show ?thesis by (auto simp: Let_def)
  next
    case False
    with Cons.IH [of ?n False] Cons.prems show ?thesis
      by (cases ds) (auto simp: Let_def)
  qed
qed auto

text \<open>
  The compression test, which stops as soon as the running size reaches the threshold, decides
  exactly whether the newline-joined directives are at least that long.
\<close>

theorem ShouldCompressDirectives_iff:
  assumes "0 < thr"
  shows "ShouldCompressDirectives thr ds \<longleftrightarrow> thr \<le> int (length (join [newline] ds))"
  using assms by (simp add: ShouldCompressDirectives_def should_compress_loop_iff length_join_newline)

theorem ShouldCompressDirectives_iff_witness:
  "ShouldCompressDirectives 5 [''ab'', ''cd''] \<longleftrightarrow> 5 \<le> int (length (join [newline] [''ab'', ''cd'']))"
  by (rule ShouldCompressDirectives_iff) simp

lemma base64_chars: "c \<in> set (base64Encode s) \<Longrightarrow> c = CHR ''='' \<or> (\<exists>n < 64. c = b64_char n)"
proof (induction s rule: base64Encode.induct)
  case (4 a b' c' s)
  then show ?case using sextets by (simp only: base64Encode.simps list.set insert_iff) blast
qed (use sextets in \<open>simp_all only: base64Encode.simps list.set insert_iff empty_iff, blast+\<close>)

lemma b64_char_not_newline: "n < 64 \<Longrightarrow> b64_char n \<noteq> CHR 0x0A \<and> b64_char n \<noteq> CHR 0x0D"
  using b64_val_char [of n] by (auto simp: b64_val_def is_upper_def is_lower_def is_digit_def byte_def)

lemma base64_no_newline: "c \<in> set (base64Encode s) \<Longrightarrow> c \<noteq> CHR 0x0A \<and> c \<noteq> CHR 0x0D"
  using base64_chars [of c s] b64_char_not_newline by auto

text \<open>
  C24: what the operator publishes as compressed directives inflates back to the newline-terminated
  directive text, given that the compressor is inverted by the inflater, up to the size guard of
  32 MiB, beyond which inflating reports the size error.
\<close>

theorem compressed_directives_roundtrip:
  assumes "\<And>s z. gz s = Some z \<Longrightarrow> gunz z = Some s"
    and "CompressDirectivesGzipBase64 gz ds = Some (encoded, rawN, compN)"
  shows "DecompressDirectivesGzipBase64 gunz encoded =
      (if rawN > DirectivesMaxInflatedBytes then Inl InflateTooLarge else Inr (joined_directives ds)) \<and>
    rawN = length (joined_directives ds)"
proof -
  obtain z where z: "gz (joined_directives ds) = Some z" "encoded = base64Encode z"
    "rawN = length (joined_directives ds)"
    using assms(2) by (auto simp: CompressDirectivesGzipBase64_def split: option.splits)
  have "filter (\<lambda>c. c \<noteq> CHR 0x0A \<and> c \<noteq> CHR 0x0D) encoded = encoded"
    unfolding z(2) by (rule filter_True) (use base64_no_newline in blast)
  with z assms(1) [OF z(1)] show ?thesis
    by (simp add: DecompressDirectivesGzipBase64_def base64_roundtrip del: not_less)
qed

theorem compressed_directives_roundtrip_witness:
  "DecompressDirectivesGzipBase64 Some (base64Encode (''ab'' @ [newline])) = Inr (''ab'' @ [newline])"
proof -
  have c: "CompressDirectivesGzipBase64 Some [''ab''] = Some (base64Encode (''ab'' @ [newline]), 3, 3)"
    by code_simp
  have j: "joined_directives [''ab''] = ''ab'' @ [newline]" by code_simp
  have m: "\<not> 3 > DirectivesMaxInflatedBytes" by (simp add: DirectivesMaxInflatedBytes_def)
  show ?thesis
    using compressed_directives_roundtrip [of Some Some, OF _ c] unfolding j if_not_P [OF m] by simp
qed

section \<open>Metric labels\<close>

lemma map_of_fold_delete:
  "map_of (fold AList.delete ks m) k = (if k \<in> set ks then None else map_of m k)"
  by (induction ks arbitrary: m) (auto simp: delete_conv')

text \<open>
  The labels a WAF's metrics carry name that WAF, its engine and its owner, whatever extra labels
  the resource asks for; every other extra label is passed on unchanged.
\<close>

theorem metricLabels_pinned:
  "map_of (metricLabels waf) ''waf_namespace'' = Some (waf_Namespace waf) \<and>
   map_of (metricLabels waf) ''waf_name'' = Some (waf_Name waf) \<and>
   map_of (metricLabels waf) ''engine'' = Some ''modsecurity'' \<and>
   map_of (metricLabels waf) ''owner'' = Some ''modsecurity-proxy-wasm'' \<and>
   (k \<in> set reservedMetricLabelKeys \<or>
    map_of (metricLabels waf) k =
      map_of (case ws_Metrics (waf_Spec waf) of None \<Rightarrow> [] | Some m \<Rightarrow> wm_ExtraLabels m) k)"
  by (auto simp: metricLabels_def Let_def update_conv' map_of_fold_delete reservedMetricLabelKeys_def)

section \<open>Directive order\<close>

text \<open>
  The directive list keeps the rules of the resolved rule sets together and in order. Without
  the embedded rule set, the threshold setup comes before them and the exclusions after them; with
  it, the includes come in the order setup file, setup action, rules, exclusions, and nothing follows
  the user rules.
\<close>

theorem BuildDirectives_order:
  "\<exists>pre post. BuildDirectives waf rules = pre @ rules @ post \<and>
     take 3 pre = [''Include @kubewaf-defaults'', ''SecRuleEngine '' @ secRuleEngineValue waf,
       ''SecDebugLogLevel '' @ itoa (if ws_LogLevel (waf_Spec waf) = 0 then 1 else ws_LogLevel (waf_Spec waf))] \<and>
     (if ws_CRSEnable (waf_Spec waf)
      then post = [] \<and>
        suffix ([''Include @crs-setup-conf''] @ CRSSetupActions (ws_CRS (waf_Spec waf)) @
          [''Include @owasp_crs/*.conf''] @ CRSExclusions (ws_CRS (waf_Spec waf))) pre
      else suffix (CRSSetupActions (ws_CRS (waf_Spec waf))) pre \<and>
        post = CRSExclusions (ws_CRS (waf_Spec waf)))"
proof -
  let ?s = "waf_Spec waf"
  let ?crs = "if ws_CRSEnable ?s
      then [''Include @crs-setup-conf''] @ CRSSetupActions (ws_CRS ?s) @ [''Include @owasp_crs/*.conf''] @ CRSExclusions (ws_CRS ?s)
      else CRSSetupActions (ws_CRS ?s)"
  let ?pre = "[''Include @kubewaf-defaults'', ''SecRuleEngine '' @ secRuleEngineValue waf,
      ''SecDebugLogLevel '' @ itoa (if ws_LogLevel ?s = 0 then 1 else ws_LogLevel ?s)] @
      (if ftwProfileEnabled waf then [''Include @ftw-conf''] else []) @ ?crs"
  let ?post = "if ws_CRSEnable ?s then [] else CRSExclusions (ws_CRS ?s)"
  have "BuildDirectives waf rules = ?pre @ rules @ ?post"
    by (simp add: BuildDirectives_def Let_def CRSExclusions_def)
  moreover have "suffix ?crs ?pre" by (simp only: suffix_def) (metis append.assoc)
  ultimately show ?thesis
    by (intro exI [of _ ?pre] exI [of _ ?post]) (auto simp del: append_assoc)
qed

section \<open>Host and port\<close>

lemma last_index_snoc:
  assumes "CHR '':'' \<notin> set t"
  shows "last_index (CHR '':'') (s @ CHR '':'' # t) = Some (length s)"
proof -
  have "takeWhile (\<lambda>x. x \<noteq> CHR '':'') (rev (s @ CHR '':'' # t)) = rev t"
    using assms by (simp add: takeWhile_append)
  then show ?thesis by (simp add: last_index_def)
qed

text \<open>
  A service address printed as host, colon and decimal port is parsed back to that host and port,
  for every port of 32 bits and every host that is not itself empty, padded or prefixed by a scheme.
\<close>

theorem ParseHostPort_roundtrip:
  assumes "host \<noteq> []" and "port < 2 ^ 32"
    and "trim_space (host @ '':'' @ nat_to_dec port) = host @ '':'' @ nat_to_dec port"
    and "\<not> has_prefix (host @ '':'' @ nat_to_dec port) ''https://''"
    and "\<not> has_prefix (host @ '':'' @ nat_to_dec port) ''http://''"
  shows "ParseHostPort (host @ '':'' @ nat_to_dec port) d = Some (host, port)"
proof -
  let ?s = "host @ CHR '':'' # nat_to_dec port"
  obtain c h where h: "host = c # h" using assms(1) by (cases host) auto
  have "CHR '':'' \<notin> set (nat_to_dec port)"
    using nat_to_dec_digits by (fastforce simp: is_digit_def byte_def)
  then have l: "last_index (CHR '':'') ?s = Some (Suc (length h))"
    using last_index_snoc [of "nat_to_dec port" host] h by simp
  have t: "trim_space ?s = ?s" using assms(3) by simp
  have p: "trim_prefix (trim_prefix ?s ''https://'') ''http://'' = ?s"
    using assms(4,5) by (simp add: trim_prefix_def)
  have "?s \<noteq> []" by simp
  with l t p h assms(2) show ?thesis
    by (simp add: ParseHostPort_def Let_def)
qed

theorem ParseHostPort_roundtrip_witness:
  "ParseHostPort (''ecds.ns'' @ '':'' @ nat_to_dec 18001) 1 = Some (''ecds.ns'', 18001)"
proof -
  have n: "nat_to_dec 18001 = ''18001''" by (simp add: nat_to_dec.simps digit_char_def, code_simp)
  have t: "trim_space (''ecds.ns'' @ '':'' @ ''18001'') = ''ecds.ns'' @ '':'' @ ''18001''" by code_simp
  show ?thesis
    by (rule ParseHostPort_roundtrip) (simp_all only: n t, simp_all add: has_prefix_def)
qed

section \<open>Every built configuration\<close>

definition publishable :: "PortableFilter \<Rightarrow> bool" where
  "publishable f \<longleftrightarrow> pf_HTTPURL f \<noteq> [] \<and> trim_space (pf_SHA256 f) \<noteq> []"

lemma buildChallengeFilter_Inr:
  assumes "buildChallengeFilter waf opts = Inr f"
  shows "publishable f" and "pf_Role f = FilterRoleChallenge"
    and "pf_ExtensionName f = ChallengeExtensionName (waf_Namespace waf) (waf_Name waf)"
    and "\<And>s. map_of (pf_PluginJSON f) ''secret'' = Some (JStr s) \<Longrightarrow> 32 \<le> length s"
  using assms
  by (auto simp: buildChallengeFilter_def publishable_def challengePlugin_def Let_def
      split: option.splits if_splits)

lemma ext_names_distinct: "ChallengeExtensionName ns name \<noteq> ExtensionName ns name"
  by (simp add: ChallengeExtensionName_def ExtensionName_def)

text \<open>
  C23: every configuration built from a WAF has one filter per enabled part, the challenge first and
  the WAF engine last, with distinct extension names derived from the WAF's namespace and name; each
  filter has the URL and the digest that publishing requires, and a challenge secret that is present
  has at least 32 bytes.
\<close>

theorem BuildFromWAF_shape:
  assumes "BuildFromWAF gz (Some waf) rules opts = Inr p"
  shows "map pf_Role (pc_Filters p) =
      (if ChallengeEnabled (ws_Challenge (waf_Spec waf)) then [FilterRoleChallenge, FilterRoleWAF] else [FilterRoleWAF]) \<and>
    AllExtensionNames p =
      (if ChallengeEnabled (ws_Challenge (waf_Spec waf))
       then [ChallengeExtensionName (waf_Namespace waf) (waf_Name waf), ExtensionName (waf_Namespace waf) (waf_Name waf)]
       else [ExtensionName (waf_Namespace waf) (waf_Name waf)]) \<and>
    distinct (AllExtensionNames p) \<and> pc_ExtensionName p = ExtensionName (waf_Namespace waf) (waf_Name waf) \<and>
    list_all publishable (pc_Filters p) \<and>
    (\<forall>s. map_of (pf_PluginJSON (hd (pc_Filters p))) ''secret'' = Some (JStr s) \<longrightarrow>
      ChallengeEnabled (ws_Challenge (waf_Spec waf)) \<longrightarrow> 32 \<le> length s)"
proof -
  let ?on = "ChallengeEnabled (ws_Challenge (waf_Spec waf))"
  define ds where "ds = opt_or (BuildDirectives waf rules) (bo_DirectivesOverride opts)"
  define url where "url = firstNonEmpty [moduleURL opts ModuleModSecurity, bo_DefaultWasmHTTPURL opts]"
  define sha where "sha = firstNonEmpty [moduleSHA opts ModuleModSecurity, bo_DefaultWasmSHA256 opts]"
  define flt where "flt = \<lparr> pf_ExtensionName = ExtensionName (waf_Namespace waf) (waf_Name waf),
      pf_Role = FilterRoleWAF, pf_ModuleID = ModuleModSecurity, pf_WasmName = wasm_name waf,
      pf_RootID = wasm_root_id waf, pf_HTTPURL = url, pf_SHA256 = sha,
      pf_PluginJSON = buildWAFPluginJSON gz waf ds (bo_PhraseFiles opts) (bo_OverrideCRSCount opts)
        (bo_TelemetryDefaults opts) \<rparr>"
  have eq: "BuildFromWAF gz (Some waf) rules opts =
      (if url = [] then Inl WasmURLMissing else if trim_space sha = [] then Inl (WasmSHAMissing url)
       else if ?on then (case buildChallengeFilter waf opts of Inl e \<Rightarrow> Inl e
          | Inr ch \<Rightarrow> Inr (portable_config waf opts [ch, flt] flt ds))
       else Inr (portable_config waf opts [flt] flt ds))"
    unfolding BuildFromWAF_def option.case Let_def ds_def [symmetric] url_def [symmetric]
      sha_def [symmetric] flt_def ..
  have url: "url \<noteq> []" and sha: "trim_space sha \<noteq> []"
    using assms unfolding eq by (auto split: if_splits)
  have p: "if ?on then \<exists>ch. buildChallengeFilter waf opts = Inr ch \<and> p = portable_config waf opts [ch, flt] flt ds
      else p = portable_config waf opts [flt] flt ds"
    using assms url sha unfolding eq by (auto split: sum.splits)
  have w: "publishable flt" "pf_Role flt = FilterRoleWAF"
      "pf_ExtensionName flt = ExtensionName (waf_Namespace waf) (waf_Name waf)"
    using url sha by (simp_all add: flt_def publishable_def)
  show ?thesis
  proof (cases "ChallengeEnabled (ws_Challenge (waf_Spec waf))")
    case True
    with p obtain ch where ch: "buildChallengeFilter waf opts = Inr ch" "p = portable_config waf opts [ch, flt] flt ds"
      by auto
    with buildChallengeFilter_Inr [OF ch(1)] w True show ?thesis
      by (auto simp: portable_config_def AllExtensionNames_def Let_def ext_names_distinct)
  next
    case False
    with p w show ?thesis
      by (simp add: portable_config_def AllExtensionNames_def Let_def)
  qed
qed

section \<open>A concrete WAF for the examples\<close>

definition demo_challenge :: ChallengeSpec where
  "demo_challenge = \<lparr> ch_Enabled = None, ch_Secret = replicate 32 (CHR ''s''), ch_SecretRef = None,
     ch_BaseDifficulty = None, ch_MinDifficulty = None, ch_MaxDifficulty = None, ch_Header = [],
     ch_HeaderValue = [] \<rparr>"

definition demo_waf :: "string \<Rightarrow> string \<Rightarrow> ProviderType \<Rightarrow> ChallengeSpec option \<Rightarrow> WAF" where
  "demo_waf ns name prov ch =
     \<lparr> waf_Namespace = ns, waf_Name = name, waf_Annotations = [],
       waf_Spec = \<lparr> ws_Targets = \<lparr> ptr_TargetRef = None, ptr_TargetRefs = [] \<rparr>, ws_ParentRefs = None,
         ws_Provider = Some \<lparr> wp_Type = prov, wp_ECDSCluster = [], wp_ECDSService = [], wp_Istio = None,
           wp_Cilium = None \<rparr>,
         ws_Challenge = ch, ws_RuleSetRefs = [], ws_CRSEnable = False, ws_Mode = WAFModeBlocking,
         ws_LogLevel = 0, ws_Metrics = None, ws_Telemetry = None, ws_Block = None, ws_CRS = None,
         ws_PhraseListPolicy = [] \<rparr> \<rparr>"

definition demo_opts :: BuildOptions where
  "demo_opts =
     \<lparr> bo_DefaultECDSHost = ''ecds'', bo_DefaultECDSPort = 0, bo_DefaultModuleHTTP =
         [(ModuleModSecurity, ''http://w/m''), (ModuleChallenge, ''http://w/c'')],
       bo_DefaultModuleSHA256 = [(ModuleModSecurity, ''aa''), (ModuleChallenge, ''bb'')],
       bo_DefaultWasmHTTPURL = [], bo_DefaultWasmSHA256 = [], bo_ChallengeSecrets = [],
       bo_ChallengeHMAC = [], bo_DetectedProvider = [], bo_DetectedCiliumServiceName = [],
       bo_DetectedCiliumServiceNamespace = [], bo_PhraseFiles = [], bo_DirectivesOverride = None,
       bo_OverrideCRSCount = 0, bo_DefaultOTelHost = [], bo_DefaultOTelPort = 0,
       bo_TelemetryDefaults = \<lparr> td_Profile = [], td_SampleNonDisruptive = [], td_SampleDisruptive = [],
         td_Redact = False, td_IncludeMatchData = False \<rparr> \<rparr>"

definition demo_build :: "WAF \<Rightarrow> PortableConfig" where
  "demo_build waf = (case BuildFromWAF Some (Some waf) [''SecRule x''] demo_opts of Inr p \<Rightarrow> p | Inl e \<Rightarrow> undefined)"

lemma trim_space_hex [simp]: "trim_space ''aa'' = ''aa''" "trim_space ''bb'' = ''bb''"
  by code_simp+

lemma demo_build_eq:
  assumes "ch = None \<or> ch = Some demo_challenge"
  shows "BuildFromWAF Some (Some (demo_waf ns name prov ch)) [''SecRule x''] demo_opts =
    Inr (demo_build (demo_waf ns name prov ch))"
  using assms unfolding demo_build_def
  by (auto simp: BuildFromWAF_def demo_waf_def demo_opts_def demo_challenge_def moduleURL_def moduleSHA_def
      smap_get_def ChallengeEnabled_def buildChallengeFilter_def challengeSecret_def ModuleModSecurity_def
      ModuleChallenge_def Let_def split: option.splits)

theorem BuildFromWAF_shape_witness:
  "AllExtensionNames (demo_build (demo_waf ''a'' ''w'' ProviderIstio (Some demo_challenge))) =
     [''kubewaf/a/w/challenge'', ''kubewaf/a/w'']"
  using BuildFromWAF_shape [OF demo_build_eq [OF disjI2 [OF refl], of "''a''" "''w''" ProviderIstio]]
  by (simp add: demo_waf_def ChallengeEnabled_def demo_challenge_def ChallengeExtensionName_def ExtensionName_def)

end
