(* ===== verification/WafIndex.thy ===== *)
theory WafIndex
  imports Prelude
begin

text \<open>
  The contract of an in-memory index of per-WAF configurations. The ECDS server and the Envoy Gateway
  extension index both keep one entry per WAF, replaced by an upsert and removed by a delete; what a
  client may conclude from that is proved here once.
\<close>

datatype ('p, 'k) index_event = Put 'p | Drop 'k

fun apply_event :: "('p \<Rightarrow> 's \<Rightarrow> 's) \<Rightarrow> ('k \<Rightarrow> 's \<Rightarrow> 's) \<Rightarrow> ('p, 'k) index_event \<Rightarrow> 's \<Rightarrow> 's" where
  "apply_event upsert remove (Put p) s = upsert p s"
| "apply_event upsert remove (Drop k) s = remove k s"

text \<open>What one event means for the entry of one WAF.\<close>

fun entry_after :: "('p \<Rightarrow> 'k) \<Rightarrow> ('p \<Rightarrow> 'v) \<Rightarrow> 'v \<Rightarrow> 'k \<Rightarrow> ('p, 'k) index_event \<Rightarrow> 'v \<Rightarrow> 'v" where
  "entry_after key entry absent k (Put p) v = (if key p = k then entry p else v)"
| "entry_after key entry absent k (Drop k') v = (if k' = k then absent else v)"

locale waf_index =
  fixes upsert :: "'p \<Rightarrow> 's \<Rightarrow> 's"
    and remove :: "'k \<Rightarrow> 's \<Rightarrow> 's"
    and view :: "'s \<Rightarrow> 'k \<Rightarrow> 'v"
    and key :: "'p \<Rightarrow> 'k"
    and entry :: "'p \<Rightarrow> 'v"
    and absent :: 'v
    and admissible :: "'p \<Rightarrow> bool"
    and key_ok :: "'k \<Rightarrow> bool"
  assumes view_upsert:
      "admissible p \<Longrightarrow> key_ok (key p) \<Longrightarrow> key_ok k \<Longrightarrow>
       view (upsert p s) k = (if key p = k then entry p else view s k)"
    and view_remove:
      "key_ok k' \<Longrightarrow> key_ok k \<Longrightarrow> view (remove k' s) k = (if k' = k then absent else view s k)"
begin

fun event_ok :: "('p, 'k) index_event \<Rightarrow> bool" where
  "event_ok (Put p) \<longleftrightarrow> admissible p \<and> key_ok (key p)"
| "event_ok (Drop k) \<longleftrightarrow> key_ok k"

lemma view_event:
  "event_ok e \<Longrightarrow> key_ok k \<Longrightarrow>
   view (apply_event upsert remove e s) k = entry_after key entry absent k e (view s k)"
  by (cases e) (simp_all add: view_upsert view_remove)

lemma view_run:
  "(\<And>e. e \<in> set es \<Longrightarrow> event_ok e) \<Longrightarrow> key_ok k \<Longrightarrow>
   view (fold (apply_event upsert remove) es s) k = fold (entry_after key entry absent k) es (view s k)"
  by (induction es arbitrary: s) (simp_all add: view_event)

lemma fold_entry_other:
  "(\<And>p. Put p \<in> set es \<Longrightarrow> key p \<noteq> k) \<Longrightarrow> (\<And>k'. Drop k' \<in> set es \<Longrightarrow> k' \<noteq> k) \<Longrightarrow>
   fold (entry_after key entry absent k) es v = v"
proof (induction es arbitrary: v)
  case (Cons e es)
  have "entry_after key entry absent k e v = v" using Cons.prems by (cases e) auto
  with Cons show ?case by simp
qed simp

text \<open>The last event that concerns a WAF decides its entry.\<close>

lemma view_last_put:
  assumes "\<And>e. e \<in> set (es @ Put p # later) \<Longrightarrow> event_ok e" and "key_ok k" and "key p = k"
    and "\<And>q. Put q \<in> set later \<Longrightarrow> key q \<noteq> k" and "\<And>k'. Drop k' \<in> set later \<Longrightarrow> k' \<noteq> k"
  shows "view (fold (apply_event upsert remove) (es @ Put p # later) s) k = entry p"
proof -
  have "view (fold (apply_event upsert remove) (es @ Put p # later) s) k =
      fold (entry_after key entry absent k) (es @ Put p # later) (view s k)"
    by (rule view_run) (use assms in auto)
  then show ?thesis using assms(3) fold_entry_other [OF assms(4,5)] by simp
qed

lemma view_last_drop:
  assumes "\<And>e. e \<in> set (es @ Drop k # later) \<Longrightarrow> event_ok e" and "key_ok k"
    and "\<And>q. Put q \<in> set later \<Longrightarrow> key q \<noteq> k" and "\<And>k'. Drop k' \<in> set later \<Longrightarrow> k' \<noteq> k"
  shows "view (fold (apply_event upsert remove) (es @ Drop k # later) s) k = absent"
proof -
  have "view (fold (apply_event upsert remove) (es @ Drop k # later) s) k =
      fold (entry_after key entry absent k) (es @ Drop k # later) (view s k)"
    by (rule view_run) (use assms in auto)
  then show ?thesis using fold_entry_other [OF assms(3,4)] by simp
qed

end

end
