(* ===== verification/GoURL.thy ===== *)
theory GoURL
  imports Prelude
begin

text \<open>
  What the code uses of Go's \<open>net/url\<close>: \<open>url.Parse\<close> as far as it decides acceptance, the scheme
  and the host, and the methods \<open>Hostname\<close> and \<open>Port\<close>. Colons in a host follow the rule of the
  Go release of \<open>go.mod\<close>: the part after the first one must be a port.

  Parameter: \<open>ip6\<close> decodes the text between the brackets of an IP literal, \<open>None\<close> when
  \<open>net/netip\<close> does not accept it as an IPv6 address.
\<close>

section \<open>Characters\<close>

definition is_letter :: "char \<Rightarrow> bool" where
  "is_letter c \<longleftrightarrow> is_upper c \<or> is_lower c"

definition hex_val :: "char \<Rightarrow> nat option" where
  "hex_val c =
     (if is_digit c then Some (byte c - 48)
      else if 65 \<le> byte c \<and> byte c \<le> 70 then Some (byte c - 55)
      else if 97 \<le> byte c \<and> byte c \<le> 102 then Some (byte c - 87)
      else None)"

definition is_ctl :: "char \<Rightarrow> bool" where
  "is_ctl c \<longleftrightarrow> byte c < 32 \<or> byte c = 127"

text \<open>Characters below 128 that may stand unescaped in a host, and those of the user information.\<close>

definition host_char :: "char \<Rightarrow> bool" where
  "host_char c \<longleftrightarrow> byte c \<ge> 128 \<or> is_letter c \<or> is_digit c \<or>
     c \<in> set ''!$&()*+,;=:[]<>-_.~'' \<or> byte c = 39 \<or> byte c = 34"

definition userinfo_char :: "char \<Rightarrow> bool" where
  "userinfo_char c \<longleftrightarrow> is_letter c \<or> is_digit c \<or> c \<in> set ''-._:~!$&()*+,;=%@'' \<or> byte c = 39"

section \<open>Percent encoding\<close>

fun pct_ok :: "string \<Rightarrow> bool" where
  "pct_ok [] \<longleftrightarrow> True"
| "pct_ok (c # cs) \<longleftrightarrow>
     (if c = CHR ''%'' then
        (case cs of
           a # b # rest \<Rightarrow> hex_val a \<noteq> None \<and> hex_val b \<noteq> None \<and> pct_ok cs
         | _ \<Rightarrow> False)
      else pct_ok cs)"

fun unescape_host :: "string \<Rightarrow> string option" where
  "unescape_host [] = Some []"
| "unescape_host (c # cs) =
     (if c = CHR ''%'' then
        (case cs of
           a # b # rest \<Rightarrow>
             (case (hex_val a, hex_val b) of
                (Some x, Some y) \<Rightarrow>
                  if x < 8 \<and> \<not> (a = CHR ''2'' \<and> b = CHR ''5'') then None
                  else map_option (Cons (char_of (16 * x + y))) (unescape_host rest)
              | _ \<Rightarrow> None)
         | _ \<Rightarrow> None)
      else if host_char c then map_option (Cons c) (unescape_host cs)
      else None)"

section \<open>The parser\<close>

record go_url =
  url_Scheme :: string
  url_Host :: string

definition before_char :: "char \<Rightarrow> string \<Rightarrow> string" where
  "before_char k s = takeWhile (\<lambda>c. c \<noteq> k) s"

definition after_char :: "char \<Rightarrow> string \<Rightarrow> string" where
  "after_char k s = drop 1 (dropWhile (\<lambda>c. c \<noteq> k) s)"

definition after_last :: "char \<Rightarrow> string \<Rightarrow> string" where
  "after_last k s = rev (takeWhile (\<lambda>c. c \<noteq> k) (rev s))"

definition before_last :: "char \<Rightarrow> string \<Rightarrow> string" where
  "before_last k s = take (length s - length (after_last k s) - 1) s"

fun get_scheme :: "string \<Rightarrow> string \<Rightarrow> string \<Rightarrow> (string \<times> string) option" where
  "get_scheme raw acc [] = Some ([], raw)"
| "get_scheme raw acc (c # cs) =
     (if is_letter c then get_scheme raw (acc @ [c]) cs
      else if is_digit c \<or> c \<in> set ''+-.'' then
        (if acc = [] then Some ([], raw) else get_scheme raw (acc @ [c]) cs)
      else if c = CHR '':'' then (if acc = [] then None else Some (acc, cs))
      else Some ([], raw))"

definition valid_optional_port :: "string \<Rightarrow> bool" where
  "valid_optional_port s \<longleftrightarrow> s = [] \<or> (hd s = CHR '':'' \<and> list_all is_digit (tl s))"

definition parse_host :: "(string \<Rightarrow> string option) \<Rightarrow> string \<Rightarrow> string \<Rightarrow> string option" where
  "parse_host ip6 sch h =
     (if CHR ''['' \<in> set h then
        (if hd h \<noteq> CHR ''['' \<or> CHR ''['' \<in> set (tl h) \<or> CHR '']'' \<notin> set h then None
         else
           let inner = tl (before_last (CHR '']'') h); port = after_last (CHR '']'') h in
           if \<not> valid_optional_port port then None
           else map_option (\<lambda>a. ''['' @ a @ '']'' @ port) (ip6 inner))
      else if CHR '':'' \<in> set h \<and>
          \<not> list_all is_digit
              (if sch = ''postgres'' \<or> sch = ''postgresql'' then after_last (CHR '':'') h
               else after_char (CHR '':'') h) then None
      else unescape_host h)"

definition parse_authority :: "(string \<Rightarrow> string option) \<Rightarrow> string \<Rightarrow> string \<Rightarrow> string option" where
  "parse_authority ip6 sch a =
     (if CHR ''@'' \<notin> set a then parse_host ip6 sch a
      else case parse_host ip6 sch (after_last (CHR ''@'') a) of
             None \<Rightarrow> None
           | Some h \<Rightarrow>
               (let user = before_last (CHR ''@'') a in
                if list_all userinfo_char user \<and> pct_ok user then Some h else None))"

definition url_parse :: "(string \<Rightarrow> string option) \<Rightarrow> string \<Rightarrow> go_url option" where
  "url_parse ip6 raw =
     (let u = before_char (CHR ''#'') raw; frag = after_char (CHR ''#'') raw in
      if list_ex is_ctl u \<or> \<not> pct_ok frag then None
      else if u = ''*'' then Some \<lparr> url_Scheme = [], url_Host = [] \<rparr>
      else case get_scheme u [] u of
             None \<Rightarrow> None
           | Some (s0, rest0) \<Rightarrow>
               (let sch = map lower_char s0; rest = before_char (CHR ''?'') rest0 in
                if \<not> has_prefix rest ''/'' \<and> sch \<noteq> [] then Some \<lparr> url_Scheme = sch, url_Host = [] \<rparr>
                else if \<not> has_prefix rest ''/'' \<and> CHR '':'' \<in> set (before_char (CHR ''/'') rest) then None
                else if has_prefix rest ''//'' \<and> (sch \<noteq> [] \<or> \<not> has_prefix rest ''///'') then
                  (let auth = before_char (CHR ''/'') (drop 2 rest);
                       path = dropWhile (\<lambda>c. c \<noteq> CHR ''/'') (drop 2 rest) in
                   case parse_authority ip6 sch auth of
                     None \<Rightarrow> None
                   | Some h \<Rightarrow> if pct_ok path then Some \<lparr> url_Scheme = sch, url_Host = h \<rparr> else None)
                else if pct_ok rest then Some \<lparr> url_Scheme = sch, url_Host = [] \<rparr>
                else None))"

definition split_host_port :: "string \<Rightarrow> string \<times> string" where
  "split_host_port h =
     (let colon = CHR '':'' \<in> set h \<and> list_all is_digit (after_last (CHR '':'') h);
          host = (if colon then before_last (CHR '':'') h else h);
          port = (if colon then after_last (CHR '':'') h else [])
      in (if has_prefix host ''['' \<and> has_suffix host '']'' then butlast (tl host) else host, port))"

definition Hostname :: "go_url \<Rightarrow> string" where
  "Hostname u = fst (split_host_port (url_Host u))"

definition Port :: "go_url \<Rightarrow> string" where
  "Port u = snd (split_host_port (url_Host u))"

end
