(* ===== verification/Ecds.thy ===== *)
theory Ecds
  imports DirectivesThms WafIndex GoURL "HOL-Library.Word"
begin

text \<open>
  The extension configuration discovery server, \<open>internal/dataplane/ecds/server.go\<close> and
  \<open>wasm.go\<close>: the resources it keeps per WAF, the snapshot it publishes and its version counter.

  Parameters: \<open>ip6\<close> is that of \<open>url_parse\<close>, and \<open>accept\<close> tells whether the snapshot cache
  accepts a snapshot. A filter's protobuf message is the record of its fields; packing it does not
  fail, the strings being UTF-8. A portable configuration is never nil here.
\<close>

section \<open>Typed extension configurations\<close>

definition WasmCodeCluster :: string where "WasmCodeCluster = ''kubewaf_wasm_code''"

definition CECResourceName :: "string \<Rightarrow> string" where
  "CECResourceName wafName = ''kubewaf-'' @ wafName"

definition CiliumPrefixedCluster :: "string \<Rightarrow> string \<Rightarrow> string \<Rightarrow> string" where
  "CiliumPrefixedCluster ns wafName loc = ns @ ''/'' @ CECResourceName wafName @ ''/'' @ loc"

record VmConfig =
  vm_Runtime :: string
  vm_Id :: string
  vm_Uri :: string
  vm_Cluster :: string
  vm_TimeoutSeconds :: nat
  vm_Sha256 :: string
  vm_AllowPrecompiled :: bool

record TypedExtensionConfig =
  tec_Name :: string
  tec_PluginName :: string
  tec_RootId :: string
  tec_Configuration :: json_obj
  tec_Vm :: VmConfig

datatype ecds_error =
    TecURLMissing string
  | TecSHAMissing string string
  | TecRemoteSHAMissing string
  | TecURLUnparsable string
  | TecBadScheme string
  | TecNoFilters
  | TecFilter string ecds_error
  | SnapshotRejected

definition wasmFetchCluster :: "PortableConfig \<Rightarrow> string" where
  "wasmFetchCluster p =
     (if pc_Provider p = ProviderCilium \<and> pc_Namespace p \<noteq> [] \<and> pc_Name p \<noteq> []
      then CiliumPrefixedCluster (pc_Namespace p) (pc_Name p) WasmCodeCluster
      else WasmCodeCluster)"

definition buildVMConfig ::
  "(string \<Rightarrow> string option) \<Rightarrow> string \<Rightarrow> string \<Rightarrow> string \<Rightarrow> string \<Rightarrow> ecds_error + VmConfig" where
  "buildVMConfig ip6 httpURL sha256sum vmID wasmCluster =
     (case url_parse ip6 httpURL of
        None \<Rightarrow> Inl (TecURLUnparsable httpURL)
      | Some u \<Rightarrow>
          if url_Scheme u \<noteq> ''http'' \<and> url_Scheme u \<noteq> ''https'' then Inl (TecBadScheme (url_Scheme u))
          else
            let sha = trim_space sha256sum in
            if sha = [] then Inl (TecRemoteSHAMissing httpURL)
            else Inr \<lparr> vm_Runtime = ''envoy.wasm.runtime.v8'', vm_Id = vmID, vm_Uri = httpURL,
                       vm_Cluster = str_or WasmCodeCluster wasmCluster, vm_TimeoutSeconds = 30,
                       vm_Sha256 = sha, vm_AllowPrecompiled = True \<rparr>)"

definition buildOne ::
  "(string \<Rightarrow> string option) \<Rightarrow> PortableFilter \<Rightarrow> string \<Rightarrow> ecds_error + TypedExtensionConfig" where
  "buildOne ip6 f wasmCluster =
     (if pf_HTTPURL f = [] then Inl (TecURLMissing (pf_ModuleID f))
      else if trim_space (pf_SHA256 f) = [] then Inl (TecSHAMissing (pf_ModuleID f) (pf_HTTPURL f))
      else case buildVMConfig ip6 (pf_HTTPURL f) (pf_SHA256 f) (pf_ExtensionName f) wasmCluster of
             Inl e \<Rightarrow> Inl e
           | Inr vm \<Rightarrow> Inr \<lparr> tec_Name = pf_ExtensionName f, tec_PluginName = pf_WasmName f,
                             tec_RootId = pf_RootID f, tec_Configuration = pf_PluginJSON f, tec_Vm = vm \<rparr>)"

fun build_all ::
  "(string \<Rightarrow> string option) \<Rightarrow> string \<Rightarrow> PortableFilter list \<Rightarrow> ecds_error + TypedExtensionConfig list" where
  "build_all ip6 cl [] = Inr []"
| "build_all ip6 cl (f # fs) =
     (case buildOne ip6 f cl of
        Inl e \<Rightarrow> Inl (TecFilter (pf_ExtensionName f) e)
      | Inr t \<Rightarrow> (case build_all ip6 cl fs of Inl e \<Rightarrow> Inl e | Inr ts \<Rightarrow> Inr (t # ts)))"

definition compat_filter :: "PortableConfig \<Rightarrow> PortableFilter" where
  "compat_filter p =
     \<lparr> pf_ExtensionName = pc_ExtensionName p, pf_Role = FilterRoleWAF, pf_ModuleID = [],
       pf_WasmName = pc_WasmName p, pf_RootID = pc_RootID p, pf_HTTPURL = pc_HTTPURL p,
       pf_SHA256 = pc_SHA256 p, pf_PluginJSON = pc_PluginJSON p \<rparr>"

definition BuildTypedExtensionConfigs ::
  "(string \<Rightarrow> string option) \<Rightarrow> PortableConfig \<Rightarrow> ecds_error + TypedExtensionConfig list" where
  "BuildTypedExtensionConfigs ip6 p =
     build_all ip6 (wasmFetchCluster p)
       (if length (pc_Filters p) = 0 then [compat_filter p] else pc_Filters p)"

definition BuildTypedExtensionConfig ::
  "(string \<Rightarrow> string option) \<Rightarrow> PortableConfig \<Rightarrow> ecds_error + TypedExtensionConfig" where
  "BuildTypedExtensionConfig ip6 p =
     (case BuildTypedExtensionConfigs ip6 p of
        Inl e \<Rightarrow> Inl e
      | Inr ts \<Rightarrow> if length ts = 0 then Inl TecNoFilters else Inr (last ts))"

text \<open>
  The port is read with \<open>fmt.Sscanf\<close> into 64 bits, an error when it does not fit, and cut to 32.
\<close>

definition WasmCodeClusterHostPort ::
  "(string \<Rightarrow> string option) \<Rightarrow> string \<Rightarrow> (string \<times> 32 word) option" where
  "WasmCodeClusterHostPort ip6 httpURL =
     (case url_parse ip6 httpURL of
        None \<Rightarrow> None
      | Some u \<Rightarrow>
          if Hostname u = [] then None
          else if Port u = [] then Some (Hostname u, if url_Scheme u = ''https'' then 443 else 80)
          else (case dec_to_nat (Port u) of
                  None \<Rightarrow> None
                | Some p \<Rightarrow> if p < 2 ^ 64 then Some (Hostname u, word_of_nat p) else None))"

definition IsHTTPS :: "string \<Rightarrow> bool" where
  "IsHTTPS httpURL \<longleftrightarrow> has_prefix httpURL ''https://''"

section \<open>The server\<close>

type_synonym resources = "(string \<times> TypedExtensionConfig) list"

record ecds_server =
  es_version :: "64 word"
  es_resources :: resources
  es_snapshot :: "(64 word \<times> resources) option"

definition publishLocked ::
  "(64 word \<Rightarrow> resources \<Rightarrow> bool) \<Rightarrow> ecds_server \<Rightarrow> ecds_error option \<times> ecds_server" where
  "publishLocked accept s =
     (let ver = es_version s + 1; s1 = s\<lparr> es_version := ver \<rparr> in
      if accept ver (es_resources s)
      then (None, s1\<lparr> es_snapshot := Some (ver, es_resources s) \<rparr>)
      else (Some SnapshotRejected, s1))"

definition New :: "(64 word \<Rightarrow> resources \<Rightarrow> bool) \<Rightarrow> ecds_server" where
  "New accept = snd (publishLocked accept \<lparr> es_version = 0, es_resources = [], es_snapshot = None \<rparr>)"

definition owned_by :: "string \<Rightarrow> string \<Rightarrow> bool" where
  "owned_by ext name \<longleftrightarrow> name = ext \<or> has_prefix name (ext @ ''/'')"

definition Upsert ::
  "(string \<Rightarrow> string option) \<Rightarrow> (64 word \<Rightarrow> resources \<Rightarrow> bool) \<Rightarrow> PortableConfig \<Rightarrow> ecds_server \<Rightarrow>
   ecds_error option \<times> ecds_server" where
  "Upsert ip6 accept p s =
     (case BuildTypedExtensionConfigs ip6 p of
        Inl e \<Rightarrow> (Some e, s)
      | Inr tecs \<Rightarrow>
          (let kept = filter (\<lambda>(n, t). \<not> owned_by (pc_ExtensionName p) n) (es_resources s)
           in publishLocked accept
                (s\<lparr> es_resources := fold (\<lambda>t. AList.update (tec_Name t) t) tecs kept \<rparr>)))"

definition Delete ::
  "(64 word \<Rightarrow> resources \<Rightarrow> bool) \<Rightarrow> string \<Rightarrow> ecds_server \<Rightarrow> ecds_error option \<times> ecds_server" where
  "Delete accept ext s =
     (let removed = length (filter (\<lambda>(n, t). owned_by ext n) (es_resources s));
          kept = filter (\<lambda>(n, t). \<not> owned_by ext n) (es_resources s)
      in if removed = 0 then (None, s\<lparr> es_resources := kept \<rparr>)
         else publishLocked accept (s\<lparr> es_resources := kept \<rparr>))"

definition Has :: "ecds_server \<Rightarrow> string \<Rightarrow> bool" where
  "Has s ext \<longleftrightarrow> map_of (es_resources s) ext \<noteq> None"

section \<open>Ownership of resource names\<close>

definition slash_free :: "string \<Rightarrow> bool" where
  "slash_free s \<longleftrightarrow> CHR ''/'' \<notin> set s"

definition waf_key_ok :: "string \<times> string \<Rightarrow> bool" where
  "waf_key_ok k \<longleftrightarrow> slash_free (fst k) \<and> slash_free (snd k)"

abbreviation ext_of :: "string \<times> string \<Rightarrow> string" where
  "ext_of k \<equiv> ExtensionName (fst k) (snd k)"

lemma split_owned:
  assumes "waf_key_ok k" and "owned_by (ext_of k) n"
  shows "take 3 (split_on (CHR ''/'') n) = [''kubewaf'', fst k, snd k]"
proof -
  have s: "CHR ''/'' \<notin> set ''kubewaf''" "CHR ''/'' \<notin> set (fst k)" "CHR ''/'' \<notin> set (snd k)"
    using assms(1) by (auto simp: waf_key_ok_def slash_free_def)
  have "n = ''kubewaf'' @ CHR ''/'' # fst k @ CHR ''/'' # snd k \<or>
      (\<exists>t. n = ''kubewaf'' @ CHR ''/'' # fst k @ CHR ''/'' # snd k @ CHR ''/'' # t)"
    using assms(2) by (auto simp: owned_by_def ExtensionName_def has_prefix_iff)
  then show ?thesis
    by (elim disjE exE)
      (simp_all only: split_on_append [OF s(1)] split_on_append [OF s(2)] split_on_append [OF s(3)]
        split_on_single [OF s(3)], simp_all)
qed

lemma owned_by_unique:
  assumes "waf_key_ok k" "waf_key_ok k'" "owned_by (ext_of k) n" "owned_by (ext_of k') n"
  shows "k = k'"
  using split_owned [OF assms(1,3)] split_owned [OF assms(2,4)] by (auto simp: prod_eq_iff)

lemma owned_by_names [simp]:
  "owned_by (ExtensionName ns name) (ExtensionName ns name)"
  "owned_by (ExtensionName ns name) (ChallengeExtensionName ns name)"
  by (auto simp: owned_by_def ExtensionName_def ChallengeExtensionName_def has_prefix_iff)

section \<open>The server implements the index contract\<close>

text \<open>The resources of one WAF.\<close>

definition waf_resources :: "ecds_server \<Rightarrow> string \<times> string \<Rightarrow> (string \<rightharpoonup> TypedExtensionConfig)" where
  "waf_resources s k = map_of (es_resources s) |` {n. owned_by (ext_of k) n}"

definition pc_key :: "PortableConfig \<Rightarrow> string \<times> string" where
  "pc_key p = (pc_Namespace p, pc_Name p)"

definition tecs_map :: "TypedExtensionConfig list \<Rightarrow> (string \<rightharpoonup> TypedExtensionConfig)" where
  "tecs_map ts = map_of (rev (map (\<lambda>t. (tec_Name t, t)) ts))"

definition published_entry ::
  "(string \<Rightarrow> string option) \<Rightarrow> PortableConfig \<Rightarrow> (string \<rightharpoonup> TypedExtensionConfig)" where
  "published_entry ip6 p =
     (case BuildTypedExtensionConfigs ip6 p of Inl e \<Rightarrow> Map.empty | Inr ts \<Rightarrow> tecs_map ts)"

text \<open>A configuration that builds, and whose resource names belong to its own WAF.\<close>

definition well_named :: "(string \<Rightarrow> string option) \<Rightarrow> PortableConfig \<Rightarrow> bool" where
  "well_named ip6 p \<longleftrightarrow>
     pc_ExtensionName p = ext_of (pc_key p) \<and>
     (case BuildTypedExtensionConfigs ip6 p of
        Inl e \<Rightarrow> False
      | Inr ts \<Rightarrow> list_all (\<lambda>t. owned_by (pc_ExtensionName p) (tec_Name t)) ts)"

lemma map_of_fold_update:
  "map_of (fold (\<lambda>t. AList.update (tec_Name t) t) ts m) = map_of m ++ tecs_map ts"
  by (induction ts arbitrary: m) (simp_all add: tecs_map_def update_conv' map_add_def fun_eq_iff split: option.splits)

lemma map_of_filter_not_owned:
  "map_of (filter (\<lambda>(n, t). \<not> owned_by e n) m) n = (if owned_by e n then None else map_of m n)"
  by (induction m) auto

lemma publishLocked_resources [simp]: "es_resources (snd (publishLocked accept s)) = es_resources s"
  by (simp add: publishLocked_def Let_def)

lemma tecs_map_dom: "tecs_map ts n = Some t \<Longrightarrow> t \<in> set ts \<and> n = tec_Name t"
  by (auto simp: tecs_map_def dest: map_of_SomeD)

lemma view_Upsert:
  assumes "well_named ip6 p" "waf_key_ok (pc_key p)" "waf_key_ok k"
  shows "waf_resources (snd (Upsert ip6 accept p s)) k =
    (if pc_key p = k then published_entry ip6 p else waf_resources s k)"
proof -
  obtain ts where ts: "BuildTypedExtensionConfigs ip6 p = Inr ts"
    and own: "\<And>t. t \<in> set ts \<Longrightarrow> owned_by (ext_of (pc_key p)) (tec_Name t)"
    and ext: "pc_ExtensionName p = ext_of (pc_key p)"
    using assms(1) by (auto simp: well_named_def list_all_iff split: sum.splits)
  have res: "map_of (es_resources (snd (Upsert ip6 accept p s))) n =
      (case tecs_map ts n of Some t \<Rightarrow> Some t
       | None \<Rightarrow> if owned_by (ext_of (pc_key p)) n then None else map_of (es_resources s) n)" for n
    by (simp add: Upsert_def ts ext map_of_fold_update map_of_filter_not_owned map_add_def split: option.splits)
  have dom: "owned_by (ext_of (pc_key p)) n" if "tecs_map ts n = Some t" for n t
    using tecs_map_dom [OF that] own by auto
  show ?thesis
  proof (cases "pc_key p = k")
    case True
    then show ?thesis
      using dom by (auto simp: fun_eq_iff waf_resources_def restrict_map_def res published_entry_def ts
          split: option.splits)
  next
    case False
    have "\<not> owned_by (ext_of (pc_key p)) n" if "owned_by (ext_of k) n" for n
      using owned_by_unique [OF assms(2,3) _ that] False by blast
    with False dom show ?thesis
      by (auto simp: fun_eq_iff waf_resources_def restrict_map_def res split: option.splits)
  qed
qed

lemma Delete_resources:
  "es_resources (snd (Delete accept ext s)) = filter (\<lambda>(n, t). \<not> owned_by ext n) (es_resources s)"
  by (simp add: Delete_def Let_def)

lemma view_Delete:
  assumes "waf_key_ok k'" "waf_key_ok k"
  shows "waf_resources (snd (Delete accept (ext_of k') s)) k =
    (if k' = k then Map.empty else waf_resources s k)"
proof (cases "k' = k")
  case True
  then show ?thesis
    by (auto simp: fun_eq_iff waf_resources_def restrict_map_def Delete_resources map_of_filter_not_owned)
next
  case False
  have "\<not> owned_by (ext_of k') n" if "owned_by (ext_of k) n" for n
    using owned_by_unique [OF assms _ that] False by blast
  with False show ?thesis
    by (auto simp: fun_eq_iff waf_resources_def restrict_map_def Delete_resources map_of_filter_not_owned)
qed

interpretation ecds: waf_index
  "\<lambda>p s. snd (Upsert ip6 accept p s)" "\<lambda>k s. snd (Delete accept (ext_of k) s)"
  waf_resources pc_key "published_entry ip6" Map.empty "well_named ip6" waf_key_ok
  for ip6 accept
  by unfold_locales (simp_all add: view_Upsert view_Delete)

end
