(* ===== verification/XdsUtil.thy ===== *)
theory XdsUtil
  imports Ecds
begin

text \<open>
  \<open>internal/dataplane/xdsutil\<close>: the Envoy clusters, filter stubs and access logger that kubewaf adds
  to a proxy. The protobuf messages are records of the fields the code sets; what it passes through
  unread is a string.
\<close>

section \<open>Clusters\<close>

record Cluster =
  cl_Name :: string
  cl_Type :: string
  cl_LbPolicy :: string
  cl_ConnectTimeoutSeconds :: nat
  cl_Address :: string
  cl_Port :: nat
  cl_Http2 :: bool
  cl_TlsSni :: "string option"

definition strictDNSCluster :: "string \<Rightarrow> string \<Rightarrow> nat \<Rightarrow> bool \<Rightarrow> Cluster" where
  "strictDNSCluster name host port http2 =
     \<lparr> cl_Name = name, cl_Type = ''STRICT_DNS'', cl_LbPolicy = ''ROUND_ROBIN'', cl_ConnectTimeoutSeconds = 2,
       cl_Address = host, cl_Port = port, cl_Http2 = http2, cl_TlsSni = None \<rparr>"

definition MakeECDSCluster :: "string \<Rightarrow> string \<Rightarrow> nat \<Rightarrow> Cluster" where
  "MakeECDSCluster name host port = strictDNSCluster name host port True"

definition MakeOTelCluster :: "string \<Rightarrow> nat \<Rightarrow> Cluster option" where
  "MakeOTelCluster host port =
     (if host = [] then None
      else Some (strictDNSCluster DefaultOTelCluster host (if port = 0 then DefaultOTelPort else port) True))"

definition MakeWasmCodeCluster :: "(string \<Rightarrow> string option) \<Rightarrow> string \<Rightarrow> Cluster option" where
  "MakeWasmCodeCluster ip6 httpURL =
     (case WasmCodeClusterHostPort ip6 httpURL of
        None \<Rightarrow> None
      | Some (host, port) \<Rightarrow>
          (let c = strictDNSCluster WasmCodeCluster host (unat port) False in
           Some (if IsHTTPS httpURL then c\<lparr> cl_TlsSni := Some host \<rparr> else c)))"

definition MakeWasmCodeClusterFromPortable :: "(string \<Rightarrow> string option) \<Rightarrow> PortableConfig \<Rightarrow> Cluster option" where
  "MakeWasmCodeClusterFromPortable ip6 p =
     MakeWasmCodeCluster ip6 (firstNonEmpty (pc_HTTPURL p # map pf_HTTPURL (pc_Filters p)))"

definition EnsureCluster :: "Cluster list \<Rightarrow> Cluster option \<Rightarrow> Cluster list" where
  "EnsureCluster clusters add =
     (case add of
        None \<Rightarrow> clusters
      | Some a \<Rightarrow> if list_ex (\<lambda>c. cl_Name c = cl_Name a) clusters then clusters else clusters @ [a])"

section \<open>Filter stubs\<close>

datatype hf_config = ConfigDiscovery string | OtherConfig string

record HttpFilter =
  hf_Name :: string
  hf_Config :: hf_config

definition MakeECDSFilterStub :: "string \<Rightarrow> string \<Rightarrow> HttpFilter" where
  "MakeECDSFilterStub extensionName ecdsCluster =
     \<lparr> hf_Name = extensionName, hf_Config = ConfigDiscovery ecdsCluster \<rparr>"

definition MakeECDSFilterStubs :: "PortableConfig \<Rightarrow> HttpFilter list" where
  "MakeECDSFilterStubs p =
     (if length (pc_Filters p) = 0 then [MakeECDSFilterStub (pc_ExtensionName p) (pc_ECDSCluster p)]
      else map (\<lambda>f. MakeECDSFilterStub (pf_ExtensionName f) (pc_ECDSCluster p)) (pc_Filters p))"

section \<open>The access logger\<close>

definition OTelAccessLogName :: string where
  "OTelAccessLogName = ''envoy.access_loggers.open_telemetry''"

definition OTelAccessLogStatPrefix :: string where "OTelAccessLogStatPrefix = ''kubewaf''"

definition FilterStateEventKey :: string where "FilterStateEventKey = ''wasm.kubewaf.event''"

record otel_log =
  ol_Cluster :: string
  ol_DisableBuiltinLabels :: bool
  ol_StatPrefix :: string
  ol_ResourceAttributes :: string_map
  ol_Body :: string
  ol_Attributes :: string_map

datatype AccessLog = OTelAccessLog string otel_log | OtherAccessLog string string

record HttpConnectionManager =
  hcm_HttpFilters :: "HttpFilter list"
  hcm_AccessLog :: "AccessLog list"
  hcm_Rest :: string

fun is_kubewaf_log :: "AccessLog \<Rightarrow> bool" where
  "is_kubewaf_log (OTelAccessLog n l) \<longleftrightarrow> ol_StatPrefix l = OTelAccessLogStatPrefix"
| "is_kubewaf_log (OtherAccessLog n b) \<longleftrightarrow> False"

definition HasOTelAccessLog :: "HttpConnectionManager \<Rightarrow> bool" where
  "HasOTelAccessLog mgr \<longleftrightarrow> list_ex is_kubewaf_log (hcm_AccessLog mgr)"

definition MakeOTelAccessLog :: "string \<Rightarrow> AccessLog" where
  "MakeOTelAccessLog cl =
     OTelAccessLog OTelAccessLogName
       \<lparr> ol_Cluster = str_or DefaultOTelCluster cl, ol_DisableBuiltinLabels = True,
         ol_StatPrefix = OTelAccessLogStatPrefix,
         ol_ResourceAttributes = [(''service.name'', ''kubewaf'')],
         ol_Body = ''%FILTER_STATE('' @ FilterStateEventKey @ '':PLAIN)%'',
         ol_Attributes =
           [(''http.request.method'', ''%REQ(:METHOD)%''), (''url.path'', ''%REQ(:PATH)%''),
            (''http.response.status_code'', ''%RESPONSE_CODE%''),
            (''waf.request_id'', ''%REQ(X-REQUEST-ID)%''), (''traceparent'', ''%REQ(TRACEPARENT)%'')] \<rparr>"

definition AppendOTelAccessLog :: "HttpConnectionManager \<Rightarrow> string \<Rightarrow> HttpConnectionManager" where
  "AppendOTelAccessLog mgr cl =
     (if HasOTelAccessLog mgr then mgr
      else mgr\<lparr> hcm_AccessLog := hcm_AccessLog mgr @ [MakeOTelAccessLog cl] \<rparr>)"

section \<open>Facts about the helpers\<close>

lemma EnsureCluster_mono: "set cs \<subseteq> set (EnsureCluster cs add)"
  by (auto simp: EnsureCluster_def split: option.splits)

lemma EnsureCluster_has: "\<exists>c \<in> set (EnsureCluster cs (Some a)). cl_Name c = cl_Name a"
  by (auto simp: EnsureCluster_def list_ex_iff)

lemma EnsureCluster_names:
  "cl_Name ` set (EnsureCluster cs add) = cl_Name ` set cs \<union> cl_Name ` set_option add"
  by (auto simp: EnsureCluster_def list_ex_iff image_iff split: option.splits) metis

lemma EnsureCluster_distinct: "distinct (map cl_Name cs) \<Longrightarrow> distinct (map cl_Name (EnsureCluster cs add))"
  by (auto simp: EnsureCluster_def list_ex_iff split: option.splits)

lemma HasOTelAccessLog_Append: "HasOTelAccessLog (AppendOTelAccessLog mgr cl)"
  by (simp add: AppendOTelAccessLog_def HasOTelAccessLog_def MakeOTelAccessLog_def)

lemma AppendOTelAccessLog_filters [simp]: "hcm_HttpFilters (AppendOTelAccessLog mgr cl) = hcm_HttpFilters mgr"
  by (simp add: AppendOTelAccessLog_def)

lemma MakeECDSFilterStubs_names:
  "map hf_Name (MakeECDSFilterStubs p) =
     (if pc_Filters p = [] then [pc_ExtensionName p] else map pf_ExtensionName (pc_Filters p))"
  by (simp add: MakeECDSFilterStubs_def MakeECDSFilterStub_def)

lemma MakeWasmCodeCluster_name: "MakeWasmCodeCluster ip6 u = Some c \<Longrightarrow> cl_Name c = WasmCodeCluster"
  by (auto simp: MakeWasmCodeCluster_def strictDNSCluster_def Let_def split: option.splits prod.splits if_splits)

end
