(* ===== verification/ExtServer.thy ===== *)
theory ExtServer
  imports XdsUtil
begin

text \<open>
  The Envoy Gateway extension server, \<open>internal/dataplane/extensionserver/server.go\<close>: its index of
  portable configurations and the two hooks that change what Envoy Gateway sends to the proxies.

  Parameters: \<open>decode\<close> reads the bytes of an extension resource as a WAF (\<open>None\<close> when they are not
  one), \<open>gz\<close> is gzip, \<open>ip6\<close> that of \<open>url_parse\<close>, and \<open>order\<close> is the order in which Go ranges
  over the index. The server always has a client and a listener; the four remaining hooks return
  their argument.
\<close>

section \<open>The index\<close>

type_synonym eg_index = "(string \<times> PortableConfig) list"

definition index_key :: "string \<Rightarrow> string \<Rightarrow> string" where
  "index_key ns name = ns @ ''/'' @ name"

definition eg_Upsert :: "PortableConfig \<Rightarrow> eg_index \<Rightarrow> eg_index" where
  "eg_Upsert p s =
     (if pc_Provider p \<noteq> ProviderEnvoyGateway then s
      else AList.update (index_key (pc_Namespace p) (pc_Name p)) p s)"

definition eg_Delete :: "string \<Rightarrow> string \<Rightarrow> eg_index \<Rightarrow> eg_index" where
  "eg_Delete ns name s = AList.delete (index_key ns name) s"

section \<open>Matching a listener\<close>

definition parseListenerGateway :: "string \<Rightarrow> string \<times> string" where
  "parseListenerGateway listenerName =
     (let parts = split_on (CHR ''/'') listenerName in
      if length parts < 2 then ([], []) else (parts ! 0, parts ! 1))"

text \<open>
  What one target reference decides: the return value of the loop body, or to go on.
\<close>

definition ref_decision :: "PortableConfig \<Rightarrow> string \<Rightarrow> string \<Rightarrow> TargetRef \<Rightarrow> bool option" where
  "ref_decision p gwNS gwName tr =
     (if tr_Kind tr = ''Gateway'' \<and> tr_Name tr = gwName then Some (pc_Namespace p = gwNS \<or> gwNS = [])
      else if tr_Kind tr = ''HTTPRoute'' \<and> pc_Namespace p = gwNS then Some True
      else None)"

fun match_refs :: "PortableConfig \<Rightarrow> string \<Rightarrow> string \<Rightarrow> TargetRef list \<Rightarrow> bool" where
  "match_refs p gwNS gwName [] = False"
| "match_refs p gwNS gwName (tr # trs) =
     (case ref_decision p gwNS gwName tr of Some b \<Rightarrow> b | None \<Rightarrow> match_refs p gwNS gwName trs)"

definition matchesGateway :: "PortableConfig \<Rightarrow> string \<Rightarrow> string \<Rightarrow> bool" where
  "matchesGateway p gwNS gwName =
     (let refs = pc_PolicyTargets p in
      case ptr_TargetRef refs of
        None \<Rightarrow> match_refs p gwNS gwName (ptr_TargetRefs refs)
      | Some tr \<Rightarrow>
          (case ref_decision p gwNS gwName tr of
             Some b \<Rightarrow> b
           | None \<Rightarrow> match_refs p gwNS gwName (ptr_TargetRefs refs)))"

definition portableFromUnstructured ::
  "(string \<Rightarrow> WAF option) \<Rightarrow> (string \<Rightarrow> string option) \<Rightarrow> BuildOptions \<Rightarrow> string \<Rightarrow> PortableConfig option" where
  "portableFromUnstructured decode gz opts raw =
     (if raw = [] then None
      else case decode raw of
             None \<Rightarrow> None
           | Some waf \<Rightarrow>
               (case BuildFromWAF gz (Some waf) [] opts of
                  Inl e \<Rightarrow> None
                | Inr p \<Rightarrow> Some (p\<lparr> pc_Provider := ProviderEnvoyGateway \<rparr>)))"

definition matchingConfigs ::
  "(string \<Rightarrow> WAF option) \<Rightarrow> (string \<Rightarrow> string option) \<Rightarrow> BuildOptions \<Rightarrow>
   (PortableConfig list \<Rightarrow> PortableConfig list) \<Rightarrow> eg_index \<Rightarrow> string \<Rightarrow> string list \<Rightarrow> PortableConfig list" where
  "matchingConfigs decode gz opts order s listenerName resources =
     (let fromPolicy = List.map_filter (portableFromUnstructured decode gz opts) resources in
      if length fromPolicy > 0 then fromPolicy
      else
        let (gwNS, gwName) = parseListenerGateway listenerName in
        if gwName = [] then []
        else filter (\<lambda>p. matchesGateway p gwNS gwName) (order (map snd s)))"

section \<open>Injecting the filters\<close>

datatype NetFilter = HCMFilter string HttpConnectionManager | OtherNetFilter string string

record Listener =
  lis_Name :: string
  lis_DefaultFilterChain :: "NetFilter list option"
  lis_FilterChains :: "NetFilter list list"

text \<open>The stubs not yet present, each name once.\<close>

fun stubs_to_insert :: "string list \<Rightarrow> HttpFilter list \<Rightarrow> HttpFilter list" where
  "stubs_to_insert existing [] = []"
| "stubs_to_insert existing (st # sts) =
     (if hf_Name st \<in> set existing then stubs_to_insert existing sts
      else st # stubs_to_insert (hf_Name st # existing) sts)"

definition is_router :: "HttpFilter \<Rightarrow> bool" where
  "is_router hf \<longleftrightarrow> hf_Name hf = ''envoy.filters.http.router'' \<or> has_suffix (hf_Name hf) ''router''"

fun insert_before_router :: "HttpFilter list \<Rightarrow> HttpFilter list \<Rightarrow> HttpFilter list" where
  "insert_before_router toInsert [] = toInsert"
| "insert_before_router toInsert (hf # hfs) =
     (if is_router hf then toInsert @ hf # hfs else hf # insert_before_router toInsert hfs)"

definition inject_hcm :: "PortableConfig list \<Rightarrow> HttpConnectionManager \<Rightarrow> HttpConnectionManager" where
  "inject_hcm cfgs mgr =
     (let toInsert = stubs_to_insert (map hf_Name (hcm_HttpFilters mgr)) (concat (map MakeECDSFilterStubs cfgs));
          needAccessLog = list_ex pc_TelemetryManaged cfgs
      in if length toInsert = 0 \<and> (\<not> needAccessLog \<or> HasOTelAccessLog mgr) then mgr
         else
           let mgr1 = (if length toInsert > 0
                       then mgr\<lparr> hcm_HttpFilters := insert_before_router toInsert (hcm_HttpFilters mgr) \<rparr>
                       else mgr)
           in if needAccessLog then AppendOTelAccessLog mgr1 DefaultOTelCluster else mgr1)"

fun injectIntoFilterChain :: "PortableConfig list \<Rightarrow> NetFilter list \<Rightarrow> NetFilter list" where
  "injectIntoFilterChain cfgs [] = []"
| "injectIntoFilterChain cfgs (HCMFilter n mgr # fs) = HCMFilter n (inject_hcm cfgs mgr) # fs"
| "injectIntoFilterChain cfgs (OtherNetFilter n b # fs) = OtherNetFilter n b # injectIntoFilterChain cfgs fs"

definition injectFilters :: "PortableConfig list \<Rightarrow> Listener \<Rightarrow> Listener" where
  "injectFilters cfgs l =
     l\<lparr> lis_DefaultFilterChain := map_option (injectIntoFilterChain cfgs) (lis_DefaultFilterChain l),
        lis_FilterChains := map (injectIntoFilterChain cfgs) (lis_FilterChains l) \<rparr>"

definition PostHTTPListenerModify ::
  "(string \<Rightarrow> WAF option) \<Rightarrow> (string \<Rightarrow> string option) \<Rightarrow> BuildOptions \<Rightarrow>
   (PortableConfig list \<Rightarrow> PortableConfig list) \<Rightarrow> eg_index \<Rightarrow> Listener \<Rightarrow> string list \<Rightarrow> Listener" where
  "PostHTTPListenerModify decode gz opts order s l resources =
     (let matching = matchingConfigs decode gz opts order s (lis_Name l) resources in
      if length matching = 0 then l else injectFilters matching l)"

section \<open>Adding the clusters\<close>

fun first_ecds :: "BuildOptions \<Rightarrow> PortableConfig list \<Rightarrow> Cluster option" where
  "first_ecds opts [] = None"
| "first_ecds opts (p # ps) =
     (let host = str_or (bo_DefaultECDSHost opts) (pc_ECDSHost p);
          port0 = (if pc_ECDSPort p = 0 then bo_DefaultECDSPort opts else pc_ECDSPort p);
          port = (if port0 = 0 then 18001 else port0)
      in if host = [] then first_ecds opts ps
         else Some (MakeECDSCluster (str_or DefaultECDSCluster (pc_ECDSCluster p)) host port))"

definition buildECDSCluster :: "BuildOptions \<Rightarrow> PortableConfig list \<Rightarrow> Cluster option" where
  "buildECDSCluster opts cfgs =
     (case first_ecds opts cfgs of
        Some c \<Rightarrow> Some c
      | None \<Rightarrow>
          if bo_DefaultECDSHost opts = [] then None
          else Some (MakeECDSCluster DefaultECDSCluster (bo_DefaultECDSHost opts)
                       (if bo_DefaultECDSPort opts = 0 then 18001 else bo_DefaultECDSPort opts)))"

definition buildOTelCluster :: "BuildOptions \<Rightarrow> PortableConfig list \<Rightarrow> Cluster option" where
  "buildOTelCluster opts cfgs =
     (case find (\<lambda>p. pc_OTelHost p \<noteq> []) cfgs of
        Some p \<Rightarrow> MakeOTelCluster (pc_OTelHost p) (pc_OTelPort p)
      | None \<Rightarrow>
          if bo_DefaultOTelHost opts = [] then None
          else MakeOTelCluster (bo_DefaultOTelHost opts) (bo_DefaultOTelPort opts))"

definition config_urls :: "PortableConfig \<Rightarrow> string list" where
  "config_urls p = pc_HTTPURL p # filter (\<lambda>u. u \<noteq> []) (map pf_HTTPURL (pc_Filters p))"

fun ensure_wasm_clusters ::
  "(string \<Rightarrow> string option) \<Rightarrow> string list \<Rightarrow> Cluster list \<Rightarrow> string list \<Rightarrow> Cluster list" where
  "ensure_wasm_clusters ip6 seen cs [] = cs"
| "ensure_wasm_clusters ip6 seen cs (u # us) =
     (if u = [] \<or> u \<in> set seen then ensure_wasm_clusters ip6 seen cs us
      else ensure_wasm_clusters ip6 (u # seen) (EnsureCluster cs (MakeWasmCodeCluster ip6 u)) us)"

definition PostTranslateModify ::
  "(string \<Rightarrow> string option) \<Rightarrow> BuildOptions \<Rightarrow> (PortableConfig list \<Rightarrow> PortableConfig list) \<Rightarrow> eg_index \<Rightarrow>
   Cluster list \<Rightarrow> Cluster list" where
  "PostTranslateModify ip6 opts order s clusters =
     (let cfgs = order (map snd s);
          cs1 = EnsureCluster clusters (buildECDSCluster opts cfgs);
          cs2 = EnsureCluster cs1 (buildOTelCluster opts cfgs)
      in ensure_wasm_clusters ip6 [] cs2 (concat (map config_urls cfgs)))"

section \<open>The index contract\<close>

definition eg_view :: "eg_index \<Rightarrow> string \<times> string \<Rightarrow> PortableConfig option" where
  "eg_view s k = map_of s (index_key (fst k) (snd k))"

definition is_eg :: "PortableConfig \<Rightarrow> bool" where
  "is_eg p \<longleftrightarrow> pc_Provider p = ProviderEnvoyGateway"

lemma index_key_inj:
  assumes "waf_key_ok k" "waf_key_ok k'"
  shows "index_key (fst k) (snd k) = index_key (fst k') (snd k') \<longleftrightarrow> k = k'"
proof
  assume eq: "index_key (fst k) (snd k) = index_key (fst k') (snd k')"
  have split: "split_on (CHR ''/'') (index_key (fst j) (snd j)) = [fst j, snd j]" if "waf_key_ok j" for j
    using that by (simp add: index_key_def waf_key_ok_def slash_free_def split_on_append split_on_single)
  have "[fst k, snd k] = [fst k', snd k']"
    unfolding split [OF assms(1), symmetric] split [OF assms(2), symmetric] eq ..
  then show "k = k'" by (simp add: prod_eq_iff)
qed simp

lemma eg_view_Upsert:
  "is_eg p \<Longrightarrow> waf_key_ok (pc_key p) \<Longrightarrow> waf_key_ok k \<Longrightarrow>
   eg_view (eg_Upsert p s) k = (if pc_key p = k then Some p else eg_view s k)"
  using index_key_inj [of k "pc_key p"]
  by (auto simp: eg_view_def eg_Upsert_def is_eg_def update_conv' pc_key_def)

lemma eg_view_Delete:
  "waf_key_ok k' \<Longrightarrow> waf_key_ok k \<Longrightarrow>
   eg_view (eg_Delete (fst k') (snd k') s) k = (if k' = k then None else eg_view s k)"
  using index_key_inj [of k k'] by (auto simp: eg_view_def eg_Delete_def delete_conv')

interpretation eg: waf_index
  eg_Upsert "\<lambda>k s. eg_Delete (fst k) (snd k) s" eg_view pc_key Some None is_eg waf_key_ok
  by unfold_locales (simp_all add: eg_view_Upsert eg_view_Delete)

end
