(* ===== verification/EcdsThms.thy ===== *)
theory EcdsThms
  imports Ecds
begin

text \<open>
  What the ECDS server guarantees: the last event of a WAF decides the resources served for it
  whatever happens to other WAFs, every snapshot of a reachable server is well formed, publication
  makes the resources visible under a new version, and the fetch cluster of a module URL.
\<close>

section \<open>Reachable servers\<close>

inductive ecds_reachable :: "(string \<Rightarrow> string option) \<Rightarrow> ecds_server \<Rightarrow> bool" for ip6 where
  ecds_new: "ecds_reachable ip6 (New accept)"
| ecds_upsert: "ecds_reachable ip6 s \<Longrightarrow> ecds_reachable ip6 (snd (Upsert ip6 accept p s))"
| ecds_delete: "ecds_reachable ip6 s \<Longrightarrow> ecds_reachable ip6 (snd (Delete accept ext s))"

text \<open>
  A configuration Envoy can use: remote code over HTTP with a digest, from a named cluster, in a
  virtual machine of its own.
\<close>

definition tec_ok :: "(string \<Rightarrow> string option) \<Rightarrow> TypedExtensionConfig \<Rightarrow> bool" where
  "tec_ok ip6 t \<longleftrightarrow>
     vm_Sha256 (tec_Vm t) \<noteq> [] \<and> vm_Cluster (tec_Vm t) \<noteq> [] \<and> vm_Id (tec_Vm t) = tec_Name t \<and>
     (\<exists>u. url_parse ip6 (vm_Uri (tec_Vm t)) = Some u \<and> url_Scheme u \<in> {''http'', ''https''})"

definition resources_ok :: "(string \<Rightarrow> string option) \<Rightarrow> resources \<Rightarrow> bool" where
  "resources_ok ip6 rs \<longleftrightarrow> distinct (map fst rs) \<and> (\<forall>(n, t) \<in> set rs. n = tec_Name t \<and> tec_ok ip6 t)"

definition server_ok :: "(string \<Rightarrow> string option) \<Rightarrow> ecds_server \<Rightarrow> bool" where
  "server_ok ip6 s \<longleftrightarrow> resources_ok ip6 (es_resources s) \<and>
     (case es_snapshot s of None \<Rightarrow> True | Some (v, rs) \<Rightarrow> resources_ok ip6 rs)"

lemma buildVMConfig_Inr:
  "buildVMConfig ip6 url sha vid cl = Inr vm \<Longrightarrow>
   vm_Sha256 vm = trim_space sha \<and> trim_space sha \<noteq> [] \<and> vm_Cluster vm = str_or WasmCodeCluster cl \<and>
   vm_Id vm = vid \<and> vm_Uri vm = url \<and>
   (\<exists>u. url_parse ip6 url = Some u \<and> url_Scheme u \<in> {''http'', ''https''})"
  by (auto simp: buildVMConfig_def Let_def split: option.splits if_splits)

lemma buildOne_ok:
  assumes "buildOne ip6 f cl = Inr t"
  shows "tec_ok ip6 t \<and> tec_Name t = pf_ExtensionName f"
proof -
  obtain vm where vm: "buildVMConfig ip6 (pf_HTTPURL f) (pf_SHA256 f) (pf_ExtensionName f) cl = Inr vm"
    and t: "tec_Vm t = vm" "tec_Name t = pf_ExtensionName f"
    using assms by (auto simp: buildOne_def split: if_splits sum.splits)
  show ?thesis using buildVMConfig_Inr [OF vm] t
    by (auto simp: tec_ok_def str_or_def WasmCodeCluster_def)
qed

lemma build_all_ok:
  "build_all ip6 cl fs = Inr ts \<Longrightarrow>
   list_all (tec_ok ip6) ts \<and> map tec_Name ts = map pf_ExtensionName fs"
  by (induction fs arbitrary: ts) (auto split: sum.splits dest: buildOne_ok)

lemma build_all_not_rejected: "build_all ip6 cl fs = Inl e \<Longrightarrow> e \<noteq> SnapshotRejected"
  by (induction fs arbitrary: e) (auto split: sum.splits)

lemma build_ok: "BuildTypedExtensionConfigs ip6 p = Inr ts \<Longrightarrow> list_all (tec_ok ip6) ts"
  unfolding BuildTypedExtensionConfigs_def using build_all_ok by blast

lemma resources_ok_filter: "resources_ok ip6 rs \<Longrightarrow> resources_ok ip6 (filter P rs)"
  by (auto simp: resources_ok_def distinct_map_filter)

lemma set_update_subset: "set (AList.update k v rs) \<subseteq> insert (k, v) (set rs)"
  by (induction rs) auto

lemma resources_ok_update:
  assumes "resources_ok ip6 rs" and "tec_ok ip6 t"
  shows "resources_ok ip6 (AList.update (tec_Name t) t rs)"
proof -
  have "case x of (n, t') \<Rightarrow> n = tec_Name t' \<and> tec_ok ip6 t'" if "x \<in> set (AList.update (tec_Name t) t rs)" for x
    using subsetD [OF set_update_subset that] assms by (auto simp: resources_ok_def)
  then show ?thesis using assms(1) by (auto simp: resources_ok_def distinct_update)
qed

lemma resources_ok_fold:
  "resources_ok ip6 rs \<Longrightarrow> list_all (tec_ok ip6) ts \<Longrightarrow>
   resources_ok ip6 (fold (\<lambda>t. AList.update (tec_Name t) t) ts rs)"
  by (induction ts arbitrary: rs) (auto intro: resources_ok_update)

lemma publishLocked_ok:
  "server_ok ip6 (s\<lparr> es_resources := rs \<rparr>) \<Longrightarrow> server_ok ip6 (snd (publishLocked accept (s\<lparr> es_resources := rs \<rparr>)))"
  by (simp add: server_ok_def publishLocked_def Let_def)

lemma server_ok_resources:
  "server_ok ip6 s \<Longrightarrow> resources_ok ip6 rs \<Longrightarrow> server_ok ip6 (s\<lparr> es_resources := rs \<rparr>)"
  by (simp add: server_ok_def)

lemma server_ok_D: "server_ok ip6 s \<Longrightarrow> resources_ok ip6 (es_resources s)"
  by (simp add: server_ok_def)

lemma New_ok: "server_ok ip6 (New accept)"
  by (simp add: New_def publishLocked_def Let_def server_ok_def resources_ok_def)

lemma Upsert_ok: "server_ok ip6 s \<Longrightarrow> server_ok ip6 (snd (Upsert ip6 accept p s))"
  by (auto simp: Upsert_def Let_def split: sum.splits
      intro!: publishLocked_ok server_ok_resources resources_ok_fold resources_ok_filter
      dest: server_ok_D build_ok)

lemma Delete_ok: "server_ok ip6 s \<Longrightarrow> server_ok ip6 (snd (Delete accept ext s))"
  by (auto simp: Delete_def Let_def
      intro!: publishLocked_ok server_ok_resources resources_ok_filter dest: server_ok_D)

lemma reachable_ok: "ecds_reachable ip6 s \<Longrightarrow> server_ok ip6 s"
  by (induction rule: ecds_reachable.induct) (simp_all add: New_ok Upsert_ok Delete_ok)

text \<open>The portable configurations of \<open>BuildFromWAF\<close> are well named whenever they build.\<close>

lemma names_owned:
  "build_all ip6 cl fs = Inr ts \<Longrightarrow> list_all (\<lambda>f. owned_by e (pf_ExtensionName f)) fs \<Longrightarrow>
   list_all (\<lambda>t. owned_by e (tec_Name t)) ts"
  by (induction fs arbitrary: ts) (auto split: sum.splits dest: buildOne_ok)

lemma BuildFromWAF_filters:
  assumes "BuildFromWAF gz (Some waf) rules opts = Inr p"
  shows "pc_Filters p \<noteq> [] \<and> pc_key p = (waf_Namespace waf, waf_Name waf) \<and>
    pc_ExtensionName p = ext_of (pc_key p) \<and>
    list_all (\<lambda>f. owned_by (pc_ExtensionName p) (pf_ExtensionName f)) (pc_Filters p)"
  using assms
  by (auto simp: BuildFromWAF_def portable_config_def pc_key_def Let_def dest: buildChallengeFilter_Inr(3)
      split: if_splits sum.splits)

lemma BuildFromWAF_well_named:
  assumes "BuildFromWAF gz (Some waf) rules opts = Inr p" and "BuildTypedExtensionConfigs ip6 p = Inr ts"
  shows "well_named ip6 p"
proof -
  note f = BuildFromWAF_filters [OF assms(1)]
  have "build_all ip6 (wasmFetchCluster p) (pc_Filters p) = Inr ts"
    using assms(2) f by (simp add: BuildTypedExtensionConfigs_def)
  then have "list_all (\<lambda>t. owned_by (pc_ExtensionName p) (tec_Name t)) ts"
    by (rule names_owned) (use f in blast)
  then show ?thesis using f assms(2) by (simp add: well_named_def)
qed

section \<open>Sequences of events\<close>

fun ecds_event_ok :: "(string \<Rightarrow> string option) \<Rightarrow> (PortableConfig, string \<times> string) index_event \<Rightarrow> bool" where
  "ecds_event_ok ip6 (Put q) \<longleftrightarrow> well_named ip6 q \<and> waf_key_ok (pc_key q)"
| "ecds_event_ok ip6 (Drop k) \<longleftrightarrow> waf_key_ok k"

fun event_key :: "(PortableConfig, string \<times> string) index_event \<Rightarrow> string \<times> string" where
  "event_key (Put q) = pc_key q"
| "event_key (Drop k) = k"

definition ecds_run ::
  "(string \<Rightarrow> string option) \<Rightarrow> (64 word \<Rightarrow> resources \<Rightarrow> bool) \<Rightarrow>
   (PortableConfig, string \<times> string) index_event list \<Rightarrow> ecds_server \<Rightarrow> ecds_server" where
  "ecds_run ip6 accept =
     fold (apply_event (\<lambda>p s. snd (Upsert ip6 accept p s)) (\<lambda>k s. snd (Delete accept (ext_of k) s)))"

lemma locale_event_ok: "ecds_event_ok ip6 e \<Longrightarrow> ecds.event_ok ip6 e"
  by (cases e) simp_all


text \<open>
  After a WAF is deleted, nothing is served for it until it is published again.
\<close>

theorem ecds_delete_final:
  assumes "list_all (ecds_event_ok ip6) (es @ later)" and "waf_key_ok k"
    and "list_all (\<lambda>e. event_key e \<noteq> k) later"
  shows "waf_resources (ecds_run ip6 accept (es @ Drop k # later) s) k = Map.empty"
proof -
  have ok: "ecds.event_ok ip6 e" if "e \<in> set (es @ Drop k # later)" for e
    using that assms(1,2) by (auto simp: list_all_iff intro: locale_event_ok)
  have others: "pc_key q \<noteq> k" if "Put q \<in> set later" for q
    using that assms(3) by (auto simp: list_all_iff dest: bspec)
  have drops: "k' \<noteq> k" if "Drop k' \<in> set later" for k'
    using that assms(3) by (auto simp: list_all_iff dest: bspec)
  show ?thesis unfolding ecds_run_def
    by (rule ecds.view_last_drop [OF ok assms(2) others drops])
qed

text \<open>
  C26: Every snapshot a reachable server has published holds each resource once, under its own name,
  and each fetches its code over HTTP or HTTPS with a non-empty digest from a named cluster.
\<close>

theorem ecds_snapshots_ok:
  assumes "ecds_reachable ip6 s" and "es_snapshot s = Some (v, rs)"
  shows "resources_ok ip6 rs"
  using reachable_ok [OF assms(1)] assms(2) by (simp add: server_ok_def)

text \<open>
  A successful upsert publishes exactly the server's resources, under a version that differs from
  the previous one by one and so from the version Envoy last saw; a configuration that does not build
  leaves the server as it was.
\<close>

theorem ecds_upsert_publishes:
  "case Upsert ip6 accept p s of
     (None, s') \<Rightarrow> es_snapshot s' = Some (es_version s', es_resources s') \<and>
       es_version s' = es_version s + 1 \<and> es_version s' \<noteq> es_version s
   | (Some e, s') \<Rightarrow> es_snapshot s' = es_snapshot s \<and>
       (if e = SnapshotRejected then es_version s' = es_version s + 1 else s' = s)"
proof -
  have "(1 :: 64 word) \<noteq> 0" by simp
  moreover have "e \<noteq> SnapshotRejected" if "BuildTypedExtensionConfigs ip6 p = Inl e" for e
    using that build_all_not_rejected by (auto simp: BuildTypedExtensionConfigs_def)
  ultimately show ?thesis
    by (auto simp: Upsert_def publishLocked_def Let_def split: sum.splits)
qed


section \<open>The theorems at concrete inputs\<close>

text \<open>What the example configuration of a WAF without challenge publishes.\<close>

definition demo_config :: "string \<Rightarrow> string \<Rightarrow> PortableConfig" where
  "demo_config ns name = demo_build (demo_waf ns name ProviderIstio None)"

definition demo_tec :: "string \<Rightarrow> string \<Rightarrow> TypedExtensionConfig" where
  "demo_tec ns name =
     \<lparr> tec_Name = ExtensionName ns name, tec_PluginName = pc_WasmName (demo_config ns name),
       tec_RootId = pc_RootID (demo_config ns name), tec_Configuration = pc_PluginJSON (demo_config ns name),
       tec_Vm = \<lparr> vm_Runtime = ''envoy.wasm.runtime.v8'', vm_Id = ExtensionName ns name,
         vm_Uri = ''http://w/m'', vm_Cluster = WasmCodeCluster, vm_TimeoutSeconds = 30,
         vm_Sha256 = ''aa'', vm_AllowPrecompiled = True \<rparr> \<rparr>"

lemma demo_filters:
  "pc_Filters (demo_config ns name) =
     [\<lparr> pf_ExtensionName = ExtensionName ns name, pf_Role = FilterRoleWAF, pf_ModuleID = ModuleModSecurity,
        pf_WasmName = pc_WasmName (demo_config ns name), pf_RootID = pc_RootID (demo_config ns name),
        pf_HTTPURL = ''http://w/m'', pf_SHA256 = ''aa'',
        pf_PluginJSON = pc_PluginJSON (demo_config ns name) \<rparr>]"
  "pc_Provider (demo_config ns name) = ProviderIstio"
  by (auto simp: demo_config_def demo_build_def BuildFromWAF_def portable_config_def demo_waf_def demo_opts_def
      moduleURL_def moduleSHA_def smap_get_def ChallengeEnabled_def ModuleModSecurity_def ModuleChallenge_def
      resolveProvider_def Let_def)

lemma demo_url: "url_parse Some ''http://w/m'' = Some \<lparr> url_Scheme = ''http'', url_Host = ''w'' \<rparr>"
  by code_simp

lemma demo_tecs: "BuildTypedExtensionConfigs Some (demo_config ns name) = Inr [demo_tec ns name]"
  by (simp add: BuildTypedExtensionConfigs_def demo_filters wasmFetchCluster_def ProviderIstio_def ProviderCilium_def
      buildOne_def buildVMConfig_def demo_url demo_tec_def str_or_def WasmCodeCluster_def)

lemmas demo_config_eq = demo_build_eq [OF disjI1 [OF refl], of _ _ ProviderIstio, folded demo_config_def]

lemma demo_well_named: "well_named Some (demo_config ns name)" "pc_key (demo_config ns name) = (ns, name)"
  using BuildFromWAF_well_named [OF demo_config_eq demo_tecs] BuildFromWAF_filters [OF demo_config_eq]
  by (simp_all add: demo_waf_def)


theorem ecds_delete_final_witness:
  "waf_resources
     (ecds_run Some (\<lambda>_ _. True) ([Put (demo_config ''a'' ''w'')] @ Drop (''a'', ''w'') # [Put (demo_config ''a'' ''v'')])
        (New (\<lambda>_ _. True))) (''a'', ''w'') = Map.empty"
  using ecds_delete_final [of Some "[Put (demo_config ''a'' ''w'')]" "[Put (demo_config ''a'' ''v'')]" "(''a'', ''w'')"
      "\<lambda>_ _. True" "New (\<lambda>_ _. True)"]
  by (simp add: demo_well_named waf_key_ok_def slash_free_def)

lemma demo_upsert:
  "snd (Upsert Some (\<lambda>_ _. True) (demo_config ''a'' ''w'') (New (\<lambda>_ _. True))) =
   \<lparr> es_version = 2, es_resources = [(''kubewaf/a/w'', demo_tec ''a'' ''w'')],
     es_snapshot = Some (2, [(''kubewaf/a/w'', demo_tec ''a'' ''w'')]) \<rparr>"
  by (simp add: Upsert_def demo_tecs New_def publishLocked_def Let_def demo_tec_def ExtensionName_def)

theorem ecds_snapshots_ok_witness:
  "resources_ok Some [(''kubewaf/a/w'', demo_tec ''a'' ''w'')]"
proof -
  have "ecds_reachable Some (snd (Upsert Some (\<lambda>_ _. True) (demo_config ''a'' ''w'') (New (\<lambda>_ _. True))))"
    by (rule ecds_upsert [OF ecds_new])
  from ecds_snapshots_ok [OF this] show ?thesis by (simp add: demo_upsert)
qed


end
