(* ===== verification/ExtServerThms.thy ===== *)
theory ExtServerThms
  imports ExtServer EcdsThms "HOL-Library.Sublist"
begin

text \<open>
  What the Envoy Gateway hooks guarantee: injection puts every stub once and in front of the router,
  keeps the proxy's own filters in order and is idempotent; the index follows the last event of a
  WAF; which clusters the translation hook adds.
\<close>

section \<open>Injection\<close>

lemma stubs_to_insert_fresh: "hf_Name ` set (stubs_to_insert existing sts) \<inter> set existing = {}"
  by (induction existing sts rule: stubs_to_insert.induct) auto

lemma stubs_to_insert_distinct: "distinct (map hf_Name (stubs_to_insert existing sts))"
proof (induction existing sts rule: stubs_to_insert.induct)
  case (2 existing st sts)
  then show ?case using stubs_to_insert_fresh [of "hf_Name st # existing" sts] by auto
qed simp

lemma stubs_to_insert_covers:
  "hf_Name ` set sts \<subseteq> set existing \<union> hf_Name ` set (stubs_to_insert existing sts)"
  by (induction existing sts rule: stubs_to_insert.induct) auto

lemma stubs_to_insert_subseq: "subseq (stubs_to_insert existing sts) sts"
  by (induction existing sts rule: stubs_to_insert.induct) auto

lemma stubs_to_insert_none: "hf_Name ` set sts \<subseteq> set existing \<Longrightarrow> stubs_to_insert existing sts = []"
  by (induction existing sts rule: stubs_to_insert.induct) auto

lemma insert_before_router_split:
  "\<exists>pre post. hfs = pre @ post \<and> insert_before_router ins hfs = pre @ ins @ post \<and>
     list_all (\<lambda>h. \<not> is_router h) pre \<and> (post = [] \<or> is_router (hd post))"
proof (induction hfs)
  case Nil
  show ?case by simp
next
  case (Cons h hfs)
  then obtain pre post where IH: "hfs = pre @ post" "insert_before_router ins hfs = pre @ ins @ post"
    "list_all (\<lambda>h. \<not> is_router h) pre" "post = [] \<or> is_router (hd post)" by blast
  show ?case
  proof (cases "is_router h")
    case True
    then show ?thesis by (intro exI [of _ "[]"] exI [of _ "h # hfs"]) simp
  next
    case False
    then show ?thesis using IH by (intro exI [of _ "h # pre"] exI [of _ post]) simp
  qed
qed

lemma insert_before_router_Nil [simp]: "insert_before_router [] hfs = hfs"
  by (induction hfs) simp_all

lemma set_insert_before_router [simp]: "set (insert_before_router ins hfs) = set ins \<union> set hfs"
  by (induction hfs) auto

abbreviation new_stubs :: "PortableConfig list \<Rightarrow> HttpConnectionManager \<Rightarrow> HttpFilter list" where
  "new_stubs cfgs mgr \<equiv>
     stubs_to_insert (map hf_Name (hcm_HttpFilters mgr)) (concat (map MakeECDSFilterStubs cfgs))"

lemma inject_hcm_filters:
  "hcm_HttpFilters (inject_hcm cfgs mgr) = insert_before_router (new_stubs cfgs mgr) (hcm_HttpFilters mgr)"
  by (simp add: inject_hcm_def Let_def)

lemma inject_hcm_log:
  "list_ex pc_TelemetryManaged cfgs \<Longrightarrow> HasOTelAccessLog (inject_hcm cfgs mgr)"
  by (simp add: inject_hcm_def Let_def HasOTelAccessLog_Append)

lemma inject_hcm_noop:
  "new_stubs cfgs mgr = [] \<Longrightarrow> (list_ex pc_TelemetryManaged cfgs \<Longrightarrow> HasOTelAccessLog mgr) \<Longrightarrow> inject_hcm cfgs mgr = mgr"
  by (auto simp: inject_hcm_def Let_def)

lemma inject_hcm_idem: "inject_hcm cfgs (inject_hcm cfgs mgr) = inject_hcm cfgs mgr"
proof (rule inject_hcm_noop)
  show "new_stubs cfgs (inject_hcm cfgs mgr) = []"
  proof (rule stubs_to_insert_none)
    show "hf_Name ` set (concat (map MakeECDSFilterStubs cfgs)) \<subseteq>
        set (map hf_Name (hcm_HttpFilters (inject_hcm cfgs mgr)))"
      using stubs_to_insert_covers [of "concat (map MakeECDSFilterStubs cfgs)" "map hf_Name (hcm_HttpFilters mgr)"]
      by (simp add: inject_hcm_filters image_Un Un_commute)
  qed
qed (rule inject_hcm_log)

lemma injectIntoFilterChain_idem:
  "injectIntoFilterChain cfgs (injectIntoFilterChain cfgs fs) = injectIntoFilterChain cfgs fs"
  by (induction cfgs fs rule: injectIntoFilterChain.induct) (simp_all add: inject_hcm_idem)

text \<open>
  Injecting the filters of the matching WAFs into a listener a second time changes nothing, in the
  default chain and in every other chain.
\<close>

theorem injectFilters_idempotent: "injectFilters cfgs (injectFilters cfgs l) = injectFilters cfgs l"
  by (simp add: injectFilters_def injectIntoFilterChain_idem option.map_comp comp_def)

text \<open>
  C28: The connection manager keeps its own filters in their order. The stubs that were missing, each
  name once and in the order of the WAFs, stand as one block behind filters that are no router and
  directly before the first router (at the end when there is none); afterwards every filter of every
  matching WAF is present, and with managed telemetry so is the access logger.
\<close>

theorem inject_before_router:
  "\<exists>pre ins post. hcm_HttpFilters mgr = pre @ post \<and>
     hcm_HttpFilters (inject_hcm cfgs mgr) = pre @ ins @ post \<and>
     list_all (\<lambda>h. \<not> is_router h) pre \<and> (post = [] \<or> is_router (hd post)) \<and>
     distinct (map hf_Name ins) \<and> hf_Name ` set ins \<inter> hf_Name ` set (pre @ post) = {} \<and>
     subseq ins (concat (map MakeECDSFilterStubs cfgs)) \<and>
     hf_Name ` set (concat (map MakeECDSFilterStubs cfgs)) \<subseteq> hf_Name ` set (pre @ ins @ post) \<and>
     (if list_ex pc_TelemetryManaged cfgs then HasOTelAccessLog (inject_hcm cfgs mgr)
      else hcm_AccessLog (inject_hcm cfgs mgr) = hcm_AccessLog mgr)"
proof -
  let ?ins = "new_stubs cfgs mgr"
  obtain pre post where s: "hcm_HttpFilters mgr = pre @ post"
      "insert_before_router ?ins (hcm_HttpFilters mgr) = pre @ ?ins @ post"
      "list_all (\<lambda>h. \<not> is_router h) pre" "post = [] \<or> is_router (hd post)"
    using insert_before_router_split by metis
  have log: "if list_ex pc_TelemetryManaged cfgs then HasOTelAccessLog (inject_hcm cfgs mgr)
      else hcm_AccessLog (inject_hcm cfgs mgr) = hcm_AccessLog mgr"
    using inject_hcm_log [of cfgs mgr] by (simp add: inject_hcm_def Let_def)
  have fresh: "hf_Name ` set ?ins \<inter> hf_Name ` set (pre @ post) = {}"
    using stubs_to_insert_fresh [of "map hf_Name (hcm_HttpFilters mgr)" "concat (map MakeECDSFilterStubs cfgs)"]
    unfolding s(1) set_map .
  have covers: "hf_Name ` set (concat (map MakeECDSFilterStubs cfgs)) \<subseteq> hf_Name ` set (pre @ ?ins @ post)"
    using stubs_to_insert_covers [of "concat (map MakeECDSFilterStubs cfgs)" "map hf_Name (hcm_HttpFilters mgr)"]
    unfolding s(1) set_map set_append image_Un by blast
  show ?thesis
    using s log fresh covers stubs_to_insert_distinct stubs_to_insert_subseq inject_hcm_filters
    by (intro exI [of _ pre] exI [of _ ?ins] exI [of _ post] conjI) simp_all
qed

section \<open>The index and the listener hook\<close>

text \<open>Go ranges over a map in some order, visiting each entry.\<close>

definition order_ok :: "('a list \<Rightarrow> 'a list) \<Rightarrow> bool" where
  "order_ok order \<longleftrightarrow> (\<forall>xs. set (order xs) = set xs)"

fun eg_event_ok :: "(PortableConfig, string \<times> string) index_event \<Rightarrow> bool" where
  "eg_event_ok (Put q) \<longleftrightarrow> is_eg q \<and> waf_key_ok (pc_key q)"
| "eg_event_ok (Drop k) \<longleftrightarrow> waf_key_ok k"

definition eg_run :: "(PortableConfig, string \<times> string) index_event list \<Rightarrow> eg_index \<Rightarrow> eg_index" where
  "eg_run = fold (apply_event eg_Upsert (\<lambda>k s. eg_Delete (fst k) (snd k) s))"

lemma eg_locale_event_ok: "eg_event_ok e \<Longrightarrow> eg.event_ok e"
  by (cases e) simp_all

lemma parseListenerGateway_name:
  assumes "slash_free ns" "slash_free gw" "gw \<noteq> []"
  shows "parseListenerGateway (ns @ ''/'' @ gw @ ''/'' @ section_name) = (ns, gw)"
  using assms by (simp add: parseListenerGateway_def slash_free_def split_on_append Let_def)

lemma matchingConfigs_index:
  assumes "order_ok order" and "eg_view s k = Some p" and "slash_free ns" "slash_free gw" "gw \<noteq> []"
    and "matchesGateway p ns gw"
  shows "p \<in> set (matchingConfigs decode gz opts order s (ns @ ''/'' @ gw @ ''/'' @ section_name) [])"
proof -
  have "p \<in> set (map snd s)" using assms(2) by (force simp: eg_view_def dest: map_of_SomeD)
  then have "p \<in> set (order (map snd s))" using assms(1) unfolding order_ok_def by blast
  then show ?thesis using assms(5,6)
    unfolding matchingConfigs_def parseListenerGateway_name [OF assms(3-5)] by (simp add: List.map_filter_def)
qed

lemma inject_has_stub:
  "p \<in> set cfgs \<Longrightarrow> hf_Name ` set (MakeECDSFilterStubs p) \<subseteq> hf_Name ` set (hcm_HttpFilters (inject_hcm cfgs mgr))"
  using stubs_to_insert_covers [of "concat (map MakeECDSFilterStubs cfgs)" "map hf_Name (hcm_HttpFilters mgr)"]
  by (auto simp: inject_hcm_filters)


text \<open>
  When a WAF is moved from Envoy Gateway to another provider, publishing the new configuration
  leaves the old one in this index: its gateway's listeners still match it.
\<close>

theorem eg_stale_after_switch:
  assumes "order_ok order" and "waf_key_ok (pc_key p)" and "is_eg p" and "\<not> is_eg q" and "pc_key q = pc_key p"
    and "slash_free gw" "gw \<noteq> []" and "matchesGateway p (pc_Namespace p) gw"
  shows "p \<in> set (matchingConfigs decode gz opts order (eg_run [Put p, Put q] s)
      (pc_Namespace p @ ''/'' @ gw @ ''/'' @ section_name) [])"
proof (rule matchingConfigs_index [OF assms(1)])
  have "eg_run [Put p, Put q] s = eg_Upsert p s"
    using assms(4) by (simp add: eg_run_def eg_Upsert_def is_eg_def)
  then show "eg_view (eg_run [Put p, Put q] s) (pc_key p) = Some p"
    using eg_view_Upsert [OF assms(3,2,2)] by simp
  show "slash_free (pc_Namespace p)" using assms(2) by (simp add: waf_key_ok_def pc_key_def)
qed (use assms in simp_all)

section \<open>The translation hook\<close>

abbreviation is_wasm_cluster :: "Cluster \<Rightarrow> bool" where
  "is_wasm_cluster c \<equiv> cl_Name c = WasmCodeCluster"

lemma EnsureCluster_wasm_absorb:
  "list_ex is_wasm_cluster cs \<Longrightarrow> EnsureCluster cs (MakeWasmCodeCluster ip6 u) = cs"
  by (cases "MakeWasmCodeCluster ip6 u") (auto simp: EnsureCluster_def dest: MakeWasmCodeCluster_name)

lemma ensure_wasm_absorb:
  "list_ex is_wasm_cluster cs \<Longrightarrow> ensure_wasm_clusters ip6 seen cs us = cs"
  by (induction ip6 seen cs us rule: ensure_wasm_clusters.induct) (simp_all add: EnsureCluster_wasm_absorb)

text \<open>The URLs that give a cluster.\<close>

definition wasm_clusters_of :: "(string \<Rightarrow> string option) \<Rightarrow> string list \<Rightarrow> Cluster list" where
  "wasm_clusters_of ip6 us = List.map_filter (MakeWasmCodeCluster ip6) (filter (\<lambda>u. u \<noteq> []) us)"

lemma wasm_clusters_of_Cons:
  "wasm_clusters_of ip6 (u # us) =
     (if u = [] then wasm_clusters_of ip6 us
      else case MakeWasmCodeCluster ip6 u of None \<Rightarrow> wasm_clusters_of ip6 us | Some c \<Rightarrow> c # wasm_clusters_of ip6 us)"
  by (simp add: wasm_clusters_of_def List.map_filter_def split: option.splits)

lemma ensure_wasm_first:
  "\<not> list_ex is_wasm_cluster cs \<Longrightarrow> (\<And>u. u \<in> set seen \<Longrightarrow> MakeWasmCodeCluster ip6 u = None) \<Longrightarrow>
   ensure_wasm_clusters ip6 seen cs us = cs @ take 1 (wasm_clusters_of ip6 us)"
proof (induction us arbitrary: seen)
  case Nil
  then show ?case by (simp add: wasm_clusters_of_def List.map_filter_def)
next
  case (Cons u us)
  show ?case
  proof (cases "u = [] \<or> u \<in> set seen")
    case True
    with Cons show ?thesis by (auto simp: wasm_clusters_of_Cons)
  next
    case False
    show ?thesis
    proof (cases "MakeWasmCodeCluster ip6 u")
      case None
      have "ensure_wasm_clusters ip6 (u # seen) cs us = cs @ take 1 (wasm_clusters_of ip6 us)"
        by (rule Cons.IH) (use Cons.prems None in auto)
      with False None show ?thesis by (simp add: wasm_clusters_of_Cons EnsureCluster_def)
    next
      case (Some c)
      then have "EnsureCluster cs (Some c) = cs @ [c]"
        using Cons.prems(1) MakeWasmCodeCluster_name [OF Some] by (auto simp: EnsureCluster_def list_ex_iff)
      moreover have "list_ex is_wasm_cluster (cs @ [c])" using MakeWasmCodeCluster_name [OF Some] by simp
      ultimately show ?thesis using False Some by (simp add: wasm_clusters_of_Cons ensure_wasm_absorb)
    qed
  qed
qed

lemma first_ecds_name:
  "first_ecds opts cfgs = Some c \<Longrightarrow> \<exists>p \<in> set cfgs. cl_Name c = str_or DefaultECDSCluster (pc_ECDSCluster p)"
  by (induction cfgs)
    (auto simp: MakeECDSCluster_def strictDNSCluster_def Let_def split: if_splits)

lemma buildECDSCluster_name:
  "buildECDSCluster opts cfgs = Some c \<Longrightarrow>
   cl_Name c = DefaultECDSCluster \<or> (\<exists>p \<in> set cfgs. cl_Name c = str_or DefaultECDSCluster (pc_ECDSCluster p))"
  by (auto simp: buildECDSCluster_def MakeECDSCluster_def strictDNSCluster_def dest: first_ecds_name
      split: option.splits if_splits)

lemma MakeOTelCluster_name: "MakeOTelCluster h n = Some c \<Longrightarrow> cl_Name c = DefaultOTelCluster"
  by (auto simp: MakeOTelCluster_def strictDNSCluster_def split: if_splits)

lemma buildOTelCluster_name: "buildOTelCluster opts cfgs = Some c \<Longrightarrow> cl_Name c = DefaultOTelCluster"
  by (auto simp: buildOTelCluster_def dest: MakeOTelCluster_name split: option.splits if_splits)

lemma wasm_clusters_of_name: "c \<in> set (wasm_clusters_of ip6 us) \<Longrightarrow> cl_Name c = WasmCodeCluster"
  by (auto simp: wasm_clusters_of_def List.map_filter_def MakeWasmCodeCluster_name)

text \<open>
  The clusters before the fetch cluster, and which cluster names can be added at all.
\<close>

lemma no_wasm_cluster: "WasmCodeCluster \<notin> cl_Name ` set cs \<longleftrightarrow> \<not> list_ex is_wasm_cluster cs"
  by (simp add: list_ex_iff image_iff) metis

lemma first_ecds_Some: "bo_DefaultECDSHost opts \<noteq> [] \<Longrightarrow> \<exists>c. first_ecds opts (q # qs) = Some c"
  by (cases "pc_ECDSHost q = []") (simp_all add: str_or_def Let_def)

lemma ensure_wasm_set:
  "set (ensure_wasm_clusters ip6 seen cs us) \<subseteq> set cs \<union> {c. is_wasm_cluster c}"
proof (induction ip6 seen cs us rule: ensure_wasm_clusters.induct)
  case (2 ip6 seen cs u us)
  have "set (EnsureCluster cs (MakeWasmCodeCluster ip6 u)) \<subseteq> set cs \<union> {c. is_wasm_cluster c}"
    by (auto simp: EnsureCluster_def dest: MakeWasmCodeCluster_name split: option.splits if_splits)
  with 2 show ?case by auto
qed simp

lemma ensure_wasm_mono: "set cs \<subseteq> set (ensure_wasm_clusters ip6 seen cs us)"
proof (induction ip6 seen cs us rule: ensure_wasm_clusters.induct)
  case (2 ip6 seen cs u us)
  with EnsureCluster_mono [of cs "MakeWasmCodeCluster ip6 u"] show ?case by auto
qed simp

lemma subset_two_steps: "A \<subseteq> X \<union> {v} \<Longrightarrow> B \<subseteq> A \<union> {w} \<Longrightarrow> B \<subseteq> X \<union> {v, w}"
  by auto

lemma PostTranslateModify_names:
  "cl_Name ` set (PostTranslateModify ip6 opts order s clusters) \<subseteq>
     cl_Name ` set clusters \<union> cl_Name ` set_option (buildECDSCluster opts (order (map snd s))) \<union>
     {DefaultOTelCluster, WasmCodeCluster}"
proof -
  let ?cfgs = "order (map snd s)"
  let ?cs = "EnsureCluster (EnsureCluster clusters (buildECDSCluster opts ?cfgs)) (buildOTelCluster opts ?cfgs)"
  have "cl_Name ` set_option (buildOTelCluster opts ?cfgs) \<subseteq> {DefaultOTelCluster}"
    by (auto dest: buildOTelCluster_name simp: elem_set)
  then have "cl_Name ` set ?cs \<subseteq> cl_Name ` set clusters \<union> cl_Name ` set_option (buildECDSCluster opts ?cfgs) \<union>
      {DefaultOTelCluster}"
    unfolding EnsureCluster_names by blast
  moreover have "cl_Name ` set (ensure_wasm_clusters ip6 [] ?cs us) \<subseteq> cl_Name ` set ?cs \<union> {WasmCodeCluster}" for us
    using ensure_wasm_set [of ip6 "[]" ?cs us] by auto
  ultimately show ?thesis unfolding PostTranslateModify_def Let_def by (rule subset_two_steps)
qed

text \<open>
  However many module URLs the indexed WAFs have, on however many hosts, at most one fetch cluster
  is added, the one of the first URL from which a host can be read.
\<close>

theorem wasm_cluster_of_first_url:
  assumes "\<not> list_ex is_wasm_cluster clusters"
    and "list_all (\<lambda>p. pc_ECDSCluster p \<noteq> WasmCodeCluster) (order (map snd s))"
  shows "filter is_wasm_cluster (PostTranslateModify ip6 opts order s clusters) =
    take 1 (wasm_clusters_of ip6 (concat (map config_urls (order (map snd s)))))"
proof -
  let ?cfgs = "order (map snd s)"
  let ?cs = "EnsureCluster (EnsureCluster clusters (buildECDSCluster opts ?cfgs)) (buildOTelCluster opts ?cfgs)"
  have ne: "DefaultECDSCluster \<noteq> WasmCodeCluster" "DefaultOTelCluster \<noteq> WasmCodeCluster"
    by (simp_all add: DefaultECDSCluster_def DefaultOTelCluster_def WasmCodeCluster_def)
  have "WasmCodeCluster \<notin> cl_Name ` set_option (buildECDSCluster opts ?cfgs)"
    using assms(2) ne(1) by (auto simp: elem_set list_all_iff str_or_def dest!: buildECDSCluster_name split: if_splits)
  moreover have "WasmCodeCluster \<notin> cl_Name ` set_option (buildOTelCluster opts ?cfgs)"
    using ne(2) by (auto simp: elem_set dest: buildOTelCluster_name)
  moreover have "WasmCodeCluster \<notin> cl_Name ` set clusters" using assms(1) by (simp add: no_wasm_cluster)
  ultimately have "WasmCodeCluster \<notin> cl_Name ` set ?cs" by (simp add: EnsureCluster_names)
  then have no: "\<not> list_ex is_wasm_cluster ?cs" unfolding no_wasm_cluster .
  then have "filter is_wasm_cluster ?cs = []" by (auto simp: filter_empty_conv list_ex_iff)
  moreover have "filter is_wasm_cluster (take 1 (wasm_clusters_of ip6 us)) = take 1 (wasm_clusters_of ip6 us)" for us
    by (rule filter_True) (auto dest!: in_set_takeD wasm_clusters_of_name)
  moreover have run: "ensure_wasm_clusters ip6 [] ?cs us = ?cs @ take 1 (wasm_clusters_of ip6 us)" for us
    by (rule ensure_wasm_first [OF no]) simp
  ultimately show ?thesis unfolding PostTranslateModify_def Let_def run by simp
qed

text \<open>
  When the operator has an ECDS host and the indexed WAFs share one cluster name, every stub the
  listener hook can inject refers to a cluster of the translated configuration.
\<close>

theorem eg_ecds_cluster_present:
  assumes "order_ok order" and "bo_DefaultECDSHost opts \<noteq> []" and "n \<noteq> []"
    and "list_all (\<lambda>p. pc_ECDSCluster p = n) (map snd s)"
    and "p \<in> set (map snd s)" and "st \<in> set (MakeECDSFilterStubs p)"
  shows "\<exists>c \<in> set (PostTranslateModify ip6 opts order s clusters). hf_Config st = ConfigDiscovery (cl_Name c)"
proof -
  let ?cfgs = "order (map snd s)"
  have cfgs: "set ?cfgs = set (map snd s)" using assms(1) by (simp add: order_ok_def)
  then have "?cfgs \<noteq> []" using assms(5) by auto
  then obtain q qs where "?cfgs = q # qs" by (cases ?cfgs) auto
  then obtain c where c: "first_ecds opts ?cfgs = Some c" using first_ecds_Some [OF assms(2)] by metis
  obtain r where r: "r \<in> set (map snd s)" "cl_Name c = str_or DefaultECDSCluster (pc_ECDSCluster r)"
    using first_ecds_name [OF c] cfgs by blast
  have "pc_ECDSCluster r = n" using r(1) assms(4) by (auto simp: list_all_iff)
  with r(2) assms(3) have "cl_Name c = n" by (simp add: str_or_def)
  moreover have "buildECDSCluster opts ?cfgs = Some c" by (simp add: buildECDSCluster_def c)
  ultimately have "n \<in> cl_Name ` set (EnsureCluster clusters (buildECDSCluster opts ?cfgs))"
    by (simp add: EnsureCluster_names)
  moreover have "set (EnsureCluster clusters (buildECDSCluster opts ?cfgs)) \<subseteq>
      set (PostTranslateModify ip6 opts order s clusters)"
    unfolding PostTranslateModify_def Let_def by (rule subset_trans [OF EnsureCluster_mono ensure_wasm_mono])
  ultimately have "n \<in> cl_Name ` set (PostTranslateModify ip6 opts order s clusters)" by (rule subsetD [OF image_mono, rotated])
  moreover have "hf_Config st = ConfigDiscovery n"
    using assms(4-6) by (auto simp: MakeECDSFilterStubs_def MakeECDSFilterStub_def list_all_iff split: if_splits)
  ultimately show ?thesis by auto
qed

text \<open>
  With two cluster names in the index, one of the two is missing from the translated
  configuration, so a stub of that WAF refers to a cluster Envoy does not have.
\<close>

theorem eg_second_ecds_cluster_missing:
  assumes "pc_ECDSCluster p \<noteq> pc_ECDSCluster q"
    and "\<And>r. r \<in> {p, q} \<Longrightarrow> pc_ECDSCluster r \<notin> cl_Name ` set clusters \<union> {DefaultOTelCluster, WasmCodeCluster}"
  shows "\<exists>r \<in> {p, q}. pc_ECDSCluster r \<notin> cl_Name ` set (PostTranslateModify ip6 opts order s clusters)"
proof (rule ccontr)
  let ?e = "buildECDSCluster opts (order (map snd s))"
  assume "\<not> ?thesis"
  then have "pc_ECDSCluster r \<in> cl_Name ` set_option ?e" if "r \<in> {p, q}" for r
    using that assms(2) [OF that] subsetD [OF PostTranslateModify_names [of ip6 opts order s clusters]]
    by (metis (no_types, lifting) Un_iff)
  from this [of p] this [of q] have "pc_ECDSCluster p = pc_ECDSCluster q" by (auto simp: elem_set)
  with assms(1) show False ..
qed

section \<open>The theorems at concrete inputs\<close>

definition gateway_ref :: "string \<Rightarrow> PolicyTargetReferences" where
  "gateway_ref gw =
     \<lparr> ptr_TargetRef = None,
       ptr_TargetRefs = [\<lparr> tr_Group = ''gateway.networking.k8s.io'', tr_Kind = ''Gateway'', tr_Name = gw \<rparr>] \<rparr>"

definition demo_eg :: "string \<Rightarrow> string \<Rightarrow> string \<Rightarrow> PortableConfig" where
  "demo_eg name cl url =
     (demo_config ''a'' name)\<lparr> pc_Provider := ProviderEnvoyGateway, pc_PolicyTargets := gateway_ref ''gw'',
        pc_ECDSCluster := cl, pc_HTTPURL := url, pc_Filters := [] \<rparr>"

lemma demo_eg_key: "pc_key (demo_eg name cl url) = (''a'', name)" "pc_Namespace (demo_eg name cl url) = ''a''"
  using demo_well_named(2) [of "''a''" name] by (simp_all add: demo_eg_def pc_key_def)

lemma demo_eg_props:
  "is_eg (demo_eg name cl url)" "matchesGateway (demo_eg name cl url) ''a'' ''gw''"
  "pc_ECDSCluster (demo_eg name cl url) = cl" "config_urls (demo_eg name cl url) = [url]"
  using demo_eg_key [of name cl url]
  by (simp_all add: demo_eg_def is_eg_def matchesGateway_def gateway_ref_def ref_decision_def config_urls_def)

lemma order_ok_id: "order_ok (\<lambda>xs. xs)"
  by (simp add: order_ok_def)

definition demo_listener :: Listener where
  "demo_listener =
     \<lparr> lis_Name = ''a/gw/http'', lis_DefaultFilterChain = None,
       lis_FilterChains = [[HCMFilter ''hcm'' \<lparr> hcm_HttpFilters =
         [\<lparr> hf_Name = ''envoy.filters.http.router'', hf_Config = OtherConfig [] \<rparr>],
         hcm_AccessLog = [], hcm_Rest = [] \<rparr>]] \<rparr>"


theorem eg_stale_after_switch_witness:
  "demo_eg ''w'' ''e'' ''u'' \<in> set (matchingConfigs (\<lambda>_. None) Some demo_opts (\<lambda>xs. xs)
     (eg_run [Put (demo_eg ''w'' ''e'' ''u''), Put (demo_config ''a'' ''w'')] []) (''a'' @ ''/'' @ ''gw'' @ ''/'' @ ''http'') [])"
  using eg_stale_after_switch [of "\<lambda>xs. xs" "demo_eg ''w'' ''e'' ''u''" "demo_config ''a'' ''w''" "''gw''"
      "\<lambda>_. None" Some demo_opts "[]" "''http''"]
  by (simp add: order_ok_id demo_eg_props demo_eg_key demo_well_named waf_key_ok_def slash_free_def
      is_eg_def [of "demo_config ''a'' ''w''"] demo_filters ProviderIstio_def ProviderEnvoyGateway_def)

lemma demo_hosts:
  "url_parse Some ''http://x:81/m'' = Some \<lparr> url_Scheme = ''http'', url_Host = ''x:81'' \<rparr>"
  "url_parse Some ''http://y/m'' = Some \<lparr> url_Scheme = ''http'', url_Host = ''y'' \<rparr>"
  "split_host_port ''x:81'' = (''x'', ''81'')" "split_host_port ''y'' = (''y'', [])"
  "dec_to_nat ''81'' = Some 81"
  by code_simp+

lemma demo_urls:
  "MakeWasmCodeCluster Some ''http://x:81/m'' = Some (strictDNSCluster WasmCodeCluster ''x'' 81 False)"
  "MakeWasmCodeCluster Some ''http://y/m'' = Some (strictDNSCluster WasmCodeCluster ''y'' 80 False)"
  by (simp_all add: MakeWasmCodeCluster_def WasmCodeClusterHostPort_def demo_hosts Hostname_def Port_def
      IsHTTPS_def has_prefix_def Let_def unat_of_nat)

theorem wasm_cluster_of_first_url_witness:
  "filter is_wasm_cluster (PostTranslateModify Some demo_opts (\<lambda>xs. xs)
     [(''a/v'', demo_eg ''v'' ''e'' ''http://x:81/m''), (''a/w'', demo_eg ''w'' ''e'' ''http://y/m'')] []) =
   [strictDNSCluster WasmCodeCluster ''x'' 81 False]"
  using wasm_cluster_of_first_url [of "[]" "\<lambda>xs. xs"
      "[(''a/v'', demo_eg ''v'' ''e'' ''http://x:81/m''), (''a/w'', demo_eg ''w'' ''e'' ''http://y/m'')]" Some demo_opts]
  by (simp add: demo_eg_props wasm_clusters_of_Cons demo_urls WasmCodeCluster_def)

theorem eg_ecds_cluster_present_witness:
  "\<exists>c \<in> set (PostTranslateModify Some demo_opts (\<lambda>xs. xs) [(''a/w'', demo_eg ''w'' ''e'' ''http://y/m'')] []).
     hf_Config (MakeECDSFilterStub (pc_ExtensionName (demo_eg ''w'' ''e'' ''http://y/m'')) ''e'') = ConfigDiscovery (cl_Name c)"
  by (rule eg_ecds_cluster_present [where n = "''e''" and p = "demo_eg ''w'' ''e'' ''http://y/m''"])
    (simp_all add: order_ok_id demo_eg_props MakeECDSFilterStubs_def, simp_all add: demo_opts_def demo_eg_def)

theorem eg_second_ecds_cluster_missing_witness:
  "\<exists>r \<in> {demo_eg ''v'' ''e'' ''u'', demo_eg ''w'' ''f'' ''u''}. pc_ECDSCluster r \<notin>
     cl_Name ` set (PostTranslateModify Some demo_opts (\<lambda>xs. xs)
       [(''a/v'', demo_eg ''v'' ''e'' ''u''), (''a/w'', demo_eg ''w'' ''f'' ''u'')] [])"
  by (rule eg_second_ecds_cluster_missing)
    (auto simp: demo_eg_props DefaultOTelCluster_def WasmCodeCluster_def)

end
