(* ===== verification/Resolver.thy ===== *)
theory Resolver
  imports SecLangTypes WafTypes
begin

text \<open>
  Resolution of rule references, \<open>internal/references2/resolver.go\<close>.

  The API server is a parameter: a \<open>ref_client\<close> gives the calls the code makes, each a function of
  an abstract cluster state \<open>'w\<close>; it also carries what the code uses of the Kubernetes libraries,
  the evaluation of label selectors and \<open>AddFinalizer\<close>. An unstructured object is its kind, name and
  namespace with the result of converting it to the type of its kind.

  A RuleSet may refer to RuleSets, to any depth and in a cycle; \<open>reconcileRefs\<close> has fuel for the
  depth of that nesting, and out of fuel is \<open>None\<close>.
\<close>

section \<open>Objects and the client\<close>

datatype payload = PRuleSet RuleSetSpec | PSecRule SecRule | PSecAction SecAction | PUndecodable | POther

record uobj =
  uo_Kind :: string
  uo_Namespace :: string
  uo_Name :: string
  uo_Finalizers :: "string list"
  uo_Payload :: payload

record GroupVersionKind =
  gvk_Group :: string
  gvk_Version :: string
  gvk_Kind :: string

record 'w ref_client =
  rc_Get :: "GroupVersionKind \<Rightarrow> string \<Rightarrow> string \<Rightarrow> 'w \<Rightarrow> uobj api_result"
  rc_List :: "GroupVersionKind \<Rightarrow> (string_map \<Rightarrow> bool) \<Rightarrow> 'w \<Rightarrow> uobj list api_result"
  rc_GetNamespace :: "string \<Rightarrow> 'w \<Rightarrow> string_map api_result"
  rc_Update :: "uobj \<Rightarrow> 'w \<Rightarrow> uobj api_result \<times> 'w"
  rc_AsSelector :: "LabelSelector \<Rightarrow> (string_map \<Rightarrow> bool) option"
  rc_AddFinalizer :: "uobj \<Rightarrow> string \<Rightarrow> bool \<times> uobj"

text \<open>
  The referring object: its kind, namespace and name, and the namespace policy of a RuleSet.
\<close>

record ref_source =
  rs_Kind :: string
  rs_Namespace :: string
  rs_Name :: string
  rs_Policy :: "RuleNamespaces option"

datatype lookup_error = BadSelector | LookupGet "uobj api_result" | LookupList "uobj list api_result" | WrongReference

datatype allow_error =
    CrossNamespace
  | SelectorRequired
  | NamespaceLookup "string_map api_result"
  | InvalidSelector
  | NamespaceNotMatched
  | UnknownFrom string

datatype ReferenceError =
    LookupFailed RuleRef lookup_error
  | NotAllowed RuleRef allow_error
  | LockFailed RuleRef "uobj api_result"

section \<open>Looking up one reference\<close>

definition applyRuleRefDefaults :: "RuleRef \<Rightarrow> string \<Rightarrow> RuleRef" where
  "applyRuleRefDefaults ref ownerNS =
     (let r1 = (if rr_Namespace ref = [] then ref\<lparr> rr_Namespace := ownerNS \<rparr> else ref);
          with_gv = (\<lambda>r g. r\<lparr> rr_Group := (if rr_Group r = [] then g else rr_Group r),
                              rr_Version := (if rr_Version r = [] then ''v1beta1'' else rr_Version r) \<rparr>)
      in if rr_Kind r1 = ''SecRule'' \<or> rr_Kind r1 = ''SecAction'' then with_gv r1 ''seclang.kubewaf.io''
         else if rr_Kind r1 = ''RuleSet'' \<or> rr_Kind r1 = []
         then with_gv (r1\<lparr> rr_Kind := ''RuleSet'' \<rparr>) ''waf.kubewaf.io''
         else r1)"

definition getDynamicObjects ::
  "'w ref_client \<Rightarrow> 'w \<Rightarrow> GroupVersionKind \<Rightarrow> string \<Rightarrow> string \<Rightarrow> lookup_error + uobj list" where
  "getDynamicObjects c w gvk name ns =
     (case rc_Get c gvk ns name w of ApiOk obj \<Rightarrow> Inr [obj] | e \<Rightarrow> Inl (LookupGet e))"

definition listDynamicObjects ::
  "'w ref_client \<Rightarrow> 'w \<Rightarrow> GroupVersionKind \<Rightarrow> (string_map \<Rightarrow> bool) \<Rightarrow> lookup_error + uobj list" where
  "listDynamicObjects c w gvk selector =
     (let listGVK = (if has_suffix (gvk_Kind gvk) ''List'' then gvk else gvk\<lparr> gvk_Kind := gvk_Kind gvk @ ''List'' \<rparr>)
      in case rc_List c listGVK selector w of ApiOk objs \<Rightarrow> Inr objs | e \<Rightarrow> Inl (LookupList e))"

definition lookupRef :: "'w ref_client \<Rightarrow> 'w \<Rightarrow> RuleRef \<Rightarrow> lookup_error + uobj list" where
  "lookupRef c w ref =
     (let gvk = \<lparr> gvk_Group = rr_Group ref, gvk_Version = rr_Version ref, gvk_Kind = rr_Kind ref \<rparr> in
      case rr_Selector ref of
        Some ls \<Rightarrow>
          (case rc_AsSelector c ls of None \<Rightarrow> Inl BadSelector | Some sel \<Rightarrow> listDynamicObjects c w gvk sel)
      | None \<Rightarrow>
          if rr_Name ref \<noteq> [] then getDynamicObjects c w gvk (rr_Name ref) (rr_Namespace ref)
          else Inl WrongReference)"

section \<open>The namespace policy\<close>

definition allowedObject :: "'w ref_client \<Rightarrow> 'w \<Rightarrow> uobj \<Rightarrow> ref_source \<Rightarrow> allow_error option" where
  "allowedObject c w obj source =
     (if rs_Namespace source = uo_Namespace obj then None
      else case rs_Policy source of
             None \<Rightarrow> None
           | Some policy \<Rightarrow>
               (let from_ns = (case rn_From policy of None \<Rightarrow> ''Same'' | Some f \<Rightarrow> f) in
                if from_ns = ''All'' then None
                else if from_ns = ''Same'' \<or> from_ns = [] then Some CrossNamespace
                else if from_ns = ''Selector'' then
                  (case rn_Selector policy of
                     None \<Rightarrow> Some SelectorRequired
                   | Some ls \<Rightarrow>
                       (case rc_GetNamespace c (uo_Namespace obj) w of
                          ApiOk labels \<Rightarrow>
                            (case rc_AsSelector c ls of
                               None \<Rightarrow> Some InvalidSelector
                             | Some sel \<Rightarrow> if sel labels then None else Some NamespaceNotMatched)
                        | e \<Rightarrow> Some (NamespaceLookup e)))
                else Some (UnknownFrom from_ns)))"

section \<open>Back references\<close>

definition RuleSetRefFinalizer :: string where "RuleSetRefFinalizer = ''ruleSetRef.kubewaf.io''"

definition add_back_ref :: "ref_source \<Rightarrow> uobj \<Rightarrow> bool \<times> uobj" where
  "add_back_ref source obj =
     (case uo_Payload obj of
        PSecRule sr \<Rightarrow>
          if uo_Kind obj = ''SecRule'' then
            (let (changed, refs) = AddRuleSetRef (rs_Kind source) (rs_Name source) (rs_Namespace source)
                                     (st_RuleSetRefs (sr_Status sr))
             in (changed, if changed
                 then obj\<lparr> uo_Payload := PSecRule (sr\<lparr> sr_Status := (sr_Status sr)\<lparr> st_RuleSetRefs := refs \<rparr> \<rparr>) \<rparr>
                 else obj))
          else (False, obj)
      | PSecAction sa \<Rightarrow>
          if uo_Kind obj = ''SecAction'' then
            (let (changed, refs) = AddRuleSetRef (rs_Kind source) (rs_Name source) (rs_Namespace source)
                                     (sas_RuleSetRefs (sa_Status sa))
             in (changed, if changed
                 then obj\<lparr> uo_Payload := PSecAction (sa\<lparr> sa_Status := (sa_Status sa)\<lparr> sas_RuleSetRefs := refs \<rparr> \<rparr>) \<rparr>
                 else obj))
          else (False, obj)
      | _ \<Rightarrow> (False, obj))"

definition lockObject ::
  "'w ref_client \<Rightarrow> uobj \<Rightarrow> ref_source \<Rightarrow> 'w \<Rightarrow> (uobj api_result option \<times> uobj) \<times> 'w" where
  "lockObject c obj source w =
     (let (updatedFirst, o1) = rc_AddFinalizer c obj RuleSetRefFinalizer;
          (updatedSecond, o2) = add_back_ref source o1
      in if updatedFirst \<or> updatedSecond
         then (case rc_Update c o2 w of
                 (ApiOk o3, w1) \<Rightarrow> ((None, o3), w1)
               | (e, w1) \<Rightarrow> ((Some e, o2), w1))
         else ((None, o2), w))"

section \<open>Expanding references\<close>

text \<open>
  The objects found, the errors of single references, and the fatal error (a RuleSet that does not
  convert) that ends the expansion.
\<close>

type_synonym expansion = "uobj list \<times> ReferenceError list \<times> uobj option"

definition as_RuleSet :: "uobj \<Rightarrow> RuleSetSpec option" where
  "as_RuleSet obj = (case uo_Payload obj of PRuleSet s \<Rightarrow> Some s | _ \<Rightarrow> None)"

definition ruleset_source :: "uobj \<Rightarrow> RuleSetSpec \<Rightarrow> ref_source" where
  "ruleset_source obj s =
     \<lparr> rs_Kind = uo_Kind obj, rs_Namespace = uo_Namespace obj, rs_Name = uo_Name obj,
       rs_Policy = Some (rss_AllowedRules s) \<rparr>"

definition lock_if :: "bool \<Rightarrow> 'w ref_client \<Rightarrow> uobj \<Rightarrow> ref_source \<Rightarrow> 'w \<Rightarrow> (uobj api_result option \<times> uobj) \<times> 'w" where
  "lock_if lock c obj source w =
     (if lock then
        (case lockObject c obj source w of
           ((Some ApiConflict, o1), w1) \<Rightarrow> ((None, o1), w1)
         | r \<Rightarrow> r)
      else ((None, obj), w))"

text \<open>
  The two loops of \<open>reconcileRefs\<close>, over the objects of one reference and over the references;
  \<open>rec\<close> is the recursive call for a nested RuleSet.
\<close>

type_synonym 'w expander = "RuleRef list \<Rightarrow> ref_source \<Rightarrow> 'w \<Rightarrow> (expansion \<times> 'w) option"

fun reconcile_items ::
  "'w expander \<Rightarrow> 'w ref_client \<Rightarrow> bool \<Rightarrow> RuleRef \<Rightarrow> ref_source \<Rightarrow> uobj list \<Rightarrow> ReferenceError list \<Rightarrow> uobj list \<Rightarrow>
   'w \<Rightarrow> (expansion \<times> 'w) option" where
  "reconcile_items rec c lock ref source objs errs [] w = Some ((objs, errs, None), w)"
| "reconcile_items rec c lock ref source objs errs (obj # rest) w =
     (case allowedObject c w obj source of
        Some e \<Rightarrow> reconcile_items rec c lock ref source objs (errs @ [NotAllowed ref e]) rest w
      | None \<Rightarrow>
          (case lock_if lock c obj source w of
             ((Some e, o1), w1) \<Rightarrow> reconcile_items rec c lock ref source objs (errs @ [LockFailed ref e]) rest w1
           | ((None, o1), w1) \<Rightarrow>
               if uo_Kind o1 = ''RuleSet'' then
                 (case as_RuleSet o1 of
                    None \<Rightarrow> Some ((objs, errs, Some o1), w1)
                  | Some s \<Rightarrow>
                      (case rec (rss_RuleRefs s) (ruleset_source o1 s) w1 of
                         None \<Rightarrow> None
                       | Some ((objs2, errs2, Some f), w2) \<Rightarrow> Some ((objs, errs, Some f), w2)
                       | Some ((objs2, errs2, None), w2) \<Rightarrow>
                           reconcile_items rec c lock ref source (objs @ objs2 @ [o1]) (errs @ errs2) rest w2))
               else reconcile_items rec c lock ref source (objs @ [o1]) errs rest w1))"

fun reconcile_list ::
  "'w expander \<Rightarrow> 'w ref_client \<Rightarrow> bool \<Rightarrow> ref_source \<Rightarrow> uobj list \<Rightarrow> ReferenceError list \<Rightarrow> RuleRef list \<Rightarrow>
   'w \<Rightarrow> (expansion \<times> 'w) option" where
  "reconcile_list rec c lock source objs errs [] w = Some ((objs, errs, None), w)"
| "reconcile_list rec c lock source objs errs (ref # refs) w =
     (case lookupRef c w (applyRuleRefDefaults ref (rs_Namespace source)) of
        Inl e \<Rightarrow> reconcile_list rec c lock source objs (errs @ [LookupFailed ref e]) refs w
      | Inr items \<Rightarrow>
          (case reconcile_items rec c lock ref source objs errs items w of
             None \<Rightarrow> None
           | Some ((objs1, errs1, Some f), w1) \<Rightarrow> Some ((objs1, errs1, Some f), w1)
           | Some ((objs1, errs1, None), w1) \<Rightarrow> reconcile_list rec c lock source objs1 errs1 refs w1))"

primrec reconcileRefs :: "nat \<Rightarrow> 'w ref_client \<Rightarrow> bool \<Rightarrow> 'w expander" where
  "reconcileRefs 0 c lock = (\<lambda>refs source w. None)"
| "reconcileRefs (Suc n) c lock =
     (\<lambda>refs source w. reconcile_list (reconcileRefs n c lock) c lock source [] [] refs w)"

definition AddUpdateReconcile :: "nat \<Rightarrow> 'w ref_client \<Rightarrow> 'w expander" where
  "AddUpdateReconcile n c = reconcileRefs n c True"

definition Resolve :: "nat \<Rightarrow> 'w ref_client \<Rightarrow> 'w expander" where
  "Resolve n c = reconcileRefs n c False"

end
