(* ===== verification/ResolverThms.thy ===== *)
theory ResolverThms
  imports Resolver
begin

text \<open>
  What resolution computes: the objects reachable over allowed references, an error list that is empty
  exactly when no reference fails anywhere, termination when the RuleSets are not cyclic, and no
  result at any depth when they are.
\<close>

section \<open>The reference definition\<close>

text \<open>One reference of a source leads to an object the policy of the source admits.\<close>

definition item_of :: "'w ref_client \<Rightarrow> 'w \<Rightarrow> ref_source \<Rightarrow> RuleRef \<Rightarrow> uobj \<Rightarrow> bool" where
  "item_of c w source ref obj \<longleftrightarrow>
     (case lookupRef c w (applyRuleRefDefaults ref (rs_Namespace source)) of
        Inl e \<Rightarrow> False | Inr items \<Rightarrow> obj \<in> set items \<and> allowedObject c w obj source = None)"

definition is_ruleset :: "uobj \<Rightarrow> RuleSetSpec \<Rightarrow> bool" where
  "is_ruleset obj s \<longleftrightarrow> uo_Kind obj = ''RuleSet'' \<and> as_RuleSet obj = Some s"

inductive resolves :: "'w ref_client \<Rightarrow> 'w \<Rightarrow> RuleRef list \<Rightarrow> ref_source \<Rightarrow> uobj \<Rightarrow> bool" for c w where
  direct: "ref \<in> set refs \<Longrightarrow> item_of c w source ref obj \<Longrightarrow> resolves c w refs source obj"
| nested: "ref \<in> set refs \<Longrightarrow> item_of c w source ref rs \<Longrightarrow> is_ruleset rs s \<Longrightarrow>
    resolves c w (rss_RuleRefs s) (ruleset_source rs s) obj \<Longrightarrow> resolves c w refs source obj"

inductive fails :: "'w ref_client \<Rightarrow> 'w \<Rightarrow> RuleRef list \<Rightarrow> ref_source \<Rightarrow> bool" for c w where
  lookup: "ref \<in> set refs \<Longrightarrow> lookupRef c w (applyRuleRefDefaults ref (rs_Namespace source)) = Inl e \<Longrightarrow>
    fails c w refs source"
| denied: "ref \<in> set refs \<Longrightarrow> lookupRef c w (applyRuleRefDefaults ref (rs_Namespace source)) = Inr items \<Longrightarrow>
    obj \<in> set items \<Longrightarrow> allowedObject c w obj source = Some e \<Longrightarrow> fails c w refs source"
| inner: "ref \<in> set refs \<Longrightarrow> item_of c w source ref rs \<Longrightarrow> is_ruleset rs s \<Longrightarrow>
    fails c w (rss_RuleRefs s) (ruleset_source rs s) \<Longrightarrow> fails c w refs source"

inductive_simps resolves_iff: "resolves c w refs source obj"
inductive_simps fails_iff: "fails c w refs source"

text \<open>What the objects of one reference contribute, and whether one of them fails.\<close>

definition contributes :: "'w ref_client \<Rightarrow> 'w \<Rightarrow> ref_source \<Rightarrow> uobj \<Rightarrow> uobj set" where
  "contributes c w source x =
     (if allowedObject c w x source = None
      then {x} \<union> {obj. \<exists>s. is_ruleset x s \<and> resolves c w (rss_RuleRefs s) (ruleset_source x s) obj} else {})"

definition item_fails :: "'w ref_client \<Rightarrow> 'w \<Rightarrow> ref_source \<Rightarrow> uobj \<Rightarrow> bool" where
  "item_fails c w source x \<longleftrightarrow> allowedObject c w x source \<noteq> None \<or>
     (\<exists>s. is_ruleset x s \<and> fails c w (rss_RuleRefs s) (ruleset_source x s))"

definition ref_contributes :: "'w ref_client \<Rightarrow> 'w \<Rightarrow> ref_source \<Rightarrow> RuleRef \<Rightarrow> uobj set" where
  "ref_contributes c w source ref =
     (case lookupRef c w (applyRuleRefDefaults ref (rs_Namespace source)) of
        Inl e \<Rightarrow> {} | Inr items \<Rightarrow> (\<Union>x \<in> set items. contributes c w source x))"

definition ref_fails :: "'w ref_client \<Rightarrow> 'w \<Rightarrow> ref_source \<Rightarrow> RuleRef \<Rightarrow> bool" where
  "ref_fails c w source ref \<longleftrightarrow>
     (case lookupRef c w (applyRuleRefDefaults ref (rs_Namespace source)) of
        Inl e \<Rightarrow> True | Inr items \<Rightarrow> (\<exists>x \<in> set items. item_fails c w source x))"

lemma ref_contributes_iff:
  "obj \<in> ref_contributes c w source ref \<longleftrightarrow>
     item_of c w source ref obj \<or>
     (\<exists>rs s. item_of c w source ref rs \<and> is_ruleset rs s \<and> resolves c w (rss_RuleRefs s) (ruleset_source rs s) obj)"
  by (cases "lookupRef c w (applyRuleRefDefaults ref (rs_Namespace source))")
    (auto simp: item_of_def ref_contributes_def contributes_def split: if_splits)

lemma resolves_contributes:
  "{obj. resolves c w refs source obj} = (\<Union>ref \<in> set refs. ref_contributes c w source ref)"
proof -
  have "resolves c w refs source obj \<longleftrightarrow> (\<exists>ref \<in> set refs. obj \<in> ref_contributes c w source ref)" for obj
    unfolding ref_contributes_iff by (subst resolves_iff) blast
  then show ?thesis by blast
qed

lemma ref_fails_iff:
  "ref_fails c w source ref \<longleftrightarrow>
     (\<exists>e. lookupRef c w (applyRuleRefDefaults ref (rs_Namespace source)) = Inl e) \<or>
     (\<exists>items obj e. lookupRef c w (applyRuleRefDefaults ref (rs_Namespace source)) = Inr items \<and>
        obj \<in> set items \<and> allowedObject c w obj source = Some e) \<or>
     (\<exists>rs s. item_of c w source ref rs \<and> is_ruleset rs s \<and> fails c w (rss_RuleRefs s) (ruleset_source rs s))"
  by (cases "lookupRef c w (applyRuleRefDefaults ref (rs_Namespace source))")
    (auto simp: item_of_def ref_fails_def item_fails_def)

lemma fails_ref_fails: "fails c w refs source \<longleftrightarrow> (\<exists>ref \<in> set refs. ref_fails c w source ref)"
  unfolding ref_fails_iff by (subst fails_iff) blast

section \<open>The loops compute it\<close>

text \<open>An expander that is right wherever it returns without a fatal error.\<close>

definition exact :: "'w ref_client \<Rightarrow> 'w expander \<Rightarrow> bool" where
  "exact c rec \<longleftrightarrow>
     (\<forall>refs source w objs errs w'. rec refs source w = Some ((objs, errs, None), w') \<longrightarrow>
        w' = w \<and> set objs = {obj. resolves c w refs source obj} \<and> (errs = [] \<longleftrightarrow> \<not> fails c w refs source))"

lemma lock_if_False [simp]: "lock_if False c obj source w = ((None, obj), w)"
  by (simp add: lock_if_def)

lemma reconcile_items_exact:
  assumes "exact c rec"
  shows "reconcile_items rec c False ref source objs errs items w = Some ((objs', errs', None), w') \<Longrightarrow>
    w' = w \<and> set objs' = set objs \<union> (\<Union>x \<in> set items. contributes c w source x) \<and>
    (errs' = [] \<longleftrightarrow> errs = [] \<and> \<not> (\<exists>x \<in> set items. item_fails c w source x))"
proof (induction items arbitrary: objs errs)
  case (Cons x items)
  show ?case
  proof (cases "allowedObject c w x source")
    case (Some e)
    with Cons.IH [OF Cons.prems [simplified Some reconcile_items.simps option.case]] show ?thesis
      by (simp add: contributes_def item_fails_def)
  next
    case None
    show ?thesis
    proof (cases "uo_Kind x = ''RuleSet''")
      case False
      then have "\<not> is_ruleset x s" for s by (simp add: is_ruleset_def)
      with False None Cons.prems Cons.IH [of "objs @ [x]" errs] show ?thesis
        by (simp add: contributes_def item_fails_def)
    next
      case True
      then obtain s objs2 errs2 w2 where s: "as_RuleSet x = Some s"
        and r: "rec (rss_RuleRefs s) (ruleset_source x s) w = Some ((objs2, errs2, None), w2)"
        and k: "reconcile_items rec c False ref source (objs @ objs2 @ [x]) (errs @ errs2) items w2 =
          Some ((objs', errs', None), w')"
        using Cons.prems None by (auto split: option.splits)
      have rec: "w2 = w" "set objs2 = {obj. resolves c w (rss_RuleRefs s) (ruleset_source x s) obj}"
        "errs2 = [] \<longleftrightarrow> \<not> fails c w (rss_RuleRefs s) (ruleset_source x s)"
        using assms r unfolding exact_def by blast+
      have "is_ruleset x s' \<longleftrightarrow> s' = s" for s' using True s by (auto simp: is_ruleset_def)
      with Cons.IH [OF k [unfolded rec(1)]] rec None show ?thesis
        by (auto simp: contributes_def item_fails_def)
    qed
  qed
qed simp

lemma reconcile_list_exact:
  assumes "exact c rec"
  shows "reconcile_list rec c False source objs errs refs w = Some ((objs', errs', None), w') \<Longrightarrow>
    w' = w \<and> set objs' = set objs \<union> (\<Union>ref \<in> set refs. ref_contributes c w source ref) \<and>
    (errs' = [] \<longleftrightarrow> errs = [] \<and> \<not> (\<exists>ref \<in> set refs. ref_fails c w source ref))"
proof (induction refs arbitrary: objs errs)
  case (Cons ref refs)
  show ?case
  proof (cases "lookupRef c w (applyRuleRefDefaults ref (rs_Namespace source))")
    case (Inl e)
    with Cons.prems Cons.IH [of objs "errs @ [LookupFailed ref e]"] show ?thesis
      by (simp add: ref_contributes_def ref_fails_def)
  next
    case (Inr items)
    with Cons.prems obtain objs1 errs1 w1
      where i: "reconcile_items rec c False ref source objs errs items w = Some ((objs1, errs1, None), w1)"
        and l: "reconcile_list rec c False source objs1 errs1 refs w1 = Some ((objs', errs', None), w')"
      by (auto split: option.splits)
    note i' = reconcile_items_exact [OF assms i]
    with Cons.IH [OF l [unfolded conjunct1 [OF i']]] Inr show ?thesis
      by (simp add: ref_contributes_def ref_fails_def Un_assoc)
  qed
qed simp

lemma reconcileRefs_exact: "exact c (reconcileRefs n c False)"
proof (induction n)
  case (Suc n)
  show ?case unfolding exact_def
    by (auto dest!: reconcile_list_exact [OF Suc.IH] simp: resolves_contributes fails_ref_fails)
qed (simp add: exact_def)

text \<open>
  C30: Where read-only resolution returns without a fatal error, it has not changed the cluster, its
  objects are exactly those reachable over allowed references through RuleSets, and its error list is
  empty exactly when no lookup and no namespace policy fails on the way.
\<close>

theorem Resolve_exact:
  assumes "Resolve n c refs source w = Some ((objs, errs, None), w')"
  shows "w' = w \<and> set objs = {obj. resolves c w refs source obj} \<and> (errs = [] \<longleftrightarrow> \<not> fails c w refs source)"
  using assms reconcileRefs_exact [of c n] unfolding Resolve_def exact_def by blast

section \<open>Fuel\<close>

definition extends :: "'w expander \<Rightarrow> 'w expander \<Rightarrow> bool" where
  "extends rec rec' \<longleftrightarrow> (\<forall>refs source w r. rec refs source w = Some r \<longrightarrow> rec' refs source w = Some r)"

lemma extendsD: "extends rec rec' \<Longrightarrow> rec refs source w = Some r \<Longrightarrow> rec' refs source w = Some r"
  unfolding extends_def by blast

lemma reconcile_items_mono:
  assumes "extends rec rec'"
  shows "reconcile_items rec c lock ref source objs errs items w = Some r \<Longrightarrow>
    reconcile_items rec' c lock ref source objs errs items w = Some r"
proof (induction items arbitrary: objs errs w)
  case (Cons obj rest)
  obtain le o1 w1 where l: "lock_if lock c obj source w = ((le, o1), w1)" by (metis surj_pair)
  show ?case
  proof (cases "allowedObject c w obj source = None \<and> le = None \<and> uo_Kind o1 = ''RuleSet'' \<and> as_RuleSet o1 \<noteq> None")
    case True
    then obtain s where s: "as_RuleSet o1 = Some s" by auto
    obtain r1 where r1: "rec (rss_RuleRefs s) (ruleset_source o1 s) w1 = Some r1"
      using Cons.prems l True s by (auto split: option.splits)
    from Cons.prems l True s r1 extendsD [OF assms r1] Cons.IH show ?thesis
      by (auto split: option.splits prod.splits)
  next
    case False
    then show ?thesis using Cons.prems Cons.IH l by (auto split: option.splits)
  qed
qed simp

lemma reconcile_list_mono:
  assumes "extends rec rec'"
  shows "reconcile_list rec c lock source objs errs refs w = Some r \<Longrightarrow>
    reconcile_list rec' c lock source objs errs refs w = Some r"
proof (induction refs arbitrary: objs errs w)
  case (Cons ref refs)
  show ?case
  proof (cases "lookupRef c w (applyRuleRefDefaults ref (rs_Namespace source))")
    case (Inl e)
    with Cons show ?thesis by simp
  next
    case (Inr items)
    then obtain r1 where r1: "reconcile_items rec c lock ref source objs errs items w = Some r1"
      using Cons.prems by (auto split: option.splits)
    from Cons.prems Cons.IH Inr r1 reconcile_items_mono [OF assms r1] show ?thesis
      by (auto split: option.splits prod.splits)
  qed
qed simp

lemma extends_step:
  "extends rec rec' \<Longrightarrow>
   extends (\<lambda>refs source w. reconcile_list rec c lock source [] [] refs w)
     (\<lambda>refs source w. reconcile_list rec' c lock source [] [] refs w)"
  unfolding extends_def [of "\<lambda>refs source w. reconcile_list rec c lock source [] [] refs w"]
  by (intro allI impI) (rule reconcile_list_mono)

lemma reconcileRefs_Suc: "extends (reconcileRefs n c lock) (reconcileRefs (Suc n) c lock)"
proof (induction n)
  case (Suc n)
  show ?case using extends_step [OF Suc.IH, of c lock] by simp
qed (simp add: extends_def)

lemma reconcileRefs_fuel:
  "n \<le> m \<Longrightarrow> reconcileRefs n c lock refs source w = Some r \<Longrightarrow> reconcileRefs m c lock refs source w = Some r"
proof (induction m)
  case (Suc m)
  then show ?case using extendsD [OF reconcileRefs_Suc] by (cases "n = Suc m") (simp_all del: reconcileRefs.simps)
qed simp

section \<open>Termination\<close>

text \<open>The recursive calls that the loops make on RuleSets all return.\<close>

lemma reconcile_items_total:
  assumes "exact c rec"
    and "\<And>x s. x \<in> set items \<Longrightarrow> allowedObject c w x source = None \<Longrightarrow> is_ruleset x s \<Longrightarrow>
      rec (rss_RuleRefs s) (ruleset_source x s) w \<noteq> None"
  shows "reconcile_items rec c False ref source objs errs items w \<noteq> None"
  using assms(2)
proof (induction items arbitrary: objs errs)
  case (Cons x items)
  have IH: "reconcile_items rec c False ref source objs' errs' items w \<noteq> None" for objs' errs'
    by (rule Cons.IH, rule Cons.prems) auto
  show ?case
  proof (cases "allowedObject c w x source = None \<and> uo_Kind x = ''RuleSet'' \<and> as_RuleSet x \<noteq> None")
    case True
    then obtain s where s: "as_RuleSet x = Some s" by auto
    with True Cons.prems [of x s] obtain objs2 errs2 f w2
      where r: "rec (rss_RuleRefs s) (ruleset_source x s) w = Some ((objs2, errs2, f), w2)"
      by (auto simp: is_ruleset_def)
    have "f = None \<Longrightarrow> w2 = w" using assms(1) r unfolding exact_def by blast
    with True s r IH show ?thesis by (cases f) simp_all
  next
    case False
    with IH show ?thesis by (auto split: option.splits)
  qed
qed simp

lemma reconcile_list_total:
  assumes "exact c rec"
    and "\<And>ref x s. ref \<in> set refs \<Longrightarrow> item_of c w source ref x \<Longrightarrow> is_ruleset x s \<Longrightarrow>
      rec (rss_RuleRefs s) (ruleset_source x s) w \<noteq> None"
  shows "reconcile_list rec c False source objs errs refs w \<noteq> None"
  using assms(2)
proof (induction refs arbitrary: objs errs)
  case (Cons ref refs)
  have IH: "reconcile_list rec c False source objs' errs' refs w \<noteq> None" for objs' errs'
    by (rule Cons.IH, rule Cons.prems) auto
  show ?case
  proof (cases "lookupRef c w (applyRuleRefDefaults ref (rs_Namespace source))")
    case (Inl e)
    with IH show ?thesis by simp
  next
    case (Inr items)
    have "reconcile_items rec c False ref source objs errs items w \<noteq> None"
      by (rule reconcile_items_total [OF assms(1)]) (use Cons.prems [of ref] Inr in \<open>auto simp: item_of_def\<close>)
    then obtain objs1 errs1 f w1
      where i: "reconcile_items rec c False ref source objs errs items w = Some ((objs1, errs1, f), w1)" by auto
    have "f = None \<Longrightarrow> w1 = w" using reconcile_items_exact [OF assms(1)] i by blast
    with Inr i IH show ?thesis by (cases f) simp_all
  qed
qed simp

text \<open>
  A rank that decreases from a RuleSet to the RuleSets it refers to: the references have no cycle.
\<close>

definition ranked :: "'w ref_client \<Rightarrow> 'w \<Rightarrow> (uobj \<Rightarrow> nat) \<Rightarrow> bool" where
  "ranked c w rank \<longleftrightarrow>
     (\<forall>rs s ref rs' s'. is_ruleset rs s \<longrightarrow> ref \<in> set (rss_RuleRefs s) \<longrightarrow>
        item_of c w (ruleset_source rs s) ref rs' \<longrightarrow> is_ruleset rs' s' \<longrightarrow> rank rs' < rank rs)"

lemma reconcileRefs_ranked:
  assumes "ranked c w rank"
  shows "(\<And>ref x s. ref \<in> set refs \<Longrightarrow> item_of c w source ref x \<Longrightarrow> is_ruleset x s \<Longrightarrow> rank x < n) \<Longrightarrow>
    reconcileRefs (Suc n) c False refs source w \<noteq> None"
proof (induction n arbitrary: refs source)
  case 0
  show ?case
    by (simp del: not_None_eq, rule reconcile_list_total [OF reconcileRefs_exact [of c 0, simplified]])
      (use 0 in blast)
next
  case (Suc n)
  have "reconcile_list (reconcileRefs (Suc n) c False) c False source [] [] refs w \<noteq> None"
  proof (rule reconcile_list_total [OF reconcileRefs_exact])
    fix ref x s
    assume x: "ref \<in> set refs" "item_of c w source ref x" "is_ruleset x s"
    show "reconcileRefs (Suc n) c False (rss_RuleRefs s) (ruleset_source x s) w \<noteq> None"
    proof (rule Suc.IH)
      fix ref' x' s'
      assume "ref' \<in> set (rss_RuleRefs s)" "item_of c w (ruleset_source x s) ref' x'" "is_ruleset x' s'"
      then have "rank x' < rank x" using assms x(3) unfolding ranked_def by blast
      with Suc.prems [OF x] show "rank x' < n" by simp
    qed
  qed
  then show ?case unfolding reconcileRefs.simps(2) [of "Suc n"] .
qed

lemma finite_items: "finite {x. \<exists>ref \<in> set refs. item_of c w source ref x}"
proof -
  have "finite {x. item_of c w source ref x}" for ref
    by (cases "lookupRef c w (applyRuleRefDefaults ref (rs_Namespace source))") (simp_all add: item_of_def)
  then show ?thesis by (simp add: Collect_bex_eq)
qed

text \<open>
  When the RuleSets have no cyclic references, read-only resolution returns: from some depth of
  nesting on it gives one and the same result.
\<close>

theorem Resolve_terminates:
  assumes "ranked c w rank"
  shows "\<exists>r N. \<forall>n \<ge> N. Resolve n c refs source w = Some r"
proof -
  let ?X = "{x. \<exists>ref \<in> set refs. item_of c w source ref x}"
  have "finite (rank ` ?X)" by (rule finite_imageI [OF finite_items])
  then obtain n where "\<forall>x \<in> ?X. rank x < n" unfolding finite_nat_set_iff_bounded by blast
  then have "reconcileRefs (Suc n) c False refs source w \<noteq> None"
    by (intro reconcileRefs_ranked [OF assms]) auto
  then obtain r where "reconcileRefs (Suc n) c False refs source w = Some r" by blast
  then have "Resolve m c refs source w = Some r" if "m \<ge> Suc n" for m
    unfolding Resolve_def using that by (rule reconcileRefs_fuel [rotated])
  then show ?thesis by blast
qed

section \<open>Cycles\<close>

definition no_fatal :: "'w expander \<Rightarrow> 'w \<Rightarrow> bool" where
  "no_fatal rec w \<longleftrightarrow> (\<forall>refs source objs errs f w'. rec refs source w \<noteq> Some ((objs, errs, Some f), w'))"

text \<open>Every RuleSet that lookups return converts.\<close>

definition all_decode :: "'w ref_client \<Rightarrow> 'w \<Rightarrow> bool" where
  "all_decode c w \<longleftrightarrow>
     (\<forall>ref items x. lookupRef c w ref = Inr items \<longrightarrow> x \<in> set items \<longrightarrow> uo_Kind x = ''RuleSet'' \<longrightarrow> as_RuleSet x \<noteq> None)"

lemma reconcile_items_no_fatal:
  assumes "exact c rec" "no_fatal rec w"
    and "\<And>x. x \<in> set items \<Longrightarrow> uo_Kind x = ''RuleSet'' \<Longrightarrow> as_RuleSet x \<noteq> None"
  shows "reconcile_items rec c False ref source objs errs items w \<noteq> Some ((objs', errs', Some f), w')"
  using assms(3)
proof (induction items arbitrary: objs errs)
  case (Cons x items)
  have IH: "reconcile_items rec c False ref source objs1 errs1 items w \<noteq> Some ((objs', errs', Some f), w')" for objs1 errs1
    by (rule Cons.IH, rule Cons.prems) auto
  show ?case
  proof (cases "allowedObject c w x source = None \<and> uo_Kind x = ''RuleSet''")
    case True
    with Cons.prems [of x] obtain s where s: "as_RuleSet x = Some s" by auto
    show ?thesis
    proof (cases "rec (rss_RuleRefs s) (ruleset_source x s) w")
      case None
      with True s show ?thesis by simp
    next
      case (Some r)
      obtain objs2 errs2 g w2 where r: "r = ((objs2, errs2, g), w2)" by (metis surj_pair)
      have "g = None" using assms(2) Some r unfolding no_fatal_def by (cases g) blast+
      moreover from this have "w2 = w" using assms(1) Some r unfolding exact_def by blast
      ultimately show ?thesis using True s Some r IH by simp
    qed
  next
    case False
    with IH show ?thesis by (auto split: option.splits)
  qed
qed simp

lemma reconcileRefs_no_fatal:
  assumes "all_decode c w"
  shows "no_fatal (reconcileRefs n c False) w"
proof (induction n)
  case (Suc n)
  have "reconcile_list (reconcileRefs n c False) c False source objs errs refs w \<noteq> Some ((objs', errs', Some f), w')"
    for source objs errs refs objs' errs' f w'
  proof (induction refs arbitrary: objs errs)
    case (Cons ref refs)
    show ?case
    proof (cases "lookupRef c w (applyRuleRefDefaults ref (rs_Namespace source))")
      case (Inr items)
      have dec: "as_RuleSet x \<noteq> None" if "x \<in> set items" "uo_Kind x = ''RuleSet''" for x
        using assms Inr that unfolding all_decode_def by blast
      show ?thesis
      proof (cases "reconcile_items (reconcileRefs n c False) c False ref source objs errs items w")
        case (Some r)
        obtain objs1 errs1 g w1 where r: "r = ((objs1, errs1, g), w1)" by (metis surj_pair)
        have "g = None"
          using reconcile_items_no_fatal [OF reconcileRefs_exact Suc.IH dec] Some r by (cases g) blast+
        then have i: "reconcile_items (reconcileRefs n c False) c False ref source objs errs items w =
            Some ((objs1, errs1, None), w1)" using Some r by simp
        then have "w1 = w" using reconcile_items_exact [OF reconcileRefs_exact i] by blast
        with i show ?thesis using Inr Cons.IH by simp
      qed (simp add: Inr)
    qed (simp add: Cons.IH)
  qed simp
  then show ?case by (simp add: no_fatal_def)
qed (simp add: no_fatal_def)

lemma reconcile_items_None:
  assumes "exact c rec" "no_fatal rec w"
    and "\<And>x. x \<in> set items \<Longrightarrow> uo_Kind x = ''RuleSet'' \<Longrightarrow> as_RuleSet x \<noteq> None"
    and "x \<in> set items" "allowedObject c w x source = None" "is_ruleset x s"
    and "rec (rss_RuleRefs s) (ruleset_source x s) w = None"
  shows "reconcile_items rec c False ref source objs errs items w = None"
  using assms(3,4)
proof (induction items arbitrary: objs errs)
  case (Cons y items)
  have IH: "reconcile_items rec c False ref source objs1 errs1 items w = None" if "x \<in> set items" for objs1 errs1
    by (rule Cons.IH, rule Cons.prems) (use that in auto)
  show ?case
  proof (cases "y = x")
    case True
    then show ?thesis using assms(5-7) by (simp add: is_ruleset_def)
  next
    case False
    then have IH': "reconcile_items rec c False ref source objs1 errs1 items w = None" for objs1 errs1
      using IH Cons.prems(2) by auto
    show ?thesis
    proof (cases "allowedObject c w y source = None \<and> uo_Kind y = ''RuleSet''")
      case True
      with Cons.prems(1) [of y] obtain t where t: "as_RuleSet y = Some t" by auto
      show ?thesis
      proof (cases "rec (rss_RuleRefs t) (ruleset_source y t) w")
        case (Some r)
        obtain objs2 errs2 g w2 where r: "r = ((objs2, errs2, g), w2)" by (metis surj_pair)
        have "g = None" using assms(2) Some r unfolding no_fatal_def by (cases g) blast+
        moreover from this have "w2 = w" using assms(1) Some r unfolding exact_def by blast
        ultimately show ?thesis using True t Some r IH' by simp
      qed (use True t in simp)
    qed (use IH' in \<open>auto split: option.splits\<close>)
  qed
qed simp

lemma reconcile_list_None:
  assumes "all_decode c w"
    and "ref \<in> set refs" "item_of c w source ref x" "is_ruleset x s"
    and "reconcileRefs n c False (rss_RuleRefs s) (ruleset_source x s) w = None"
  shows "reconcile_list (reconcileRefs n c False) c False source objs errs refs w = None"
  using assms(2)
proof (induction refs arbitrary: objs errs)
  case (Cons ref' refs)
  show ?case
  proof (cases "lookupRef c w (applyRuleRefDefaults ref' (rs_Namespace source))")
    case (Inl e)
    then have "ref' \<noteq> ref" using assms(3) by (auto simp: item_of_def)
    with Inl Cons show ?thesis by simp
  next
    case (Inr items)
    have dec: "as_RuleSet y \<noteq> None" if "y \<in> set items" "uo_Kind y = ''RuleSet''" for y
      using assms(1) Inr that unfolding all_decode_def by blast
    note no = reconcileRefs_no_fatal [OF assms(1), of n]
    show ?thesis
    proof (cases "ref' = ref")
      case True
      then have "reconcile_items (reconcileRefs n c False) c False ref' source objs errs items w = None"
        using assms(3) Inr
        by (intro reconcile_items_None [OF reconcileRefs_exact no dec _ _ assms(4,5)]) (auto simp: item_of_def)
      with Inr show ?thesis by simp
    next
      case False
      show ?thesis
      proof (cases "reconcile_items (reconcileRefs n c False) c False ref' source objs errs items w")
        case (Some r)
        obtain objs1 errs1 g w1 where r: "r = ((objs1, errs1, g), w1)" by (metis surj_pair)
        have "g = None" using reconcile_items_no_fatal [OF reconcileRefs_exact no dec] Some r by (cases g) blast+
        then have i: "reconcile_items (reconcileRefs n c False) c False ref' source objs errs items w =
            Some ((objs1, errs1, None), w1)" using Some r by simp
        then have "w1 = w" using reconcile_items_exact [OF reconcileRefs_exact i] by blast
        with i show ?thesis using Inr Cons False by simp
      qed (simp add: Inr)
    qed
  qed
qed simp

text \<open>
  RuleSets that refer to each other in a cycle: each has a reference to another of them.
\<close>

definition cyclic :: "'w ref_client \<Rightarrow> 'w \<Rightarrow> uobj set \<Rightarrow> bool" where
  "cyclic c w C \<longleftrightarrow>
     (\<forall>rs \<in> C. \<exists>s. is_ruleset rs s \<and> (\<exists>ref \<in> set (rss_RuleRefs s). \<exists>rs' \<in> C. item_of c w (ruleset_source rs s) ref rs'))"

text \<open>
  C31: When a reference leads into a cycle of RuleSets, read-only resolution returns at no depth of
  nesting: the recursion of the code does not end.
\<close>

theorem Resolve_cycle_diverges:
  assumes "all_decode c w" and "cyclic c w C"
    and "ref \<in> set refs" and "item_of c w source ref rs" and "rs \<in> C"
  shows "Resolve n c refs source w = None"
  unfolding Resolve_def using assms(3-5)
proof (induction n arbitrary: refs source ref rs)
  case (Suc n)
  obtain s ref' rs' where s: "is_ruleset rs s" "ref' \<in> set (rss_RuleRefs s)"
      "item_of c w (ruleset_source rs s) ref' rs'" "rs' \<in> C"
    using assms(2) Suc.prems(3) unfolding cyclic_def by blast
  have "reconcileRefs n c False (rss_RuleRefs s) (ruleset_source rs s) w = None"
    by (rule Suc.IH [OF s(2-4)])
  then show ?case using reconcile_list_None [OF assms(1) Suc.prems(1,2) s(1)] by simp
qed simp

section \<open>The namespace policy\<close>

lemma allowedObject_None_iff:
  "allowedObject c w obj source = None \<longleftrightarrow>
     rs_Namespace source = uo_Namespace obj \<or> rs_Policy source = None \<or>
     (\<exists>policy. rs_Policy source = Some policy \<and>
        (rn_From policy = Some ''All'' \<or>
         rn_From policy = Some ''Selector'' \<and>
         (\<exists>ls sel labels. rn_Selector policy = Some ls \<and> rc_AsSelector c ls = Some sel \<and>
            rc_GetNamespace c (uo_Namespace obj) w = ApiOk labels \<and> sel labels)))"
  by (auto simp: allowedObject_def Let_def split: option.splits api_result.splits if_splits)

text \<open>
  A selector reference is looked up in all namespaces, so under the default policy one matching
  object in a foreign namespace is enough to make the resolution of the RuleSet report an error,
  whatever the namespace the reference names.
\<close>

theorem foreign_selector_match_fails:
  assumes "rs_Policy source = Some policy" and "rn_From policy = None \<or> rn_From policy = Some ''Same''"
    and "ref \<in> set refs" and "rr_Selector ref = Some ls" and "rc_AsSelector c ls = Some sel"
    and "\<And>gvk. rc_List c gvk sel w = ApiOk items"
    and "obj \<in> set items" and "uo_Namespace obj \<noteq> rs_Namespace source"
    and "Resolve n c refs source w = Some ((objs, errs, None), w')"
  shows "errs \<noteq> []"
proof -
  have "rr_Selector (applyRuleRefDefaults ref ns) = Some ls" for ns
    using assms(4) by (simp add: applyRuleRefDefaults_def Let_def)
  then have l: "lookupRef c w (applyRuleRefDefaults ref (rs_Namespace source)) = Inr items"
    using assms(5,6) by (simp add: lookupRef_def listDynamicObjects_def Let_def)
  have "allowedObject c w obj source \<noteq> None" using assms(1,2,8) by (auto simp: allowedObject_None_iff)
  then obtain e where "allowedObject c w obj source = Some e" by blast
  with l assms(3,7) have "fails c w refs source" by (intro fails.denied)
  then show ?thesis
    using reconcileRefs_exact [of c n] assms(9) unfolding Resolve_def exact_def by blast
qed

section \<open>The theorems at concrete inputs\<close>

definition demo_ref :: "string \<Rightarrow> string \<Rightarrow> RuleRef" where
  "demo_ref kind name =
     \<lparr> rr_Kind = kind, rr_Name = name, rr_Namespace = [], rr_Version = [], rr_Group = [], rr_Selector = None \<rparr>"

definition demo_rs :: "string \<Rightarrow> RuleRef list \<Rightarrow> uobj" where
  "demo_rs name refs =
     \<lparr> uo_Kind = ''RuleSet'', uo_Namespace = ''a'', uo_Name = name, uo_Finalizers = [],
       uo_Payload = PRuleSet \<lparr> rss_RuleRefs = refs, rss_AllowedRules = \<lparr> rn_From = None, rn_Selector = None \<rparr>,
         rss_PhraseListRefs = [], rss_IPListRefs = [] \<rparr> \<rparr>"

definition demo_other :: "string \<Rightarrow> uobj" where
  "demo_other ns =
     \<lparr> uo_Kind = ''ConfigMap'', uo_Namespace = ns, uo_Name = ''x'', uo_Finalizers = [], uo_Payload = POther \<rparr>"

text \<open>A cluster with the given RuleSets; every other name is an object of another kind.\<close>

definition demo_rc :: "(string \<times> uobj) list \<Rightarrow> unit ref_client" where
  "demo_rc objs =
     \<lparr> rc_Get = (\<lambda>gvk ns name w. case map_of objs name of Some x \<Rightarrow> ApiOk x | None \<Rightarrow> ApiOk (demo_other ''a'')),
       rc_List = (\<lambda>gvk sel w. ApiOk [demo_other ''b'']), rc_GetNamespace = (\<lambda>ns w. ApiOk []),
       rc_Update = (\<lambda>x w. (ApiOk x, w)), rc_AsSelector = (\<lambda>ls. Some (\<lambda>_. True)),
       rc_AddFinalizer = (\<lambda>x f. (False, x)) \<rparr>"

definition demo_source :: ref_source where
  "demo_source = \<lparr> rs_Kind = ''WAF'', rs_Namespace = ''a'', rs_Name = ''w'', rs_Policy = None \<rparr>"

abbreviation tree_rc :: "unit ref_client" where
  "tree_rc \<equiv> demo_rc [(''outer'', demo_rs ''outer'' [demo_ref [] ''leaf'']), (''leaf'', demo_rs ''leaf'' [demo_ref ''ConfigMap'' ''x''])]"

abbreviation loop_rc :: "unit ref_client" where
  "loop_rc \<equiv> demo_rc [(''loop'', demo_rs ''loop'' [demo_ref [] ''loop''])]"

lemmas demo_resolve = Resolve_def numeral_3_eq_3 lookupRef_def applyRuleRefDefaults_def getDynamicObjects_def
  listDynamicObjects_def allowedObject_def as_RuleSet_def ruleset_source_def demo_rc_def demo_source_def
  demo_ref_def demo_rs_def demo_other_def Let_def

lemma demo_tree:
  "Resolve 3 tree_rc [demo_ref [] ''outer''] demo_source () =
     Some (([demo_other ''a'', demo_rs ''leaf'' [demo_ref ''ConfigMap'' ''x''], demo_rs ''outer'' [demo_ref [] ''leaf'']],
       [], None), ())"
  by (simp add: demo_resolve)

theorem Resolve_exact_witness:
  "{obj. resolves tree_rc () [demo_ref [] ''outer''] demo_source obj} =
     {demo_other ''a'', demo_rs ''leaf'' [demo_ref ''ConfigMap'' ''x''], demo_rs ''outer'' [demo_ref [] ''leaf'']} \<and>
   \<not> fails tree_rc () [demo_ref [] ''outer''] demo_source"
  using Resolve_exact [OF demo_tree] by auto

lemma item_of_named:
  "rr_Selector ref = None \<Longrightarrow> rr_Name ref \<noteq> [] \<Longrightarrow>
   item_of (demo_rc objs) w source ref x \<longleftrightarrow>
     x = (case map_of objs (rr_Name ref) of Some y \<Rightarrow> y | None \<Rightarrow> demo_other ''a'') \<and>
     allowedObject (demo_rc objs) w x source = None"
  by (auto simp: item_of_def lookupRef_def getDynamicObjects_def applyRuleRefDefaults_def demo_rc_def Let_def
      split: option.splits)

theorem Resolve_terminates_witness:
  "\<exists>r N. \<forall>n \<ge> N. Resolve n (demo_rc []) [demo_ref [] ''outer''] demo_source () = Some r"
proof (rule Resolve_terminates)
  have "\<not> is_ruleset x s" if "item_of (demo_rc []) () source ref x" for source ref x s
    using that by (auto simp: item_of_def is_ruleset_def demo_resolve split: option.splits if_splits)
  then show "ranked (demo_rc []) () (\<lambda>_. 0)" unfolding ranked_def by blast
qed

theorem Resolve_cycle_diverges_witness:
  "Resolve 100 loop_rc [demo_ref [] ''loop''] demo_source () = None"
proof (rule Resolve_cycle_diverges [where C = "{demo_rs ''loop'' [demo_ref [] ''loop'']}"])
  have self: "item_of loop_rc () source (demo_ref [] ''loop'') (demo_rs ''loop'' [demo_ref [] ''loop''])"
    if "rs_Namespace source = ''a''" for source
    using that by (subst item_of_named) (simp_all add: demo_ref_def allowedObject_def demo_rs_def)
  show "all_decode loop_rc ()"
    by (auto simp: all_decode_def demo_resolve split: option.splits if_splits)
  show "cyclic loop_rc () {demo_rs ''loop'' [demo_ref [] ''loop'']}"
  proof -
    obtain s where s: "is_ruleset (demo_rs ''loop'' [demo_ref [] ''loop'']) s" "rss_RuleRefs s = [demo_ref [] ''loop'']"
      by (simp add: is_ruleset_def demo_rs_def as_RuleSet_def)
    have "rs_Namespace (ruleset_source (demo_rs ''loop'' [demo_ref [] ''loop'']) s) = ''a''"
      by (simp add: ruleset_source_def demo_rs_def)
    from self [OF this] s show ?thesis unfolding cyclic_def by auto
  qed
  show "item_of loop_rc () demo_source (demo_ref [] ''loop'') (demo_rs ''loop'' [demo_ref [] ''loop''])"
    by (rule self) (simp add: demo_source_def)
qed simp_all

theorem foreign_selector_match_fails_witness:
  "\<exists>errs. errs \<noteq> [] \<and>
     Resolve 1 (demo_rc []) [(demo_ref ''SecRule'' [])\<lparr> rr_Selector := Some \<lparr> ls_MatchLabels = [], ls_MatchExpressions = [] \<rparr> \<rparr>]
       (demo_source\<lparr> rs_Policy := Some \<lparr> rn_From = None, rn_Selector = None \<rparr> \<rparr>) () = Some (([], errs, None), ())"
proof -
  let ?ls = "\<lparr> ls_MatchLabels = [], ls_MatchExpressions = [] \<rparr> :: LabelSelector"
  let ?ref = "(demo_ref ''SecRule'' [])\<lparr> rr_Selector := Some ?ls \<rparr>"
  let ?p = "\<lparr> rn_From = None, rn_Selector = None \<rparr> :: RuleNamespaces"
  obtain errs where r: "Resolve 1 (demo_rc []) [?ref] (demo_source\<lparr> rs_Policy := Some ?p \<rparr>) () = Some (([], errs, None), ())"
    by (simp add: demo_resolve)
  have "errs \<noteq> []"
  proof (rule foreign_selector_match_fails [OF _ _ _ _ _ _ _ _ r])
    show "rn_From ?p = None \<or> rn_From ?p = Some ''Same''" by simp
    show "rr_Selector ?ref = Some ?ls" by simp
    show "demo_other ''b'' \<in> set [demo_other ''b'']" by simp
  qed (simp_all add: demo_rc_def demo_source_def demo_other_def)
  with r show ?thesis by blast
qed

end
