(* ===== verification/SecLangEnums.thy ===== *)
theory SecLangEnums
  imports SecLangTypes "HOL-Library.Char_ord" "HOL-Library.List_Lexorder"
begin

text \<open>
  The generated enumeration mappers \<open>api/seclang/v1beta1/convert/zz_generated_*.go\<close>.

  An enumeration of the API is a string type, so a value is its string. An enumeration value of
  crslang is a label: the Go name of the constant, and for a value no constant of the mapper names,
  any other string. The mappers are switches: a table from the cases to the results, and the result
  of the default branch. Where that branch is empty the result is the zero value of the Go type;
  which constant of crslang that is, is a parameter.
\<close>

type_synonym crs_label = string

definition switch :: "(string \<times> string) list \<Rightarrow> string \<Rightarrow> string \<Rightarrow> string" where
  "switch table dflt s = (case map_of table s of None \<Rightarrow> dflt | Some v \<Rightarrow> v)"

section \<open>Operators\<close>

definition OperatorMapper_table :: "(string \<times> crs_label) list" where
  "OperatorMapper_table =
    [(''beginsWith'', ''BeginsWith''), (''contains'', ''Contains''),
     (''containsWord'', ''ContainsWord''), (''detectSQLi'', ''DetectSQLi''),
     (''detectXSS'', ''DetectXSS''), (''endsWith'', ''EndsWith''), (''eq'', ''Eq''),
     (''fuzzyHash'', ''FuzzyHash''), (''ge'', ''Ge''), (''geoLookup'', ''GeoLookup''),
     (''gsbLookup'', ''GsbLookup''), (''gt'', ''Gt''), (''inspectFile'', ''InspectFile''),
     (''ipMatch'', ''IpMatch''), (''ipMatchF'', ''IpMatchF''),
     (''ipMatchFromFile'', ''IpMatchFromFile''), (''le'', ''Le''), (''lt'', ''Lt''), (''pm'', ''Pm''),
     (''pmFromFile'', ''PmFromFile''), (''pmf'', ''Pmf''), (''rbl'', ''Rbl''), (''rsub'', ''Rsub''),
     (''rx'', ''Rx''), (''rxGlobal'', ''RxGlobal''), (''strEq'', ''StrEq''),
     (''strMatch'', ''StrMatch''), (''unconditionalMatch'', ''UnconditionalMatch''),
     (''unknownOperator'', ''UnknownOperator''), (''validateByteRange'', ''ValidateByteRange''),
     (''validateDTD'', ''ValidateDTD''), (''validateHash'', ''ValidateHash''),
     (''validateSchema'', ''ValidateSchema''), (''validateUrlEncoding'', ''ValidateUrlEncoding''),
     (''validateUtf8Encoding'', ''ValidateUtf8Encoding''), (''verifyCC'', ''VerifyCC''),
     (''verifyCPF'', ''VerifyCPF''), (''verifySSN'', ''VerifySSN''), (''verifySVNR'', ''VerifySVNR''),
     (''within'', ''Within'')]"

definition OperatorMapper :: "string \<Rightarrow> crs_label" where
  "OperatorMapper = switch OperatorMapper_table ''Eq''"

definition OperatorReverseMapper_table :: "(crs_label \<times> string) list" where
  "OperatorReverseMapper_table =
    [(''BeginsWith'', ''beginsWith''), (''Contains'', ''contains''),
     (''ContainsWord'', ''containsWord''), (''DetectSQLi'', ''detectSQLi''),
     (''DetectXSS'', ''detectXSS''), (''EndsWith'', ''endsWith''), (''Eq'', ''eq''),
     (''FuzzyHash'', ''fuzzyHash''), (''Ge'', ''ge''), (''GeoLookup'', ''geoLookup''),
     (''GsbLookup'', ''gsbLookup''), (''Gt'', ''gt''), (''InspectFile'', ''inspectFile''),
     (''IpMatch'', ''ipMatch''), (''IpMatchF'', ''ipMatchF''),
     (''IpMatchFromFile'', ''ipMatchFromFile''), (''Le'', ''le''), (''Lt'', ''lt''), (''Pm'', ''pm''),
     (''PmFromFile'', ''pmFromFile''), (''Pmf'', ''pmf''), (''Rbl'', ''rbl''), (''Rsub'', ''rsub''),
     (''Rx'', ''rx''), (''RxGlobal'', ''rxGlobal''), (''StrEq'', ''strEq''),
     (''StrMatch'', ''strMatch''), (''UnconditionalMatch'', ''unconditionalMatch''),
     (''UnknownOperator'', ''unknownOperator''), (''ValidateByteRange'', ''validateByteRange''),
     (''ValidateDTD'', ''validateDTD''), (''ValidateHash'', ''validateHash''),
     (''ValidateSchema'', ''validateSchema''), (''ValidateUrlEncoding'', ''validateUrlEncoding''),
     (''ValidateUtf8Encoding'', ''validateUtf8Encoding''), (''VerifyCC'', ''verifyCC''),
     (''VerifyCPF'', ''verifyCPF''), (''VerifySSN'', ''verifySSN''), (''VerifySVNR'', ''verifySVNR''),
     (''Within'', ''within'')]"

definition OperatorReverseMapper :: "crs_label \<Rightarrow> string" where
  "OperatorReverseMapper = switch OperatorReverseMapper_table []"

section \<open>Variables\<close>

definition VariableMapper_table :: "(string \<times> crs_label) list" where
  "VariableMapper_table =
    [(''ARGS_COMBINED_SIZE'', ''ARGS_COMBINED_SIZE''), (''AUTH_TYPE'', ''AUTH_TYPE''),
     (''DURATION'', ''DURATION''), (''FILES_COMBINED_SIZE'', ''FILES_COMBINED_SIZE''),
     (''FILES_NAMES'', ''FILES_NAMES''), (''FILES_SIZES'', ''FILES_SIZES''),
     (''FILES_TMPNAMES'', ''FILES_TMPNAMES''), (''FILES_TMP_CONTENT'', ''FILES_TMP_CONTENT''),
     (''FULL_REQUEST'', ''FULL_REQUEST''), (''FULL_REQUEST_LENGTH'', ''FULL_REQUEST_LENGTH''),
     (''HIGHEST_SEVERITY'', ''HIGHEST_SEVERITY''), (''INBOUND_DATA_ERROR'', ''INBOUND_DATA_ERROR''),
     (''MATCHED_VAR'', ''MATCHED_VAR''), (''MATCHED_VAR_NAME'', ''MATCHED_VAR_NAME''),
     (''MODSEC_BUILD'', ''MODSEC_BUILD''), (''MSC_PCRE_ERROR'', ''MSC_PCRE_ERROR''),
     (''MSC_PCRE_LIMITS_EXCEEDED'', ''MSC_PCRE_LIMITS_EXCEEDED''),
     (''MULTIPART_BOUNDARY_QUOTED'', ''MULTIPART_BOUNDARY_QUOTED''),
     (''MULTIPART_BOUNDARY_WHITESPACE'', ''MULTIPART_BOUNDARY_WHITESPACE''),
     (''MULTIPART_CRLF_LF_LINES'', ''MULTIPART_CRLF_LF_LINES''),
     (''MULTIPART_DATA_AFTER'', ''MULTIPART_DATA_AFTER''),
     (''MULTIPART_DATA_BEFORE'', ''MULTIPART_DATA_BEFORE''),
     (''MULTIPART_FILENAME'', ''MULTIPART_FILENAME''),
     (''MULTIPART_FILE_LIMIT_EXCEEDED'', ''MULTIPART_FILE_LIMIT_EXCEEDED''),
     (''MULTIPART_HEADER_FOLDING'', ''MULTIPART_HEADER_FOLDING''),
     (''MULTIPART_INVALID_HEADER_FOLDING'', ''MULTIPART_INVALID_HEADER_FOLDING''),
     (''MULTIPART_INVALID_PART'', ''MULTIPART_INVALID_PART''),
     (''MULTIPART_INVALID_QUOTING'', ''MULTIPART_INVALID_QUOTING''),
     (''MULTIPART_LF_LINE'', ''MULTIPART_LF_LINE''),
     (''MULTIPART_MISSING_SEMICOLON'', ''MULTIPART_MISSING_SEMICOLON''),
     (''MULTIPART_NAME'', ''MULTIPART_NAME''),
     (''MULTIPART_SEMICOLON_MISSING'', ''MULTIPART_SEMICOLON_MISSING''),
     (''MULTIPART_STRICT_ERROR'', ''MULTIPART_STRICT_ERROR''),
     (''MULTIPART_UNMATCHED_BOUNDARY'', ''MULTIPART_UNMATCHED_BOUNDARY''),
     (''OUTBOUND_DATA_ERROR'', ''OUTBOUND_DATA_ERROR''), (''PATH_INFO'', ''PATH_INFO''),
     (''PERF_ALL'', ''PERF_ALL''), (''PERF_COMBINED'', ''PERF_COMBINED''), (''PERF_GC'', ''PERF_GC''),
     (''PERF_LOGGING'', ''PERF_LOGGING''), (''PERF_PHASE1'', ''PERF_PHASE1''),
     (''PERF_PHASE2'', ''PERF_PHASE2''), (''PERF_PHASE3'', ''PERF_PHASE3''),
     (''PERF_PHASE4'', ''PERF_PHASE4''), (''PERF_PHASE5'', ''PERF_PHASE5''),
     (''PERF_SREAD'', ''PERF_SREAD''), (''PERF_SWRITE'', ''PERF_SWRITE''),
     (''QUERY_STRING'', ''QUERY_STRING''), (''REMOTE_ADDR'', ''REMOTE_ADDR''),
     (''REMOTE_HOST'', ''REMOTE_HOST''), (''REMOTE_PORT'', ''REMOTE_PORT''),
     (''REMOTE_USER'', ''REMOTE_USER''), (''REQBODY_ERROR'', ''REQBODY_ERROR''),
     (''REQBODY_ERROR_MSG'', ''REQBODY_ERROR_MSG''), (''REQBODY_PROCESSOR'', ''REQBODY_PROCESSOR''),
     (''REQBODY_PROCESSOR_ERROR'', ''REQBODY_PROCESSOR_ERROR''),
     (''REQBODY_PROCESSOR_ERROR_MSG'', ''REQBODY_PROCESSOR_ERROR_MSG''),
     (''REQUEST_BASENAME'', ''REQUEST_BASENAME''), (''REQUEST_BODY'', ''REQUEST_BODY''),
     (''REQUEST_BODY_LENGTH'', ''REQUEST_BODY_LENGTH''), (''REQUEST_FILENAME'', ''REQUEST_FILENAME''),
     (''REQUEST_LINE'', ''REQUEST_LINE''), (''REQUEST_METHOD'', ''REQUEST_METHOD''),
     (''REQUEST_PROTOCOL'', ''REQUEST_PROTOCOL''), (''REQUEST_URI'', ''REQUEST_URI''),
     (''REQUEST_URI_RAW'', ''REQUEST_URI_RAW''), (''RESPONSE_BODY'', ''RESPONSE_BODY''),
     (''RESPONSE_CONTENT_LENGTH'', ''RESPONSE_CONTENT_LENGTH''),
     (''RESPONSE_CONTENT_TYPE'', ''RESPONSE_CONTENT_TYPE''),
     (''RESPONSE_PROTOCOL'', ''RESPONSE_PROTOCOL''), (''RESPONSE_STATUS'', ''RESPONSE_STATUS''),
     (''SCRIPT_BASENAME'', ''SCRIPT_BASENAME''), (''SCRIPT_FILENAME'', ''SCRIPT_FILENAME''),
     (''SCRIPT_GID'', ''SCRIPT_GID''), (''SCRIPT_GROUPNAME'', ''SCRIPT_GROUPNAME''),
     (''SCRIPT_MODE'', ''SCRIPT_MODE''), (''SCRIPT_UID'', ''SCRIPT_UID''),
     (''SCRIPT_USERNAME'', ''SCRIPT_USERNAME''), (''SDBM_DELETE_ERROR'', ''SDBM_DELETE_ERROR''),
     (''SERVER_ADDR'', ''SERVER_ADDR''), (''SERVER_NAME'', ''SERVER_NAME''),
     (''SERVER_PORT'', ''SERVER_PORT''), (''SESSIONID'', ''SESSIONID''), (''STATUS'', ''STATUS''),
     (''STATUS_LINE'', ''STATUS_LINE''), (''STREAM_INPUT_BODY'', ''STREAM_INPUT_BODY''),
     (''STREAM_OUTPUT_BODY'', ''STREAM_OUTPUT_BODY''), (''TIME'', ''TIME''),
     (''TIME_DAY'', ''TIME_DAY''), (''TIME_EPOCH'', ''TIME_EPOCH''), (''TIME_HOUR'', ''TIME_HOUR''),
     (''TIME_MIN'', ''TIME_MIN''), (''TIME_MON'', ''TIME_MON''), (''TIME_SEC'', ''TIME_SEC''),
     (''TIME_WDAY'', ''TIME_WDAY''), (''TIME_YEAR'', ''TIME_YEAR''), (''UNIQUE_ID'', ''UNIQUE_ID''),
     (''UNKNOWN_VAR'', ''UNKNOWN_VAR''), (''URLENCODED_ERROR'', ''URLENCODED_ERROR''),
     (''USERAGENT_IP'', ''USERAGENT_IP''), (''USERID'', ''USERID''), (''WEBAPPID'', ''WEBAPPID''),
     (''WEBSERVER_ERROR_LOG'', ''WEBSERVER_ERROR_LOG'')]"

definition VariableMapper :: "crs_label \<Rightarrow> string \<Rightarrow> crs_label" where
  "VariableMapper zero = switch VariableMapper_table zero"

definition VariableReverseMapper_table :: "(crs_label \<times> string) list" where
  "VariableReverseMapper_table =
    [(''ARGS_COMBINED_SIZE'', ''ARGS_COMBINED_SIZE''), (''AUTH_TYPE'', ''AUTH_TYPE''),
     (''DURATION'', ''DURATION''), (''FILES_COMBINED_SIZE'', ''FILES_COMBINED_SIZE''),
     (''FILES_NAMES'', ''FILES_NAMES''), (''FILES_SIZES'', ''FILES_SIZES''),
     (''FILES_TMPNAMES'', ''FILES_TMPNAMES''), (''FILES_TMP_CONTENT'', ''FILES_TMP_CONTENT''),
     (''FULL_REQUEST'', ''FULL_REQUEST''), (''FULL_REQUEST_LENGTH'', ''FULL_REQUEST_LENGTH''),
     (''HIGHEST_SEVERITY'', ''HIGHEST_SEVERITY''), (''INBOUND_DATA_ERROR'', ''INBOUND_DATA_ERROR''),
     (''MATCHED_VAR'', ''MATCHED_VAR''), (''MATCHED_VAR_NAME'', ''MATCHED_VAR_NAME''),
     (''MODSEC_BUILD'', ''MODSEC_BUILD''), (''MSC_PCRE_ERROR'', ''MSC_PCRE_ERROR''),
     (''MSC_PCRE_LIMITS_EXCEEDED'', ''MSC_PCRE_LIMITS_EXCEEDED''),
     (''MULTIPART_BOUNDARY_QUOTED'', ''MULTIPART_BOUNDARY_QUOTED''),
     (''MULTIPART_BOUNDARY_WHITESPACE'', ''MULTIPART_BOUNDARY_WHITESPACE''),
     (''MULTIPART_CRLF_LF_LINES'', ''MULTIPART_CRLF_LF_LINES''),
     (''MULTIPART_DATA_AFTER'', ''MULTIPART_DATA_AFTER''),
     (''MULTIPART_DATA_BEFORE'', ''MULTIPART_DATA_BEFORE''),
     (''MULTIPART_FILENAME'', ''MULTIPART_FILENAME''),
     (''MULTIPART_FILE_LIMIT_EXCEEDED'', ''MULTIPART_FILE_LIMIT_EXCEEDED''),
     (''MULTIPART_HEADER_FOLDING'', ''MULTIPART_HEADER_FOLDING''),
     (''MULTIPART_INVALID_HEADER_FOLDING'', ''MULTIPART_INVALID_HEADER_FOLDING''),
     (''MULTIPART_INVALID_PART'', ''MULTIPART_INVALID_PART''),
     (''MULTIPART_INVALID_QUOTING'', ''MULTIPART_INVALID_QUOTING''),
     (''MULTIPART_LF_LINE'', ''MULTIPART_LF_LINE''),
     (''MULTIPART_MISSING_SEMICOLON'', ''MULTIPART_MISSING_SEMICOLON''),
     (''MULTIPART_NAME'', ''MULTIPART_NAME''),
     (''MULTIPART_SEMICOLON_MISSING'', ''MULTIPART_SEMICOLON_MISSING''),
     (''MULTIPART_STRICT_ERROR'', ''MULTIPART_STRICT_ERROR''),
     (''MULTIPART_UNMATCHED_BOUNDARY'', ''MULTIPART_UNMATCHED_BOUNDARY''),
     (''OUTBOUND_DATA_ERROR'', ''OUTBOUND_DATA_ERROR''), (''PATH_INFO'', ''PATH_INFO''),
     (''PERF_ALL'', ''PERF_ALL''), (''PERF_COMBINED'', ''PERF_COMBINED''), (''PERF_GC'', ''PERF_GC''),
     (''PERF_LOGGING'', ''PERF_LOGGING''), (''PERF_PHASE1'', ''PERF_PHASE1''),
     (''PERF_PHASE2'', ''PERF_PHASE2''), (''PERF_PHASE3'', ''PERF_PHASE3''),
     (''PERF_PHASE4'', ''PERF_PHASE4''), (''PERF_PHASE5'', ''PERF_PHASE5''),
     (''PERF_SREAD'', ''PERF_SREAD''), (''PERF_SWRITE'', ''PERF_SWRITE''),
     (''QUERY_STRING'', ''QUERY_STRING''), (''REMOTE_ADDR'', ''REMOTE_ADDR''),
     (''REMOTE_HOST'', ''REMOTE_HOST''), (''REMOTE_PORT'', ''REMOTE_PORT''),
     (''REMOTE_USER'', ''REMOTE_USER''), (''REQBODY_ERROR'', ''REQBODY_ERROR''),
     (''REQBODY_ERROR_MSG'', ''REQBODY_ERROR_MSG''), (''REQBODY_PROCESSOR'', ''REQBODY_PROCESSOR''),
     (''REQBODY_PROCESSOR_ERROR'', ''REQBODY_PROCESSOR_ERROR''),
     (''REQBODY_PROCESSOR_ERROR_MSG'', ''REQBODY_PROCESSOR_ERROR_MSG''),
     (''REQUEST_BASENAME'', ''REQUEST_BASENAME''), (''REQUEST_BODY'', ''REQUEST_BODY''),
     (''REQUEST_BODY_LENGTH'', ''REQUEST_BODY_LENGTH''), (''REQUEST_FILENAME'', ''REQUEST_FILENAME''),
     (''REQUEST_LINE'', ''REQUEST_LINE''), (''REQUEST_METHOD'', ''REQUEST_METHOD''),
     (''REQUEST_PROTOCOL'', ''REQUEST_PROTOCOL''), (''REQUEST_URI'', ''REQUEST_URI''),
     (''REQUEST_URI_RAW'', ''REQUEST_URI_RAW''), (''RESPONSE_BODY'', ''RESPONSE_BODY''),
     (''RESPONSE_CONTENT_LENGTH'', ''RESPONSE_CONTENT_LENGTH''),
     (''RESPONSE_CONTENT_TYPE'', ''RESPONSE_CONTENT_TYPE''),
     (''RESPONSE_PROTOCOL'', ''RESPONSE_PROTOCOL''), (''RESPONSE_STATUS'', ''RESPONSE_STATUS''),
     (''SCRIPT_BASENAME'', ''SCRIPT_BASENAME''), (''SCRIPT_FILENAME'', ''SCRIPT_FILENAME''),
     (''SCRIPT_GID'', ''SCRIPT_GID''), (''SCRIPT_GROUPNAME'', ''SCRIPT_GROUPNAME''),
     (''SCRIPT_MODE'', ''SCRIPT_MODE''), (''SCRIPT_UID'', ''SCRIPT_UID''),
     (''SCRIPT_USERNAME'', ''SCRIPT_USERNAME''), (''SDBM_DELETE_ERROR'', ''SDBM_DELETE_ERROR''),
     (''SERVER_ADDR'', ''SERVER_ADDR''), (''SERVER_NAME'', ''SERVER_NAME''),
     (''SERVER_PORT'', ''SERVER_PORT''), (''SESSIONID'', ''SESSIONID''), (''STATUS'', ''STATUS''),
     (''STATUS_LINE'', ''STATUS_LINE''), (''STREAM_INPUT_BODY'', ''STREAM_INPUT_BODY''),
     (''STREAM_OUTPUT_BODY'', ''STREAM_OUTPUT_BODY''), (''TIME'', ''TIME''),
     (''TIME_DAY'', ''TIME_DAY''), (''TIME_EPOCH'', ''TIME_EPOCH''), (''TIME_HOUR'', ''TIME_HOUR''),
     (''TIME_MIN'', ''TIME_MIN''), (''TIME_MON'', ''TIME_MON''), (''TIME_SEC'', ''TIME_SEC''),
     (''TIME_WDAY'', ''TIME_WDAY''), (''TIME_YEAR'', ''TIME_YEAR''), (''UNIQUE_ID'', ''UNIQUE_ID''),
     (''UNKNOWN_VAR'', ''UNKNOWN_VAR''), (''URLENCODED_ERROR'', ''URLENCODED_ERROR''),
     (''USERAGENT_IP'', ''USERAGENT_IP''), (''USERID'', ''USERID''), (''WEBAPPID'', ''WEBAPPID''),
     (''WEBSERVER_ERROR_LOG'', ''WEBSERVER_ERROR_LOG'')]"

definition VariableReverseMapper :: "crs_label \<Rightarrow> string" where
  "VariableReverseMapper = switch VariableReverseMapper_table []"

section \<open>Collections\<close>

definition CollectionMapper_table :: "(string \<times> crs_label) list" where
  "CollectionMapper_table =
    [(''ARGS'', ''ARGS''), (''ARGS_GET'', ''ARGS_GET''), (''ARGS_GET_NAMES'', ''ARGS_GET_NAMES''),
     (''ARGS_NAMES'', ''ARGS_NAMES''), (''ARGS_POST'', ''ARGS_POST''),
     (''ARGS_POST_NAMES'', ''ARGS_POST_NAMES''), (''ENV'', ''ENV''), (''FILES'', ''FILES''),
     (''GEO'', ''GEO''), (''GLOBAL'', ''GLOBAL''), (''IP'', ''IP''),
     (''MATCHED_VARS'', ''MATCHED_VARS''), (''MATCHED_VARS_NAMES'', ''MATCHED_VARS_NAMES''),
     (''MULTIPART_PART_HEADERS'', ''MULTIPART_PART_HEADERS''), (''PERF_RULES'', ''PERF_RULES''),
     (''REQUEST_COOKIES'', ''REQUEST_COOKIES''),
     (''REQUEST_COOKIES_NAMES'', ''REQUEST_COOKIES_NAMES''),
     (''REQUEST_HEADERS'', ''REQUEST_HEADERS''),
     (''REQUEST_HEADERS_NAMES'', ''REQUEST_HEADERS_NAMES''), (''RESOURCE'', ''RESOURCE''),
     (''RESPONSE_HEADERS'', ''RESPONSE_HEADERS''),
     (''RESPONSE_HEADERS_NAMES'', ''RESPONSE_HEADERS_NAMES''), (''RULE'', ''RULE''),
     (''SESSION'', ''SESSION''), (''TX'', ''TX''), (''UNKNOWN_COLLECTION'', ''UNKNOWN_COLLECTION''),
     (''USER'', ''USER''), (''XML'', ''XML'')]"

definition CollectionMapper :: "string \<Rightarrow> crs_label" where
  "CollectionMapper = switch CollectionMapper_table ''UNKNOWN_COLLECTION''"

definition CollectionReverseMapper_table :: "(crs_label \<times> string) list" where
  "CollectionReverseMapper_table =
    [(''ARGS'', ''ARGS''), (''ARGS_GET'', ''ARGS_GET''), (''ARGS_GET_NAMES'', ''ARGS_GET_NAMES''),
     (''ARGS_NAMES'', ''ARGS_NAMES''), (''ARGS_POST'', ''ARGS_POST''),
     (''ARGS_POST_NAMES'', ''ARGS_POST_NAMES''), (''ENV'', ''ENV''), (''FILES'', ''FILES''),
     (''GEO'', ''GEO''), (''GLOBAL'', ''GLOBAL''), (''IP'', ''IP''),
     (''MATCHED_VARS'', ''MATCHED_VARS''), (''MATCHED_VARS_NAMES'', ''MATCHED_VARS_NAMES''),
     (''MULTIPART_PART_HEADERS'', ''MULTIPART_PART_HEADERS''), (''PERF_RULES'', ''PERF_RULES''),
     (''REQUEST_COOKIES'', ''REQUEST_COOKIES''),
     (''REQUEST_COOKIES_NAMES'', ''REQUEST_COOKIES_NAMES''),
     (''REQUEST_HEADERS'', ''REQUEST_HEADERS''),
     (''REQUEST_HEADERS_NAMES'', ''REQUEST_HEADERS_NAMES''), (''RESOURCE'', ''RESOURCE''),
     (''RESPONSE_HEADERS'', ''RESPONSE_HEADERS''),
     (''RESPONSE_HEADERS_NAMES'', ''RESPONSE_HEADERS_NAMES''), (''RULE'', ''RULE''),
     (''SESSION'', ''SESSION''), (''TX'', ''TX''), (''UNKNOWN_COLLECTION'', ''UNKNOWN_COLLECTION''),
     (''USER'', ''USER''), (''XML'', ''XML'')]"

definition CollectionReverseMapper :: "crs_label \<Rightarrow> string" where
  "CollectionReverseMapper = switch CollectionReverseMapper_table ''UNKNOWN_COLLECTION''"

section \<open>Transformations\<close>

definition TransformationMapper_table :: "(string \<times> crs_label) list" where
  "TransformationMapper_table =
    [(''base64Decode'', ''Base64Decode''), (''base64DecodeExt'', ''Base64DecodeExt''),
     (''base64Encode'', ''Base64Encode''), (''cmdLine'', ''CmdLine''),
     (''compressWhitespace'', ''CompressWhitespace''), (''cssDecode'', ''CssDecode''),
     (''escapeSeqDecode'', ''EscapeSeqDecode''), (''hexDecode'', ''HexDecode''),
     (''hexEncode'', ''HexEncode''), (''htmlEntityDecode'', ''HtmlEntityDecode''),
     (''jsDecode'', ''JsDecode''), (''length'', ''Length''), (''lowercase'', ''Lowercase''),
     (''md5'', ''Md5''), (''none'', ''None''), (''normalisePath'', ''NormalisePath''),
     (''normalisePathWin'', ''NormalisePathWin''), (''parityEven7bit'', ''ParityEven7bit''),
     (''parityOdd7bit'', ''ParityOdd7bit''), (''parityZero7bit'', ''ParityZero7bit''),
     (''removeComments'', ''RemoveComments''), (''removeCommentsChar'', ''RemoveCommentsChar''),
     (''removeNulls'', ''RemoveNulls''), (''removeWhitespace'', ''RemoveWhitespace''),
     (''replaceComments'', ''ReplaceComments''), (''replaceNulls'', ''ReplaceNulls''),
     (''sha1'', ''Sha1''), (''sqlHexDecode'', ''SqlHexDecode''), (''trim'', ''Trim''),
     (''trimLeft'', ''TrimLeft''), (''trimRight'', ''TrimRight''),
     (''unknownTransformation'', ''UnknownTransformation''), (''uppercase'', ''Uppercase''),
     (''urlDecode'', ''UrlDecode''), (''urlDecodeUni'', ''UrlDecodeUni''),
     (''urlEncode'', ''UrlEncode''), (''utf8toUnicode'', ''Utf8toUnicode'')]"

definition TransformationMapper :: "crs_label \<Rightarrow> string \<Rightarrow> crs_label" where
  "TransformationMapper zero = switch TransformationMapper_table zero"

definition TransformationMapperCSR_table :: "(crs_label \<times> string) list" where
  "TransformationMapperCSR_table =
    [(''Base64Decode'', ''base64Decode''), (''Base64DecodeExt'', ''base64DecodeExt''),
     (''Base64Encode'', ''base64Encode''), (''CmdLine'', ''cmdLine''),
     (''CompressWhitespace'', ''compressWhitespace''), (''CssDecode'', ''cssDecode''),
     (''EscapeSeqDecode'', ''escapeSeqDecode''), (''HexDecode'', ''hexDecode''),
     (''HexEncode'', ''hexEncode''), (''HtmlEntityDecode'', ''htmlEntityDecode''),
     (''JsDecode'', ''jsDecode''), (''Length'', ''length''), (''Lowercase'', ''lowercase''),
     (''Md5'', ''md5''), (''None'', ''none''), (''NormalisePath'', ''normalisePath''),
     (''NormalisePathWin'', ''normalisePathWin''), (''ParityEven7bit'', ''parityEven7bit''),
     (''ParityOdd7bit'', ''parityOdd7bit''), (''ParityZero7bit'', ''parityZero7bit''),
     (''RemoveComments'', ''removeComments''), (''RemoveCommentsChar'', ''removeCommentsChar''),
     (''RemoveNulls'', ''removeNulls''), (''RemoveWhitespace'', ''removeWhitespace''),
     (''ReplaceComments'', ''replaceComments''), (''ReplaceNulls'', ''replaceNulls''),
     (''Sha1'', ''sha1''), (''SqlHexDecode'', ''sqlHexDecode''), (''Trim'', ''trim''),
     (''TrimLeft'', ''trimLeft''), (''TrimRight'', ''trimRight''),
     (''UnknownTransformation'', ''unknownTransformation''), (''Uppercase'', ''uppercase''),
     (''UrlDecode'', ''urlDecode''), (''UrlDecodeUni'', ''urlDecodeUni''),
     (''UrlEncode'', ''urlEncode''), (''Utf8toUnicode'', ''utf8toUnicode'')]"

definition TransformationMapperCSR :: "crs_label \<Rightarrow> string" where
  "TransformationMapperCSR = switch TransformationMapperCSR_table []"

section \<open>Actions\<close>

definition DataActionTypeMapper_table :: "(string \<times> crs_label) list" where
  "DataActionTypeMapper_table =
    [(''status'', ''Status''), (''xmlns'', ''XLMNS'')]"

definition DataActionTypeMapper :: "string \<Rightarrow> crs_label" where
  "DataActionTypeMapper = switch DataActionTypeMapper_table ''DataUnknown''"

definition DisruptiveActionMapper_table :: "(string \<times> crs_label) list" where
  "DisruptiveActionMapper_table =
    [(''allow'', ''Allow''), (''block'', ''Block''), (''deny'', ''Deny''), (''drop'', ''Drop''),
     (''pass'', ''Pass''), (''pause'', ''Pause''), (''proxy'', ''Proxy''), (''redirect'', ''Redirect'')]"

definition DisruptiveActionMapper :: "string \<Rightarrow> crs_label" where
  "DisruptiveActionMapper = switch DisruptiveActionMapper_table ''Unknown''"

definition FlowActionTypeMapper_table :: "(string \<times> crs_label) list" where
  "FlowActionTypeMapper_table =
    [(''chain'', ''Chain''), (''flowUnknown'', ''FlowUnknown''), (''skip'', ''Skip''),
     (''skipAfter'', ''SkipAfter'')]"

definition FlowActionTypeMapper :: "string \<Rightarrow> crs_label" where
  "FlowActionTypeMapper = switch FlowActionTypeMapper_table ''FlowUnknown''"

definition FlowActionTypeReverseMapper_table :: "(crs_label \<times> string) list" where
  "FlowActionTypeReverseMapper_table =
    [(''Chain'', ''chain''), (''FlowUnknown'', ''flowUnknown''), (''Skip'', ''skip''),
     (''SkipAfter'', ''skipAfter'')]"

definition FlowActionTypeReverseMapper :: "crs_label \<Rightarrow> string" where
  "FlowActionTypeReverseMapper = switch FlowActionTypeReverseMapper_table []"

definition NonDisruptiveActionTypeMapper_table :: "(string \<times> crs_label) list" where
  "NonDisruptiveActionTypeMapper_table =
    [(''append'', ''Append''), (''auditlog'', ''AuditLog''), (''capture'', ''Capture''),
     (''ctl'', ''Ctl''), (''deprecatevar'', ''DeprecateVar''), (''exec'', ''Exec''),
     (''expirevar'', ''ExpireVar''), (''initcol'', ''InitCol''), (''log'', ''Log''),
     (''logdata'', ''LogData''), (''multiMatch'', ''MultiMatch''), (''noauditlog'', ''NoAuditLog''),
     (''nolog'', ''NoLog''), (''sanitiseArg'', ''SanitiseArg''),
     (''sanitiseMatched'', ''SanitiseMatched''), (''sanitiseMatchedBytes'', ''SanitiseMatchedBytes''),
     (''sanitiseRequestHeader'', ''SanitiseRequestHeader''),
     (''sanitiseResponseHeader'', ''SanitiseResponseHeader''), (''setenv'', ''SetEnv''),
     (''setrsc'', ''SetRsc''), (''setsid'', ''SetSid''), (''setuid'', ''SetUid''),
     (''setvar'', ''SetVar'')]"

definition NonDisruptiveActionTypeMapper :: "string \<Rightarrow> crs_label" where
  "NonDisruptiveActionTypeMapper = switch NonDisruptiveActionTypeMapper_table ''NonDisruptiveUnknown''"

section \<open>Round trips\<close>

text \<open>
  A reverse table that takes every entry of a table back makes the two switches inverse on it. The
  generated switches list their cases in ascending order, on both sides, so no case occurs twice.
\<close>

definition takes_back :: "(string \<times> string) list \<Rightarrow> (string \<times> string) list \<Rightarrow> bool" where
  "takes_back table rtable \<longleftrightarrow> (\<forall>(a, c) \<in> set table. map_of rtable c = Some a)"

fun ascending :: "string list \<Rightarrow> bool" where
  "ascending (x # y # xs) \<longleftrightarrow> x < y \<and> ascending (y # xs)"
| "ascending _ \<longleftrightarrow> True"

definition inverse_tables :: "(string \<times> string) list \<Rightarrow> (string \<times> string) list \<Rightarrow> bool" where
  "inverse_tables table rtable \<longleftrightarrow>
     rtable = map prod.swap table \<and> ascending (map fst table) \<and> ascending (map snd table)"

lemma ascending_Cons: "ascending (x # xs) \<Longrightarrow> y \<in> set xs \<Longrightarrow> x < y"
  by (induction xs arbitrary: x rule: induct_list012) (auto dest: order.strict_trans)

lemma ascending_distinct: "ascending xs \<Longrightarrow> distinct xs"
proof (induction xs)
  case (Cons x xs)
  then have "ascending xs" by (cases xs) auto
  with Cons ascending_Cons [OF Cons.prems] show ?case by fastforce
qed simp

lemma inverse_tables_back:
  assumes "inverse_tables table rtable"
  shows "takes_back table rtable" and "takes_back rtable table"
  using assms unfolding takes_back_def inverse_tables_def
  by (auto intro!: map_of_is_SomeI simp: comp_def ascending_distinct)

lemma switch_default: "s \<notin> fst ` set table \<Longrightarrow> switch table dflt s = dflt"
  by (metis map_of_eq_None_iff option.case(1) switch_def)

lemma switch_back:
  assumes "takes_back table rtable" and "s \<in> fst ` set table"
  shows "switch rtable rdflt (switch table dflt s) = s"
proof -
  from assms(2) obtain c where c: "map_of table s = Some c"
    by (metis domD dom_map_of_conv_image_fst)
  then have "map_of rtable c = Some s"
    using assms(1) map_of_SomeD by (fastforce simp: takes_back_def)
  with c show ?thesis by (simp add: switch_def)
qed

lemma switch_row: "s \<in> fst ` set table \<Longrightarrow> (s, switch table dflt s) \<in> set table"
  by (metis domD dom_map_of_conv_image_fst map_of_SomeD option.case(2) switch_def)

lemma inverse_tables_row: "inverse_tables table rtable \<Longrightarrow> (c, a) \<in> set rtable \<longleftrightarrow> (a, c) \<in> set table"
  by (force simp: inverse_tables_def)

lemma generated_tables:
  "inverse_tables OperatorMapper_table OperatorReverseMapper_table"
  "inverse_tables VariableMapper_table VariableReverseMapper_table"
  "inverse_tables CollectionMapper_table CollectionReverseMapper_table"
  "inverse_tables TransformationMapper_table TransformationMapperCSR_table"
  "inverse_tables FlowActionTypeMapper_table FlowActionTypeReverseMapper_table"
  by code_simp+

lemmas generated_tables_back =
  generated_tables(1) [THEN inverse_tables_back(1)] generated_tables(1) [THEN inverse_tables_back(2)]
  generated_tables(2) [THEN inverse_tables_back(1)] generated_tables(2) [THEN inverse_tables_back(2)]
  generated_tables(3) [THEN inverse_tables_back(1)] generated_tables(3) [THEN inverse_tables_back(2)]
  generated_tables(4) [THEN inverse_tables_back(1)] generated_tables(4) [THEN inverse_tables_back(2)]
  generated_tables(5) [THEN inverse_tables_back(1)] generated_tables(5) [THEN inverse_tables_back(2)]

end
