(* ===== verification/Convert.thy ===== *)
theory Convert
  imports SecLangEnums
begin

text \<open>
  Conversion between SecRule resources and crslang rules,
  \<open>api/seclang/v1beta1/convert/{secrule,actions,transformations,secaction,yaml_sanitize}.go\<close>.

  crslang and copier are third-party code: the record \<open>crslang\<close> carries what the converter calls of
  them, over an abstract type \<open>'a\<close> of actions and \<open>'m\<close> of rule metadata. The structs of crslang the
  converter builds field by field are records here. Rules are reached through pointers, but every
  rule is built fresh and linked once, so a chain is the value the pointers make up.
\<close>

section \<open>The crslang library\<close>

datatype action_type =
    TData crs_label
  | TDisruptive crs_label
  | TFlow crs_label
  | TNonDisruptive crs_label

text \<open>\<open>SetvarAction\<close>: the collection and the operation as printed, and the assignments.\<close>

record SetvarAction =
  sv_Collection :: string
  sv_Operation :: string
  sv_Assignments :: "(string \<times> string) list"

record ('a, 'm) crslang =
  cl_zeroVariable :: crs_label
  cl_zeroOperator :: crs_label
  cl_zeroTransformation :: crs_label
  cl_TransformationString :: "crs_label \<Rightarrow> string"
  cl_NewActionOnly :: "action_type \<Rightarrow> 'a option"
  cl_NewActionWithParam :: "action_type \<Rightarrow> string \<Rightarrow> 'a option"
  cl_GetKey :: "'a \<Rightarrow> string"
  cl_ToString :: "'a \<Rightarrow> string"
  cl_Setvar :: "'a \<Rightarrow> SetvarAction option"
  cl_zeroMetadata :: 'm
  cl_CopyMetadata :: "SecRuleMetadata \<Rightarrow> 'm option"
  cl_ReadMetadata :: "'m \<Rightarrow> SecRuleMetadata option"

record CrsVariable =
  cv_Name :: crs_label
  cv_Excluded :: bool

record CrsCollection =
  cco_Name :: crs_label
  cco_Arguments :: "string list"
  cco_Excluded :: "string list"
  cco_Count :: bool

record CrsOperator =
  cop_Negate :: bool
  cop_Name :: crs_label
  cop_Value :: string

record CrsCondition =
  cc_Variables :: "CrsVariable list"
  cc_Collections :: "CrsCollection list"
  cc_Operator :: CrsOperator
  cc_Transformations :: "crs_label list"
  cc_AlwaysMatch :: bool
  cc_Script :: string

record 'a SeclangActions =
  csa_DataActions :: "'a list"
  csa_DisruptiveAction :: "'a option"
  csa_FlowActions :: "'a list"
  csa_NonDisruptiveActions :: "'a list"

definition no_csr_actions :: "'a SeclangActions" where
  "no_csr_actions =
     \<lparr> csa_DataActions = [], csa_DisruptiveAction = None, csa_FlowActions = [], csa_NonDisruptiveActions = [] \<rparr>"

datatype ('a, 'm) RuleWithCondition =
  RWC (rwc_Metadata: 'm) (rwc_Conditions: "CrsCondition list") (rwc_Actions: "'a SeclangActions")
    (rwc_ChainedRule: "('a, 'm) RuleWithCondition option")

datatype ('a, 'm) SeclangDirective =
    DRule "('a, 'm) RuleWithCondition"
  | DConfiguration string string

datatype conv_error =
    CopyFailed
  | EmptyTransformation
  | UnknownTransformationUsed
  | UnsupportedTransformation string
  | AtIndex nat conv_error
  | ActionFailed action_type string

section \<open>Transformations\<close>

definition validateAPITransformation :: "Transformation \<Rightarrow> conv_error option" where
  "validateAPITransformation t =
     (let s = trim_space t in
      if s = [] then Some EmptyTransformation
      else if s = ''unknownTransformation'' \<or> s = ''unknown'' then Some UnknownTransformationUsed
      else None)"

definition FromCRSTransformation :: "('a, 'm) crslang \<Rightarrow> crs_label \<Rightarrow> conv_error + Transformation" where
  "FromCRSTransformation L src =
     (let s = cl_TransformationString L src in
      if s = ''normalizePath'' \<or> s = ''normalisePath'' then Inr ''normalisePath''
      else if s = ''normalizePathWin'' \<or> s = ''normalisePathWin'' then Inr ''normalisePathWin''
      else if s = ''unknown'' \<or> s = [] then Inl (UnsupportedTransformation s)
      else (let got = TransformationMapperCSR src in
            case validateAPITransformation got of
              Some _ \<Rightarrow> Inl (UnsupportedTransformation s)
            | None \<Rightarrow> Inr got))"

definition ToCRSTransformation :: "('a, 'm) crslang \<Rightarrow> Transformation \<Rightarrow> conv_error + crs_label" where
  "ToCRSTransformation L src =
     (let s = trim_space src in
      if s = [] then Inl EmptyTransformation
      else if s = ''unknownTransformation'' \<or> s = ''unknown'' then Inl UnknownTransformationUsed
      else if s = ''normalizePath'' \<or> s = ''normalisePath'' then Inr ''NormalisePath''
      else if s = ''normalizePathWin'' \<or> s = ''normalisePathWin'' then Inr ''NormalisePathWin''
      else (let got = TransformationMapper (cl_zeroTransformation L) src in
            if got = ''UnknownTransformation'' \<or> cl_TransformationString L got = ''unknown''
            then Inl (UnsupportedTransformation src)
            else Inr got))"

fun validate_from :: "('a, 'm) crslang \<Rightarrow> nat \<Rightarrow> Transformation list \<Rightarrow> conv_error option" where
  "validate_from L i [] = None"
| "validate_from L i (t # ts) =
     (case validateAPITransformation t of
        Some e \<Rightarrow> Some (AtIndex i e)
      | None \<Rightarrow>
          (case ToCRSTransformation L t of
             Inl e \<Rightarrow> Some (AtIndex i e)
           | Inr _ \<Rightarrow> validate_from L (Suc i) ts))"

definition ValidateAPITransformations :: "('a, 'm) crslang \<Rightarrow> Transformation list \<Rightarrow> conv_error option" where
  "ValidateAPITransformations L ts = validate_from L 0 ts"

fun map_from :: "(string \<Rightarrow> conv_error + string) \<Rightarrow> nat \<Rightarrow> string list \<Rightarrow> conv_error + string list" where
  "map_from f i [] = Inr []"
| "map_from f i (t # ts) =
     (case f t of
        Inl e \<Rightarrow> Inl (AtIndex i e)
      | Inr got \<Rightarrow> bindE (map_from f (Suc i) ts) (\<lambda>out. Inr (got # out)))"

definition mapAPITransformations :: "('a, 'm) crslang \<Rightarrow> Transformation list \<Rightarrow> conv_error + crs_label list" where
  "mapAPITransformations L ts = map_from (ToCRSTransformation L) 0 ts"

definition mapCRSTransformations :: "('a, 'm) crslang \<Rightarrow> crs_label list \<Rightarrow> conv_error + Transformation list" where
  "mapCRSTransformations L ts = map_from (FromCRSTransformation L) 0 ts"

section \<open>Actions\<close>

datatype SecLangActions =
    ADataAction DataAction
  | AFlowAction FlowAction
  | ANonDisruptiveAction NonDisruptiveAction
  | ADisruptiveAction DisruptiveAction

definition actionToCSR :: "('a, 'm) crslang \<Rightarrow> action_type \<Rightarrow> string \<Rightarrow> conv_error + 'a" where
  "actionToCSR L t value =
     (case (if value = [] then cl_NewActionOnly L t else cl_NewActionWithParam L t value) of
        None \<Rightarrow> Inl (ActionFailed t value)
      | Some a \<Rightarrow> Inr a)"

fun ActionToCSR :: "('a, 'm) crslang \<Rightarrow> SecLangActions \<Rightarrow> conv_error + 'a" where
  "ActionToCSR L (ADataAction a) = actionToCSR L (TData (DataActionTypeMapper (dta_Type a))) (dta_Value a)"
| "ActionToCSR L (AFlowAction a) = actionToCSR L (TFlow (FlowActionTypeMapper (fa_Type a))) (fa_Value a)"
| "ActionToCSR L (ANonDisruptiveAction a) =
     actionToCSR L (TNonDisruptive (NonDisruptiveActionTypeMapper (nda_Type a))) (nda_Value a)"
| "ActionToCSR L (ADisruptiveAction a) =
     actionToCSR L (TDisruptive (DisruptiveActionMapper (da_Type a))) (da_Value a)"

definition SecActionToCSR :: "('a, 'm) crslang \<Rightarrow> SecRuleActions \<Rightarrow> conv_error + 'a SeclangActions" where
  "SecActionToCSR L src =
     bindE (mapE (ActionToCSR L \<circ> ADataAction) (act_Data src)) (\<lambda>data.
     bindE (case act_DisruptiveAction src of
              None \<Rightarrow> Inr None
            | Some d \<Rightarrow> bindE (ActionToCSR L (ADisruptiveAction d)) (\<lambda>a. Inr (Some a))) (\<lambda>dis.
     bindE (mapE (ActionToCSR L \<circ> AFlowAction) (act_Flow src)) (\<lambda>flow.
     bindE (mapE (ActionToCSR L \<circ> ANonDisruptiveAction) (act_NonDisruptive src)) (\<lambda>nondis.
     Inr \<lparr> csa_DataActions = data, csa_DisruptiveAction = dis, csa_FlowActions = flow,
           csa_NonDisruptiveActions = nondis \<rparr>))))"

text \<open>The parameter of a printed action: the text behind its key, without outer single quotes.\<close>

definition action_param :: "('a, 'm) crslang \<Rightarrow> 'a \<Rightarrow> string" where
  "action_param L a = trim_set (trim_prefix (cl_ToString L a) (cl_GetKey L a @ '':'')) [squote]"

definition FlowActionToAPI :: "('a, 'm) crslang \<Rightarrow> 'a \<Rightarrow> FlowAction" where
  "FlowActionToAPI L src =
     (let t = cl_GetKey L src in
      \<lparr> fa_Type = t, fa_Value = (if t = Skip \<or> t = SkipAfter then action_param L src else []) \<rparr>)"

definition DataActionToAPI :: "('a, 'm) crslang \<Rightarrow> 'a \<Rightarrow> DataAction" where
  "DataActionToAPI L src =
     (let s = cl_ToString L src; key = cl_GetKey L src in
      \<lparr> dta_Type = key,
        dta_Value =
          (case str_index s '':'' of
             Some idx \<Rightarrow> trim_set (trim_space (drop (idx + 1) s)) [squote]
           | None \<Rightarrow> if length s > length key then trim_set (trim_space (trim_prefix s key)) [squote] else []) \<rparr>)"

definition NonDisruptiveActionToAPI :: "('a, 'm) crslang \<Rightarrow> 'a \<Rightarrow> NonDisruptiveAction list" where
  "NonDisruptiveActionToAPI L src =
     (case cl_Setvar L src of
        Some sv \<Rightarrow>
          map (\<lambda>(var, val).
                 \<lparr> nda_Type = ''setvar'', nda_Value = sv_Collection sv @ ''.'' @ var @ sv_Operation sv @ val \<rparr>)
              (sv_Assignments sv)
      | None \<Rightarrow>
          (let t = cl_GetKey L src in
           [\<lparr> nda_Type = t,
              nda_Value =
                (if t \<in> set [''ctl'', ''exec'', ''expirevar'', ''initcol'', ''logdata'', ''setenv'', ''setvar'',
                            ''setrsc'', ''setsid'', ''setuid'']
                 then action_param L src else []) \<rparr>]))"

definition DisruptiveActionToAPI :: "('a, 'm) crslang \<Rightarrow> 'a \<Rightarrow> DisruptiveAction" where
  "DisruptiveActionToAPI L src =
     (let t = cl_GetKey L src in
      \<lparr> da_Type = t, da_Value = (if t = ''redirect'' then action_param L src else []) \<rparr>)"

definition SecActionToAPI :: "('a, 'm) crslang \<Rightarrow> 'a SeclangActions \<Rightarrow> SecRuleActions" where
  "SecActionToAPI L src =
     \<lparr> act_Data = map (DataActionToAPI L) (csa_DataActions src),
       act_DisruptiveAction = map_option (DisruptiveActionToAPI L) (csa_DisruptiveAction src),
       act_Flow = map (FlowActionToAPI L) (csa_FlowActions src),
       act_NonDisruptive = concat (map (NonDisruptiveActionToAPI L) (csa_NonDisruptiveActions src)) \<rparr>"

section \<open>One rule\<close>

definition convert_operator :: "('a, 'm) crslang \<Rightarrow> Condition \<Rightarrow> CrsOperator" where
  "convert_operator L c =
     (if cond_AlwaysMatch c
      then \<lparr> cop_Negate = False, cop_Name = ''UnknownOperator'', cop_Value = [] \<rparr>
      else \<lparr> cop_Negate = op_Negate (cond_Operator c),
             cop_Name = (if op_Name (cond_Operator c) \<noteq> [] then OperatorMapper (op_Name (cond_Operator c))
                         else cl_zeroOperator L),
             cop_Value = op_Value (cond_Operator c) \<rparr>)"

definition convert_condition :: "('a, 'm) crslang \<Rightarrow> Condition \<Rightarrow> conv_error + CrsCondition" where
  "convert_condition L c =
     bindE (mapAPITransformations L (cond_Transformations c)) (\<lambda>mapped.
     Inr \<lparr> cc_Variables =
             map (\<lambda>v. \<lparr> cv_Name = VariableMapper (cl_zeroVariable L) (var_Name v), cv_Excluded = var_Excluded v \<rparr>)
                 (cond_Variables c),
           cc_Collections =
             map (\<lambda>k. \<lparr> cco_Name = CollectionMapper (col_Name k), cco_Arguments = col_Arguments k,
                        cco_Excluded = col_Excluded k, cco_Count = col_Count k \<rparr>)
                 (cond_Collections c),
           cc_Operator = convert_operator L c,
           cc_Transformations = mapped,
           cc_AlwaysMatch = cond_AlwaysMatch c,
           cc_Script = cond_Script c \<rparr>)"

definition copy_metadata :: "('a, 'm) crslang \<Rightarrow> SecRuleMetadata option \<Rightarrow> conv_error + 'm" where
  "copy_metadata L md =
     (case md of
        None \<Rightarrow> Inr (cl_zeroMetadata L)
      | Some m \<Rightarrow> (case cl_CopyMetadata L m of None \<Rightarrow> Inl CopyFailed | Some m' \<Rightarrow> Inr m'))"

definition convert_actions :: "('a, 'm) crslang \<Rightarrow> SecRuleActions option \<Rightarrow> conv_error + 'a SeclangActions" where
  "convert_actions L acts = (case acts of None \<Rightarrow> Inr no_csr_actions | Some a \<Rightarrow> SecActionToCSR L a)"

text \<open>
  \<open>secLangSecRuleToRuleWithCondition\<close> returns a list of exactly one rule; this is that rule.
\<close>

definition secLangSecRuleToRuleWithCondition ::
  "('a, 'm) crslang \<Rightarrow> SecLangSecRule \<Rightarrow> conv_error + ('a, 'm) RuleWithCondition" where
  "secLangSecRuleToRuleWithCondition L r =
     bindE (copy_metadata L (slr_Metadata r)) (\<lambda>md.
     bindE (mapE (convert_condition L) (slr_Conditions r)) (\<lambda>conds.
     bindE (convert_actions L (slr_Actions r)) (\<lambda>acts.
     Inr (RWC md conds acts None))))"

definition alwaysMatchToRuleWithCondition ::
  "('a, 'm) crslang \<Rightarrow> SecRuleMetadata option \<Rightarrow> Match \<Rightarrow> SecRuleActions option \<Rightarrow>
   conv_error + ('a, 'm) RuleWithCondition" where
  "alwaysMatchToRuleWithCondition L meta m acts =
     bindE (mapAPITransformations L (match_Transformations m)) (\<lambda>mapped.
     bindE (copy_metadata L meta) (\<lambda>md.
     bindE (convert_actions L acts) (\<lambda>csr.
     Inr (RWC md
       [\<lparr> cc_Variables = [], cc_Collections = [],
          cc_Operator = \<lparr> cop_Negate = False, cop_Name = ''UnknownOperator'', cop_Value = [] \<rparr>,
          cc_Transformations = mapped, cc_AlwaysMatch = True, cc_Script = [] \<rparr>]
       csr None))))"

section \<open>Chains\<close>

definition hasChainInActions :: "SecRuleActions option \<Rightarrow> bool" where
  "hasChainInActions a = (case a of None \<Rightarrow> False | Some x \<Rightarrow> list_ex (\<lambda>f. fa_Type f = Chain) (act_Flow x))"

definition hasChainInFlow :: "SecLangSecRule \<Rightarrow> bool" where
  "hasChainInFlow r =
     (case slr_Actions r of
        None \<Rightarrow> False
      | Some a \<Rightarrow> act_Flow a \<noteq> [] \<and> list_ex (\<lambda>f. fa_Type f = Chain) (act_Flow a))"

definition no_actions :: SecRuleActions where
  "no_actions = \<lparr> act_Data = [], act_DisruptiveAction = None, act_Flow = [], act_NonDisruptive = [] \<rparr>"

definition ensureChainAction :: "SecRuleActions option \<Rightarrow> SecRuleActions" where
  "ensureChainAction acts =
     (let out = (case acts of None \<Rightarrow> no_actions | Some a \<Rightarrow> a) in
      if hasChainInActions (Some out) then out
      else out\<lparr> act_Flow := act_Flow out @ [\<lparr> fa_Type = Chain, fa_Value = [] \<rparr>] \<rparr>)"

definition stripDisruptiveActions :: "SecRuleActions option \<Rightarrow> SecRuleActions option" where
  "stripDisruptiveActions = map_option (\<lambda>a. a\<lparr> act_DisruptiveAction := None \<rparr>)"

definition removeChainFromFlowActions ::
  "('a, 'm) crslang \<Rightarrow> ('a, 'm) RuleWithCondition \<Rightarrow> ('a, 'm) RuleWithCondition" where
  "removeChainFromFlowActions L r =
     (case r of RWC md conds acts ch \<Rightarrow>
        RWC md conds (acts\<lparr> csa_FlowActions := filter (\<lambda>a. cl_GetKey L a \<noteq> ''chain'') (csa_FlowActions acts) \<rparr>) ch)"

definition drop_disruptive :: "('a, 'm) RuleWithCondition \<Rightarrow> ('a, 'm) RuleWithCondition" where
  "drop_disruptive r =
     (case r of RWC md conds acts ch \<Rightarrow> RWC md conds (acts\<lparr> csa_DisruptiveAction := None \<rparr>) ch)"

definition set_ChainedRule ::
  "('a, 'm) RuleWithCondition option \<Rightarrow> ('a, 'm) RuleWithCondition \<Rightarrow> ('a, 'm) RuleWithCondition" where
  "set_ChainedRule c r = (case r of RWC md conds acts _ \<Rightarrow> RWC md conds acts c)"

definition matchToRuleWithCondition ::
  "('a, 'm) crslang \<Rightarrow> SecRuleMetadata option \<Rightarrow> Match \<Rightarrow> SecRuleActions option \<Rightarrow> bool \<Rightarrow>
   conv_error + ('a, 'm) RuleWithCondition" where
  "matchToRuleWithCondition L meta m acts needChain =
     secLangSecRuleToRuleWithCondition L
       \<lparr> slr_Metadata = meta, slr_Conditions = [ToCondition m],
         slr_Actions = (if needChain then Some (ensureChainAction acts) else acts),
         slr_ChainedRule = False, slr_SecMarker = [] \<rparr>"

section \<open>The one-rule form\<close>

definition markerDirective :: "string \<Rightarrow> ('a, 'm) SeclangDirective" where
  "markerDirective name = DConfiguration ''SecMarker'' name"

definition marker_after :: "string \<Rightarrow> ('a, 'm) SeclangDirective list" where
  "marker_after name = (if name \<noteq> [] then [markerDirective name] else [])"

definition link_actions :: "SecRuleSpec \<Rightarrow> bool \<Rightarrow> bool \<Rightarrow> Match \<Rightarrow> SecRuleActions option" where
  "link_actions spec isParent isLast m =
     (case match_Actions m of
        None \<Rightarrow>
          if isParent then spec_Actions spec
          else if isLast then stripDisruptiveActions (spec_Actions spec)
          else None
      | Some a \<Rightarrow> if isParent then Some a else stripDisruptiveActions (Some a))"

definition convert_link ::
  "('a, 'm) crslang \<Rightarrow> SecRuleSpec \<Rightarrow> nat \<Rightarrow> bool \<Rightarrow> bool \<Rightarrow> Match \<Rightarrow> conv_error + ('a, 'm) RuleWithCondition" where
  "convert_link L spec k isParent isLast m =
     bindE (matchToRuleWithCondition L (if isParent then spec_Metadata spec else None) m
              (link_actions spec isParent isLast m) (\<not> isLast \<and> k > 1)) (\<lambda>rwc.
     Inr (if isParent then rwc
          else drop_disruptive (if isLast then removeChainFromFlowActions L rwc else rwc)))"

text \<open>The loop over \<open>match[]\<close>: the links in order, then the pointers from each link to the next.\<close>

fun convert_links ::
  "('a, 'm) crslang \<Rightarrow> SecRuleSpec \<Rightarrow> nat \<Rightarrow> bool \<Rightarrow> Match list \<Rightarrow> conv_error + ('a, 'm) RuleWithCondition list" where
  "convert_links L spec k isParent [] = Inr []"
| "convert_links L spec k isParent (m # ms) =
     bindE (convert_link L spec k isParent (ms = []) m) (\<lambda>r.
     bindE (convert_links L spec k False ms) (\<lambda>rs. Inr (r # rs)))"

fun link_chain :: "('a, 'm) RuleWithCondition list \<Rightarrow> ('a, 'm) RuleWithCondition option" where
  "link_chain [] = None"
| "link_chain (r # rs) = Some (set_ChainedRule (link_chain rs) r)"

definition always_match :: Match where
  "always_match =
     \<lparr> match_Variables = [], match_Collections = [],
       match_Operator = \<lparr> op_Negate = False, op_Name = [], op_Value = [] \<rparr>,
       match_Transformations = [], match_AlwaysMatch = True, match_Script = [], match_Actions = None \<rparr>"

definition effective_matches :: "SecRuleSpec \<Rightarrow> Match list" where
  "effective_matches spec = (if spec_Match spec = [] then [always_match] else spec_Match spec)"

definition convertSingleRuleForm ::
  "('a, 'm) crslang \<Rightarrow> SecRuleSpec \<Rightarrow> conv_error + ('a, 'm) SeclangDirective list" where
  "convertSingleRuleForm L spec =
     (let matches = effective_matches spec in
      if length matches = 1 \<and> match_AlwaysMatch (hd matches) then
        bindE (alwaysMatchToRuleWithCondition L (spec_Metadata spec) (hd matches)
                 (case match_Actions (hd matches) of None \<Rightarrow> spec_Actions spec | Some a \<Rightarrow> Some a)) (\<lambda>rwc.
        Inr (DRule rwc # marker_after (spec_MarkerAfter spec)))
      else
        bindE (convert_links L spec (length matches) True matches) (\<lambda>links.
        Inr ((case link_chain links of None \<Rightarrow> [] | Some h \<Rightarrow> [DRule h]) @ marker_after (spec_MarkerAfter spec))))"

section \<open>The legacy bag\<close>

text \<open>
  \<open>consume_chain\<close> is the inner loop: from a rule and its bag entry, the rule with the entries that
  follow while the chain action is present attached, the last entry consumed, and the rest.
\<close>

fun consume_chain ::
  "('a, 'm) crslang \<Rightarrow> SecLangSecRule \<Rightarrow> ('a, 'm) RuleWithCondition \<Rightarrow> SecLangSecRule list \<Rightarrow>
   conv_error + (('a, 'm) RuleWithCondition \<times> SecLangSecRule \<times> SecLangSecRule list)" where
  "consume_chain L e r [] = Inr (r, e, [])"
| "consume_chain L e r (n # rest) =
     (if hasChainInFlow e then
        bindE (secLangSecRuleToRuleWithCondition L n) (\<lambda>nr.
        bindE (consume_chain L n (removeChainFromFlowActions L nr) rest) (\<lambda>(nr', lst, rest').
        Inr (set_ChainedRule (Some nr') r, lst, rest')))
      else Inr (r, e, n # rest))"

lemma consume_chain_shorter:
  "consume_chain L e r es = Inr (r', lst, rest) \<Longrightarrow> length rest \<le> length es"
  by (induction L e r es arbitrary: r' lst rest rule: consume_chain.induct) (fastforce split: if_splits)+

function convert_bag ::
  "('a, 'm) crslang \<Rightarrow> SecLangSecRule list \<Rightarrow> conv_error + ('a, 'm) SeclangDirective list" where
  "convert_bag L [] = Inr []"
| "convert_bag L (e # es) =
     bindE (secLangSecRuleToRuleWithCondition L e) (\<lambda>r.
     bindE (consume_chain L e r es) (\<lambda>(r', lst, rest).
     bindE (convert_bag L rest) (\<lambda>out.
     Inr (DRule r' # marker_after (if slr_SecMarker lst \<noteq> [] then slr_SecMarker lst else slr_SecMarker e) @ out))))"
  by pat_completeness auto
termination
  by (relation "measure (\<lambda>(L, es). length es)") (auto dest!: consume_chain_shorter)

definition convertLegacySecLangRules ::
  "('a, 'm) crslang \<Rightarrow> SecRuleSpec \<Rightarrow> conv_error + ('a, 'm) SeclangDirective list" where
  "convertLegacySecLangRules L spec =
     bindE (convert_bag L (spec_SecRules spec)) (\<lambda>out. Inr (out @ marker_after (spec_MarkerAfter spec)))"

definition ConvertSecRule :: "('a, 'm) crslang \<Rightarrow> SecRuleSpec \<Rightarrow> conv_error + ('a, 'm) SeclangDirective list" where
  "ConvertSecRule L spec =
     (if IsSingleRuleForm spec then convertSingleRuleForm L spec else convertLegacySecLangRules L spec)"

definition ConvertSecAction :: "('a, 'm) crslang \<Rightarrow> SecActionSpec \<Rightarrow> conv_error + ('a, 'm) SeclangDirective list" where
  "ConvertSecAction L spec =
     ConvertSecRule L
       \<lparr> spec_Order = 0, spec_MarkerAfter = [], spec_Metadata = sa_Metadata spec,
         spec_Match = [always_match\<lparr> match_Transformations := sa_Transformations spec \<rparr>],
         spec_Actions = Some (SecRuleActions.truncate spec), spec_SecRules = [] \<rparr>"

section \<open>Comments\<close>

definition MaxYAMLEmptyLines :: int where "MaxYAMLEmptyLines = 2"

fun collapse_lines :: "int \<Rightarrow> int \<Rightarrow> string list \<Rightarrow> string list" where
  "collapse_lines maxEmpty emptyRun [] = []"
| "collapse_lines maxEmpty emptyRun (line # lines) =
     (if trim_space line = [] then
        (if emptyRun + 1 \<le> maxEmpty then [[]] else []) @ collapse_lines maxEmpty (emptyRun + 1) lines
      else line # collapse_lines maxEmpty 0 lines)"

definition drop_trailing_empty :: "string list \<Rightarrow> string list" where
  "drop_trailing_empty lines = rev (dropWhile (\<lambda>l. l = []) (rev lines))"

definition unix_newlines :: "string \<Rightarrow> string" where
  "unix_newlines s = replace_all [CHR 0x0D] [newline] (replace_all [CHR 0x0D, newline] [newline] s)"

definition CollapseEmptyLines :: "string \<Rightarrow> int \<Rightarrow> string" where
  "CollapseEmptyLines s maxEmpty =
     (let s1 = unix_newlines s in
      if s1 = [] then []
      else (let out = drop_trailing_empty (collapse_lines (max maxEmpty 0) 0 (split_on newline s1)) in
            if out = [] then [] else join [newline] out @ [newline]))"

definition SanitizeRuleComment :: "string \<Rightarrow> string" where
  "SanitizeRuleComment s = (if s = [] then [] else trim_right_set (CollapseEmptyLines s MaxYAMLEmptyLines) [newline])"

section \<open>Importing crslang rules\<close>

definition import_operator :: "CrsCondition \<Rightarrow> Operator" where
  "import_operator c =
     (let name = OperatorReverseMapper (cop_Name (cc_Operator c)) in
      \<lparr> op_Negate = cop_Negate (cc_Operator c),
        op_Name = (if cc_AlwaysMatch c \<and> (name = [] \<or> name = ''unknownOperator'') then ''unconditionalMatch'' else name),
        op_Value = cop_Value (cc_Operator c) \<rparr>)"

definition import_condition :: "('a, 'm) crslang \<Rightarrow> CrsCondition \<Rightarrow> conv_error + Condition" where
  "import_condition L c =
     bindE (mapCRSTransformations L (cc_Transformations c)) (\<lambda>mapped.
     Inr \<lparr> cond_Variables =
             map (\<lambda>v. \<lparr> var_Name = VariableReverseMapper (cv_Name v), var_Excluded = cv_Excluded v \<rparr>) (cc_Variables c),
           cond_Collections =
             map (\<lambda>k. \<lparr> col_Name = CollectionReverseMapper (cco_Name k), col_Arguments = cco_Arguments k,
                        col_Excluded = cco_Excluded k, col_Count = cco_Count k \<rparr>) (cc_Collections c),
           cond_Operator = import_operator c,
           cond_Transformations = mapped,
           cond_AlwaysMatch = cc_AlwaysMatch c,
           cond_Script = cc_Script c \<rparr>)"

definition import_metadata :: "('a, 'm) crslang \<Rightarrow> 'm \<Rightarrow> conv_error + SecRuleMetadata" where
  "import_metadata L md =
     (case cl_ReadMetadata L md of
        None \<Rightarrow> Inl CopyFailed
      | Some m \<Rightarrow> Inr (if md_Comment m \<noteq> [] then m\<lparr> md_Comment := SanitizeRuleComment (md_Comment m) \<rparr> else m))"

definition ConvertCrsRule ::
  "('a, 'm) crslang \<Rightarrow> ('a, 'm) RuleWithCondition \<Rightarrow> string \<Rightarrow> conv_error + SecLangSecRule" where
  "ConvertCrsRule L src secMarker =
     bindE (import_metadata L (rwc_Metadata src)) (\<lambda>md.
     bindE (mapE (import_condition L) (rwc_Conditions src)) (\<lambda>conds.
     Inr \<lparr> slr_Metadata = Some md, slr_Conditions = conds,
           slr_Actions = Some (SecActionToAPI L (rwc_Actions src)),
           slr_ChainedRule = False, slr_SecMarker = secMarker \<rparr>))"

definition filterOutChain :: "FlowAction list \<Rightarrow> FlowAction list" where
  "filterOutChain flow = filter (\<lambda>f. fa_Type f \<noteq> Chain) flow"

definition without_chain :: "SecRuleActions option \<Rightarrow> SecRuleActions option" where
  "without_chain = map_option (\<lambda>a. a\<lparr> act_Flow := filterOutChain (act_Flow a) \<rparr>)"

definition condition_match :: "Condition \<Rightarrow> Match" where
  "condition_match c =
     \<lparr> match_Variables = cond_Variables c, match_Collections = cond_Collections c,
       match_Operator = cond_Operator c, match_Transformations = cond_Transformations c,
       match_AlwaysMatch = cond_AlwaysMatch c, match_Script = cond_Script c, match_Actions = None \<rparr>"

definition empty_match :: Match where
  "empty_match = always_match\<lparr> match_AlwaysMatch := False \<rparr>"

text \<open>The match entry of a link: its first condition, and for a link other than the first its actions.\<close>

definition link_match :: "bool \<Rightarrow> SecLangSecRule \<Rightarrow> Match" where
  "link_match first legacy =
     (let m = (case slr_Conditions legacy of [] \<Rightarrow> empty_match | c # _ \<Rightarrow> condition_match c) in
      if first then m else m\<lparr> match_Actions := without_chain (slr_Actions legacy) \<rparr>)"

fun walk_chain ::
  "('a, 'm) crslang \<Rightarrow> SecRuleSpec \<Rightarrow> bool \<Rightarrow> ('a, 'm) RuleWithCondition \<Rightarrow> conv_error + SecRuleSpec" where
  "walk_chain L spec first (RWC md conds acts chained) =
     bindE (ConvertCrsRule L (RWC md conds acts chained) []) (\<lambda>legacy.
       (let spec1 = (if first then spec\<lparr> spec_Metadata := slr_Metadata legacy,
                                         spec_Actions := without_chain (slr_Actions legacy) \<rparr> else spec)
        in case chained of
             None \<Rightarrow>
               if length (slr_Conditions legacy) > 1 \<and> spec_Match spec1 = []
               then Inr (spec1\<lparr> spec_Match := spec_Match spec1 @ map condition_match (slr_Conditions legacy) \<rparr>)
               else Inr (spec1\<lparr> spec_Match := spec_Match spec1 @ [link_match first legacy] \<rparr>)
           | Some next_rule \<Rightarrow>
               walk_chain L (spec1\<lparr> spec_Match := spec_Match spec1 @ [link_match first legacy] \<rparr>) False next_rule))"

text \<open>Go's conversion to \<open>int32\<close> keeps the low 32 bits.\<close>

definition to_int32 :: "int \<Rightarrow> int" where
  "to_int32 i = (i + 2 ^ 31) mod 2 ^ 32 - 2 ^ 31"

definition empty_spec :: SecRuleSpec where
  "empty_spec = \<lparr> spec_Order = 0, spec_MarkerAfter = [], spec_Metadata = None, spec_Match = [],
                  spec_Actions = None, spec_SecRules = [] \<rparr>"

definition ConvertCrsRuleToSingleForm ::
  "('a, 'm) crslang \<Rightarrow> ('a, 'm) RuleWithCondition \<Rightarrow> string \<Rightarrow> conv_error + SecRuleSpec" where
  "ConvertCrsRuleToSingleForm L src markerAfter =
     bindE (walk_chain L (empty_spec\<lparr> spec_MarkerAfter := markerAfter \<rparr>) True src) (\<lambda>spec.
     Inr (case spec_Metadata spec of
            None \<Rightarrow> spec
          | Some md \<Rightarrow> if md_Id md > 0 then spec\<lparr> spec_Order := to_int32 (md_Id md) \<rparr> else spec))"

end
