(* ===== verification/ConvertThms.thy ===== *)
theory ConvertThms
  imports Convert
begin

text \<open>
  Properties of the converter: the shape of the chains it builds, the transformations it lets pass,
  and what an imported rule keeps when it is converted back.
\<close>

section \<open>Chains as lists\<close>

fun links :: "('a, 'm) RuleWithCondition \<Rightarrow> ('a, 'm) RuleWithCondition list" where
  "links (RWC md conds acts None) = [RWC md conds acts None]"
| "links (RWC md conds acts (Some n)) = RWC md conds acts (Some n) # links n"

definition has_chain_key :: "('a, 'm) crslang \<Rightarrow> ('a, 'm) RuleWithCondition \<Rightarrow> bool" where
  "has_chain_key L r \<longleftrightarrow> list_ex (\<lambda>a. cl_GetKey L a = ''chain'') (csa_FlowActions (rwc_Actions r))"

text \<open>What the converter relies on: an action built for the flow type \<open>Chain\<close> has the key \<open>chain\<close>.\<close>

definition chain_keyed :: "('a, 'm) crslang \<Rightarrow> bool" where
  "chain_keyed L \<longleftrightarrow> (\<forall>v a. actionToCSR L (TFlow ''Chain'') v = Inr a \<longrightarrow> cl_GetKey L a = ''chain'')"

lemma links_nonempty [simp]: "links r \<noteq> []"
  by (cases r rule: links.cases) auto

lemma set_ChainedRule_sel [simp]:
  "rwc_Metadata (set_ChainedRule c r) = rwc_Metadata r"
  "rwc_Conditions (set_ChainedRule c r) = rwc_Conditions r"
  "rwc_Actions (set_ChainedRule c r) = rwc_Actions r"
  "rwc_ChainedRule (set_ChainedRule c r) = c"
  by (cases r; simp add: set_ChainedRule_def)+

lemma removeChain_sel [simp]:
  "rwc_Metadata (removeChainFromFlowActions L r) = rwc_Metadata r"
  "rwc_Conditions (removeChainFromFlowActions L r) = rwc_Conditions r"
  "csa_DisruptiveAction (rwc_Actions (removeChainFromFlowActions L r)) = csa_DisruptiveAction (rwc_Actions r)"
  "\<not> has_chain_key L (removeChainFromFlowActions L r)"
  by (cases r; auto simp: removeChainFromFlowActions_def has_chain_key_def list_ex_iff)+

lemma drop_disruptive_sel [simp]:
  "rwc_Metadata (drop_disruptive r) = rwc_Metadata r"
  "rwc_Conditions (drop_disruptive r) = rwc_Conditions r"
  "csa_DisruptiveAction (rwc_Actions (drop_disruptive r)) = None"
  "has_chain_key L (drop_disruptive r) = has_chain_key L r"
  by (cases r; simp add: drop_disruptive_def has_chain_key_def)+

lemma has_chain_key_set [simp]: "has_chain_key L (set_ChainedRule c r) = has_chain_key L r"
  by (simp add: has_chain_key_def)

text \<open>Two lists of rules with the same contents, whatever their chain pointers.\<close>

definition same_rule :: "('a, 'm) RuleWithCondition \<Rightarrow> ('a, 'm) RuleWithCondition \<Rightarrow> bool" where
  "same_rule r s \<longleftrightarrow>
     rwc_Metadata r = rwc_Metadata s \<and> rwc_Conditions r = rwc_Conditions s \<and> rwc_Actions r = rwc_Actions s"

lemma links_set_ChainedRule:
  "links (set_ChainedRule c r) = set_ChainedRule c r # (case c of None \<Rightarrow> [] | Some n \<Rightarrow> links n)"
  by (cases r; cases c) (auto simp: set_ChainedRule_def)

lemma same_rule_set [simp]: "same_rule r (set_ChainedRule c r)"
  by (simp add: same_rule_def)

lemma links_link_chain:
  "rs \<noteq> [] \<Longrightarrow> link_chain rs = Some h \<Longrightarrow> list_all2 same_rule rs (links h)"
proof (induction rs arbitrary: h)
  case (Cons r rs)
  show ?case
  proof (cases rs)
    case Nil
    with Cons.prems show ?thesis by (auto simp: links_set_ChainedRule)
  next
    case (Cons s ss)
    then obtain n where n: "link_chain rs = Some n" by simp
    with Cons Cons.IH have "list_all2 same_rule rs (links n)" by simp
    with n Cons.prems show ?thesis by (auto simp: links_set_ChainedRule)
  qed
qed simp

lemma same_rule_chain_key: "same_rule r s \<Longrightarrow> has_chain_key L r = has_chain_key L s"
  by (simp add: same_rule_def has_chain_key_def)

section \<open>The one-rule form\<close>

lemma secLangSecRule_Inr:
  assumes "secLangSecRuleToRuleWithCondition L r = Inr s"
  shows "copy_metadata L (slr_Metadata r) = Inr (rwc_Metadata s) \<and>
    mapE (convert_condition L) (slr_Conditions r) = Inr (rwc_Conditions s) \<and>
    convert_actions L (slr_Actions r) = Inr (rwc_Actions s) \<and> rwc_ChainedRule s = None"
  using assms by (auto simp: secLangSecRuleToRuleWithCondition_def)

lemma SecActionToCSR_flow:
  assumes "SecActionToCSR L src = Inr dst"
  shows "mapE (ActionToCSR L \<circ> AFlowAction) (act_Flow src) = Inr (csa_FlowActions dst)"
  using assms by (auto simp: SecActionToCSR_def)

lemma FlowActionTypeMapper_Chain: "FlowActionTypeMapper Chain = ''Chain''"
  by code_simp

lemma ensureChainAction_has_chain: "\<exists>f \<in> set (act_Flow (ensureChainAction acts)). fa_Type f = Chain"
  by (auto simp: ensureChainAction_def hasChainInActions_def Let_def list_ex_iff split: option.splits)

lemma ensured_chain_key:
  assumes "chain_keyed L" and "SecActionToCSR L (ensureChainAction acts) = Inr dst"
  shows "list_ex (\<lambda>a. cl_GetKey L a = ''chain'') (csa_FlowActions dst)"
proof -
  obtain f where f: "f \<in> set (act_Flow (ensureChainAction acts))" "fa_Type f = Chain"
    using ensureChainAction_has_chain by blast
  obtain a where a: "a \<in> set (csa_FlowActions dst)" "ActionToCSR L (AFlowAction f) = Inr a"
    using mapE_mem [OF SecActionToCSR_flow [OF assms(2)] f(1)] by auto
  with assms(1) f(2) have "cl_GetKey L a = ''chain''"
    by (simp add: chain_keyed_def FlowActionTypeMapper_Chain)
  with a(1) show ?thesis by (auto simp: list_ex_iff)
qed

text \<open>What every link of a converted chain satisfies.\<close>

definition link_ok :: "('a, 'm) crslang \<Rightarrow> bool \<Rightarrow> bool \<Rightarrow> Match \<Rightarrow> ('a, 'm) RuleWithCondition \<Rightarrow> bool" where
  "link_ok L isParent isLast m r \<longleftrightarrow>
     (\<exists>c. convert_condition L (ToCondition m) = Inr c \<and> rwc_Conditions r = [c]) \<and>
     has_chain_key L r = (\<not> isLast) \<and>
     (isParent \<or> csa_DisruptiveAction (rwc_Actions r) = None \<and> rwc_Metadata r = cl_zeroMetadata L)"

lemma link_ok_same: "same_rule r s \<Longrightarrow> link_ok L p l m r \<Longrightarrow> link_ok L p l m s"
  using same_rule_chain_key [of r s L] by (auto simp: link_ok_def same_rule_def)

lemma convert_link_ok:
  assumes "chain_keyed L" and "convert_link L spec k isParent isLast m = Inr r" and "k > 1"
    and "\<not> (isParent \<and> isLast)"
  shows "link_ok L isParent isLast m r"
proof -
  from assms(2) obtain s where
    s: "secLangSecRuleToRuleWithCondition L
          \<lparr> slr_Metadata = (if isParent then spec_Metadata spec else None), slr_Conditions = [ToCondition m],
            slr_Actions = (if \<not> isLast then Some (ensureChainAction (link_actions spec isParent isLast m))
                           else link_actions spec isParent isLast m),
            slr_ChainedRule = False, slr_SecMarker = [] \<rparr> = Inr s"
    and r: "r = (if isParent then s else drop_disruptive (if isLast then removeChainFromFlowActions L s else s))"
    using \<open>k > 1\<close> by (auto simp: convert_link_def matchToRuleWithCondition_def)
  note s' = secLangSecRule_Inr [OF s]
  have "has_chain_key L s" if "\<not> isLast"
    unfolding has_chain_key_def
    by (rule ensured_chain_key [OF assms(1), of "link_actions spec isParent isLast m"])
      (use s' that in \<open>simp add: convert_actions_def\<close>)
  moreover obtain c where "convert_condition L (ToCondition m) = Inr c" "rwc_Conditions s = [c]"
    using s' by (auto simp: mapE_Inr_iff list_all2_Cons1)
  moreover have "rwc_Metadata s = cl_zeroMetadata L" if "\<not> isParent"
    using s' that by (simp add: copy_metadata_def)
  ultimately show ?thesis using r assms(4) by (auto simp: link_ok_def)
qed

lemma convert_links_ok:
  assumes "chain_keyed L" and "k > 1"
  shows "convert_links L spec k p ms = Inr rs \<Longrightarrow> \<not> (p \<and> length ms = 1) \<Longrightarrow>
    length rs = length ms \<and> (\<forall>i < length ms. link_ok L (p \<and> i = 0) (Suc i = length ms) (ms ! i) (rs ! i))"
proof (induction ms arbitrary: p rs)
  case (Cons m ms)
  then obtain r rs' where r: "convert_link L spec k p (ms = []) m = Inr r"
    and rs': "convert_links L spec k False ms = Inr rs'" "rs = r # rs'" by auto
  have "link_ok L p (ms = []) m r"
    by (rule convert_link_ok [OF assms(1) r assms(2)]) (use Cons.prems(2) in auto)
  with Cons.IH [OF rs'(1)] rs'(2) show ?case by (auto simp: nth_Cons split: nat.split)
qed simp

text \<open>
  C32: A SecRule with two or more matches converts to one rule, followed by its marker, whose chain has
  one link per match, in order. Each link tests exactly its match. Every link but the last carries the
  chain action and the last does not; only the first link can have a disruptive action or metadata.
\<close>

theorem single_form_chain:
  assumes "chain_keyed L" and "convertSingleRuleForm L spec = Inr out" and "length (spec_Match spec) \<ge> 2"
  shows "\<exists>h. out = DRule h # marker_after (spec_MarkerAfter spec) \<and>
    length (links h) = length (spec_Match spec) \<and>
    (\<forall>i < length (spec_Match spec).
       link_ok L (i = 0) (Suc i = length (spec_Match spec)) (spec_Match spec ! i) (links h ! i))"
proof -
  let ?ms = "spec_Match spec"
  have ms: "effective_matches spec = ?ms" using assms(3) by (auto simp: effective_matches_def)
  from assms(2,3) obtain rs where rs: "convert_links L spec (length ?ms) True ?ms = Inr rs"
    and out: "out = (case link_chain rs of None \<Rightarrow> [] | Some h \<Rightarrow> [DRule h]) @ marker_after (spec_MarkerAfter spec)"
    by (auto simp: convertSingleRuleForm_def ms Let_def)
  note ok = convert_links_ok [OF assms(1) _ rs]
  from ok assms(3) have "rs \<noteq> []" by auto
  then obtain h where h: "link_chain rs = Some h" by (cases rs) auto
  have same: "list_all2 same_rule rs (links h)" by (rule links_link_chain [OF \<open>rs \<noteq> []\<close> h])
  then have len: "length (links h) = length ?ms" using ok assms(3) by (auto dest: list_all2_lengthD)
  have "link_ok L (i = 0) (Suc i = length ?ms) (?ms ! i) (links h ! i)" if "i < length ?ms" for i
    using link_ok_same [OF list_all2_nthD2 [OF same]] ok assms(3) len that by auto
  with out h len show ?thesis by auto
qed

section \<open>The legacy bag\<close>

lemma consume_chain_links:
  "consume_chain L e r es = Inr (r', lst, rest) \<Longrightarrow> rwc_ChainedRule r = None \<Longrightarrow>
   length (links r') = length es - length rest + 1 \<and>
   (\<forall>s \<in> set (tl (links r')). \<not> has_chain_key L s)"
proof (induction L e r es arbitrary: r' lst rest rule: consume_chain.induct)
  case (1 L e r)
  then show ?case by (cases r) auto
next
  case (2 L e r n es)
  show ?case
  proof (cases "hasChainInFlow e")
    case False
    with 2 show ?thesis by (cases r) auto
  next
    case True
    with "2.prems" obtain nr nr' where nr: "secLangSecRuleToRuleWithCondition L n = Inr nr"
      and c: "consume_chain L n (removeChainFromFlowActions L nr) es = Inr (nr', lst, rest)"
      and r': "r' = set_ChainedRule (Some nr') r" by auto
    have "rwc_ChainedRule (removeChainFromFlowActions L nr) = None"
      using secLangSecRule_Inr [OF nr] by (cases nr) (simp add: removeChainFromFlowActions_def)
    note IH = "2.IH" [OF True nr c this]
    have "rwc_Actions nr' = rwc_Actions (removeChainFromFlowActions L nr)"
      using c by (cases es) (auto split: if_splits)
    then have "\<not> has_chain_key L nr'"
      using removeChain_sel(4) [of L nr] by (simp add: has_chain_key_def)
    moreover have "set (links nr') = insert nr' (set (tl (links nr')))"
      by (cases nr' rule: links.cases) auto
    ultimately show ?thesis
      using IH consume_chain_shorter [OF c] by (auto simp: r' links_set_ChainedRule Suc_diff_le)
  qed
qed

lemma consume_chain_two:
  assumes "consume_chain L e r (n # n2 # es) = Inr (r', lst, rest)" and "hasChainInFlow e" and "hasChainInFlow n"
  shows "length rest \<le> length es"
  using assms by (auto dest!: consume_chain_shorter)

text \<open>
  In a bag whose first two entries carry the chain action, the converted chain has three or more
  links, and its second link, which a third one follows, has lost the chain action.
\<close>

theorem legacy_chain_broken:
  assumes "convertLegacySecLangRules L spec = Inr out" and "spec_SecRules spec = e1 # e2 # e3 # es"
    and "hasChainInFlow e1" and "hasChainInFlow e2"
  shows "\<exists>h out'. out = DRule h # out' \<and> length (links h) \<ge> 3 \<and> \<not> has_chain_key L (links h ! 1)"
proof -
  from assms obtain r r' lst rest out' where r: "secLangSecRuleToRuleWithCondition L e1 = Inr r"
    and c: "consume_chain L e1 r (e2 # e3 # es) = Inr (r', lst, rest)"
    and out: "out = DRule r' # out'"
    unfolding convertLegacySecLangRules_def by fastforce
  have "rwc_ChainedRule r = None" using secLangSecRule_Inr [OF r] by simp
  note l = consume_chain_links [OF c this]
  have len: "length (links r') \<ge> 3" using l consume_chain_two [OF c assms(3,4)] by auto
  have "links r' ! 1 \<in> set (tl (links r'))"
    using len by (cases "links r'") (auto intro!: nth_mem)
  with l out len show ?thesis by blast
qed

section \<open>Transformations\<close>

lemma ToCRSTransformation_validates:
  "ToCRSTransformation L t = Inr c \<Longrightarrow> validateAPITransformation t = None"
  by (auto simp: ToCRSTransformation_def validateAPITransformation_def Let_def split: if_splits)

lemma validate_from_iff: "validate_from L i ts = None \<longleftrightarrow> (\<exists>out. map_from (ToCRSTransformation L) j ts = Inr out)"
proof (induction ts arbitrary: i j)
  case (Cons t ts)
  show ?case
  proof (cases "ToCRSTransformation L t")
    case (Inl e)
    then show ?thesis by (cases "validateAPITransformation t") auto
  next
    case (Inr c)
    with ToCRSTransformation_validates Cons.IH [of "Suc i" "Suc j"] show ?thesis by fastforce
  qed
qed simp

lemma map_from_Inr_iff: "map_from f i ts = Inr out \<longleftrightarrow> list_all2 (\<lambda>t c. f t = Inr c) ts out"
  by (induction ts arbitrary: i out) (auto simp: list_all2_Cons1 split: sum.splits)

text \<open>
  The webhook's check of transformations accepts exactly the lists the converter can convert; and
  no transformation it then produces prints as \<open>unknown\<close>, given that the two \<open>normalisePath\<close> constants
  of crslang do not.
\<close>

theorem transformations_validated:
  assumes "cl_TransformationString L ''NormalisePath'' \<noteq> ''unknown''"
    and "cl_TransformationString L ''NormalisePathWin'' \<noteq> ''unknown''"
  shows "(ValidateAPITransformations L ts = None \<longleftrightarrow> (\<exists>out. mapAPITransformations L ts = Inr out)) \<and>
    (\<forall>out. mapAPITransformations L ts = Inr out \<longrightarrow>
       length out = length ts \<and> (\<forall>c \<in> set out. cl_TransformationString L c \<noteq> ''unknown''))"
proof -
  have "cl_TransformationString L c \<noteq> ''unknown''" if "ToCRSTransformation L t = Inr c" for t c
    using that assms by (auto simp: ToCRSTransformation_def Let_def split: if_splits)
  then show ?thesis
    unfolding ValidateAPITransformations_def mapAPITransformations_def validate_from_iff [of L 0 ts 0]
    by (auto simp: map_from_Inr_iff list_all2_conv_all_nth in_set_conv_nth) metis
qed

section \<open>Importing and converting back\<close>

text \<open>
  The names crslang prints are the SecLang names the API uses, for every transformation the tables
  know but the unknown one.
\<close>

definition prints_names :: "('a, 'm) crslang \<Rightarrow> bool" where
  "prints_names L \<longleftrightarrow>
     (\<forall>(a, c) \<in> set TransformationMapper_table. a \<noteq> ''unknownTransformation'' \<longrightarrow> cl_TransformationString L c = a)"

text \<open>A condition all of whose enumeration values the tables know.\<close>

definition known_condition :: "CrsCondition \<Rightarrow> bool" where
  "known_condition c \<longleftrightarrow>
     \<not> cc_AlwaysMatch c \<and>
     list_all (\<lambda>v. cv_Name v \<in> fst ` set VariableReverseMapper_table) (cc_Variables c) \<and>
     list_all (\<lambda>k. cco_Name k \<in> fst ` set CollectionReverseMapper_table) (cc_Collections c) \<and>
     cop_Name (cc_Operator c) \<in> fst ` set OperatorReverseMapper_table \<and>
     list_all (\<lambda>t. t \<in> fst ` set TransformationMapperCSR_table \<and> t \<noteq> ''UnknownTransformation'') (cc_Transformations c)"

definition plain_name :: "string \<times> crs_label \<Rightarrow> bool" where
  "plain_name = (\<lambda>(a, c).
     a \<noteq> [] \<and> a \<noteq> ''unknown'' \<and> trim_space a = a \<and> c \<noteq> ''UnknownTransformation'' \<and>
     a \<noteq> ''normalizePath'' \<and> a \<noteq> ''normalizePathWin'' \<and>
     (a = ''normalisePath'' \<longrightarrow> c = ''NormalisePath'') \<and> (a = ''normalisePathWin'' \<longrightarrow> c = ''NormalisePathWin''))"

lemma transformation_rows:
  "list_all (\<lambda>(a, c). a = ''unknownTransformation'' \<and> c = ''UnknownTransformation'' \<or> plain_name (a, c))
     TransformationMapper_table"
  by code_simp

lemma unknown_row: "switch TransformationMapper_table z ''unknownTransformation'' = ''UnknownTransformation''"
  by (simp add: switch_def TransformationMapper_table_def)

lemma operator_rows: "list_all (\<lambda>(a, c). a \<noteq> []) OperatorMapper_table"
  by code_simp

lemma plain_From:
  assumes "plain_name (a, t)" "a \<noteq> ''unknownTransformation''" "cl_TransformationString L t = a" "TransformationMapperCSR t = a"
  shows "FromCRSTransformation L t = Inr a"
  using assms by (simp add: plain_name_def FromCRSTransformation_def validateAPITransformation_def Let_def)

lemma plain_To:
  assumes "plain_name (a, t)" "a \<noteq> ''unknownTransformation''" "cl_TransformationString L t = a"
    "TransformationMapper (cl_zeroTransformation L) a = t"
  shows "ToCRSTransformation L a = Inr t"
  using assms by (simp add: plain_name_def ToCRSTransformation_def Let_def)

lemma transformation_back:
  assumes "prints_names L" and "t \<in> fst ` set TransformationMapperCSR_table" and "t \<noteq> ''UnknownTransformation''"
  shows "FromCRSTransformation L t = Inr (TransformationMapperCSR t) \<and> ToCRSTransformation L (TransformationMapperCSR t) = Inr t"
proof -
  let ?a = "TransformationMapperCSR t"
  have inv: "TransformationMapper z ?a = t" for z
    unfolding TransformationMapper_def TransformationMapperCSR_def
    by (rule switch_back [OF generated_tables_back(8) assms(2)])
  have mem: "(?a, t) \<in> set TransformationMapper_table"
    unfolding inverse_tables_row [OF generated_tables(4), symmetric] TransformationMapperCSR_def
    by (rule switch_row [OF assms(2)])
  have row: "plain_name (?a, t)"
    using bspec [OF transformation_rows [unfolded list_all_iff] mem] assms(3) by simp
  have "?a \<noteq> ''unknownTransformation''"
    using inv [of "[]"] assms(3) unfolding TransformationMapper_def by (auto simp: unknown_row)
  note known = this
  from known have str: "cl_TransformationString L t = ?a"
    using bspec [OF assms(1) [unfolded prints_names_def] mem] by simp
  show ?thesis using plain_From [OF row known str refl] plain_To [OF row known str inv] by blast
qed

lemma map_from_back:
  assumes "\<And>t. t \<in> set ts \<Longrightarrow> \<exists>a. f t = Inr a \<and> g a = Inr t"
  shows "\<exists>as. map_from f i ts = Inr as \<and> map_from g j as = Inr ts"
  using assms
proof (induction ts arbitrary: i j)
  case (Cons t ts)
  then obtain a as where "f t = Inr a" "g a = Inr t" "map_from f (Suc i) ts = Inr as" "map_from g (Suc j) as = Inr ts"
    by (metis list.set_intros(1) list.set_intros(2))
  then show ?case by auto
qed simp

lemma switch_maps_back:
  "n \<in> fst ` set VariableReverseMapper_table \<Longrightarrow> VariableMapper z (VariableReverseMapper n) = n"
  "n \<in> fst ` set CollectionReverseMapper_table \<Longrightarrow> CollectionMapper (CollectionReverseMapper n) = n"
  "n \<in> fst ` set OperatorReverseMapper_table \<Longrightarrow> OperatorMapper (OperatorReverseMapper n) = n"
  unfolding VariableMapper_def VariableReverseMapper_def CollectionMapper_def CollectionReverseMapper_def
    OperatorMapper_def OperatorReverseMapper_def
  by (rule switch_back [OF generated_tables_back(4)] switch_back [OF generated_tables_back(6)]
      switch_back [OF generated_tables_back(2)], assumption)+

lemma OperatorReverseMapper_nonempty:
  assumes "n \<in> fst ` set OperatorReverseMapper_table"
  shows "OperatorReverseMapper n \<noteq> []"
proof -
  have "(OperatorReverseMapper n, n) \<in> set OperatorMapper_table"
    unfolding inverse_tables_row [OF generated_tables(1), symmetric] OperatorReverseMapper_def
    by (rule switch_row [OF assms])
  from bspec [OF operator_rows [unfolded list_all_iff] this] show ?thesis by simp
qed

lemma condition_back:
  assumes "prints_names L" and "known_condition c"
  shows "\<exists>d. import_condition L c = Inr d \<and> convert_condition L d = Inr c \<and> \<not> cond_AlwaysMatch d"
proof -
  have known: "t \<in> fst ` set TransformationMapperCSR_table" "t \<noteq> ''UnknownTransformation''"
    if "t \<in> set (cc_Transformations c)" for t
    using assms(2) that by (simp_all add: known_condition_def list_all_iff)
  have "\<exists>as. map_from (FromCRSTransformation L) 0 (cc_Transformations c) = Inr as \<and>
      map_from (ToCRSTransformation L) 0 as = Inr (cc_Transformations c)"
    by (rule map_from_back, rule exI, rule transformation_back [OF assms(1)]; erule known)
  then obtain as where as: "mapCRSTransformations L (cc_Transformations c) = Inr as"
      "mapAPITransformations L as = Inr (cc_Transformations c)"
    unfolding mapCRSTransformations_def mapAPITransformations_def by blast
  have vars: "map (\<lambda>v. \<lparr> cv_Name = VariableMapper z (VariableReverseMapper (cv_Name v)), cv_Excluded = cv_Excluded v \<rparr>)
      (cc_Variables c) = cc_Variables c" for z
    using assms(2) by (intro map_idI) (simp add: known_condition_def list_all_iff switch_maps_back)
  have cols: "map (\<lambda>k. \<lparr> cco_Name = CollectionMapper (CollectionReverseMapper (cco_Name k)),
      cco_Arguments = cco_Arguments k, cco_Excluded = cco_Excluded k, cco_Count = cco_Count k \<rparr>)
      (cc_Collections c) = cc_Collections c"
    using assms(2) by (intro map_idI) (simp add: known_condition_def list_all_iff switch_maps_back)
  have op: "cop_Name (cc_Operator c) \<in> fst ` set OperatorReverseMapper_table" and am: "\<not> cc_AlwaysMatch c"
    using assms(2) by (simp_all add: known_condition_def)
  show ?thesis
    using as am by (simp add: import_condition_def convert_condition_def convert_operator_def import_operator_def
        Let_def comp_def vars cols switch_maps_back(3) [OF op] OperatorReverseMapper_nonempty [OF op])
qed

text \<open>A chain each of whose links has one condition, of known values.\<close>

definition known_chain :: "('a, 'm) RuleWithCondition \<Rightarrow> bool" where
  "known_chain r \<longleftrightarrow> list_all (\<lambda>l. \<exists>c. rwc_Conditions l = [c] \<and> known_condition c) (links r)"

definition same_test :: "('a, 'm) crslang \<Rightarrow> ('a, 'm) RuleWithCondition \<Rightarrow> Match \<Rightarrow> bool" where
  "same_test L l m \<longleftrightarrow>
     \<not> match_AlwaysMatch m \<and> (\<exists>c. rwc_Conditions l = [c] \<and> convert_condition L (ToCondition m) = Inr c)"

lemma ConvertCrsRule_link:
  assumes "prints_names L" and "\<forall>m. cl_ReadMetadata L m \<noteq> None"
    and "rwc_Conditions r = [c]" and "known_condition c"
  shows "\<exists>legacy. ConvertCrsRule L r [] = Inr legacy \<and> length (slr_Conditions legacy) = 1 \<and>
    slr_Metadata legacy \<noteq> None \<and> (\<forall>first. same_test L r (link_match first legacy))"
proof -
  obtain d where d: "import_condition L c = Inr d" "convert_condition L d = Inr c" "\<not> cond_AlwaysMatch d"
    using condition_back [OF assms(1,4)] by blast
  obtain md where "import_metadata L (rwc_Metadata r) = Inr md"
    using assms(2) by (fastforce simp: import_metadata_def split: option.split)
  moreover have "ToCondition (condition_match d) = d" "ToCondition (m\<lparr>match_Actions := x\<rparr>) = ToCondition m" for m x
    by (simp_all add: ToCondition_def condition_match_def)
  moreover have "\<not> match_AlwaysMatch (condition_match d)" using d(3) by (simp add: condition_match_def)
  ultimately show ?thesis
    using d(1,2) assms(3) by (auto simp: ConvertCrsRule_def same_test_def link_match_def Let_def)
qed

lemma walk_chain_tests:
  assumes "prints_names L" and "\<forall>m. cl_ReadMetadata L m \<noteq> None"
  shows "known_chain r \<Longrightarrow> \<exists>spec' ms. walk_chain L spec first r = Inr spec' \<and>
    spec_Match spec' = spec_Match spec @ ms \<and> list_all2 (same_test L) (links r) ms \<and>
    spec_MarkerAfter spec' = spec_MarkerAfter spec \<and>
    (first \<or> spec_Metadata spec \<noteq> None \<longrightarrow> spec_Metadata spec' \<noteq> None)"
proof (induction r arbitrary: spec first rule: links.induct)
  case (1 md conds acts)
  then obtain c where "rwc_Conditions (RWC md conds acts None) = [c]" "known_condition c"
    by (auto simp: known_chain_def)
  then obtain legacy where l: "ConvertCrsRule L (RWC md conds acts None) [] = Inr legacy"
      "length (slr_Conditions legacy) = 1" "slr_Metadata legacy \<noteq> None"
      "same_test L (RWC md conds acts None) (link_match first legacy)"
    using ConvertCrsRule_link [OF assms] by blast
  from l have w: "walk_chain L spec first (RWC md conds acts None) =
      Inr ((if first then spec\<lparr> spec_Metadata := slr_Metadata legacy,
                                 spec_Actions := without_chain (slr_Actions legacy) \<rparr> else spec)
           \<lparr> spec_Match := spec_Match spec @ [link_match first legacy] \<rparr>)"
    by (simp add: Let_def)
  show ?case
    by (rule exI, rule exI [of _ "[link_match first legacy]"], rule conjI, rule w) (use l in auto)
next
  case (2 md conds acts n)
  let ?r = "RWC md conds acts (Some n)"
  from "2.prems" obtain c where c: "rwc_Conditions ?r = [c]" "known_condition c" and n: "known_chain n"
    by (auto simp: known_chain_def)
  obtain legacy where l: "ConvertCrsRule L ?r [] = Inr legacy" "slr_Metadata legacy \<noteq> None"
      "same_test L ?r (link_match first legacy)"
    using ConvertCrsRule_link [OF assms c] by blast
  define spec1 where "spec1 = (if first then spec\<lparr> spec_Metadata := slr_Metadata legacy,
    spec_Actions := without_chain (slr_Actions legacy) \<rparr> else spec)"
  obtain spec' ms where w: "walk_chain L (spec1\<lparr> spec_Match := spec_Match spec1 @ [link_match first legacy] \<rparr>) False n = Inr spec'"
      "spec_Match spec' = (spec_Match spec1 @ [link_match first legacy]) @ ms" "list_all2 (same_test L) (links n) ms"
      "spec_MarkerAfter spec' = spec_MarkerAfter spec1" "spec_Metadata spec1 \<noteq> None \<longrightarrow> spec_Metadata spec' \<noteq> None"
    using "2.IH" [OF n, of "spec1\<lparr> spec_Match := spec_Match spec1 @ [link_match first legacy] \<rparr>" False] by auto
  have "walk_chain L spec first ?r = Inr spec'" using l(1) w(1) by (simp add: spec1_def Let_def)
  moreover have "spec_Match spec' = spec_Match spec @ link_match first legacy # ms" using w(2) by (simp add: spec1_def)
  moreover have "list_all2 (same_test L) (links ?r) (link_match first legacy # ms)" using l(3) w(3) by simp
  moreover have "first \<or> spec_Metadata spec \<noteq> None \<longrightarrow> spec_Metadata spec' \<noteq> None"
    using w(5) l(2) by (auto simp: spec1_def)
  moreover have "spec_MarkerAfter spec' = spec_MarkerAfter spec" using w(4) by (simp add: spec1_def)
  ultimately show ?case by blast
qed

lemma convert_links_conditions:
  "convert_links L spec k p ms = Inr rs \<Longrightarrow>
   list_all2 (\<lambda>m r. \<exists>c. convert_condition L (ToCondition m) = Inr c \<and> rwc_Conditions r = [c]) ms rs"
proof (induction ms arbitrary: p rs)
  case (Cons m ms)
  then obtain r rs' where r: "convert_link L spec k p (ms = []) m = Inr r"
    and rs': "convert_links L spec k False ms = Inr rs'" "rs = r # rs'" by auto
  from r obtain s where s: "secLangSecRuleToRuleWithCondition L
          \<lparr> slr_Metadata = (if p then spec_Metadata spec else None), slr_Conditions = [ToCondition m],
            slr_Actions = (if ms \<noteq> [] \<and> 1 < k then Some (ensureChainAction (link_actions spec p (ms = []) m))
                           else link_actions spec p (ms = []) m),
            slr_ChainedRule = False, slr_SecMarker = [] \<rparr> = Inr s"
    and "rwc_Conditions r = rwc_Conditions s"
    by (auto simp: convert_link_def matchToRuleWithCondition_def)
  with secLangSecRule_Inr [OF s] Cons.IH [OF rs'(1)] rs'(2) show ?case
    by (auto simp: mapE_Inr_iff list_all2_Cons1)
qed simp


section \<open>Action parameters\<close>

text \<open>
  The parameter of a \<open>pause\<close> or \<open>proxy\<close> action does not survive the import: converted back, the
  rule has the action without a parameter.
\<close>

theorem imported_parameter_lost:
  assumes "csa_DisruptiveAction src = Some a" and "cl_GetKey L a = ''pause'' \<or> cl_GetKey L a = ''proxy''"
    and "SecActionToCSR L (SecActionToAPI L src) = Inr dst"
  shows "csa_DisruptiveAction dst =
    cl_NewActionOnly L (TDisruptive (if cl_GetKey L a = ''pause'' then ''Pause'' else ''Proxy''))"
proof -
  have [simp]: "DisruptiveActionMapper ''pause'' = ''Pause''" "DisruptiveActionMapper ''proxy'' = ''Proxy''"
    by (simp_all add: DisruptiveActionMapper_def DisruptiveActionMapper_table_def switch_def)
  from assms(3) obtain d where d: "csa_DisruptiveAction dst = Some d"
      "ActionToCSR L (ADisruptiveAction (DisruptiveActionToAPI L a)) = Inr d"
    by (auto simp: SecActionToCSR_def SecActionToAPI_def assms(1))
  with assms(2) show ?thesis
    by (auto simp: DisruptiveActionToAPI_def actionToCSR_def Let_def split: option.splits)
qed

section \<open>An instance of crslang\<close>

text \<open>
  Actions as pairs of key and parameter, printed the way crslang prints them; the metadata of a rule
  as the API has it.
\<close>

fun demo_key :: "action_type \<Rightarrow> string" where
  "demo_key (TFlow c) = FlowActionTypeReverseMapper c"
| "demo_key (TDisruptive c) = to_lower c"
| "demo_key (TNonDisruptive c) = to_lower c"
| "demo_key (TData c) = to_lower c"

definition demo_crs :: "(string \<times> string, SecRuleMetadata) crslang" where
  "demo_crs =
     \<lparr> cl_zeroVariable = ''UNKNOWN_VAR'', cl_zeroOperator = ''UnknownOperator'',
       cl_zeroTransformation = ''UnknownTransformation'',
       cl_TransformationString =
         (\<lambda>c. if c = ''UnknownTransformation'' then ''unknown'' else TransformationMapperCSR c),
       cl_NewActionOnly = (\<lambda>t. Some (demo_key t, [])),
       cl_NewActionWithParam = (\<lambda>t v. Some (demo_key t, v)),
       cl_GetKey = fst,
       cl_ToString = (\<lambda>(k, v). if v = [] then k else k @ '':'' @ [squote] @ v @ [squote]),
       cl_Setvar = (\<lambda>_. None),
       cl_zeroMetadata = \<lparr> md_Comment = [], md_Phase = [], md_Id = 0, md_Msg = [], md_Maturity = [], md_Rev = [],
                           md_Severity = [], md_Tags = [], md_Ver = [] \<rparr>,
       cl_CopyMetadata = Some, cl_ReadMetadata = Some \<rparr>"

definition demo_match :: "string \<Rightarrow> string \<Rightarrow> Match" where
  "demo_match var pat = empty_match\<lparr>
     match_Variables := [\<lparr> var_Name = var, var_Excluded = False \<rparr>],
     match_Operator := \<lparr> op_Negate = False, op_Name = ''rx'', op_Value = pat \<rparr>,
     match_Transformations := [''lowercase''] \<rparr>"

definition demo_chain_flow :: SecRuleActions where
  "demo_chain_flow = no_actions\<lparr> act_Flow := [\<lparr> fa_Type = ''chain'', fa_Value = [] \<rparr>] \<rparr>"

definition demo_spec :: SecRuleSpec where
  "demo_spec = empty_spec\<lparr>
     spec_MarkerAfter := ''END'',
     spec_Match := [demo_match ''REQUEST_URI'' ''/a'', demo_match ''REQUEST_METHOD'' ''POST'', demo_match ''REMOTE_ADDR'' ''10''],
     spec_Actions := Some (no_actions\<lparr> act_DisruptiveAction := Some \<lparr> da_Type = ''deny'', da_Value = [] \<rparr> \<rparr>) \<rparr>"

definition demo_entry :: "string \<Rightarrow> string \<Rightarrow> SecRuleActions option \<Rightarrow> SecLangSecRule" where
  "demo_entry var pat acts =
     \<lparr> slr_Metadata = None, slr_Conditions = [ToCondition (demo_match var pat)], slr_Actions = acts,
       slr_ChainedRule = False, slr_SecMarker = [] \<rparr>"

definition demo_bag :: SecRuleSpec where
  "demo_bag = empty_spec\<lparr> spec_SecRules :=
     [demo_entry ''REQUEST_URI'' ''/a'' (Some demo_chain_flow), demo_entry ''REQUEST_METHOD'' ''POST'' (Some demo_chain_flow),
      demo_entry ''REMOTE_ADDR'' ''10'' None] \<rparr>"

lemma demo_chain_keyed: "chain_keyed demo_crs"
proof -
  have "FlowActionTypeReverseMapper ''Chain'' = ''chain''" by code_simp
  then show ?thesis by (auto simp: chain_keyed_def actionToCSR_def demo_crs_def split: if_splits)
qed

theorem single_form_chain_witness:
  "\<exists>out h. convertSingleRuleForm demo_crs demo_spec = Inr out \<and>
     out = DRule h # marker_after ''END'' \<and> length (links h) = 3 \<and>
     has_chain_key demo_crs (links h ! 1) \<and> \<not> has_chain_key demo_crs (links h ! 2) \<and>
     csa_DisruptiveAction (rwc_Actions (links h ! 2)) = None"
proof -
  have "\<not> isl (convertSingleRuleForm demo_crs demo_spec)" by code_simp
  then obtain out where out: "convertSingleRuleForm demo_crs demo_spec = Inr out"
    by (cases "convertSingleRuleForm demo_crs demo_spec") auto
  have len: "length (spec_Match demo_spec) = 3" "spec_MarkerAfter demo_spec = ''END''" by (simp_all add: demo_spec_def)
  obtain h where h: "out = DRule h # marker_after ''END''" "length (links h) = 3"
    "\<forall>i < 3. link_ok demo_crs (i = 0) (Suc i = 3) (spec_Match demo_spec ! i) (links h ! i)"
    using single_form_chain [OF demo_chain_keyed out] unfolding len by auto
  have "link_ok demo_crs False False (spec_Match demo_spec ! 1) (links h ! 1)"
    "link_ok demo_crs False True (spec_Match demo_spec ! 2) (links h ! 2)"
    using h(3) [rule_format, of 1] h(3) [rule_format, of 2] by simp_all
  with out h(1,2) show ?thesis by (auto simp: link_ok_def)
qed

theorem legacy_chain_broken_witness:
  "\<exists>out h out'. convertLegacySecLangRules demo_crs demo_bag = Inr out \<and> out = DRule h # out' \<and>
     length (links h) \<ge> 3 \<and> \<not> has_chain_key demo_crs (links h ! 1)"
proof -
  have "\<not> isl (convertLegacySecLangRules demo_crs demo_bag)" by code_simp
  then obtain out where out: "convertLegacySecLangRules demo_crs demo_bag = Inr out"
    by (cases "convertLegacySecLangRules demo_crs demo_bag") auto
  have bag: "spec_SecRules demo_bag = [demo_entry ''REQUEST_URI'' ''/a'' (Some demo_chain_flow),
      demo_entry ''REQUEST_METHOD'' ''POST'' (Some demo_chain_flow), demo_entry ''REMOTE_ADDR'' ''10'' None]"
    by (simp add: demo_bag_def)
  have "hasChainInFlow (demo_entry v p (Some demo_chain_flow))" for v p
    by (simp add: hasChainInFlow_def demo_entry_def demo_chain_flow_def no_actions_def Chain_def)
  with legacy_chain_broken [OF out bag] out show ?thesis by blast
qed

theorem transformations_validated_witness:
  "ValidateAPITransformations demo_crs [''lowercase'', ''normalizePath''] = None \<and>
   (\<exists>out. mapAPITransformations demo_crs [''lowercase'', ''normalizePath''] = Inr out \<and>
      (\<forall>c \<in> set out. cl_TransformationString demo_crs c \<noteq> ''unknown''))"
proof -
  have *: "cl_TransformationString demo_crs ''NormalisePath'' \<noteq> ''unknown''"
    "cl_TransformationString demo_crs ''NormalisePathWin'' \<noteq> ''unknown''" by code_simp+
  have "ValidateAPITransformations demo_crs [''lowercase'', ''normalizePath''] = None" by code_simp
  with transformations_validated [OF *, of "[''lowercase'', ''normalizePath'']"] show ?thesis by blast
qed

lemma demo_prints_names: "prints_names demo_crs"
proof -
  have "list_all (\<lambda>(a, c). a \<noteq> ''unknownTransformation'' \<longrightarrow> cl_TransformationString demo_crs c = a) TransformationMapper_table"
    by code_simp
  then show ?thesis by (simp add: prints_names_def list_all_iff)
qed

definition demo_condition :: "crs_label \<Rightarrow> string \<Rightarrow> CrsCondition" where
  "demo_condition var pat =
     \<lparr> cc_Variables = [\<lparr> cv_Name = var, cv_Excluded = False \<rparr>], cc_Collections = [],
       cc_Operator = \<lparr> cop_Negate = True, cop_Name = ''Rx'', cop_Value = pat \<rparr>,
       cc_Transformations = [''Lowercase'', ''UrlDecodeUni''], cc_AlwaysMatch = False, cc_Script = [] \<rparr>"

definition demo_crs_rule :: "(string \<times> string, SecRuleMetadata) RuleWithCondition" where
  "demo_crs_rule =
     RWC (cl_zeroMetadata demo_crs) [demo_condition ''REQUEST_URI'' ''/a'']
       (no_csr_actions\<lparr> csa_DisruptiveAction := Some (''pause'', ''500'') \<rparr>)
       (Some (RWC (cl_zeroMetadata demo_crs) [demo_condition ''REQUEST_METHOD'' ''GET''] no_csr_actions None))"

lemma demo_known_chain: "known_chain demo_crs_rule"
proof -
  have "known_condition (demo_condition ''REQUEST_URI'' ''/a'')" "known_condition (demo_condition ''REQUEST_METHOD'' ''GET'')"
    by code_simp+
  then show ?thesis by (simp add: known_chain_def demo_crs_rule_def)
qed


theorem imported_parameter_lost_witness:
  "\<exists>dst. SecActionToCSR demo_crs (SecActionToAPI demo_crs (rwc_Actions demo_crs_rule)) = Inr dst \<and>
     csa_DisruptiveAction (rwc_Actions demo_crs_rule) = Some (''pause'', ''500'') \<and>
     csa_DisruptiveAction dst = Some (''pause'', [])"
proof -
  have "\<not> isl (SecActionToCSR demo_crs (SecActionToAPI demo_crs (rwc_Actions demo_crs_rule)))" by code_simp
  then obtain dst where dst: "SecActionToCSR demo_crs (SecActionToAPI demo_crs (rwc_Actions demo_crs_rule)) = Inr dst"
    by (cases "SecActionToCSR demo_crs (SecActionToAPI demo_crs (rwc_Actions demo_crs_rule))") auto
  have a: "csa_DisruptiveAction (rwc_Actions demo_crs_rule) = Some (''pause'', ''500'')" by (simp add: demo_crs_rule_def)
  have "to_lower ''Pause'' = ''pause''" by code_simp
  with imported_parameter_lost [OF a _ dst] dst a show ?thesis by (simp add: demo_crs_def)
qed

end
