(* ===== verification/FromFile.thy ===== *)
theory FromFile
  imports Prelude "HOL-Library.Char_ord" "HOL-Library.List_Lexorder"
begin

text \<open>
  The files a SecLang text refers to: the regular expression \<open>fromFileRe\<close> and the functions on it in
  \<open>internal/dataplane/config/phrasefiles.go\<close>. The functions of the same names in
  \<open>internal/probeassemble/scan.go\<close> are copies of these.

  Matching starts with \<open>@\<close> and the name of an operator, in any case, takes white space and then the
  longest text up to a quote, without the white space at its end. At most one operator name can be
  followed by white space, so the order of the alternatives does not matter.
\<close>

section \<open>Words\<close>

text \<open>\<open>strings.Fields\<close>: the words between white space, in the sense of \<open>unicode.IsSpace\<close>.\<close>

function fields_acc :: "string \<Rightarrow> string \<Rightarrow> string list" where
  "fields_acc cur s =
     (case s of
        [] \<Rightarrow> (if cur = [] then [] else [cur])
      | c # t \<Rightarrow>
          (case lead_space s of
             Some w \<Rightarrow> (if cur = [] then [] else [cur]) @ fields_acc [] (drop (length w) s)
           | None \<Rightarrow> fields_acc (cur @ [c]) t))"
  by pat_completeness auto
termination
proof (relation "measure (length \<circ> snd)")
  fix cur s :: string and c t w
  assume "s = c # t" "lead_space s = Some w"
  then show "(([], drop (length w) s), cur, s) \<in> measure (length \<circ> snd)"
    using lead_space_Some [of s w] by (cases w) auto
qed auto

declare fields_acc.simps [simp del]

definition fields :: "string \<Rightarrow> string list" where
  "fields s = fields_acc [] s"

text \<open>\<open>path.Base\<close>: the last element of a path, without trailing slashes.\<close>

definition path_base :: "string \<Rightarrow> string" where
  "path_base p =
     (if p = [] then ''.''
      else (let q = trim_right_set p ''/'' in
            if q = [] then ''/'' else rev (takeWhile (\<lambda>c. c \<noteq> CHR ''/'') (rev q))))"

section \<open>The expression\<close>

definition is_ws :: "char \<Rightarrow> bool" where
  "is_ws c \<longleftrightarrow> c = CHR 0x09 \<or> c = CHR 0x0A \<or> c = CHR 0x0C \<or> c = CHR 0x0D \<or> c = CHR 0x20"

definition is_quote :: "char \<Rightarrow> bool" where
  "is_quote c \<longleftrightarrow> c = dquote \<or> c = squote"

definition fromfile_ops :: "string list" where
  "fromfile_ops = [''pmfromfile'', ''pmf'', ''ipmatchfromfile'', ''ipmatchf'']"

definition op_then_space :: "string \<Rightarrow> string \<Rightarrow> bool" where
  "op_then_space t op \<longleftrightarrow>
     has_prefix (to_lower t) op \<and> (case drop (length op) t of [] \<Rightarrow> False | c # _ \<Rightarrow> is_ws c)"

definition capture_at :: "string \<Rightarrow> (string \<times> string) option" where
  "capture_at r =
     (let body = dropWhile is_ws r;
          cap = rev (dropWhile is_ws (rev (takeWhile (\<lambda>c. \<not> is_quote c) body)))
      in if cap = [] then None else Some (cap, drop (length cap) body))"

definition fromfile_at :: "string \<Rightarrow> (string \<times> string) option" where
  "fromfile_at s =
     (case s of
        [] \<Rightarrow> None
      | c # t \<Rightarrow>
          if c \<noteq> CHR ''@'' then None
          else (case find (op_then_space t) fromfile_ops of
                  None \<Rightarrow> None
                | Some oper \<Rightarrow> capture_at (drop (length oper) t)))"

lemma capture_at_shorter:
  assumes "capture_at r = Some (cap, rest)"
  shows "length rest \<le> length r"
proof -
  have "length rest \<le> length (dropWhile is_ws r)"
    using assms by (auto simp: capture_at_def Let_def split: if_splits)
  also have "\<dots> \<le> length r" by (rule length_dropWhile_le)
  finally show ?thesis .
qed

lemma fromfile_at_shorter:
  assumes "fromfile_at s = Some (cap, rest)"
  shows "length rest < length s"
proof (cases s)
  case Nil
  with assms show ?thesis by (simp add: fromfile_at_def)
next
  case (Cons c t)
  with assms obtain oper :: string where "capture_at (drop (length oper) t) = Some (cap, rest)"
    by (auto simp: fromfile_at_def split: if_splits option.splits)
  from capture_at_shorter [OF this] Cons show ?thesis by simp
qed

text \<open>\<open>FindAllStringSubmatch\<close>: the captured groups, from the left, without overlap.\<close>

function fromfile_captures :: "string \<Rightarrow> string list" where
  "fromfile_captures s =
     (case s of
        [] \<Rightarrow> []
      | c # t \<Rightarrow>
          (case fromfile_at s of
             None \<Rightarrow> fromfile_captures t
           | Some (cap, rest) \<Rightarrow> cap # fromfile_captures rest))"
  by pat_completeness auto
termination
  by (relation "measure length") (auto dest: fromfile_at_shorter)

declare fromfile_captures.simps [simp del]

definition fromfile_tokens :: "string \<Rightarrow> string list" where
  "fromfile_tokens s =
     map (\<lambda>tok. path_base (trim_set tok [dquote, squote])) (concat (map fields (fromfile_captures s)))"

section \<open>Scanning and dropping\<close>

definition scan_line :: "string \<Rightarrow> string list" where
  "scan_line line =
     (let trim = trim_space line in
      if trim = [] \<or> has_prefix trim ''#'' then []
      else filter (\<lambda>base. base \<noteq> [] \<and> base \<noteq> ''.'') (fromfile_tokens line))"

definition ScanPmFromFileBasenames :: "string list \<Rightarrow> string list" where
  "ScanPmFromFileBasenames directives =
     sort (remdups (concat (map (\<lambda>raw. concat (map scan_line (split_on newline raw))) directives)))"

definition lineReferencesFromFileBasename :: "string \<Rightarrow> string set \<Rightarrow> bool" where
  "lineReferencesFromFileBasename line basenames \<longleftrightarrow> list_ex (\<lambda>base. base \<in> basenames) (fromfile_tokens line)"

definition DropSecLangLinesWithBasenames :: "string list \<Rightarrow> string set \<Rightarrow> string list" where
  "DropSecLangLinesWithBasenames directives basenames =
     (if basenames = {} then directives
      else filter (\<lambda>line. \<not> lineReferencesFromFileBasename line basenames) directives)"

end
