(* ===== verification/FromFileThms.thy ===== *)
theory FromFileThms
  imports FromFile
begin

text \<open>
  The words a match contributes, wherever in a text the match lies: scanning a text line by line finds
  no file that scanning it as a whole would miss.
\<close>

section \<open>Words of parts\<close>

lemma lead_space_ws: "is_ws c \<Longrightarrow> lead_space (c # s) = Some [c]"
  unfolding is_ws_def by (elim disjE; simp add: lead_space_def space_seqs_def has_prefix_def)

lemma space_seq_no_ws: "w \<in> set space_seqs \<Longrightarrow> c \<in> set (tl w) \<Longrightarrow> \<not> is_ws c"
  by (auto simp: space_seqs_def is_ws_def)

lemma has_prefix_before_ws:
  assumes "x \<noteq> []" and "is_ws c" and "w \<in> set space_seqs"
  shows "has_prefix (x @ c # y) w = has_prefix x w"
proof
  assume "has_prefix (x @ c # y) w"
  then obtain t where t: "x @ c # y = w @ t" by (auto simp: has_prefix_iff)
  show "has_prefix x w"
  proof (cases "length w \<le> length x")
    case True
    with t show ?thesis by (metis append_eq_append_conv_if has_prefix_def)
  next
    case False
    then have "w ! length x = c" using t by (metis linorder_le_less_linear nth_append nth_append_length)
    moreover have "w ! length x \<in> set (tl w)"
      using assms(1) False by (cases w; cases x) auto
    ultimately show ?thesis using space_seq_no_ws [OF assms(3)] assms(2) by blast
  qed
qed (auto simp: has_prefix_iff)

lemma find_cong_set: "(\<And>w. w \<in> set ws \<Longrightarrow> P w = Q w) \<Longrightarrow> find P ws = find Q ws"
  by (induction ws) auto

lemma lead_space_before_ws: "x \<noteq> [] \<Longrightarrow> is_ws c \<Longrightarrow> lead_space (x @ c # y) = lead_space x"
  unfolding lead_space_def by (rule find_cong_set) (rule has_prefix_before_ws)

lemma fields_acc_split:
  "is_ws c \<Longrightarrow> fields_acc cur (x @ c # y) = fields_acc cur x @ fields_acc [] y"
proof (induction "length x" arbitrary: cur x rule: less_induct)
  case less
  show ?case
  proof (cases x)
    case Nil
    then show ?thesis
      using less.prems by (subst (1 2) fields_acc.simps) (simp add: lead_space_ws)
  next
    case (Cons d x')
    then have ls: "lead_space (x @ c # y) = lead_space x" using less.prems by (simp add: lead_space_before_ws del: append_Cons)
    show ?thesis
    proof (cases "lead_space x")
      case None
      with ls Cons less.hyps [of x' "cur @ [d]"] less.prems show ?thesis
        by (subst (1 2) fields_acc.simps) simp
    next
      case (Some w)
      then have "w \<noteq> []" "has_prefix x w" using lead_space_Some by auto
      then have d: "drop (length w) (x @ c # y) = drop (length w) x @ c # y" "length (drop (length w) x) < length x"
        by (auto simp: has_prefix_iff)
      have "fields_acc cur (x @ c # y) =
          (if cur = [] then [] else [cur]) @ fields_acc [] (drop (length w) (x @ c # y))"
        using ls Some Cons by (subst fields_acc.simps) simp
      also have "\<dots> = ((if cur = [] then [] else [cur]) @ fields_acc [] (drop (length w) x)) @ fields_acc [] y"
        using less.hyps [OF d(2)] less.prems d(1) by simp
      also have "(if cur = [] then [] else [cur]) @ fields_acc [] (drop (length w) x) = fields_acc cur x"
        using Some Cons by (subst (2) fields_acc.simps) simp
      finally show ?thesis .
    qed
  qed
qed

lemma fields_split: "is_ws c \<Longrightarrow> fields (x @ c # y) = fields x @ fields y"
  unfolding fields_def by (rule fields_acc_split)

lemma fields_lead_ws: "list_all is_ws sp \<Longrightarrow> fields (sp @ x) = fields x"
proof (induction sp)
  case (Cons c sp)
  then have "fields ([] @ c # sp @ x) = fields [] @ fields (sp @ x)" by (intro fields_split) simp
  moreover have "fields [] = []" by (simp add: fields_def fields_acc.simps)
  ultimately show ?case using Cons by simp
qed simp

section \<open>What a match is\<close>

definition capture_ok :: "string \<Rightarrow> bool" where
  "capture_ok cap \<longleftrightarrow> cap \<noteq> [] \<and> \<not> is_ws (hd cap) \<and> \<not> is_ws (last cap) \<and> list_all (\<lambda>c. \<not> is_quote c) cap"

definition ends_capture :: "string \<Rightarrow> bool" where
  "ends_capture rest \<longleftrightarrow> (\<exists>tr q. rest = tr @ q \<and> list_all is_ws tr \<and> (q = [] \<or> is_quote (hd q)))"

lemma ws_not_quote: "is_ws c \<Longrightarrow> \<not> is_quote c"
  by (auto simp: is_ws_def is_quote_def)

lemma dropWhile_ws: "list_all P sp \<Longrightarrow> x = [] \<or> \<not> P (hd x) \<Longrightarrow> dropWhile P (sp @ x) = x"
  by (induction sp) (auto simp: dropWhile_eq_self_iff)

lemma takeWhile_unquoted:
  "list_all (\<lambda>c. \<not> is_quote c) x \<Longrightarrow> q = [] \<or> is_quote (hd q) \<Longrightarrow> takeWhile (\<lambda>c. \<not> is_quote c) (x @ q) = x"
  by (induction x) (cases q, auto)

lemma capture_atI:
  assumes "list_all is_ws sp" and "capture_ok cap" and "ends_capture rest"
  shows "capture_at (sp @ cap @ rest) = Some (cap, rest)"
proof -
  obtain tr q where rest: "rest = tr @ q" "list_all is_ws tr" "q = [] \<or> is_quote (hd q)"
    using assms(3) by (auto simp: ends_capture_def)
  have body: "dropWhile is_ws (sp @ cap @ rest) = cap @ rest"
    by (rule dropWhile_ws) (use assms in \<open>auto simp: capture_ok_def\<close>)
  have "takeWhile (\<lambda>c. \<not> is_quote c) (cap @ rest) = cap @ tr"
    unfolding rest(1) append_assoc [symmetric]
    by (rule takeWhile_unquoted) (use assms(2) rest in \<open>auto simp: capture_ok_def list_all_iff ws_not_quote\<close>)
  moreover have "dropWhile is_ws (rev tr @ rev cap) = rev cap"
    by (rule dropWhile_ws) (use assms(2) rest(2) in \<open>auto simp: capture_ok_def list_all_iff hd_rev\<close>)
  ultimately show ?thesis using assms(2) by (auto simp: capture_at_def body capture_ok_def Let_def intro: hd_in_set)
qed

lemma capture_atD:
  assumes "capture_at r = Some (cap, rest)"
  shows "\<exists>sp. r = sp @ cap @ rest \<and> list_all is_ws sp \<and> capture_ok cap \<and> ends_capture rest"
proof -
  define body where "body = dropWhile is_ws r"
  define seg where "seg = takeWhile (\<lambda>c. \<not> is_quote c) body"
  from assms have cap: "cap = rev (dropWhile is_ws (rev seg))" "cap \<noteq> []" and rest: "rest = drop (length cap) body"
    by (auto simp: capture_at_def body_def seg_def Let_def split: if_splits)
  define tr where "tr = rev (takeWhile is_ws (rev seg))"
  have seg: "seg = cap @ tr" unfolding cap tr_def by (metis rev_append rev_rev_ident takeWhile_dropWhile_id)
  have bod: "body = seg @ dropWhile (\<lambda>c. \<not> is_quote c) body" by (simp add: seg_def)
  then have rest': "rest = tr @ dropWhile (\<lambda>c. \<not> is_quote c) body"
    by (metis append_assoc append_eq_conv_conj rest seg)
  have "\<not> is_ws (hd cap)"
  proof -
    have "hd cap = hd body" using bod seg cap(2) by (metis append_is_Nil_conv hd_append2)
    moreover have "body \<noteq> []" using bod seg cap(2) by auto
    ultimately show ?thesis unfolding body_def by (metis hd_dropWhile)
  qed
  moreover have "\<not> is_ws (last cap)"
    using cap by (metis hd_dropWhile last_rev rev_is_Nil_conv)
  moreover have "list_all (\<lambda>c. \<not> is_quote c) cap"
    using seg unfolding seg_def by (metis (no_types, lifting) Un_iff list_all_iff set_append set_takeWhileD)
  ultimately have "capture_ok cap" using cap(2) by (simp add: capture_ok_def)
  moreover have "ends_capture rest"
    unfolding ends_capture_def rest' tr_def
    by (intro exI conjI, rule refl)
      (use hd_dropWhile [of "\<lambda>c. \<not> is_quote c" body] in \<open>auto simp: list_all_iff dest: set_takeWhileD\<close>)
  moreover have "r = takeWhile is_ws r @ cap @ rest" using bod seg rest' by (metis append_assoc body_def takeWhile_dropWhile_id)
  moreover have "list_all is_ws (takeWhile is_ws r)" by (auto simp: list_all_iff dest: set_takeWhileD)
  ultimately show ?thesis by blast
qed

lemma lower_ws: "is_ws c \<Longrightarrow> lower_char c = c"
  unfolding is_ws_def by (elim disjE; simp add: lower_char_def is_upper_def byte_def)

lemma ops_no_ws: "oper \<in> set fromfile_ops \<Longrightarrow> c \<in> set oper \<Longrightarrow> \<not> is_ws c \<and> c \<noteq> CHR ''@''"
  by (auto simp: fromfile_ops_def is_ws_def)

lemma op_then_space_iff:
  "op_then_space t oper \<longleftrightarrow> (\<exists>o1 w x. t = o1 @ w # x \<and> to_lower o1 = oper \<and> is_ws w)"
proof
  assume l: "op_then_space t oper"
  then obtain w x where d: "drop (length oper) t = w # x" "is_ws w"
    by (auto simp: op_then_space_def split: list.splits)
  have "to_lower (take (length oper) t) = oper"
    using l unfolding op_then_space_def has_prefix_def by (metis take_map)
  with d show "\<exists>o1 w x. t = o1 @ w # x \<and> to_lower o1 = oper \<and> is_ws w" by (metis append_take_drop_id)
next
  assume "\<exists>o1 w x. t = o1 @ w # x \<and> to_lower o1 = oper \<and> is_ws w"
  then show "op_then_space t oper" by (auto simp: op_then_space_def has_prefix_def)
qed

lemma op_unique_le:
  assumes "o1 @ w1 # x1 = o2 @ w2 # x2" and "is_ws w1" and "to_lower o2 \<in> set fromfile_ops"
  shows "length o2 \<le> length o1"
proof (rule ccontr)
  assume "\<not> ?thesis"
  then have lt: "length o1 < length o2" by simp
  then have "o2 ! length o1 = w1" using assms(1) by (metis nth_append nth_append_length)
  then have "w1 \<in> set (to_lower o2)" using lt lower_ws [OF assms(2)] by (metis length_map nth_map nth_mem)
  with ops_no_ws [OF assms(3)] assms(2) show False by blast
qed

lemma op_unique:
  assumes "op_then_space t a" "op_then_space t b" "a \<in> set fromfile_ops" "b \<in> set fromfile_ops"
  shows "a = b"
proof -
  obtain o1 w1 x1 where a: "t = o1 @ w1 # x1" "to_lower o1 = a" "is_ws w1"
    using assms(1) by (auto simp: op_then_space_iff)
  obtain o2 w2 x2 where b: "t = o2 @ w2 # x2" "to_lower o2 = b" "is_ws w2"
    using assms(2) by (auto simp: op_then_space_iff)
  from a(1) b(1) have eq: "o1 @ w1 # x1 = o2 @ w2 # x2" by simp
  have "length o2 \<le> length o1" by (rule op_unique_le [OF eq a(3)]) (simp add: b(2) assms(4))
  moreover have "length o1 \<le> length o2" by (rule op_unique_le [OF eq [symmetric] b(3)]) (simp add: a(2) assms(3))
  ultimately have "o1 = o2" using eq by simp
  with a(2) b(2) show ?thesis by simp
qed

definition match_at :: "string \<Rightarrow> string \<Rightarrow> string \<Rightarrow> bool" where
  "match_at s cap rest \<longleftrightarrow>
     (\<exists>oper w sp. s = CHR ''@'' # oper @ w # sp @ cap @ rest \<and> to_lower oper \<in> set fromfile_ops \<and>
        is_ws w \<and> list_all is_ws sp \<and> capture_ok cap \<and> ends_capture rest)"

lemma fromfile_at_iff: "fromfile_at s = Some (cap, rest) \<longleftrightarrow> match_at s cap rest"
proof
  assume "fromfile_at s = Some (cap, rest)"
  then obtain t a where t: "s = CHR ''@'' # t" "find (op_then_space t) fromfile_ops = Some a"
      "capture_at (drop (length a) t) = Some (cap, rest)"
    by (auto simp: fromfile_at_def split: list.splits if_splits option.splits)
  then have a: "op_then_space t a" "a \<in> set fromfile_ops" by (auto simp: find_Some_iff)
  then obtain oper w x where o: "t = oper @ w # x" "to_lower oper = a" "is_ws w" by (auto simp: op_then_space_iff)
  then have "capture_at (w # x) = Some (cap, rest)" using t(3) by auto
  from capture_atD [OF this] obtain sp where sp: "w # x = sp @ cap @ rest" "list_all is_ws sp" "capture_ok cap" "ends_capture rest"
    by blast
  with o(3) have "sp \<noteq> []" by (cases cap) (auto simp: capture_ok_def)
  then obtain sp' where "sp = w # sp'" using sp(1) by (cases sp) auto
  with t(1) o sp a show "match_at s cap rest" unfolding match_at_def by auto
next
  assume "match_at s cap rest"
  then obtain oper w sp where m: "s = CHR ''@'' # oper @ w # sp @ cap @ rest" "to_lower oper \<in> set fromfile_ops"
      "is_ws w" "list_all is_ws sp" "capture_ok cap" "ends_capture rest"
    by (auto simp: match_at_def)
  let ?t = "oper @ w # sp @ cap @ rest"
  have sat: "op_then_space ?t (to_lower oper)" using m(3) by (auto simp: op_then_space_iff)
  then obtain a where a: "find (op_then_space ?t) fromfile_ops = Some a"
    using m(2) by (metis (mono_tags, lifting) find_None_iff not_Some_eq)
  then have "a = to_lower oper" using op_unique [OF _ sat _ m(2), of a] by (auto simp: find_Some_iff)
  with a capture_atI [of "w # sp" cap rest] m show "fromfile_at s = Some (cap, rest)" by (simp add: fromfile_at_def)
qed

section \<open>Matches inside matches\<close>

lemma capture_end_le:
  assumes "x @ r = y @ s" and "ends_capture r" and "y \<noteq> []" and "\<not> is_ws (last y)"
    and "list_all (\<lambda>c. \<not> is_quote c) y"
  shows "length y \<le> length x"
proof (rule ccontr)
  assume "\<not> ?thesis"
  then obtain d where d: "y = x @ d" "r = d @ s" "d \<noteq> []"
    using assms(1) by (auto simp: append_eq_append_conv2)
  obtain tr q where r: "r = tr @ q" "list_all is_ws tr" "q = [] \<or> is_quote (hd q)"
    using assms(2) by (auto simp: ends_capture_def)
  from d(2) r(1) consider (in_tr) u where "tr = d @ u" | (past) u where "d = tr @ u" "u \<noteq> []" "q = u @ s"
    by (metis append_eq_append_conv2 append.right_neutral)
  then show False
  proof cases
    case in_tr
    then have "last d \<in> set tr" using d(3) by simp
    with r(2) d assms(4) show False by (auto simp: list_all_iff)
  next
    case past
    then have "is_quote (hd u)" "hd u \<in> set y" using r(3) d(1) by auto
    with assms(5) show False by (auto simp: list_all_iff)
  qed
qed

lemma op_plain: "to_lower oper \<in> set fromfile_ops \<Longrightarrow> c \<in> set oper \<Longrightarrow> c \<noteq> CHR ''@'' \<and> \<not> is_quote c"
proof -
  assume o: "to_lower oper \<in> set fromfile_ops" "c \<in> set oper"
  have "lower_char (CHR ''@'') = CHR ''@''" "lower_char dquote = dquote" "lower_char squote = squote"
    by (simp_all add: lower_char_def is_upper_def byte_def)
  moreover have "CHR ''@'' \<notin> set (to_lower oper)" "dquote \<notin> set (to_lower oper)" "squote \<notin> set (to_lower oper)"
    using o(1) by (auto simp: fromfile_ops_def)
  ultimately show ?thesis using o(2) by (metis image_eqI is_quote_def list.set_map)
qed

lemma suffix_after:
  assumes "suffix b (A @ C)" and "b \<noteq> []" and "hd b \<notin> set A"
  shows "suffix b C"
proof (rule ccontr)
  assume "\<not> ?thesis"
  with assms(1) obtain x where x: "b = x @ C" "suffix x A" by (auto simp: suffix_append)
  with \<open>\<not> suffix b C\<close> have "x \<noteq> []" by auto
  then have "hd b \<in> set A" using x by (auto simp: suffix_def)
  with assms(3) show False ..
qed

lemma inner_match:
  assumes "match_at s cap rest" and "match_at b cap' rest'" and "suffix b s" and "b \<noteq> s" and "\<not> suffix b rest"
  shows "set (fields cap') \<subseteq> set (fields cap)"
proof -
  obtain oper w sp where s: "s = (CHR ''@'' # oper @ w # sp) @ cap @ rest" "to_lower oper \<in> set fromfile_ops"
      "is_ws w" "list_all is_ws sp" "capture_ok cap" "ends_capture rest"
    using assms(1) by (auto simp: match_at_def)
  obtain o2 w2 sp2 where b: "b = (CHR ''@'' # o2 @ w2 # sp2 @ cap') @ rest'" "to_lower o2 \<in> set fromfile_ops"
      "is_ws w2" "list_all is_ws sp2" "capture_ok cap'" "ends_capture rest'"
    using assms(2) by (auto simp: match_at_def)
  have hb: "b \<noteq> []" "hd b = CHR ''@''" using b(1) by simp_all
  have sfx: "suffix b ((oper @ w # sp) @ cap @ rest)"
    using assms(3,4) unfolding s(1) by (auto simp: suffix_Cons)
  have "CHR ''@'' \<notin> set (oper @ w # sp)"
    using op_plain [OF s(2)] s(3,4) by (auto simp: list_all_iff is_ws_def)
  then have "suffix b (cap @ rest)" by (intro suffix_after [OF sfx hb(1)]) (simp add: hb(2))
  with assms(5) obtain y where y: "b = y @ rest" "suffix y cap" by (auto simp: suffix_append)
  with assms(5) have "y \<noteq> []" by auto
  let ?H = "CHR ''@'' # o2 @ w2 # sp2 @ cap'"
  obtain z where z: "cap = z @ y" using y(2) by (auto simp: suffix_def)
  have yok: "\<not> is_ws (last y)" "list_all (\<lambda>c. \<not> is_quote c) y"
    using s(5) \<open>y \<noteq> []\<close> unfolding z capture_ok_def by auto
  have Hok: "\<not> is_ws (last ?H)" "list_all (\<lambda>c. \<not> is_quote c) ?H"
    using b(3-5) op_plain [OF b(2)] ws_not_quote by (auto simp: capture_ok_def list_all_iff is_quote_def)
  have eq: "?H @ rest' = y @ rest" using b(1) y(1) by simp
  have "length y \<le> length ?H" by (rule capture_end_le [OF eq b(6) \<open>y \<noteq> []\<close> yok])
  moreover have "length ?H \<le> length y" by (rule capture_end_le [OF eq [symmetric] s(6) _ Hok]) simp
  ultimately have "?H = y" using append_eq_append_conv [of ?H y rest' rest] eq by linarith
  then have "cap = (z @ CHR ''@'' # o2) @ w2 # sp2 @ cap'" using z by simp
  then have "fields cap = fields (z @ CHR ''@'' # o2) @ fields (sp2 @ cap')" using fields_split [OF b(3)] by metis
  then show ?thesis using fields_lead_ws [OF b(4)] by simp
qed

definition fromfile_words :: "string \<Rightarrow> string set" where
  "fromfile_words s = set (concat (map fields (fromfile_captures s)))"

lemma captures_None: "fromfile_at (c # t) = None \<Longrightarrow> fromfile_captures (c # t) = fromfile_captures t"
  by (subst fromfile_captures.simps) simp

lemma captures_Some: "fromfile_at s = Some (cap, rest) \<Longrightarrow> fromfile_captures s = cap # fromfile_captures rest"
  by (cases s) (simp add: fromfile_at_def, subst fromfile_captures.simps, simp)

lemma fromfile_words_suffix:
  "suffix b s \<Longrightarrow> match_at b cap' rest' \<Longrightarrow> set (fields cap') \<subseteq> fromfile_words s"
proof (induction "length s" arbitrary: s rule: less_induct)
  case less
  from less.prems(2) have "b \<noteq> []" by (auto simp: match_at_def)
  then obtain c t where s: "s = c # t" using less.prems(1) by (cases s) auto
  show ?case
  proof (cases "fromfile_at s")
    case None
    then have "b \<noteq> s" using less.prems(2) fromfile_at_iff [of b cap' rest'] by auto
    with less.prems(1) s have "suffix b t" by (auto simp: suffix_Cons)
    moreover have "fromfile_words s = fromfile_words t"
      using None s by (simp add: fromfile_words_def captures_None)
    ultimately show ?thesis using less.hyps [of t] less.prems(2) s by simp
  next
    case (Some r)
    then obtain cap rest where r: "fromfile_at s = Some (cap, rest)" by (cases r) auto
    then have words: "fromfile_words s = set (fields cap) \<union> fromfile_words rest"
      by (simp add: fromfile_words_def captures_Some)
    show ?thesis
    proof (cases "suffix b rest")
      case True
      with less.hyps [OF fromfile_at_shorter [OF r]] less.prems(2) words show ?thesis by blast
    next
      case False
      have "match_at s cap rest" using r fromfile_at_iff by blast
      with inner_match [OF this less.prems(2,1) _ False] less.prems(2) r words show ?thesis
        using fromfile_at_iff [of b cap' rest'] by (cases "b = s") auto
    qed
  qed
qed

section \<open>Lines of a text\<close>

lemma match_at_extend:
  assumes "match_at b cap rest" and "post = [] \<or> is_ws (hd post)"
  shows "\<exists>cap' rest'. match_at (b @ post) cap' rest' \<and> set (fields cap) \<subseteq> set (fields cap')"
proof -
  obtain oper w sp where b: "b = CHR ''@'' # oper @ w # sp @ cap @ rest" "to_lower oper \<in> set fromfile_ops"
      "is_ws w" "list_all is_ws sp" "capture_ok cap" "ends_capture rest"
    using assms(1) by (auto simp: match_at_def)
  define x where "x = takeWhile (\<lambda>c. \<not> is_quote c) (rest @ post)"
  define d where "d = rev (dropWhile is_ws (rev x))"
  define rest' where "rest' = rev (takeWhile is_ws (rev x)) @ dropWhile (\<lambda>c. \<not> is_quote c) (rest @ post)"
  have x: "x = d @ rev (takeWhile is_ws (rev x))"
    unfolding d_def by (metis rev_append rev_rev_ident takeWhile_dropWhile_id)
  have split: "rest @ post = d @ rest'"
    unfolding rest'_def append_assoc [symmetric] x [symmetric] unfolding x_def by simp
  have ends: "ends_capture rest'"
    unfolding ends_capture_def rest'_def
    by (intro exI conjI, rule refl)
      (use hd_dropWhile [of "\<lambda>c. \<not> is_quote c" "rest @ post"] in \<open>auto simp: list_all_iff dest: set_takeWhileD\<close>)
  have unq: "list_all (\<lambda>c. \<not> is_quote c) d"
    unfolding d_def x_def by (auto simp: list_all_iff dest!: set_dropWhileD set_takeWhileD)
  have last: "d \<noteq> [] \<Longrightarrow> \<not> is_ws (last d)"
    unfolding d_def by (metis hd_dropWhile last_rev rev_is_Nil_conv)
  have "capture_ok (cap @ d)" using b(5) unq last by (cases "d = []") (auto simp: capture_ok_def)
  then have "match_at (b @ post) (cap @ d) rest'"
    unfolding match_at_def b(1) using b(2-4) ends split by auto
  moreover have "set (fields cap) \<subseteq> set (fields (cap @ d))"
  proof (cases d)
    case (Cons c d')
    have "x \<noteq> []" using x Cons by auto
    then have "hd (rest @ post) = c" "rest @ post \<noteq> []"
      using split Cons by auto
    moreover have "is_ws (hd (rest @ post))"
    proof (cases rest)
      case Nil
      with assms(2) \<open>rest @ post \<noteq> []\<close> show ?thesis by simp
    next
      case (Cons e es)
      obtain tr q where tq: "rest = tr @ q" "list_all is_ws tr" "q = [] \<or> is_quote (hd q)"
        using b(6) by (auto simp: ends_capture_def)
      have "\<not> is_quote c" using unq \<open>d = c # d'\<close> by simp
      with tq Cons \<open>hd (rest @ post) = c\<close> show ?thesis by (cases tr) auto
    qed
    ultimately show ?thesis using fields_split [of c cap d'] Cons by simp
  qed simp
  ultimately show ?thesis by blast
qed

lemma split_on_part:
  "line \<in> set (split_on k s) \<Longrightarrow> \<exists>pre post. s = pre @ line @ post \<and> (post = [] \<or> hd post = k)"
proof (induction s arbitrary: line)
  case (Cons c s)
  obtain v vs where v: "split_on k s = v # vs" by (cases "split_on k s") auto
  show ?case
  proof (cases "c = k")
    case True
    then consider "line = []" | "line \<in> set (split_on k s)" using Cons.prems by auto
    then show ?thesis
    proof cases
      case 1
      with True show ?thesis by (intro exI [of _ "[]"] exI [of _ "c # s"]) simp
    next
      case 2
      with Cons.IH obtain pre post where "s = pre @ line @ post" "post = [] \<or> hd post = k" by blast
      then show ?thesis by (intro exI [of _ "c # pre"] exI [of _ post]) simp
    qed
  next
    case False
    then consider "line = c # v" | "line \<in> set vs" using Cons.prems v by auto
    then show ?thesis
    proof cases
      case 1
      have "\<exists>post. s = v @ post \<and> (post = [] \<or> hd post = k)"
      proof (cases vs)
        case Nil
        then have "s = v" using join_split_on [of k s] v by simp
        then show ?thesis by simp
      next
        case (Cons w ws)
        then have "s = v @ k # join [k] vs" using join_split_on [of k s] v by simp
        then show ?thesis by auto
      qed
      then obtain post where "s = v @ post" "post = [] \<or> hd post = k" by blast
      with 1 show ?thesis by (intro exI [of _ "[]"] exI [of _ post]) simp
    next
      case 2
      with Cons.IH [of line] v obtain pre post where "s = pre @ line @ post" "post = [] \<or> hd post = k" by auto
      then show ?thesis by (intro exI [of _ "c # pre"] exI [of _ post]) simp
    qed
  qed
qed simp

lemma captures_match: "cap \<in> set (fromfile_captures s) \<Longrightarrow> \<exists>b rest. suffix b s \<and> match_at b cap rest"
proof (induction s rule: fromfile_captures.induct)
  case (1 s)
  show ?case
  proof (cases s)
    case Nil
    with "1.prems" show ?thesis by (simp add: fromfile_captures.simps)
  next
    case (Cons c t)
    show ?thesis
    proof (cases "fromfile_at s")
      case None
      with "1.prems" Cons "1.IH"(1) [OF Cons None] show ?thesis by (auto simp: captures_None suffix_Cons)
    next
      case (Some r)
      then obtain cap1 rest1 where r: "fromfile_at s = Some (cap1, rest1)" by (cases r) auto
      have m: "match_at s cap1 rest1" using r fromfile_at_iff by blast
      then have "suffix rest1 s" by (auto simp: match_at_def suffix_def)
      with m "1.prems" r Some "1.IH"(2) [OF Cons Some _] show ?thesis
        by (auto simp: captures_Some intro: suffix_order.trans)
    qed
  qed
qed

lemma fromfile_words_line:
  assumes "line \<in> set (split_on newline blob)"
  shows "fromfile_words line \<subseteq> fromfile_words blob"
proof
  fix x
  assume "x \<in> fromfile_words line"
  then obtain cap where cap: "cap \<in> set (fromfile_captures line)" "x \<in> set (fields cap)"
    by (auto simp: fromfile_words_def)
  obtain b rest where b: "suffix b line" "match_at b cap rest" using captures_match [OF cap(1)] by blast
  obtain pre post where p: "blob = pre @ line @ post" "post = [] \<or> hd post = newline"
    using split_on_part [OF assms] by blast
  have "post = [] \<or> is_ws (hd post)" using p(2) by (auto simp: is_ws_def)
  from match_at_extend [OF b(2) this] obtain cap' rest' where
    e: "match_at (b @ post) cap' rest'" "set (fields cap) \<subseteq> set (fields cap')" by blast
  have "suffix (b @ post) blob" using b(1) p(1) by (auto simp: suffix_def)
  from fromfile_words_suffix [OF this e(1)] e(2) cap(2) show "x \<in> fromfile_words blob" by blast
qed

lemma fromfile_tokens_words: "set (fromfile_tokens s) = (\<lambda>tok. path_base (trim_set tok [dquote, squote])) ` fromfile_words s"
  by (simp add: fromfile_tokens_def fromfile_words_def)

lemma scan_mem:
  "base \<in> set (ScanPmFromFileBasenames directives) \<longleftrightarrow>
   (\<exists>raw \<in> set directives. \<exists>line \<in> set (split_on newline raw). base \<in> set (scan_line line))"
  by (auto simp: ScanPmFromFileBasenames_def)

lemma scan_line_tokens: "base \<in> set (scan_line line) \<Longrightarrow> base \<in> set (fromfile_tokens line)"
  by (auto simp: scan_line_def Let_def split: if_splits)

lemma scan_after_drop:
  assumes "base \<in> set (ScanPmFromFileBasenames (DropSecLangLinesWithBasenames directives dropped))"
  shows "base \<in> set (ScanPmFromFileBasenames directives) \<and> base \<notin> dropped"
proof -
  obtain raw line where r: "raw \<in> set (DropSecLangLinesWithBasenames directives dropped)"
      "line \<in> set (split_on newline raw)" "base \<in> set (scan_line line)"
    using assms by (auto simp: scan_mem)
  have "base \<in> set (fromfile_tokens raw)"
    using scan_line_tokens [OF r(3)] fromfile_words_line [OF r(2)] by (auto simp: fromfile_tokens_words)
  with r(1) have "base \<notin> dropped"
    by (auto simp: DropSecLangLinesWithBasenames_def lineReferencesFromFileBasename_def list_ex_iff split: if_splits)
  moreover have "raw \<in> set directives" using r(1) by (auto simp: DropSecLangLinesWithBasenames_def split: if_splits)
  ultimately show ?thesis using r(2,3) by (auto simp: scan_mem)
qed

end
