(* ===== verification/PhraseFiles.thy ===== *)
theory PhraseFiles
  imports FromFileThms Resolver Base64
begin

text \<open>
  The data files a WAF injects, \<open>internal/dataplane/config/phrasefiles.go\<close>, with the stock pack of
  \<open>internal/coraza/crsdata/embed.go\<close>.

  PhraseList and IPList have the same fields here and share one record. The cluster is a parameter
  that answers reads, \<open>None\<close> for an error. The embedded files are a parameter too: a map from
  basename to body. Messages are left out; the reason and the error are kept. Where the code ranges
  over a map to look for an error, the order only decides which of several errors is reported.
\<close>

section \<open>List resources\<close>

record ConfigMapKeyRef =
  cmr_Name :: string
  cmr_Key :: string

record ListResource =
  pl_Namespace :: string
  pl_Name :: string
  pl_Labels :: string_map
  pl_Annotations :: string_map
  pl_FileName :: string
  pl_Content :: string
  pl_ConfigMapRef :: "ConfigMapKeyRef option"
  pl_Parts :: "ConfigMapKeyRef list"
  pl_StatusFileName :: string
  pl_Ready :: bool

text \<open>A ConfigMap: \<open>binaryData\<close> holds bytes, which its JSON form has in base64.\<close>

record ConfigMap =
  cm_Data :: string_map
  cm_BinaryData :: string_map

record pf_client =
  pf_ListPhraseListIndexed :: "string \<Rightarrow> string \<Rightarrow> ListResource list option"
  pf_ListPhraseList :: "string \<Rightarrow> ListResource list option"
  pf_GetPhraseList :: "string \<Rightarrow> string \<Rightarrow> ListResource option"
  pf_ListIPListIndexed :: "string \<Rightarrow> string \<Rightarrow> ListResource list option"
  pf_ListIPList :: "string \<Rightarrow> ListResource list option"
  pf_GetIPList :: "string \<Rightarrow> string \<Rightarrow> ListResource option"
  pf_GetConfigMap :: "string \<Rightarrow> string \<Rightarrow> ConfigMap option"

datatype pf_error =
    RefMissing string
  | RefNotReady string
  | ListFailed
  | FileNameConflict string string
  | ConfigMapFailed string string
  | ConfigMapKeyMissing string string string
  | NoContentSource string string
  | CRSOverrideNotAllowed string string
  | CRSDataMissing string
  | DataFileNotFound string
  | PhraseFilesTooLarge int

section \<open>Bodies\<close>

text \<open>
  The data plane reads the ConfigMap as an unstructured object, that is in its JSON form: a value of
  \<open>binaryData\<close> is the base64 string.
\<close>

definition json_binaryData :: "ConfigMap \<Rightarrow> string_map" where
  "json_binaryData cm = map (\<lambda>(k, v). (k, base64Encode v)) (cm_BinaryData cm)"

definition readConfigMapKey :: "pf_client \<Rightarrow> string \<Rightarrow> string \<Rightarrow> string \<Rightarrow> pf_error + string" where
  "readConfigMapKey c ns name key =
     (case pf_GetConfigMap c ns name of
        None \<Rightarrow> Inl (ConfigMapFailed ns name)
      | Some cm \<Rightarrow>
          (case map_of (cm_Data cm) key of
             Some v \<Rightarrow> Inr v
           | None \<Rightarrow>
               (case map_of (json_binaryData cm) key of
                  Some v \<Rightarrow> Inr v
                | None \<Rightarrow> Inl (ConfigMapKeyMissing ns name key))))"

definition end_line :: "string \<Rightarrow> string" where
  "end_line buf = (if buf \<noteq> [] \<and> last buf \<noteq> newline then buf @ [newline] else buf)"

fun compose_parts :: "(string \<Rightarrow> string \<Rightarrow> pf_error + string) \<Rightarrow> string \<Rightarrow> ConfigMapKeyRef list \<Rightarrow> pf_error + string" where
  "compose_parts rd buf [] = Inr buf"
| "compose_parts rd buf (p # ps) =
     bindE (rd (cmr_Name p) (cmr_Key p)) (\<lambda>b. compose_parts rd (end_line (buf @ b)) ps)"

definition list_body :: "(string \<Rightarrow> string \<Rightarrow> pf_error + string) \<Rightarrow> ListResource \<Rightarrow> pf_error + string" where
  "list_body rd pl =
     (if pl_Content pl \<noteq> [] then Inr (pl_Content pl)
      else case pl_ConfigMapRef pl of
             Some r \<Rightarrow> rd (cmr_Name r) (cmr_Key r)
           | None \<Rightarrow>
               if pl_Parts pl \<noteq> [] then compose_parts rd [] (pl_Parts pl)
               else Inl (NoContentSource (pl_Namespace pl) (pl_Name pl)))"

definition resolvePhraseListBody :: "pf_client \<Rightarrow> ListResource \<Rightarrow> pf_error + string" where
  "resolvePhraseListBody c pl = list_body (readConfigMapKey c (pl_Namespace pl)) pl"

definition resolveIPListBody :: "pf_client \<Rightarrow> ListResource \<Rightarrow> pf_error + string" where
  "resolveIPListBody c ipl = list_body (readConfigMapKey c (pl_Namespace ipl)) ipl"

section \<open>Lookup\<close>

definition PhraseListFileNameIndexKey :: "string \<Rightarrow> string \<Rightarrow> string" where
  "PhraseListFileNameIndexKey namespace fileName = namespace @ ''/'' @ fileName"

definition IndexPhraseListByFileName :: "ListResource \<Rightarrow> string list" where
  "IndexPhraseListByFileName pl =
     (let fname = (if pl_FileName pl = [] then pl_StatusFileName pl else pl_FileName pl)
      in if fname = [] then [] else [PhraseListFileNameIndexKey (pl_Namespace pl) fname])"

definition only_ready :: "string \<Rightarrow> string \<Rightarrow> ListResource list \<Rightarrow> pf_error + ListResource option" where
  "only_ready ns fileName items =
     (case filter (\<lambda>pl. pl_FileName pl = fileName \<and> pl_Ready pl) items of
        [] \<Rightarrow> Inr None
      | [pl] \<Rightarrow> Inr (Some pl)
      | _ \<Rightarrow> Inl (FileNameConflict ns fileName))"

definition lookupReadyPhraseList :: "pf_client \<Rightarrow> string \<Rightarrow> string \<Rightarrow> pf_error + ListResource option" where
  "lookupReadyPhraseList c ns fileName =
     (case pf_ListPhraseListIndexed c ns (PhraseListFileNameIndexKey ns fileName) of
        Some items \<Rightarrow> only_ready ns fileName items
      | None \<Rightarrow> (case pf_ListPhraseList c ns of None \<Rightarrow> Inl ListFailed | Some items \<Rightarrow> only_ready ns fileName items))"

definition lookupReadyIPList :: "pf_client \<Rightarrow> string \<Rightarrow> string \<Rightarrow> pf_error + ListResource option" where
  "lookupReadyIPList c ns fileName =
     (case pf_ListIPListIndexed c ns (PhraseListFileNameIndexKey ns fileName) of
        Some items \<Rightarrow> only_ready ns fileName items
      | None \<Rightarrow> (case pf_ListIPList c ns of None \<Rightarrow> Inl ListFailed | Some items \<Rightarrow> only_ready ns fileName items))"

definition lookupReadyDataFileBody :: "pf_client \<Rightarrow> string \<Rightarrow> string \<Rightarrow> pf_error + string option" where
  "lookupReadyDataFileBody c ns fileName =
     bindE (lookupReadyPhraseList c ns fileName) (\<lambda>pl.
       case pl of
         Some p \<Rightarrow> bindE (resolvePhraseListBody c p) (\<lambda>b. Inr (Some b))
       | None \<Rightarrow>
           bindE (lookupReadyIPList c ns fileName) (\<lambda>ipl.
             case ipl of
               Some i \<Rightarrow> bindE (resolveIPListBody c i) (\<lambda>b. Inr (Some b))
             | None \<Rightarrow> Inr None))"

section \<open>References of RuleSets\<close>

definition collectRuleSetLocalRefs :: "uobj list \<Rightarrow> (RuleSetSpec \<Rightarrow> string list) \<Rightarrow> string list" where
  "collectRuleSetLocalRefs resolved field =
     remdups (concat (map (\<lambda>u. if uo_Kind u \<noteq> ''RuleSet'' then []
                               else case as_RuleSet u of None \<Rightarrow> [] | Some s \<Rightarrow> filter (\<lambda>n. n \<noteq> []) (field s)) resolved))"

fun check_refs :: "(string \<Rightarrow> ListResource option) \<Rightarrow> string list \<Rightarrow> pf_error option" where
  "check_refs get [] = None"
| "check_refs get (n # ns) =
     (case get n of
        None \<Rightarrow> Some (RefMissing n)
      | Some pl \<Rightarrow> if pl_Ready pl then check_refs get ns else Some (RefNotReady n))"

definition checkPhraseListRefs :: "pf_client \<Rightarrow> string \<Rightarrow> uobj list \<Rightarrow> pf_error option" where
  "checkPhraseListRefs c ns resolved =
     check_refs (pf_GetPhraseList c ns) (collectRuleSetLocalRefs resolved rss_PhraseListRefs)"

definition checkIPListRefs :: "pf_client \<Rightarrow> string \<Rightarrow> uobj list \<Rightarrow> pf_error option" where
  "checkIPListRefs c ns resolved =
     check_refs (pf_GetIPList c ns) (collectRuleSetLocalRefs resolved rss_IPListRefs)"

section \<open>The stock pack\<close>

definition Basenames :: "string list" where
  "Basenames =
     [''ai-critical-artifacts.data'', ''asp-dotnet-errors.data'', ''iis-errors.data'',
      ''java-classes.data'', ''lfi-os-files.data'', ''php-errors.data'',
      ''php-function-names-933150.data'', ''php-variables.data'', ''restricted-files.data'',
      ''restricted-upload.data'', ''ruby-errors.data'', ''scanners-user-agents.data'',
      ''sql-errors.data'', ''ssrf-no-scheme.data'', ''ssrf.data'', ''unix-shell-aliases.data'',
      ''unix-shell-builtins.data'', ''unix-shell.data'', ''web-shells-asp.data'',
      ''web-shells-php.data'', ''windows-powershell-commands.data'']"

definition IsKnown :: "string \<Rightarrow> bool" where
  "IsKnown name \<longleftrightarrow> path_base name \<in> set Basenames"

definition Read :: "(string \<rightharpoonup> string) \<Rightarrow> string \<Rightarrow> string option" where
  "Read pack basename = pack (path_base basename)"

definition LabelCRSData :: string where "LabelCRSData = ''seclang.kubewaf.io/crs-data''"
definition AnnotationAllowCRSOverride :: string where
  "AnnotationAllowCRSOverride = ''seclang.kubewaf.io/allow-crs-override''"
definition MaxPhraseFilesRawBytes :: int where "MaxPhraseFilesRawBytes = 2 * 1024 * 1024"

section \<open>Discovery\<close>

record PhraseFilesResult =
  pr_Files :: string_map
  pr_Directives :: "string list"
  pr_DroppedBasenames :: "string list"
  pr_OverrideCRSCount :: nat
  pr_RawBytes :: int
  pr_ContentHash :: string
  pr_ConditionReason :: string
  pr_Ready :: bool
  pr_Error :: "pf_error option"

text \<open>What the loop over the basenames has collected: the files, the overrides, the missing ones.\<close>

type_synonym found_files = "string_map \<times> nat \<times> string list"

definition fail_with :: "string \<Rightarrow> pf_error \<Rightarrow> PhraseFilesResult \<Rightarrow> PhraseFilesResult" where
  "fail_with reason e res = res\<lparr> pr_Ready := False, pr_Error := Some e, pr_ConditionReason := reason \<rparr>"

definition crs_file ::
  "pf_client \<Rightarrow> (string \<rightharpoonup> string) \<Rightarrow> string \<Rightarrow> string \<Rightarrow> (string \<times> pf_error) + (string \<times> bool)" where
  "crs_file c pack ns base =
     (case lookupReadyPhraseList c ns base of
        Inl e \<Rightarrow> Inl (''PhraseListLookupFailed'', e)
      | Inr (Some pl) \<Rightarrow>
          (let isStockPack = (smap_get (pl_Labels pl) LabelCRSData = ''true'');
               allowOverride = (smap_get (pl_Annotations pl) AnnotationAllowCRSOverride = ''true'')
           in if \<not> isStockPack \<and> \<not> allowOverride
              then Inl (''CRSOverrideNotAllowed'', CRSOverrideNotAllowed (pl_Name pl) base)
              else (case resolvePhraseListBody c pl of
                      Inl e \<Rightarrow> Inl (''PhraseListBodyFailed'', e)
                    | Inr body \<Rightarrow> Inr (body, \<not> isStockPack)))
      | Inr None \<Rightarrow>
          (case Read pack base of
             None \<Rightarrow> Inl (''CRSDataPackMissing'', CRSDataMissing base)
           | Some body \<Rightarrow>
               if body = [] then Inl (''CRSDataPackMissing'', CRSDataMissing base) else Inr (body, False)))"

fun discover ::
  "pf_client \<Rightarrow> (string \<rightharpoonup> string) \<Rightarrow> string \<Rightarrow> found_files \<Rightarrow> string list \<Rightarrow>
   found_files \<times> (string \<times> pf_error) option" where
  "discover c pack ns (files, overrides, missing) [] = ((files, overrides, missing), None)"
| "discover c pack ns (files, overrides, missing) (base # bases) =
     (if IsKnown base then
        (case crs_file c pack ns base of
           Inl e \<Rightarrow> ((files, overrides, missing), Some e)
         | Inr (body, is_override) \<Rightarrow>
             discover c pack ns
               (AList.update base body files, if is_override then Suc overrides else overrides, missing) bases)
      else
        (case lookupReadyDataFileBody c ns base of
           Inl e \<Rightarrow> ((files, overrides, missing), Some (''DataFileLookupFailed'', e))
         | Inr (Some body) \<Rightarrow> discover c pack ns (AList.update base body files, overrides, missing) bases
         | Inr None \<Rightarrow> discover c pack ns (files, overrides, missing @ [base]) bases))"

definition hashPhraseFiles :: "(string \<Rightarrow> string) \<Rightarrow> string_map \<Rightarrow> string" where
  "hashPhraseFiles sha files =
     (if files = [] then []
      else sha (concat (map (\<lambda>k. k @ [CHR 0x00] @ smap_get files k @ [CHR 0x00]) (sort (map fst files)))))"

definition raw_size :: "string_map \<Rightarrow> int" where
  "raw_size files = sum_list (map (\<lambda>(k, body). int (length body)) files)"

text \<open>The end of the function: the size limit and the fingerprint.\<close>

definition finish_files :: "(string \<Rightarrow> string) \<Rightarrow> PhraseFilesResult \<Rightarrow> PhraseFilesResult" where
  "finish_files sha res =
     (let raw = raw_size (pr_Files res); res1 = res\<lparr> pr_RawBytes := raw \<rparr> in
      if raw > MaxPhraseFilesRawBytes
      then (fail_with ''PhraseFilesTooLarge'' (PhraseFilesTooLarge raw) res1)\<lparr> pr_Files := [] \<rparr>
      else res1\<lparr> pr_ContentHash := hashPhraseFiles sha (pr_Files res) \<rparr>)"

definition DiscoverAndResolvePhraseFiles ::
  "(string \<Rightarrow> string) \<Rightarrow> pf_client \<Rightarrow> (string \<rightharpoonup> string) \<Rightarrow> WAF \<Rightarrow> string list \<Rightarrow> uobj list \<Rightarrow> PhraseFilesResult" where
  "DiscoverAndResolvePhraseFiles sha c pack waf directives resolved =
     (let res0 = \<lparr> pr_Files = [], pr_Directives = directives, pr_DroppedBasenames = [], pr_OverrideCRSCount = 0,
                   pr_RawBytes = 0, pr_ContentHash = [], pr_ConditionReason = ''PhraseListsResolved'',
                   pr_Ready = True, pr_Error = None \<rparr>;
          ns = waf_Namespace waf
      in case checkPhraseListRefs c ns resolved of
           Some e \<Rightarrow> fail_with ''PhraseListRefNotReady'' e res0
         | None \<Rightarrow>
             (case checkIPListRefs c ns resolved of
                Some e \<Rightarrow> fail_with ''IPListRefNotReady'' e res0
              | None \<Rightarrow>
                  (let basenames = ScanPmFromFileBasenames directives in
                   if basenames = [] then res0
                   else
                     (case discover c pack ns ([], 0, []) basenames of
                        ((files, overrides, missing), err) \<Rightarrow>
                          (let res1 = res0\<lparr> pr_Files := files, pr_OverrideCRSCount := overrides \<rparr> in
                           case err of
                             Some (reason, e) \<Rightarrow> fail_with reason e res1
                           | None \<Rightarrow>
                               if missing = [] then finish_files sha res1
                               else if ws_PhraseListPolicy (waf_Spec waf) = PhraseListPolicyIgnoreUnknown
                               then finish_files sha
                                      (res1\<lparr> pr_DroppedBasenames := missing,
                                             pr_Directives := DropSecLangLinesWithBasenames directives (set missing),
                                             pr_ConditionReason := ''IgnoredUnknownPhraseLists'' \<rparr>)
                               else fail_with ''DataFileNotFound'' (DataFileNotFound (hd missing)) res1)))))"

end
