(* ===== verification/PhraseFilesThms.thy ===== *)
theory PhraseFilesThms
  imports PhraseFiles DirectivesThms
begin

text \<open>
  Injected data files: every file the published text refers to is there, and a stock file is replaced
  only by a list that may replace it.
\<close>

lemma dom_update: "dom (map_of (AList.update k v al)) = insert k (dom (map_of al))"
  by (simp add: update_conv')

lemma discover_covers:
  "discover c pack ns (files, ov, missing) bases = ((files', ov', missing'), None) \<Longrightarrow>
   set bases \<subseteq> dom (map_of files') \<union> set missing' \<and> dom (map_of files) \<subseteq> dom (map_of files') \<and> set missing \<subseteq> set missing'"
proof (induction c pack ns "(files, ov, missing)" bases arbitrary: files ov missing rule: discover.induct)
  case (2 c pack ns files ov missing base bases)
  show ?case
  proof (cases "IsKnown base")
    case True
    with "2.prems" obtain body isov where "crs_file c pack ns base = Inr (body, isov)"
      by (auto split: sum.splits prod.splits)
    with "2.hyps"(1) [OF True this refl] True "2.prems" show ?thesis by (auto simp: dom_update)
  next
    case False
    show ?thesis
    proof (cases "lookupReadyDataFileBody c ns base")
      case (Inl e)
      with False "2.prems" show ?thesis by simp
    next
      case (Inr r)
      with "2.hyps"(2,3) [OF False Inr] False "2.prems" show ?thesis by (cases r) (auto simp: dom_update)
    qed
  qed
qed simp

text \<open>Where a file of the result comes from.\<close>

definition file_source :: "pf_client \<Rightarrow> (string \<rightharpoonup> string) \<Rightarrow> string \<Rightarrow> string \<Rightarrow> string \<Rightarrow> bool" where
  "file_source c pack ns base body \<longleftrightarrow>
     (if IsKnown base
      then Read pack base = Some body \<and> body \<noteq> [] \<or>
        (\<exists>pl. lookupReadyPhraseList c ns base = Inr (Some pl) \<and> resolvePhraseListBody c pl = Inr body \<and>
           (smap_get (pl_Labels pl) LabelCRSData = ''true'' \<or>
            smap_get (pl_Annotations pl) AnnotationAllowCRSOverride = ''true''))
      else lookupReadyDataFileBody c ns base = Inr (Some body))"

lemma crs_file_source:
  assumes "IsKnown base" and "crs_file c pack ns base = Inr (body, ov)"
  shows "file_source c pack ns base body"
  using assms by (auto simp: crs_file_def file_source_def Let_def split: sum.splits option.splits if_splits)

lemma discover_sources:
  "discover c pack ns (files, ov, missing) bases = ((files', ov', missing'), err) \<Longrightarrow>
   \<forall>b body. map_of files b = Some body \<longrightarrow> file_source c pack ns b body \<Longrightarrow>
   \<forall>b body. map_of files' b = Some body \<longrightarrow> file_source c pack ns b body"
proof (induction c pack ns "(files, ov, missing)" bases arbitrary: files ov missing rule: discover.induct)
  case (2 c pack ns files ov missing base bases)
  have upd: "\<forall>b bd. map_of (AList.update base body files) b = Some bd \<longrightarrow> file_source c pack ns b bd"
    if "file_source c pack ns base body" for body
    using that "2.prems"(2) by (auto simp: update_conv')
  show ?case
  proof (cases "IsKnown base")
    case True
    show ?thesis
    proof (cases "crs_file c pack ns base")
      case (Inl e)
      with True "2.prems" show ?thesis by auto
    next
      case (Inr r)
      obtain body isov where r: "r = (body, isov)" by (cases r)
      have "file_source c pack ns base body" using crs_file_source [OF True] Inr r by blast
      from "2.hyps"(1) [OF True Inr r [symmetric] _ upd [OF this]] Inr r True "2.prems"(1) show ?thesis by auto
    qed
  next
    case False
    show ?thesis
    proof (cases "lookupReadyDataFileBody c ns base")
      case (Inl e)
      with False "2.prems" show ?thesis by auto
    next
      case (Inr r)
      show ?thesis
      proof (cases r)
        case None
        with "2.hyps"(2) [OF False Inr None] False Inr "2.prems" show ?thesis by auto
      next
        case (Some body)
        with Inr False have "file_source c pack ns base body" by (simp add: file_source_def)
        note src = this
        from "2.hyps"(3) [OF False Inr Some _ upd [OF src]] False Inr Some "2.prems"(1) show ?thesis by auto
      qed
    qed
  qed
qed simp

lemma finish_files_ready:
  assumes "pr_Ready (finish_files sha res)"
  shows "pr_Files (finish_files sha res) = pr_Files res \<and> pr_Directives (finish_files sha res) = pr_Directives res \<and>
    raw_size (pr_Files res) \<le> MaxPhraseFilesRawBytes"
  using assms by (auto simp: finish_files_def fail_with_def Let_def split: if_splits)

text \<open>A ready result: either nothing to inject, or the outcome of the loop.\<close>

lemma Discover_ready:
  assumes "pr_Ready r" and "r = DiscoverAndResolvePhraseFiles sha c pack waf directives resolved"
  shows "ScanPmFromFileBasenames directives = [] \<and> pr_Directives r = directives \<and> pr_Files r = [] \<or>
    (\<exists>files ov missing. discover c pack (waf_Namespace waf) ([], 0, []) (ScanPmFromFileBasenames directives) = ((files, ov, missing), None) \<and>
       pr_Files r = files \<and> raw_size files \<le> MaxPhraseFilesRawBytes \<and>
       pr_Directives r = (if missing = [] then directives else DropSecLangLinesWithBasenames directives (set missing)))"
proof -
  obtain files ov missing err where
    d: "discover c pack (waf_Namespace waf) ([], 0, []) (ScanPmFromFileBasenames directives) = ((files, ov, missing), err)"
    by (metis surj_pair)
  show ?thesis
    using assms d by (auto simp: DiscoverAndResolvePhraseFiles_def Let_def fail_with_def
        split: option.splits if_splits dest!: finish_files_ready)
qed

text \<open>
  When the resolution of data files is ready, every file that an operator of the resulting text
  names is injected, whatever the policy, and the injected files stay within the size limit.
\<close>

theorem phrase_files_complete:
  assumes "r = DiscoverAndResolvePhraseFiles sha c pack waf directives resolved" and "pr_Ready r"
  shows "(\<forall>base \<in> set (ScanPmFromFileBasenames (pr_Directives r)). \<exists>body. map_of (pr_Files r) base = Some body) \<and>
    raw_size (pr_Files r) \<le> MaxPhraseFilesRawBytes"
proof -
  consider (none) "ScanPmFromFileBasenames directives = []" "pr_Directives r = directives" "pr_Files r = []"
    | (some) files ov missing where
        "discover c pack (waf_Namespace waf) ([], 0, []) (ScanPmFromFileBasenames directives) = ((files, ov, missing), None)"
        "pr_Files r = files" "raw_size files \<le> MaxPhraseFilesRawBytes"
        "pr_Directives r = (if missing = [] then directives else DropSecLangLinesWithBasenames directives (set missing))"
    using Discover_ready [OF assms(2,1)] by blast
  then show ?thesis
  proof cases
    case none
    then show ?thesis by (simp add: raw_size_def MaxPhraseFilesRawBytes_def)
  next
    case some
    have "base \<in> dom (map_of files)" if "base \<in> set (ScanPmFromFileBasenames (pr_Directives r))" for base
      using that some(4) discover_covers [OF some(1)] scan_after_drop [of base directives "set missing"]
      by (auto split: if_splits)
    with some(2,3) show ?thesis by blast
  qed
qed

text \<open>
  An injected stock CRS file is the one of the embedded pack, or comes from the one ready PhraseList
  of that name that carries the pack label or the override annotation; any other file comes from a
  ready list of the namespace.
\<close>

theorem stock_files_guarded:
  assumes "r = DiscoverAndResolvePhraseFiles sha c pack waf directives resolved" and "pr_Ready r"
    and "map_of (pr_Files r) base = Some body"
  shows "file_source c pack (waf_Namespace waf) base body"
proof -
  obtain files ov missing where
    "discover c pack (waf_Namespace waf) ([], 0, []) (ScanPmFromFileBasenames directives) = ((files, ov, missing), None)"
    "pr_Files r = files"
    using Discover_ready [OF assms(2,1)] assms(3) by auto
  with discover_sources [of c pack "waf_Namespace waf" "[]" 0 "[]"] assms(3) show ?thesis by fastforce
qed

section \<open>Instances\<close>

definition demo_list :: "string \<Rightarrow> string \<Rightarrow> ListResource" where
  "demo_list fname content =
     \<lparr> pl_Namespace = ''team'', pl_Name = ''l'', pl_Labels = [], pl_Annotations = [], pl_FileName = fname,
       pl_Content = content, pl_ConfigMapRef = None, pl_Parts = [], pl_StatusFileName = fname, pl_Ready = True \<rparr>"

definition demo_pf :: pf_client where
  "demo_pf =
     \<lparr> pf_ListPhraseListIndexed = (\<lambda>ns key. Some (if key = ''team/bots.data'' then [demo_list ''bots.data'' ''evil''] else [])),
       pf_ListPhraseList = (\<lambda>ns. None), pf_GetPhraseList = (\<lambda>ns n. None),
       pf_ListIPListIndexed = (\<lambda>ns key. Some []), pf_ListIPList = (\<lambda>ns. None), pf_GetIPList = (\<lambda>ns n. None),
       pf_GetConfigMap = (\<lambda>ns n. None) \<rparr>"

definition demo_lines :: "string list" where
  "demo_lines =
     [''SecRule A '' @ [dquote] @ ''@pmFromFile bots.data'' @ [dquote] @ '' id:1'',
      ''SecRule A '' @ [dquote] @ ''@pmf gone.data'' @ [dquote] @ '' id:2'']"

definition demo_lenient :: WAF where
  "demo_lenient = (demo_waf ''team'' ''w'' ProviderIstio None)
     \<lparr> waf_Spec := (waf_Spec (demo_waf ''team'' ''w'' ProviderIstio None))\<lparr> ws_PhraseListPolicy := PhraseListPolicyIgnoreUnknown \<rparr> \<rparr>"

definition demo_files :: PhraseFilesResult where
  "demo_files = DiscoverAndResolvePhraseFiles id demo_pf (\<lambda>b. None) demo_lenient demo_lines []"

lemma demo_files_ready: "pr_Ready demo_files" "map_of (pr_Files demo_files) ''bots.data'' = Some ''evil''"
  "ScanPmFromFileBasenames (pr_Directives demo_files) = [''bots.data'']"
  by code_simp+

theorem phrase_files_complete_witness:
  "pr_Ready demo_files \<and> ScanPmFromFileBasenames (pr_Directives demo_files) = [''bots.data''] \<and>
   (\<exists>body. map_of (pr_Files demo_files) ''bots.data'' = Some body)"
  using phrase_files_complete [OF demo_files_def demo_files_ready(1)] demo_files_ready by simp

theorem stock_files_guarded_witness:
  "map_of (pr_Files demo_files) ''bots.data'' = Some ''evil'' \<and> file_source demo_pf (\<lambda>b. None) (waf_Namespace demo_lenient) ''bots.data'' ''evil''"
  using stock_files_guarded [OF demo_files_def demo_files_ready(1,2)] demo_files_ready(2) by simp

end
