(* ===== verification/Render.thy ===== *)
theory Render
  imports Convert
begin

text \<open>
  Printing converted rules as SecLang text: \<open>ConvertToSecLangString\<close> and its helpers in
  \<open>api/seclang/v1beta1/convert/secrule.go\<close>, \<open>convert/secaction.go\<close> and \<open>internal/seclang/render.go\<close>.

  crslang expands a rule into unformatted directives and prints a list of them; both are parameters.
  Go's regular expressions used here have one match per starting position, so each replacement is a
  scan from the left.
\<close>

section \<open>Unformatted directives\<close>

datatype ('a, 'u) unformatted =
    USecRule 'u "'a SeclangActions option" "('a, 'u) unformatted option"
  | USecAction 'u "'a SeclangActions option" "('a, 'u) unformatted option"
  | UConfiguration string string
  | UOther 'u

text \<open>
  \<open>cp_FromCRSLang\<close> is the first directive list of \<open>FromCRSLangToUnformattedDirectives\<close>, \<open>None\<close> when
  there is none and a nil entry as \<open>None\<close>; \<open>cp_GetParam\<close> is \<open>None\<close> for an action without that method.
\<close>

record ('a, 'm, 'u) crsprinter = "('a, 'm) crslang" +
  cp_FromCRSLang :: "('a, 'm) RuleWithCondition \<Rightarrow> ('a, 'u) unformatted option list option"
  cp_ToSeclang :: "('a, 'u) unformatted list \<Rightarrow> string"
  cp_GetParam :: "'a \<Rightarrow> string option"

definition normalize_directive ::
  "('a, 'm, 'u) crsprinter \<Rightarrow> ('a, 'm) SeclangDirective \<Rightarrow> ('a, 'u) unformatted list" where
  "normalize_directive P d =
     (case d of
        DRule r \<Rightarrow> (case cp_FromCRSLang P r of None \<Rightarrow> [] | Some ds \<Rightarrow> List.map_filter id ds)
      | DConfiguration name param \<Rightarrow> [UConfiguration name param])"

section \<open>Repeated initcol actions\<close>

definition initcol_param :: "('a, 'm, 'u) crsprinter \<Rightarrow> 'a \<Rightarrow> string" where
  "initcol_param P a =
     (case cp_GetParam P a of
        Some p \<Rightarrow> p
      | None \<Rightarrow> trim_set (trim_prefix (cl_ToString (crslang.truncate P) a) ''initcol:'') [squote, dquote])"

definition own_params :: "('a, 'm, 'u) crsprinter \<Rightarrow> 'a SeclangActions option \<Rightarrow> string list" where
  "own_params P acts =
     (case acts of
        None \<Rightarrow> []
      | Some s \<Rightarrow>
          filter (\<lambda>p. p \<noteq> [])
            (map (initcol_param P)
              (filter (\<lambda>a. cl_GetKey (crslang.truncate P) a = ''initcol'') (csa_NonDisruptiveActions s))))"

fun collect_params :: "('a, 'm, 'u) crsprinter \<Rightarrow> ('a, 'u) unformatted \<Rightarrow> string list" where
  "collect_params P (USecRule u acts None) = own_params P acts"
| "collect_params P (USecRule u acts (Some c)) = collect_params P c @ own_params P acts"
| "collect_params P (USecAction u acts None) = own_params P acts"
| "collect_params P (USecAction u acts (Some c)) = collect_params P c @ own_params P acts"
| "collect_params P (UConfiguration n p) = []"
| "collect_params P (UOther u) = []"

definition token_end :: "char \<Rightarrow> bool" where
  "token_end c \<longleftrightarrow> c = CHR '','' \<or> c = dquote \<or> c = newline"

definition insert_initcol :: "string \<Rightarrow> string \<Rightarrow> string" where
  "insert_initcol p raw =
     (let token = ''initcol:'' @ p in
      if str_contains raw token then raw
      else case str_index raw ''initcol:'' of
             None \<Rightarrow> raw
           | Some idx \<Rightarrow>
               (let stop = idx + length (takeWhile (\<lambda>c. \<not> token_end c) (drop idx raw))
                in take stop raw @ '','' @ token @ drop stop raw))"

definition expandMultiInitcol :: "('a, 'm, 'u) crsprinter \<Rightarrow> string \<Rightarrow> ('a, 'u) unformatted list \<Rightarrow> string" where
  "expandMultiInitcol P raw dirs =
     (let params = concat (map (collect_params P) dirs) in
      if length params \<le> 1 then raw else fold insert_initcol params raw)"

section \<open>One line per directive\<close>

text \<open>\<open>seclangLineCont\<close>: a backslash, an optional carriage return, a newline, and the indent.\<close>

definition is_indent :: "char \<Rightarrow> bool" where
  "is_indent c \<longleftrightarrow> c = CHR '' '' \<or> c = CHR 0x09"

lemma dropWhile_shorter [termination_simp]: "length (dropWhile P s) < Suc (Suc (Suc (length s)))"
  using length_dropWhile_le [of P s] by simp

fun join_continuations :: "string \<Rightarrow> string" where
  "join_continuations (a # b # c # s) =
     (if a = backslash \<and> b = newline then join_continuations (dropWhile is_indent (c # s))
      else if a = backslash \<and> b = CHR 0x0D \<and> c = newline then join_continuations (dropWhile is_indent s)
      else a # join_continuations (b # c # s))"
| "join_continuations [a, b] = (if a = backslash \<and> b = newline then [] else [a, b])"
| "join_continuations s = s"

text \<open>
  \<open>key:'...'\<close> without its quotes. The value is the text up to the next single quote; \<open>ok\<close> says whether
  the expression admits it and \<open>f\<close> what is printed for it.
\<close>

function unquote :: "string \<Rightarrow> (string \<Rightarrow> bool) \<Rightarrow> (string \<Rightarrow> string) \<Rightarrow> string \<Rightarrow> string" where
  "unquote key ok f s =
     (case s of
        [] \<Rightarrow> []
      | c # t \<Rightarrow>
          (let start = key @ '':'' @ [squote];
               rest = drop (length start) s;
               v = takeWhile (\<lambda>x. x \<noteq> squote) rest
           in if has_prefix s start \<and> length v < length rest \<and> ok v
              then key @ '':'' @ f v @ unquote key ok f (drop (length v + 1) rest)
              else c # unquote key ok f t))"
  by pat_completeness auto
termination
  by (relation "measure (\<lambda>(key, ok, f, s). length s)") auto

declare unquote.simps [simp del]

definition severityNameToLevel :: "(string \<times> string) list" where
  "severityNameToLevel =
     [(''EMERGENCY'', ''0''), (''ALERT'', ''1''), (''CRITICAL'', ''2''), (''ERROR'', ''3''),
      (''WARNING'', ''4''), (''NOTICE'', ''5''), (''INFO'', ''6''), (''DEBUG'', ''7'')]"

definition severity_value :: "string \<Rightarrow> string" where
  "severity_value v =
     (case map_of severityNameToLevel (to_upper (trim_space v)) of Some n \<Rightarrow> n | None \<Rightarrow> v)"

text \<open>The loop over the severity map, in the iteration order given.\<close>

definition unquoted_severities :: "(string \<times> string) list \<Rightarrow> string \<Rightarrow> string" where
  "unquoted_severities order s =
     fold (\<lambda>(name, n) s.
             replace_all (''severity:'' @ to_lower name) (''severity:'' @ n)
               (replace_all (''severity:'' @ name) (''severity:'' @ n) s)) order s"

definition collapseSecLangLineContinuations :: "(string \<times> string) list \<Rightarrow> string \<Rightarrow> string" where
  "collapseSecLangLineContinuations order s =
     (if s = [] then []
      else
        (let s1 = replace_all '',    '' '','' (join_continuations s);
             s2 = unquote ''status'' (\<lambda>v. v \<noteq> [] \<and> list_all is_digit v) id s1;
             s3 = unquote ''initcol'' (\<lambda>_. True) id s2;
             s4 = unquote ''skipAfter'' (\<lambda>_. True) id s3;
             s5 = unquote ''severity'' (\<lambda>_. True) severity_value s4
         in trim_right_set (unquoted_severities order s5) [CHR '' '', CHR 0x09, CHR 0x0D, newline] @ [newline]))"

definition ConvertToSecLangString ::
  "(string \<times> string) list \<Rightarrow> ('a, 'm, 'u) crsprinter \<Rightarrow> ('a, 'm) SeclangDirective list \<Rightarrow> string" where
  "ConvertToSecLangString order P rules =
     (let normalized = concat (map (normalize_directive P) rules)
      in expandMultiInitcol P (collapseSecLangLineContinuations order (cp_ToSeclang P normalized)) normalized)"

definition ConvertSecActionToString ::
  "(string \<times> string) list \<Rightarrow> ('a, 'm, 'u) crsprinter \<Rightarrow> SecActionSpec \<Rightarrow> conv_error + string" where
  "ConvertSecActionToString order P spec =
     bindE (ConvertSecAction (crslang.truncate P) spec) (\<lambda>dirs. Inr (ConvertToSecLangString order P dirs))"

section \<open>Rendering one SecRule\<close>

definition no_metadata :: SecRuleMetadata where
  "no_metadata = \<lparr> md_Comment = [], md_Phase = [], md_Id = 0, md_Msg = [], md_Maturity = [], md_Rev = [],
                   md_Severity = [], md_Tags = [], md_Ver = [] \<rparr>"

text \<open>\<open>fill_id\<close>: a metadata block that keeps a positive id and takes the given one otherwise.\<close>

definition fill_id :: "int \<Rightarrow> SecRuleMetadata option \<Rightarrow> SecRuleMetadata option" where
  "fill_id i md =
     (let m = (case md of None \<Rightarrow> no_metadata | Some m \<Rightarrow> m)
      in Some (if md_Id m \<le> 0 then m\<lparr> md_Id := i \<rparr> else m))"

fun fill_bag :: "int list \<Rightarrow> SecLangSecRule list \<Rightarrow> SecLangSecRule list" where
  "fill_bag (i # ids) (r # rs) =
     (if i \<le> 0 then r else r\<lparr> slr_Metadata := fill_id i (slr_Metadata r) \<rparr>) # fill_bag ids rs"
| "fill_bag _ rs = rs"

definition applyAssignedIDs :: "SecRule \<Rightarrow> int list \<Rightarrow> SecRule" where
  "applyAssignedIDs sr ids0 =
     (let ids = (if ids0 = [] then st_AssignedIDs (sr_Status sr) else ids0); spec = sr_Spec sr in
      if ids = [] then sr
      else if IsSingleRuleForm spec then
        (if hd ids \<le> 0 then sr else sr\<lparr> sr_Spec := spec\<lparr> spec_Metadata := fill_id (hd ids) (spec_Metadata spec) \<rparr> \<rparr>)
      else sr\<lparr> sr_Spec := spec\<lparr> spec_SecRules := fill_bag ids (spec_SecRules spec) \<rparr> \<rparr>)"

datatype render_error = RenderConvert conv_error | NoDirectives | ContainsUnknownTransformation

record ('a, 'm) RenderResult =
  rr_Directives :: "('a, 'm) SeclangDirective list"
  rr_SecLang :: string

definition RenderSecRule ::
  "(string \<times> string) list \<Rightarrow> ('a, 'm, 'u) crsprinter \<Rightarrow> SecRule \<Rightarrow> int list \<Rightarrow> render_error + ('a, 'm) RenderResult" where
  "RenderSecRule order P sr ids =
     (case ConvertSecRule (crslang.truncate P) (sr_Spec (applyAssignedIDs sr ids)) of
        Inl e \<Rightarrow> Inl (RenderConvert e)
      | Inr dirs \<Rightarrow>
          if dirs = [] then Inl NoDirectives
          else (let secLang = ConvertToSecLangString order P dirs in
                if str_contains secLang ''t:unknown'' then Inl ContainsUnknownTransformation
                else Inr \<lparr> rr_Directives = dirs, rr_SecLang = secLang \<rparr>))"

definition LooksLikeMissingDataFile :: "string option \<Rightarrow> bool" where
  "LooksLikeMissingDataFile err =
     (case err of
        None \<Rightarrow> False
      | Some e \<Rightarrow>
          (let msg = to_lower e in
           str_contains msg ''.data'' \<or> str_contains msg ''pmfromfile'' \<or>
           str_contains msg ''no such file'' \<or> str_contains msg ''open ''))"

end
