(* ===== verification/Assembly.thy ===== *)
theory Assembly
  imports Render Resolver "HOL-Library.Product_Lexorder" "HOL-Library.Multiset"
begin

text \<open>
  Assembly of resolved objects into ordered SecLang, \<open>internal/references2/helpers.go\<close>.

  The stable sort by (key, name, kind) is \<^const>\<open>sort_key\<close> with the lexicographic order; Go compares
  strings by bytes, as the order on \<^typ>\<open>string\<close> here does.
\<close>

section \<open>Sort keys\<close>

definition MaxInt32 :: int where "MaxInt32 = 2 ^ 31 - 1"

definition first_positive :: "SecRuleMetadata option list \<Rightarrow> int option" where
  "first_positive mds =
     List.find (\<lambda>i. i > 0) (map (\<lambda>md. case md of None \<Rightarrow> 0 | Some m \<Rightarrow> md_Id m) mds)"

definition secRuleSortKey :: "SecRule \<Rightarrow> int" where
  "secRuleSortKey sr =
     (if spec_Order (sr_Spec sr) \<noteq> 0 then spec_Order (sr_Spec sr)
      else if st_RuleID (sr_Status sr) > 0 then st_RuleID (sr_Status sr)
      else case first_positive (spec_Metadata (sr_Spec sr) # map slr_Metadata (spec_SecRules (sr_Spec sr))) of
             Some i \<Rightarrow> i
           | None \<Rightarrow> MaxInt32)"

definition secActionSortKey :: "SecAction \<Rightarrow> int" where
  "secActionSortKey sa =
     (case first_positive [sa_Metadata (sa_Spec sa)] of Some i \<Rightarrow> i | None \<Rightarrow> MaxInt32)"

section \<open>Items\<close>

datatype lang_object = LangRule SecRule | LangAction SecAction

record langItem =
  li_kind :: string
  li_key :: int
  li_name :: string
  li_object :: lang_object

datatype assembly_error =
    DecodeFailed uobj
  | RuleFailed string string render_error
  | ActionConvertFailed conv_error

definition rule_item :: "SecRule \<Rightarrow> langItem" where
  "rule_item sr = \<lparr> li_kind = ''SecRule'', li_key = secRuleSortKey sr, li_name = om_Name (sr_Meta sr), li_object = LangRule sr \<rparr>"

definition action_item :: "SecAction \<Rightarrow> langItem" where
  "action_item sa = \<lparr> li_kind = ''SecAction'', li_key = secActionSortKey sa, li_name = om_Name (sa_Meta sa), li_object = LangAction sa \<rparr>"

definition lang_item :: "uobj \<Rightarrow> assembly_error + langItem" where
  "lang_item obj =
     (if uo_Kind obj = ''SecRule''
      then (case uo_Payload obj of PSecRule sr \<Rightarrow> Inr (rule_item sr) | _ \<Rightarrow> Inl (DecodeFailed obj))
      else (case uo_Payload obj of PSecAction sa \<Rightarrow> Inr (action_item sa) | _ \<Rightarrow> Inl (DecodeFailed obj)))"

definition is_lang :: "uobj \<Rightarrow> bool" where
  "is_lang obj \<longleftrightarrow> uo_Kind obj = ''SecRule'' \<or> uo_Kind obj = ''SecAction''"

definition lang_items :: "uobj list \<Rightarrow> assembly_error + langItem list" where
  "lang_items objects = mapE lang_item (filter is_lang objects)"

definition CountSecLangObjects :: "uobj list \<Rightarrow> nat \<times> nat" where
  "CountSecLangObjects objects =
     (length (filter (\<lambda>obj. uo_Kind obj = ''SecRule'') objects), length (filter (\<lambda>obj. uo_Kind obj = ''SecAction'') objects))"

definition item_order :: "langItem \<Rightarrow> int \<times> string \<times> string" where
  "item_order it = (li_key it, li_name it, li_kind it)"

section \<open>Assembly\<close>

definition render_item ::
  "(string \<times> string) list \<Rightarrow> ('a, 'm, 'u) crsprinter \<Rightarrow> langItem \<Rightarrow> assembly_error + string" where
  "render_item order P it =
     (case li_object it of
        LangRule sr \<Rightarrow>
          (case RenderSecRule order P sr (st_AssignedIDs (sr_Status sr)) of
             Inl e \<Rightarrow> Inl (RuleFailed (om_Namespace (sr_Meta sr)) (om_Name (sr_Meta sr)) e)
           | Inr res \<Rightarrow> Inr (rr_SecLang res))
      | LangAction sa \<Rightarrow>
          (case ConvertSecActionToString order P (sa_Spec sa) of
             Inl e \<Rightarrow> Inl (ActionConvertFailed e)
           | Inr out \<Rightarrow> Inr out))"

definition GetSecLang ::
  "(string \<times> string) list \<Rightarrow> ('a, 'm, 'u) crsprinter \<Rightarrow> uobj list \<Rightarrow> assembly_error + string list" where
  "GetSecLang order P objects =
     bindE (lang_items objects) (\<lambda>items. mapE (render_item order P) (sort_key item_order items))"

definition GetSecRule ::
  "(string \<times> string) list \<Rightarrow> ('a, 'm, 'u) crsprinter \<Rightarrow> uobj list \<Rightarrow> assembly_error + string list" where
  "GetSecRule order P objects = GetSecLang order P objects"

end
