(* ===== verification/RenderThms.thy ===== *)
theory RenderThms
  imports Render IdPoolThms
begin

text \<open>
  Properties of rendering: the ids that reach the text are the allocated ones, repeated \<open>initcol\<close>
  actions are restored, and what the clean-up of the text does to the argument of an operator.
\<close>

section \<open>Assigned ids\<close>

lemma metaID_fill_id: "0 < i \<Longrightarrow> metaID (fill_id i md) = (if 0 < metaID md then metaID md else i)"
  by (auto simp: fill_id_def metaID_def no_metadata_def Let_def split: option.splits)

lemma length_fill_bag [simp]: "length (fill_bag ids rs) = length rs"
  by (induction ids rs rule: fill_bag.induct) auto

lemma fill_bag_ids:
  assumes "length ids = length rs" and "\<forall>i \<in> set ids. 0 < i"
    and "\<forall>k < length rs. 0 < metaID (slr_Metadata (rs ! k)) \<longrightarrow> ids ! k = metaID (slr_Metadata (rs ! k))"
  shows "map (\<lambda>r. metaID (slr_Metadata r)) (fill_bag ids rs) = ids"
  using assms
proof (induction ids rs rule: fill_bag.induct)
  case (1 i ids r rs)
  have "\<forall>k < length rs. 0 < metaID (slr_Metadata (rs ! k)) \<longrightarrow> ids ! k = metaID (slr_Metadata (rs ! k))"
    using "1.prems"(3) by (metis Suc_less_eq length_Cons nth_Cons_Suc)
  moreover have "0 < metaID (slr_Metadata r) \<Longrightarrow> i = metaID (slr_Metadata r)" using "1.prems"(3) by force
  ultimately show ?case using 1 by (auto simp: metaID_fill_id)
qed auto

lemma IsSingleRuleForm_bag:
  "length rs = length (spec_SecRules s) \<Longrightarrow> IsSingleRuleForm (s\<lparr> spec_SecRules := rs \<rparr>) = IsSingleRuleForm s"
  by (simp add: IsSingleRuleForm_def)



section \<open>Repeated initcol actions\<close>

lemma str_contains_prefix: "str_contains s (p @ q) \<Longrightarrow> str_contains s p"
  unfolding str_contains_iff by (metis append_assoc)

lemma str_contains_insert:
  assumes "str_contains (x @ y) t" and "\<forall>c \<in> set t. \<not> token_end c" and "y = [] \<or> token_end (hd y)"
  shows "str_contains (x @ z @ y) t"
proof -
  from assms(1) obtain u v where uv: "x @ y = u @ t @ v" by (auto simp: str_contains_iff)
  then consider (left) v' where "x = u @ t @ v'" | (right) u' where "y = u' @ t @ v"
    | (across) t1 t2 where "t = t1 @ t2" "t2 \<noteq> []" "y = t2 @ v"
    unfolding append_eq_append_conv2 by (metis append.assoc append.right_neutral append_eq_append_conv2)
  then show ?thesis
  proof cases
    case left
    then show ?thesis by (auto simp: str_contains_iff)
  next
    case right
    then have "x @ z @ y = (x @ z @ u') @ t @ v" by simp
    then show ?thesis unfolding str_contains_iff by blast
  next
    case across
    then have "hd y \<in> set t" by (cases t2) auto
    with across assms(2,3) show ?thesis by auto
  qed
qed

lemma insert_initcol_shape:
  "insert_initcol p raw = raw \<or>
   (\<exists>x y. raw = x @ y \<and> (y = [] \<or> token_end (hd y)) \<and> insert_initcol p raw = x @ ('','' @ ''initcol:'' @ p) @ y)"
proof (cases "str_contains raw (''initcol:'' @ p) \<or> str_index raw ''initcol:'' = None")
  case True
  then show ?thesis by (auto simp: insert_initcol_def Let_def)
next
  case False
  then obtain idx where idx: "str_index raw ''initcol:'' = Some idx" by auto
  define n where "n = length (takeWhile (\<lambda>c. \<not> token_end c) (drop idx raw))"
  have "drop n (drop idx raw) = dropWhile (\<lambda>c. \<not> token_end c) (drop idx raw)"
    unfolding n_def by (simp add: dropWhile_eq_drop)
  then have "drop (idx + n) raw = [] \<or> token_end (hd (drop (idx + n) raw))"
    by (metis add.commute drop_drop hd_dropWhile)
  moreover have "insert_initcol p raw = take (idx + n) raw @ ('','' @ ''initcol:'' @ p) @ drop (idx + n) raw"
    using False idx by (simp add: insert_initcol_def n_def Let_def)
  ultimately show ?thesis by (metis append_take_drop_id)
qed

lemma insert_initcol_keeps:
  "str_contains raw t \<Longrightarrow> \<forall>c \<in> set t. \<not> token_end c \<Longrightarrow> str_contains (insert_initcol p raw) t"
  using insert_initcol_shape [of p raw] str_contains_insert by metis

lemma insert_initcol_adds:
  assumes "str_contains raw ''initcol:''"
  shows "str_contains (insert_initcol p raw) (''initcol:'' @ p)"
proof (cases "str_contains raw (''initcol:'' @ p)")
  case True
  then show ?thesis by (simp add: insert_initcol_def)
next
  case False
  from assms obtain idx where "str_index raw ''initcol:'' = Some idx" by (auto simp: str_contains_def)
  with False obtain x y where "insert_initcol p raw = (x @ '','') @ (''initcol:'' @ p) @ y"
    by (auto simp: insert_initcol_def Let_def)
  then show ?thesis unfolding str_contains_iff by blast
qed

lemma fold_insert_initcol:
  assumes "str_contains raw ''initcol:''" and "\<forall>p \<in> set ps. \<forall>c \<in> set p. \<not> token_end c"
  shows "(\<forall>t. str_contains raw t \<longrightarrow> (\<forall>c \<in> set t. \<not> token_end c) \<longrightarrow> str_contains (fold insert_initcol ps raw) t) \<and>
    (\<forall>p \<in> set ps. str_contains (fold insert_initcol ps raw) (''initcol:'' @ p))"
  using assms
proof (induction ps arbitrary: raw)
  case (Cons p ps)
  let ?raw = "insert_initcol p raw"
  have ini: "\<forall>c \<in> set ''initcol:''. \<not> token_end c" by (simp add: token_end_def)
  have "str_contains ?raw ''initcol:''" by (rule insert_initcol_keeps [OF Cons.prems(1) ini])
  note IH = Cons.IH [OF this]
  have tok: "\<forall>c \<in> set (''initcol:'' @ p). \<not> token_end c" using ini Cons.prems(2) by auto
  have "str_contains (fold insert_initcol ps ?raw) (''initcol:'' @ p)"
    using IH Cons.prems(2) tok insert_initcol_adds [OF Cons.prems(1)] by auto
  with IH Cons.prems(2) insert_initcol_keeps show ?case by auto
qed simp

text \<open>
  When rules have more than one \<open>initcol\<close> and the printed text has any, the text handed on has
  every one of them, provided no parameter holds a comma, a double quote or a newline.
\<close>

theorem initcols_restored:
  assumes "params = concat (map (collect_params P) dirs)" and "length params > 1" and "str_contains raw ''initcol:''"
    and "\<forall>p \<in> set params. \<forall>c \<in> set p. \<not> token_end c" and "p \<in> set params"
  shows "str_contains (expandMultiInitcol P raw dirs) (''initcol:'' @ p)"
  using fold_insert_initcol [OF assms(3,4)] assms(1,2,5) by (auto simp: expandMultiInitcol_def Let_def)

section \<open>The argument of an operator\<close>

lemma not_contains_tl: "\<not> str_contains (c # s) p \<Longrightarrow> \<not> str_contains s p"
  unfolding str_contains_iff by (metis append_Cons)

lemma not_contains_prefix: "\<not> str_contains s p \<Longrightarrow> \<not> has_prefix s p"
  unfolding str_contains_iff has_prefix_iff by (metis append_Nil)

lemma replace_all_absent: "\<not> str_contains s old \<Longrightarrow> replace_all old new s = s"
proof (induction s)
  case Nil
  then show ?case by (subst replace_all.simps) (auto dest: not_contains_prefix)
next
  case (Cons c s)
  then show ?case by (subst replace_all.simps) (auto dest: not_contains_prefix not_contains_tl)
qed

lemma unquote_absent: "\<not> str_contains s (key @ '':'' @ [squote]) \<Longrightarrow> unquote key ok f s = s"
proof (induction s)
  case Nil
  then show ?case by (subst unquote.simps) simp
next
  case (Cons c s)
  from not_contains_prefix [OF Cons.prems] not_contains_tl [OF Cons.prems] Cons.IH
  show ?case by (subst unquote.simps) (simp add: Let_def)
qed

lemma join_continuations_id: "backslash \<notin> set s \<Longrightarrow> join_continuations s = s"
  by (induction s rule: join_continuations.induct) auto

lemma collapse_plain:
  assumes "s \<noteq> []" "backslash \<notin> set s" "\<not> str_contains s1 [squote]" "s1 = replace_all '',    '' '','' s"
  shows "collapseSecLangLineContinuations order s =
    trim_right_set (unquoted_severities order s1) [CHR '' '', CHR 0x09, CHR 0x0D, newline] @ [newline]"
proof -
  have "\<not> str_contains s1 (key @ '':'' @ [squote])" for key
    using assms(3) unfolding str_contains_iff by (metis append_assoc)
  from unquote_absent [OF this] assms show ?thesis
    by (simp add: collapseSecLangLineContinuations_def join_continuations_id)
qed

lemma unquoted_severities_absent: "\<not> str_contains s ''severity:'' \<Longrightarrow> unquoted_severities order s = s"
proof (induction order)
  case (Cons x order)
  then have "\<not> str_contains s (''severity:'' @ n)" for n using str_contains_prefix by blast
  from Cons replace_all_absent [OF this] show ?case by (auto simp: unquoted_severities_def split: prod.split)
qed (simp add: unquoted_severities_def)

text \<open>
  The clean-up of the printed text also rewrites the arguments of operators: a pattern that
  contains a comma followed by four spaces loses the spaces.
\<close>

theorem collapse_rewrites_patterns:
  "collapseSecLangLineContinuations order
     (''SecRule ARGS '' @ [dquote] @ ''@rx a,    b'' @ [dquote] @ '' '' @ [dquote] @ ''id:1,deny'' @ [dquote]) =
   ''SecRule ARGS '' @ [dquote] @ ''@rx a,b'' @ [dquote] @ '' '' @ [dquote] @ ''id:1,deny'' @ [dquote, newline]"
proof -
  let ?in = "''SecRule ARGS '' @ [dquote] @ ''@rx a,    b'' @ [dquote] @ '' '' @ [dquote] @ ''id:1,deny'' @ [dquote]"
  let ?out = "''SecRule ARGS '' @ [dquote] @ ''@rx a,b'' @ [dquote] @ '' '' @ [dquote] @ ''id:1,deny'' @ [dquote]"
  have r: "?out = replace_all '',    '' '','' ?in" by code_simp
  have "\<not> str_contains ?out [squote]" "\<not> str_contains ?out ''severity:''"
    by (simp_all add: str_contains_def has_prefix_def)
  with collapse_plain [OF _ _ _ r] show ?thesis by (simp add: unquoted_severities_absent trim_right_set_def)
qed

definition demo_printer :: "(string \<times> string, SecRuleMetadata, unit) crsprinter" where
  "demo_printer =
     \<lparr> cl_zeroVariable = ''UNKNOWN_VAR'', cl_zeroOperator = ''UnknownOperator'',
       cl_zeroTransformation = ''UnknownTransformation'', cl_TransformationString = TransformationMapperCSR,
       cl_NewActionOnly = (\<lambda>t. None), cl_NewActionWithParam = (\<lambda>t v. None), cl_GetKey = fst,
       cl_ToString = (\<lambda>(k, v). k @ '':'' @ v), cl_Setvar = (\<lambda>_. None), cl_zeroMetadata = no_metadata,
       cl_CopyMetadata = Some, cl_ReadMetadata = Some,
       cp_FromCRSLang = (\<lambda>r. None), cp_ToSeclang = (\<lambda>ds. []), cp_GetParam = (\<lambda>a. Some (snd a)) \<rparr>"

definition demo_action :: "(string \<times> string, unit) unformatted" where
  "demo_action = USecAction () (Some (no_csr_actions\<lparr> csa_NonDisruptiveActions :=
     [(''initcol'', ''global=global''), (''initcol'', ''ip=1'')] \<rparr>)) None"

theorem initcols_restored_witness:
  "str_contains (expandMultiInitcol demo_printer ''SecAction initcol:global=global,pass'' [demo_action]) ''initcol:ip=1''"
proof -
  have params: "[''global=global'', ''ip=1''] = concat (map (collect_params demo_printer) [demo_action])"
    by (simp add: demo_action_def own_params_def initcol_param_def demo_printer_def no_csr_actions_def crslang.truncate_def)
  have "str_contains (expandMultiInitcol demo_printer ''SecAction initcol:global=global,pass'' [demo_action])
      (''initcol:'' @ ''ip=1'')"
    by (rule initcols_restored [OF params]) (simp_all add: token_end_def str_contains_def has_prefix_def)
  then show ?thesis by simp
qed

end
