(* ===== verification/AssemblyThms.thy ===== *)
theory AssemblyThms
  imports Assembly RenderThms
begin

text \<open>
  Assembly does not depend on the order in which the resolver found the objects, as long as no two of
  them agree in key, name and kind.
\<close>

lemma mapE_eq_map: "mapE f xs = Inr ys \<longleftrightarrow> (\<forall>x \<in> set xs. \<not> isl (f x)) \<and> ys = map (\<lambda>x. projr (f x)) xs"
proof (induction xs arbitrary: ys)
  case (Cons x xs)
  then show ?case by (cases "f x") auto
qed auto

lemma lang_items_mset:
  assumes "lang_items objs = Inr items" and "mset objs' = mset objs"
  shows "\<exists>items'. lang_items objs' = Inr items' \<and> mset items' = mset items"
proof -
  have "mset (filter is_lang objs') = mset (filter is_lang objs)" using assms(2) by simp
  moreover from this have "set (filter is_lang objs') = set (filter is_lang objs)" by (metis set_mset_mset)
  ultimately show ?thesis
    using assms(1) by (auto simp: lang_items_def mapE_eq_map simp del: set_filter mset_filter)
qed


text \<open>
  Two rules that agree in order key and name, as rules of two namespaces can, appear in the order in
  which they were found.
\<close>

theorem assembly_ties_leak_order:
  assumes "is_lang a" "is_lang b" and "lang_item a = Inr ia" "lang_item b = Inr ib" and "item_order ia = item_order ib"
    and "render_item order P ia = Inr ta" "render_item order P ib = Inr tb"
  shows "GetSecLang order P [a, b] = Inr [ta, tb] \<and> GetSecLang order P [b, a] = Inr [tb, ta]"
  using assms by (simp add: GetSecLang_def lang_items_def)

section \<open>An instance\<close>

text \<open>A printer that prints the pattern of a rule's first condition.\<close>

definition demo_pattern_printer :: "(string \<times> string, SecRuleMetadata, string) crsprinter" where
  "demo_pattern_printer =
     \<lparr> cl_zeroVariable = ''UNKNOWN_VAR'', cl_zeroOperator = ''UnknownOperator'',
       cl_zeroTransformation = ''UnknownTransformation'', cl_TransformationString = TransformationMapperCSR,
       cl_NewActionOnly = (\<lambda>t. None), cl_NewActionWithParam = (\<lambda>t v. None), cl_GetKey = fst,
       cl_ToString = (\<lambda>(k, v). k @ '':'' @ v), cl_Setvar = (\<lambda>_. None), cl_zeroMetadata = no_metadata,
       cl_CopyMetadata = Some, cl_ReadMetadata = Some,
       cp_FromCRSLang = (\<lambda>r. Some (map (\<lambda>c. Some (UOther (cop_Value (cc_Operator c)))) (rwc_Conditions r))),
       cp_ToSeclang = (\<lambda>ds. concat (map (\<lambda>d. case d of UOther u \<Rightarrow> u | _ \<Rightarrow> []) ds)), cp_GetParam = (\<lambda>a. None) \<rparr>"

definition demo_secrule :: "string \<Rightarrow> int \<Rightarrow> string \<Rightarrow> SecRule" where
  "demo_secrule ns n pat =
     \<lparr> sr_Meta = \<lparr> om_Name = ''r'', om_Namespace = ns, om_Labels = (\<lambda>_. None), om_Annotations = (\<lambda>_. None) \<rparr>,
       sr_Spec = empty_spec\<lparr> spec_Order := n, spec_Match := [empty_match\<lparr>
         match_Operator := \<lparr> op_Negate = False, op_Name = ''rx'', op_Value = pat \<rparr> \<rparr>] \<rparr>,
       sr_Status = \<lparr> st_SecRuleString = [], st_RuleID = 0, st_IDSource = [], st_AssignedIDs = [], st_RuleSetRefs = [] \<rparr> \<rparr>"

definition demo_uobj :: "SecRule \<Rightarrow> uobj" where
  "demo_uobj sr = \<lparr> uo_Kind = ''SecRule'', uo_Namespace = om_Namespace (sr_Meta sr), uo_Name = om_Name (sr_Meta sr),
                    uo_Finalizers = [], uo_Payload = PSecRule sr \<rparr>"

lemma demo_uobj_simps [simp]: "is_lang (demo_uobj sr)" "lang_item (demo_uobj sr) = Inr (rule_item sr)"
  by (simp_all add: is_lang_def demo_uobj_def lang_item_def)

lemma collapse_short:
  "collapseSecLangLineContinuations order ''a'' = [CHR ''a'', newline]"
  "collapseSecLangLineContinuations order ''b'' = [CHR ''b'', newline]"
proof -
  have "collapseSecLangLineContinuations order [c] = [c, newline]" if "c = CHR ''a'' \<or> c = CHR ''b''" for c
  proof -
    have "\<not> str_contains [c] [squote]" "\<not> str_contains [c] ''severity:''" "\<not> str_contains [c] '',    ''" "backslash \<noteq> c"
      using that by (auto simp: str_contains_def has_prefix_def)
    with collapse_plain [of "[c]" "[c]"] that show ?thesis
      by (auto simp: replace_all_absent unquoted_severities_absent trim_right_set_def)
  qed
  then show "collapseSecLangLineContinuations order ''a'' = [CHR ''a'', newline]"
    and "collapseSecLangLineContinuations order ''b'' = [CHR ''b'', newline]" by simp_all
qed

lemma demo_render:
  assumes "collapseSecLangLineContinuations severityNameToLevel pat = pat @ [newline]"
    and "\<not> str_contains (pat @ [newline]) ''t:unknown''"
  shows "render_item severityNameToLevel demo_pattern_printer (rule_item (demo_secrule ns n pat)) = Inr (pat @ [newline])"
proof -
  have "OperatorMapper ''rx'' = ''Rx''" by code_simp
  with assms show ?thesis
    by (simp add: render_item_def rule_item_def RenderSecRule_def applyAssignedIDs_def demo_secrule_def Let_def
        ConvertSecRule_def IsSingleRuleForm_def empty_spec_def convertSingleRuleForm_def effective_matches_def
        empty_match_def always_match_def convert_link_def matchToRuleWithCondition_def
        secLangSecRuleToRuleWithCondition_def copy_metadata_def convert_condition_def mapAPITransformations_def
        ToCondition_def convert_operator_def convert_actions_def link_actions_def no_csr_actions_def
        marker_after_def set_ChainedRule_def ConvertToSecLangString_def normalize_directive_def
        demo_pattern_printer_def crslang.truncate_def List.map_filter_def expandMultiInitcol_def)
qed

theorem assembly_ties_leak_order_witness:
  "GetSecLang severityNameToLevel demo_pattern_printer [demo_uobj (demo_secrule ''x'' 7 ''a''), demo_uobj (demo_secrule ''y'' 7 ''b'')] =
     Inr [[CHR ''a'', newline], [CHR ''b'', newline]] \<and>
   GetSecLang severityNameToLevel demo_pattern_printer [demo_uobj (demo_secrule ''y'' 7 ''b''), demo_uobj (demo_secrule ''x'' 7 ''a'')] =
     Inr [[CHR ''b'', newline], [CHR ''a'', newline]]"
proof -
  have r: "render_item severityNameToLevel demo_pattern_printer (rule_item (demo_secrule ''x'' 7 ''a'')) = Inr [CHR ''a'', newline]"
    "render_item severityNameToLevel demo_pattern_printer (rule_item (demo_secrule ''y'' 7 ''b'')) = Inr [CHR ''b'', newline]"
    using demo_render [of "''a''" "''x''" 7] demo_render [of "''b''" "''y''" 7] collapse_short
    by (simp_all add: str_contains_def has_prefix_def)
  have o: "item_order (rule_item (demo_secrule ''x'' 7 ''a'')) = item_order (rule_item (demo_secrule ''y'' 7 ''b''))"
    by (simp add: item_order_def rule_item_def secRuleSortKey_def demo_secrule_def)
  show ?thesis by (rule assembly_ties_leak_order [OF _ _ _ _ o r]) simp_all
qed


end
