(* ===== verification/ProbeAssemble.thy ===== *)
theory ProbeAssemble
  imports Assembly PhraseFiles
begin

text \<open>
  Documents for probe evaluation, \<open>internal/probeassemble\<close>, and \<open>withDataFiles\<close> of
  \<open>internal/subresourceapi/server.go\<close>, which joins the two halves.

  The package repeats code of the data plane and of \<open>references2\<close>; the copies are translated again
  here, loop by loop, and \<open>ProbeThms\<close> shows that they agree. The regular expression is that of
  \<open>FromFile\<close>. A provider of list bodies is a function that answers with the body, whether it is ready
  and whether it was found.
\<close>

section \<open>Scanning\<close>

definition note_base :: "string \<Rightarrow> string list \<Rightarrow> string list" where
  "note_base base out = (if base = [] \<or> base = ''.'' then out else if base \<in> set out then out else out @ [base])"

definition note_line :: "string \<Rightarrow> string list \<Rightarrow> string list" where
  "note_line line out =
     (let trim = trim_space line in
      if trim = [] \<or> has_prefix trim ''#'' then out else fold note_base (fromfile_tokens line) out)"

definition probe_ScanPmFromFileBasenames :: "string list \<Rightarrow> string list" where
  "probe_ScanPmFromFileBasenames directives =
     sort (fold (\<lambda>raw out. fold note_line (split_on newline raw) out) directives [])"

definition probe_lineReferences :: "string \<Rightarrow> string list \<Rightarrow> bool" where
  "probe_lineReferences line basenames \<longleftrightarrow> list_ex (\<lambda>base. base \<in> set basenames) (fromfile_tokens line)"

fun drop_loop :: "string list \<Rightarrow> string list \<Rightarrow> string list" where
  "drop_loop basenames [] = []"
| "drop_loop basenames (line # rest) =
     (if probe_lineReferences line basenames then drop_loop basenames rest else line # drop_loop basenames rest)"

definition probe_DropSecLangLinesWithBasenames :: "string list \<Rightarrow> string list \<Rightarrow> string list" where
  "probe_DropSecLangLinesWithBasenames directives basenames =
     (if basenames = [] then directives else drop_loop basenames directives)"

section \<open>Ids\<close>

definition ApplyAssignedIDs :: "SecRule \<Rightarrow> int list \<Rightarrow> SecRule" where
  "ApplyAssignedIDs sr ids0 =
     (let ids = (if ids0 = [] then st_AssignedIDs (sr_Status sr) else ids0); spec = sr_Spec sr in
      if ids = [] then sr
      else if IsSingleRuleForm spec then
        (if hd ids \<le> 0 then sr else sr\<lparr> sr_Spec := spec\<lparr> spec_Metadata := fill_id (hd ids) (spec_Metadata spec) \<rparr> \<rparr>)
      else sr\<lparr> sr_Spec := spec\<lparr> spec_SecRules := fill_bag ids (spec_SecRules spec) \<rparr> \<rparr>)"

definition has_id :: "SecRuleMetadata option \<Rightarrow> bool" where
  "has_id md \<longleftrightarrow> (case md of None \<Rightarrow> False | Some m \<Rightarrow> md_Id m > 0)"

text \<open>\<open>EnsureRuleIDs\<close> returns no error.\<close>

definition EnsureRuleIDs :: "SecRule \<Rightarrow> bool" where
  "EnsureRuleIDs sr \<longleftrightarrow>
     (if IsSingleRuleForm (sr_Spec sr) then has_id (spec_Metadata (sr_Spec sr))
      else spec_SecRules (sr_Spec sr) \<noteq> [] \<and> list_all (\<lambda>r. has_id (slr_Metadata r)) (spec_SecRules (sr_Spec sr)))"

section \<open>Documents\<close>

definition Preamble :: "string list" where
  "Preamble = [''SecRuleEngine On'', ''SecRequestBodyAccess On'', ''SecResponseBodyAccess Off'']"

definition CRSSetupVersionStamp :: int where "CRSSetupVersionStamp = 427"

definition StampOnly900990 :: string where
  "StampOnly900990 =
     ''SecAction '' @ [dquote] @ ''id:900990,phase:1,nolog,pass,setvar:tx.crs_setup_version='' @
     itoa CRSSetupVersionStamp @ [dquote]"

definition probe_CRSSetupActions :: "CRSTuning option \<Rightarrow> string list" where
  "probe_CRSSetupActions tuning =
     (case tuning of
        None \<Rightarrow> []
      | Some crs \<Rightarrow>
          (let s0 = [''setvar:tx.crs_setup_version='' @ itoa CRSSetupVersionStamp];
               s1 = (case crs_ParanoiaLevel crs of None \<Rightarrow> s0
                     | Some pl \<Rightarrow> s0 @ [''setvar:tx.detection_paranoia_level='' @ itoa pl,
                                        ''setvar:tx.blocking_paranoia_level='' @ itoa pl]);
               s2 = (case crs_InboundAnomalyThreshold crs of None \<Rightarrow> s1
                     | Some n \<Rightarrow> s1 @ [''setvar:tx.inbound_anomaly_score_threshold='' @ itoa n]);
               s3 = (case crs_OutboundAnomalyThreshold crs of None \<Rightarrow> s2
                     | Some n \<Rightarrow> s2 @ [''setvar:tx.outbound_anomaly_score_threshold='' @ itoa n])
           in [''SecAction '' @ [dquote] @ ''id:900990,phase:1,nolog,pass,'' @ join '','' s3 @ [dquote]]))"

definition probe_CRSExclusions :: "CRSTuning option \<Rightarrow> string list" where
  "probe_CRSExclusions tuning =
     (case tuning of
        None \<Rightarrow> []
      | Some crs \<Rightarrow>
          map (\<lambda>i. ''SecRuleRemoveById '' @ itoa i) (crs_RemoveByID crs) @
          map (\<lambda>t. ''SecRuleRemoveByTag '' @ t) (crs_RemoveByTag crs) @
          concat (map (\<lambda>te.
            if te_RemoveTargets te = [] then []
            else [''SecRuleUpdateTargetById '' @ itoa (te_ID te) @ '' '' @ [dquote] @
                  join ''|'' (map (\<lambda>t. ''!'' @ t) (te_RemoveTargets te)) @ [dquote]]) (crs_UpdateTargetByID crs)))"

definition JoinDocument :: "string list list \<Rightarrow> string" where
  "JoinDocument parts = join [newline] (filter (\<lambda>l. l \<noteq> []) (map trim_space (concat parts)))"

definition counts_line :: "string \<Rightarrow> bool" where
  "counts_line line \<longleftrightarrow> trim_space line \<noteq> [] \<and> \<not> has_prefix (trim_space line) ''#''"

definition CountNonEmptyLines :: "string \<Rightarrow> nat" where
  "CountNonEmptyLines doc = length (filter counts_line (split_on newline doc))"

definition countNonEmpty :: "string list \<Rightarrow> nat" where
  "countNonEmpty lines = length (filter counts_line lines)"

definition splitLines :: "string \<Rightarrow> string list" where
  "splitLines s = (if s = [] then [] else filter (\<lambda>line. trim_space line \<noteq> []) (split_on newline s))"

record AssemblyResult =
  ar_Directives :: string
  ar_RulesLoaded :: nat
  ar_ActionsLoaded :: nat
  ar_DirectivesCount :: nat
  ar_DataFileBasenames :: "string list"

definition AssembleFromRuleLines :: "string list \<Rightarrow> bool \<Rightarrow> CRSTuning option \<Rightarrow> AssemblyResult" where
  "AssembleFromRuleLines ruleLines stamp crs =
     (let parts = [Preamble] @
            (if crs \<noteq> None then [probe_CRSSetupActions crs] else if stamp then [[StampOnly900990]] else []) @
            [ruleLines] @ (if crs \<noteq> None then [probe_CRSExclusions crs] else []);
          doc = JoinDocument parts
      in \<lparr> ar_Directives = doc, ar_RulesLoaded = countNonEmpty ruleLines, ar_ActionsLoaded = 0,
           ar_DirectivesCount = CountNonEmptyLines doc, ar_DataFileBasenames = probe_ScanPmFromFileBasenames ruleLines \<rparr>)"

section \<open>Assembly of objects\<close>

datatype probe_error =
    ProbeDecode uobj
  | RuleIDsUnresolved
  | ProbeConvert conv_error
  | ProbeLookup pf_error
  | DataFileUnresolved string
  | PhraseListNotReady string
  | ProbeFilesTooLarge int

definition AssembleSecRule ::
  "(string \<times> string) list \<Rightarrow> ('a, 'm, 'u) crsprinter \<Rightarrow> SecRule \<Rightarrow> probe_error + AssemblyResult" where
  "AssembleSecRule order P sr =
     (let withIDs = ApplyAssignedIDs sr [] in
      if \<not> EnsureRuleIDs withIDs then Inl RuleIDsUnresolved
      else (case ConvertSecRule (crslang.truncate P) (sr_Spec withIDs) of
              Inl e \<Rightarrow> Inl (ProbeConvert e)
            | Inr dirs \<Rightarrow>
                (let ruleLines = splitLines (ConvertToSecLangString order P dirs);
                     doc = JoinDocument [Preamble, ruleLines]
                 in Inr \<lparr> ar_Directives = doc, ar_RulesLoaded = length ruleLines, ar_ActionsLoaded = 0,
                          ar_DirectivesCount = CountNonEmptyLines doc,
                          ar_DataFileBasenames = probe_ScanPmFromFileBasenames (Preamble @ ruleLines) \<rparr>)))"

fun first_bag_id :: "SecLangSecRule list \<Rightarrow> int" where
  "first_bag_id [] = MaxInt32"
| "first_bag_id (r # rs) = (if has_id (slr_Metadata r) then md_Id (the (slr_Metadata r)) else first_bag_id rs)"

definition probe_secRuleSortKey :: "SecRule \<Rightarrow> int" where
  "probe_secRuleSortKey sr =
     (if spec_Order (sr_Spec sr) \<noteq> 0 then spec_Order (sr_Spec sr)
      else if st_RuleID (sr_Status sr) > 0 then st_RuleID (sr_Status sr)
      else if has_id (spec_Metadata (sr_Spec sr)) then md_Id (the (spec_Metadata (sr_Spec sr)))
      else first_bag_id (spec_SecRules (sr_Spec sr)))"

definition probe_secActionSortKey :: "SecAction \<Rightarrow> int" where
  "probe_secActionSortKey sa =
     (if has_id (sa_Metadata (sa_Spec sa)) then md_Id (the (sa_Metadata (sa_Spec sa))) else MaxInt32)"

text \<open>\<open>pathBItem\<close> has the fields of \<open>langItem\<close>.\<close>

definition pathBItemFromUnstructured :: "uobj \<Rightarrow> probe_error + langItem option" where
  "pathBItemFromUnstructured obj =
     (if uo_Kind obj = ''SecRule''
      then (case uo_Payload obj of PSecRule sr \<Rightarrow>
                Inr (Some \<lparr> li_kind = ''SecRule'', li_key = probe_secRuleSortKey sr,
                            li_name = om_Name (sr_Meta sr), li_object = LangRule sr \<rparr>)
            | _ \<Rightarrow> Inl (ProbeDecode obj))
      else if uo_Kind obj = ''SecAction''
      then (case uo_Payload obj of PSecAction sa \<Rightarrow>
                Inr (Some \<lparr> li_kind = ''SecAction'', li_key = probe_secActionSortKey sa,
                            li_name = om_Name (sa_Meta sa), li_object = LangAction sa \<rparr>)
            | _ \<Rightarrow> Inl (ProbeDecode obj))
      else Inr None)"

definition seclangLines ::
  "(string \<times> string) list \<Rightarrow> ('a, 'm, 'u) crsprinter \<Rightarrow> langItem \<Rightarrow> probe_error + string list" where
  "seclangLines order P it =
     (case li_object it of
        LangRule sr0 \<Rightarrow>
          (let sr = ApplyAssignedIDs sr0 [] in
           if \<not> EnsureRuleIDs sr then Inl RuleIDsUnresolved
           else (case ConvertSecRule (crslang.truncate P) (sr_Spec sr) of
                   Inl e \<Rightarrow> Inl (ProbeConvert e)
                 | Inr dirs \<Rightarrow> Inr (splitLines (ConvertToSecLangString order P dirs))))
      | LangAction sa \<Rightarrow>
          (case ConvertSecActionToString order P (sa_Spec sa) of
             Inl e \<Rightarrow> Inl (ProbeConvert e)
           | Inr out \<Rightarrow> Inr (splitLines out)))"

definition AssembleResolved ::
  "(string \<times> string) list \<Rightarrow> ('a, 'm, 'u) crsprinter \<Rightarrow> uobj list \<Rightarrow> bool \<Rightarrow> CRSTuning option \<Rightarrow> probe_error + AssemblyResult" where
  "AssembleResolved order P objects stamp crs =
     bindE (mapE pathBItemFromUnstructured objects) (\<lambda>found.
       (let items = sort_key item_order (List.map_filter id found) in
        bindE (mapE (seclangLines order P) items) (\<lambda>lines.
          Inr ((AssembleFromRuleLines (concat lines) stamp crs)
               \<lparr> ar_RulesLoaded := length (filter (\<lambda>it. li_kind it = ''SecRule'') items),
                 ar_ActionsLoaded := length (filter (\<lambda>it. li_kind it = ''SecAction'') items) \<rparr>))))"

section \<open>References\<close>

definition default_gv :: "string \<Rightarrow> RuleRef \<Rightarrow> RuleRef" where
  "default_gv grp ref =
     ref\<lparr> rr_Group := (if rr_Group ref = [] then grp else rr_Group ref),
          rr_Version := (if rr_Version ref = [] then ''v1beta1'' else rr_Version ref) \<rparr>"

definition DefaultRuleRef :: "string \<Rightarrow> RuleRef \<Rightarrow> RuleRef" where
  "DefaultRuleRef ownerNS ref =
     (let r = (if rr_Namespace ref = [] then ref\<lparr> rr_Namespace := ownerNS \<rparr> else ref) in
      if rr_Kind r = ''SecRule'' \<or> rr_Kind r = ''SecAction'' then default_gv ''seclang.kubewaf.io'' r
      else if rr_Kind r = ''RuleSet'' \<or> rr_Kind r = [] then default_gv ''waf.kubewaf.io'' (r\<lparr> rr_Kind := ''RuleSet'' \<rparr>)
      else default_gv ''waf.kubewaf.io'' r)"

definition DefaultRuleRefs :: "string \<Rightarrow> RuleRef list \<Rightarrow> RuleRef list" where
  "DefaultRuleRefs ownerNS refs = map (DefaultRuleRef ownerNS) refs"

definition CRSTuningFromWAF :: "CRSTuning option \<Rightarrow> CRSTuning option" where
  "CRSTuningFromWAF tuning =
     map_option (\<lambda>t. \<lparr> crs_ParanoiaLevel = crs_ParanoiaLevel t,
                        crs_InboundAnomalyThreshold = crs_InboundAnomalyThreshold t,
                        crs_OutboundAnomalyThreshold = crs_OutboundAnomalyThreshold t,
                        crs_RemoveByID = crs_RemoveByID t, crs_RemoveByTag = crs_RemoveByTag t,
                        crs_UpdateTargetByID = crs_UpdateTargetByID t \<rparr>) tuning"

definition PhraseListPolicyFromWAF :: "string \<Rightarrow> string" where
  "PhraseListPolicyFromWAF p =
     (if p = PhraseListPolicyIgnoreUnknown then PhraseListPolicyIgnoreUnknown else PhraseListPolicyFailClosed)"

section \<open>Data files\<close>

definition listFileName :: "string \<Rightarrow> string \<Rightarrow> string" where
  "listFileName spec status = (if spec \<noteq> [] then spec else status)"

text \<open>
  The loop over the lists of one kind: the one match that is ready, and whether any list has the name.
\<close>

fun pick_loop ::
  "string \<Rightarrow> string \<Rightarrow> ListResource option \<Rightarrow> bool \<Rightarrow> ListResource list \<Rightarrow> pf_error + (ListResource option \<times> bool)" where
  "pick_loop ns basename readyMatch anyMatch [] = Inr (readyMatch, anyMatch)"
| "pick_loop ns basename readyMatch anyMatch (pl # pls) =
     (if listFileName (pl_FileName pl) (pl_StatusFileName pl) \<noteq> basename
      then pick_loop ns basename readyMatch anyMatch pls
      else if \<not> pl_Ready pl then pick_loop ns basename readyMatch True pls
      else if readyMatch \<noteq> None then Inl (FileNameConflict ns basename)
      else pick_loop ns basename (Some pl) True pls)"

definition pickReadyPhraseList :: "ListResource list \<Rightarrow> string \<Rightarrow> string \<Rightarrow> pf_error + (ListResource option \<times> bool)" where
  "pickReadyPhraseList items ns basename = pick_loop ns basename None False items"

definition pickReadyIPList :: "ListResource list \<Rightarrow> string \<Rightarrow> string \<Rightarrow> pf_error + (ListResource option \<times> bool)" where
  "pickReadyIPList items ns basename = pick_loop ns basename None False items"

text \<open>Here the ConfigMap is read with the typed client, which has decoded \<open>binaryData\<close>.\<close>

definition probe_readConfigMapKey :: "pf_client \<Rightarrow> string \<Rightarrow> string \<Rightarrow> string \<Rightarrow> pf_error + string" where
  "probe_readConfigMapKey c ns name key =
     (case pf_GetConfigMap c ns name of
        None \<Rightarrow> Inl (ConfigMapFailed ns name)
      | Some cm \<Rightarrow>
          (case map_of (cm_Data cm) key of
             Some v \<Rightarrow> Inr v
           | None \<Rightarrow> (case map_of (cm_BinaryData cm) key of
                        Some v \<Rightarrow> Inr v
                      | None \<Rightarrow> Inl (ConfigMapKeyMissing ns name key))))"

definition probe_resolvePhraseListBody :: "pf_client \<Rightarrow> ListResource \<Rightarrow> pf_error + string" where
  "probe_resolvePhraseListBody c pl = list_body (probe_readConfigMapKey c (pl_Namespace pl)) pl"

definition probe_resolveIPListBody :: "pf_client \<Rightarrow> ListResource \<Rightarrow> pf_error + string" where
  "probe_resolveIPListBody c ipl = list_body (probe_readConfigMapKey c (pl_Namespace ipl)) ipl"

text \<open>An answer: the body, whether it is ready, and whether a list was found.\<close>

type_synonym lookup_answer = "string \<times> bool \<times> bool"

definition answer_list :: "(ListResource \<Rightarrow> pf_error + string) \<Rightarrow> ListResource option \<Rightarrow> pf_error + lookup_answer" where
  "answer_list body_of m =
     (case m of
        None \<Rightarrow> Inr ([], False, True)
      | Some pl \<Rightarrow>
          (case body_of pl of
             Inl e \<Rightarrow> Inl e
           | Inr body \<Rightarrow> if body = [] then Inr ([], False, True) else Inr (body, True, True)))"

definition Lookup :: "pf_client \<Rightarrow> string \<Rightarrow> string \<Rightarrow> pf_error + lookup_answer" where
  "Lookup c ns basename =
     (case pf_ListPhraseList c ns of
        None \<Rightarrow> Inl ListFailed
      | Some items \<Rightarrow>
          bindE (pickReadyPhraseList items ns basename) (\<lambda>(m, found).
            if found then answer_list (probe_resolvePhraseListBody c) m
            else (case pf_ListIPList c ns of
                    None \<Rightarrow> Inl ListFailed
                  | Some ips \<Rightarrow>
                      bindE (pickReadyIPList ips ns basename) (\<lambda>(m, found).
                        if found then answer_list (probe_resolveIPListBody c) m else Inr ([], False, False)))))"

record DataFilesResult =
  df_Files :: string_map
  df_DroppedBasenames :: "string list"
  df_RawBytes :: int
  df_EffectiveLines :: "string list"

fun resolve_files ::
  "(string \<Rightarrow> pf_error + lookup_answer) option \<Rightarrow> string \<Rightarrow> string_map \<Rightarrow> string_map \<Rightarrow> string list \<Rightarrow> string list \<Rightarrow>
   probe_error + (string_map \<times> string list)" where
  "resolve_files provider policy overrides files dropped [] = Inr (files, dropped)"
| "resolve_files provider policy overrides files dropped (base # bases) =
     (case map_of overrides base of
        Some body \<Rightarrow> resolve_files provider policy overrides (AList.update base body files) dropped bases
      | None \<Rightarrow>
          (case provider of
             None \<Rightarrow>
               if policy = PhraseListPolicyIgnoreUnknown
               then resolve_files provider policy overrides files (dropped @ [base]) bases
               else Inl (DataFileUnresolved base)
           | Some lookup \<Rightarrow>
               (case lookup base of
                  Inl e \<Rightarrow> Inl (ProbeLookup e)
                | Inr (body, ready, found) \<Rightarrow>
                    if \<not> found \<or> \<not> ready then
                      (if policy = PhraseListPolicyIgnoreUnknown
                       then resolve_files provider policy overrides files (dropped @ [base]) bases
                       else if \<not> found then Inl (DataFileUnresolved base)
                       else Inl (PhraseListNotReady base))
                    else resolve_files provider policy overrides (AList.update base body files) dropped bases)))"

definition ResolveDataFiles ::
  "(string \<Rightarrow> pf_error + lookup_answer) option \<Rightarrow> string \<Rightarrow> string list \<Rightarrow> string_map \<Rightarrow> probe_error + DataFilesResult" where
  "ResolveDataFiles provider policy directiveLines overrides =
     bindE (resolve_files provider policy overrides [] [] (probe_ScanPmFromFileBasenames directiveLines)) (\<lambda>(files, dropped).
       (let all_files = fold (\<lambda>(k, v) fs. if map_of fs k = None then AList.update k v fs else fs) overrides files;
            raw = raw_size all_files
        in if raw > MaxPhraseFilesRawBytes then Inl (ProbeFilesTooLarge raw)
           else Inr \<lparr> df_Files = all_files, df_DroppedBasenames = dropped, df_RawBytes = raw,
                      df_EffectiveLines = (if dropped \<noteq> [] then probe_DropSecLangLinesWithBasenames directiveLines dropped
                                           else directiveLines) \<rparr>))"

definition withDataFiles ::
  "(string \<Rightarrow> pf_error + lookup_answer) option \<Rightarrow> string \<Rightarrow> AssemblyResult \<Rightarrow> probe_error + (AssemblyResult \<times> DataFilesResult)" where
  "withDataFiles provider policy asm =
     bindE (ResolveDataFiles provider policy (split_on newline (ar_Directives asm)) []) (\<lambda>df.
       Inr (if df_DroppedBasenames df \<noteq> []
            then (let doc = join [newline] (df_EffectiveLines df)
                  in asm\<lparr> ar_Directives := doc, ar_DirectivesCount := CountNonEmptyLines doc \<rparr>)
            else asm, df))"

end
