(* ===== verification/ProbeThms.thy ===== *)
theory ProbeThms
  imports ProbeAssemble AssemblyThms PhraseFilesThms
begin

text \<open>
  The document a probe evaluates against the text the data plane loads: the functions the probe copies
  agree with the originals, and the copies together assemble the same rules in the same order.
\<close>

section \<open>The copies\<close>

lemma note_base_fold:
  assumes "distinct out"
  shows "distinct (fold note_base xs out) \<and> set (fold note_base xs out) = set out \<union> {x \<in> set xs. x \<noteq> [] \<and> x \<noteq> ''.''}"
  using assms
proof (induction xs arbitrary: out)
  case (Cons x xs)
  have "distinct (note_base x out)" "set (note_base x out) = set out \<union> {y. y = x \<and> y \<noteq> [] \<and> y \<noteq> ''.''}"
    using Cons.prems by (auto simp: note_base_def)
  with Cons.IH [of "note_base x out"] show ?case by auto
qed simp

lemma note_line_fold:
  assumes "distinct out"
  shows "distinct (fold note_line ls out) \<and> set (fold note_line ls out) = set out \<union> (\<Union>l \<in> set ls. set (scan_line l))"
  using assms
proof (induction ls arbitrary: out)
  case (Cons l ls)
  have "distinct (note_line l out)" "set (note_line l out) = set out \<union> set (scan_line l)"
    using note_base_fold [OF Cons.prems, of "fromfile_tokens l"] Cons.prems
    by (auto simp: note_line_def scan_line_def Let_def)
  with Cons.IH [of "note_line l out"] show ?case by auto
qed simp

lemma note_texts_fold:
  assumes "distinct out"
  shows "distinct (fold (\<lambda>raw. fold note_line (split_on newline raw)) ds out) \<and>
         set (fold (\<lambda>raw. fold note_line (split_on newline raw)) ds out) =
           set out \<union> (\<Union>raw \<in> set ds. \<Union>l \<in> set (split_on newline raw). set (scan_line l))"
  using assms
proof (induction ds arbitrary: out)
  case (Cons d ds)
  from note_line_fold [OF Cons.prems, of "split_on newline d"]
    Cons.IH [of "fold note_line (split_on newline d) out"]
  show ?case by auto
qed simp

lemma probe_scan_copy: "probe_ScanPmFromFileBasenames = ScanPmFromFileBasenames"
proof
  fix ds
  show "probe_ScanPmFromFileBasenames ds = ScanPmFromFileBasenames ds"
    unfolding probe_ScanPmFromFileBasenames_def ScanPmFromFileBasenames_def
    using note_texts_fold [of "[]" ds] by (intro sorted_distinct_set_unique) auto
qed

lemma probe_drop_copy:
  "probe_DropSecLangLinesWithBasenames ds bs = DropSecLangLinesWithBasenames ds (set bs)"
proof -
  have "drop_loop bs ds = filter (\<lambda>l. \<not> lineReferencesFromFileBasename l (set bs)) ds"
    by (induction ds) (simp_all add: probe_lineReferences_def lineReferencesFromFileBasename_def)
  then show ?thesis
    by (simp add: probe_DropSecLangLinesWithBasenames_def DropSecLangLinesWithBasenames_def)
qed

lemma first_positive_simps:
  "first_positive [] = None"
  "first_positive (md # mds) = (if has_id md then Some (md_Id (the md)) else first_positive mds)"
  by (auto simp: first_positive_def has_id_def split: option.split)

lemma first_bag_id_eq:
  "first_bag_id rs = (case first_positive (map slr_Metadata rs) of Some i \<Rightarrow> i | None \<Rightarrow> MaxInt32)"
  by (induction rs) (simp_all add: first_positive_simps)

lemma sort_key_copies:
  "probe_secRuleSortKey = secRuleSortKey"
  "probe_secActionSortKey = secActionSortKey"
  by (auto simp: fun_eq_iff probe_secRuleSortKey_def secRuleSortKey_def probe_secActionSortKey_def
        secActionSortKey_def first_positive_simps first_bag_id_eq)

lemma setup_copies:
  "probe_CRSSetupActions = CRSSetupActions"
  "probe_CRSExclusions = CRSExclusions"
proof -
  show "probe_CRSSetupActions = CRSSetupActions"
  proof
    fix t
    show "probe_CRSSetupActions t = CRSSetupActions t"
      by (cases t) (simp_all add: probe_CRSSetupActions_def CRSSetupActions_def Let_def CRSSetupVersionStamp_def
            crsSetupVersionStamp_def split: option.split)
  qed
  show "probe_CRSExclusions = CRSExclusions"
    by (auto simp: fun_eq_iff probe_CRSExclusions_def CRSExclusions_def target_update_def split: option.split
          intro!: arg_cong [where f = concat])
qed

lemma ids_copy: "ApplyAssignedIDs sr [] = applyAssignedIDs sr (st_AssignedIDs (sr_Status sr))"
  by (simp add: ApplyAssignedIDs_def applyAssignedIDs_def)

section \<open>The document\<close>

text \<open>The rules of a document have ids, in the resource or assigned.\<close>

definition ids_resolved :: "uobj list \<Rightarrow> bool" where
  "ids_resolved objs \<longleftrightarrow>
     (\<forall>sr. PSecRule sr \<in> uo_Payload ` set objs \<longrightarrow> EnsureRuleIDs (ApplyAssignedIDs sr []))"

lemma items_copy:
  "lang_items objs = Inr items \<Longrightarrow>
   \<exists>found. mapE pathBItemFromUnstructured objs = Inr found \<and> List.map_filter id found = items"
proof (induction objs arbitrary: items)
  case Nil
  then show ?case by (simp add: lang_items_def map_filter_simps)
next
  case (Cons obj objs)
  show ?case
  proof (cases "is_lang obj")
    case True
    with Cons.prems obtain it rest where it: "lang_item obj = Inr it" "lang_items objs = Inr rest" "items = it # rest"
      by (auto simp: lang_items_def)
    have "pathBItemFromUnstructured obj = Inr (Some it)"
      using it(1) True
      by (auto simp: lang_item_def pathBItemFromUnstructured_def is_lang_def rule_item_def action_item_def
            sort_key_copies split: payload.splits if_splits)
    with it Cons.IH [OF it(2)] show ?thesis by (auto simp: map_filter_simps)
  next
    case False
    then have "pathBItemFromUnstructured obj = Inr None" by (simp add: is_lang_def pathBItemFromUnstructured_def)
    moreover from False Cons.prems have "lang_items objs = Inr items" by (simp add: lang_items_def)
    ultimately show ?thesis using Cons.IH by (auto simp: map_filter_simps)
  qed
qed

lemma lines_copy:
  assumes "render_item order P it = Inr text"
    and "\<And>sr. li_object it = LangRule sr \<Longrightarrow> EnsureRuleIDs (ApplyAssignedIDs sr [])"
  shows "seclangLines order P it = Inr (splitLines text)"
  using assms
  by (auto simp: render_item_def seclangLines_def RenderSecRule_def ids_copy Let_def
        split: lang_object.splits sum.splits if_splits)

lemma mapE_image: "mapE f xs = Inr ys \<Longrightarrow> y \<in> set ys \<Longrightarrow> \<exists>x \<in> set xs. f x = Inr y"
  by (induction xs arbitrary: ys) auto

lemma lang_items_rule:
  assumes "lang_items objs = Inr items" and "it \<in> set items" and "li_object it = LangRule sr"
  shows "PSecRule sr \<in> uo_Payload ` set objs"
proof -
  obtain obj where "obj \<in> set objs" "lang_item obj = Inr it"
    using mapE_image assms(1,2) by (fastforce simp: lang_items_def)
  then show ?thesis
    using assms(3) by (force simp: lang_item_def rule_item_def action_item_def split: if_splits payload.splits)
qed

lemma item_kind_counts:
  assumes "lang_items objs = Inr items"
  shows "(length (filter (\<lambda>it. li_kind it = ''SecRule'') items), length (filter (\<lambda>it. li_kind it = ''SecAction'') items)) =
         CountSecLangObjects objs"
  using assms
proof (induction objs arbitrary: items)
  case (Cons obj objs)
  show ?case
  proof (cases "is_lang obj")
    case True
    with Cons.prems obtain it rest where it: "lang_item obj = Inr it" "lang_items objs = Inr rest" "items = it # rest"
      by (auto simp: lang_items_def)
    have "li_kind it = uo_Kind obj"
      using it(1) True by (auto simp: lang_item_def is_lang_def rule_item_def action_item_def split: if_splits payload.splits)
    with it Cons.IH [OF it(2)] show ?thesis by (auto simp: CountSecLangObjects_def)
  next
    case False
    with Cons.prems have "lang_items objs = Inr items" by (simp add: lang_items_def)
    with False Cons.IH show ?thesis by (auto simp: CountSecLangObjects_def is_lang_def)
  qed
qed (simp add: lang_items_def CountSecLangObjects_def)

lemma mapE_map_Inr:
  assumes "mapE f xs = Inr ys" and "\<And>x y. x \<in> set xs \<Longrightarrow> f x = Inr y \<Longrightarrow> g x = Inr (h y)"
  shows "mapE g xs = Inr (map h ys)"
  using assms by (induction xs arbitrary: ys) auto

lemma sorted_counts:
  "length (filter Q (sort_key f xs)) = length (filter Q xs)"
proof -
  have "mset (filter Q (sort_key f xs)) = mset (filter Q xs)" by simp
  then show ?thesis by (rule mset_eq_length)
qed

lemma AssembleResolved_copy:
  assumes "GetSecLang order P objs = Inr rules" and "ids_resolved objs"
  shows "AssembleResolved order P objs stamp crs =
         Inr ((AssembleFromRuleLines (concat (map splitLines rules)) stamp crs)
              \<lparr> ar_RulesLoaded := fst (CountSecLangObjects objs), ar_ActionsLoaded := snd (CountSecLangObjects objs) \<rparr>)"
proof -
  obtain items where items: "lang_items objs = Inr items"
    and rules: "mapE (render_item order P) (sort_key item_order items) = Inr rules"
    using assms(1) by (auto simp: GetSecLang_def)
  obtain found where found: "mapE pathBItemFromUnstructured objs = Inr found" "List.map_filter id found = items"
    using items_copy [OF items] by blast
  have "mapE (seclangLines order P) (sort_key item_order items) = Inr (map splitLines rules)"
  proof (rule mapE_map_Inr [OF rules])
    fix it out
    assume "it \<in> set (sort_key item_order items)" "render_item order P it = Inr out"
    moreover from this(1) have "EnsureRuleIDs (ApplyAssignedIDs sr [])" if "li_object it = LangRule sr" for sr
      using lang_items_rule [OF items _ that] assms(2) by (simp add: ids_resolved_def)
    ultimately show "seclangLines order P it = Inr (splitLines out)" by (intro lines_copy)
  qed
  with found item_kind_counts [OF items] show ?thesis
    by (simp add: AssembleResolved_def sorted_counts prod_eq_iff)
qed


section \<open>Where the probe differs\<close>

text \<open>
  A key of \<open>binaryData\<close>: the probe reads the bytes, the data plane injects their base64 text.
\<close>

lemma binaryData_encoded:
  assumes "pf_GetConfigMap c ns name = Some cm" and "map_of (cm_Data cm) key = None"
    and "map_of (cm_BinaryData cm) key = Some v"
  shows "probe_readConfigMapKey c ns name key = Inr v \<and> readConfigMapKey c ns name key = Inr (base64Encode v)"
proof -
  have "map_of (json_binaryData cm) key = Some (base64Encode v)"
    using assms(3) by (simp add: json_binaryData_def map_of_map)
  with assms show ?thesis by (simp add: probe_readConfigMapKey_def readConfigMapKey_def)
qed

definition demo_parent :: string where
  "demo_parent = ''R ARGS chain''"

definition demo_child :: string where
  "demo_child = ''R U @pmf x.d''"

definition demo_unrelated :: string where
  "demo_unrelated = ''R H''"

text \<open>
  Under \<open>IgnoreUnknown\<close> the data plane drops the text of a rule that needs a missing file. The probe
  works on lines: it drops the chained rule and keeps its parent, whose chain then takes in the next
  rule.
\<close>

lemma probe_drop_breaks_chain:
  "DropSecLangLinesWithBasenames [demo_parent @ [newline] @ demo_child, demo_unrelated] {''x.d''} = [demo_unrelated]"
  "probe_DropSecLangLinesWithBasenames (split_on newline (demo_parent @ [newline] @ demo_child @ [newline] @ demo_unrelated)) [''x.d''] =
     [demo_parent, demo_unrelated]"
  by code_simp+

section \<open>An instance\<close>

definition demo_id_rule :: SecRule where
  "demo_id_rule =
     (let r = demo_secrule ''x'' 7 ''a'' in r\<lparr> sr_Status := (sr_Status r)\<lparr> st_AssignedIDs := [200001] \<rparr> \<rparr>)"

lemma demo_id_render:
  "render_item severityNameToLevel demo_pattern_printer (rule_item demo_id_rule) = Inr [CHR ''a'', newline]"
proof -
  have "OperatorMapper ''rx'' = ''Rx''" by code_simp
  moreover have "\<not> str_contains [CHR ''a'', newline] ''t:unknown''" by (simp add: str_contains_def has_prefix_def)
  ultimately show ?thesis
    by (simp add: render_item_def rule_item_def RenderSecRule_def applyAssignedIDs_def demo_id_rule_def demo_secrule_def Let_def
        ConvertSecRule_def IsSingleRuleForm_def empty_spec_def convertSingleRuleForm_def effective_matches_def
        empty_match_def always_match_def convert_link_def matchToRuleWithCondition_def fill_id_def no_metadata_def
        secLangSecRuleToRuleWithCondition_def copy_metadata_def convert_condition_def mapAPITransformations_def
        ToCondition_def convert_operator_def convert_actions_def link_actions_def no_csr_actions_def
        marker_after_def set_ChainedRule_def ConvertToSecLangString_def normalize_directive_def collapse_short
        demo_pattern_printer_def crslang.truncate_def List.map_filter_def expandMultiInitcol_def)
qed


end
