(* ===== verification/GoNet.thy ===== *)
theory GoNet
  imports Prelude
begin

text \<open>
  \<open>net.ParseIP\<close> and \<open>net.ParseCIDR\<close> of Go's standard library, as far as they decide whether a text
  is an address or a prefix.
\<close>

section \<open>IPv4\<close>

definition ipv4_field :: "string \<Rightarrow> bool" where
  "ipv4_field f \<longleftrightarrow>
     f \<noteq> [] \<and> list_all is_digit f \<and> (length f > 1 \<longrightarrow> hd f \<noteq> CHR ''0'') \<and> length f \<le> 3 \<and>
     (case dec_to_nat f of None \<Rightarrow> False | Some n \<Rightarrow> n \<le> 255)"

definition parseIPv4 :: "string \<Rightarrow> bool" where
  "parseIPv4 s \<longleftrightarrow> (let fs = split_on (CHR ''.'') s in length fs = 4 \<and> list_all ipv4_field fs)"

section \<open>IPv6\<close>

definition is_hex :: "char \<Rightarrow> bool" where
  "is_hex c \<longleftrightarrow> is_digit c \<or> (97 \<le> byte c \<and> byte c \<le> 102) \<or> (65 \<le> byte c \<and> byte c \<le> 70)"

text \<open>
  The loop over the groups: \<open>n\<close> is the number of two-byte groups that still fit, \<open>ellipsis\<close> whether
  \<open>::\<close> has been read. It returns the groups left, the rest of the text and \<open>ellipsis\<close>.
\<close>

fun ipv6_groups :: "nat \<Rightarrow> bool \<Rightarrow> string \<Rightarrow> (nat \<times> string \<times> bool) option" where
  "ipv6_groups 0 ellipsis s = Some (0, s, ellipsis)"
| "ipv6_groups (Suc n) ellipsis s =
     (let grp = takeWhile is_hex s; rest = drop (length grp) s in
      if grp = [] \<or> length grp > 4 then None
      else case rest of
             [] \<Rightarrow> Some (n, [], ellipsis)
           | c # t \<Rightarrow>
               if c = CHR ''.'' then
                 (if (\<not> ellipsis \<and> n \<noteq> 1) \<or> n < 1 \<or> \<not> parseIPv4 s then None else Some (n - 1, [], ellipsis))
               else if c \<noteq> CHR '':'' \<or> t = [] then None
               else if hd t = CHR '':'' then
                 (if ellipsis then None
                  else if tl t = [] then Some (n, [], True) else ipv6_groups n True (tl t))
               else ipv6_groups n ellipsis t)"

definition parseIPv6 :: "string \<Rightarrow> bool" where
  "parseIPv6 s \<longleftrightarrow>
     (if s = ''::'' then True
      else (let start = has_prefix s ''::'' in
            case ipv6_groups 8 start (if start then drop 2 s else s) of
              None \<Rightarrow> False
            | Some (n, rest, ellipsis) \<Rightarrow> rest = [] \<and> (ellipsis \<longleftrightarrow> n > 0)))"

section \<open>Addresses and prefixes\<close>

text \<open>A zone, behind \<open>%\<close>, is an error for both functions.\<close>

definition ParseIP :: "string \<Rightarrow> nat option" where
  "ParseIP s =
     (case find (\<lambda>c. c \<in> set ''.:%'') s of
        None \<Rightarrow> None
      | Some c \<Rightarrow>
          if c = CHR ''.'' then (if parseIPv4 s then Some 4 else None)
          else if c = CHR '':'' then (if CHR ''%'' \<notin> set s \<and> parseIPv6 s then Some 16 else None)
          else None)"

definition ParseCIDR :: "string \<Rightarrow> bool" where
  "ParseCIDR s \<longleftrightarrow>
     (case str_index s ''/'' of
        None \<Rightarrow> False
      | Some i \<Rightarrow>
          (case (ParseIP (take i s), dec_to_nat (drop (i + 1) s)) of
             (Some len, Some n) \<Rightarrow> n \<le> 8 * len
           | _ \<Rightarrow> False))"

lemma address_examples:
  "ParseIP ''10.0.0.1'' = Some 4" "ParseIP ''010.0.0.1'' = None" "ParseIP ''10.0.0.256'' = None"
  "ParseIP ''::'' = Some 16" "ParseIP ''2001:db8::1'' = Some 16" "ParseIP ''::ffff:1.2.3.4'' = Some 16"
  "ParseIP ''1::2::3'' = None" "ParseIP ''1:2:3:4:5:6:7:8'' = Some 16" "ParseIP ''1:2:3:4:5:6:7'' = None"
  "ParseIP ''fe80::1%eth0'' = None" "ParseCIDR ''10.0.0.0/8''" "\<not> ParseCIDR ''10.0.0.0/33''"
  "ParseCIDR ''2001:db8::/32''" "\<not> ParseCIDR ''10.0.0.0''"
  by code_simp+

end
