(* ===== verification/Webhook.thy ===== *)
theory Webhook
  imports Convert PhraseFiles GoNet Directives
begin

text \<open>
  The validating webhooks of \<open>internal/webhook\<close>: SecRule, SecAction, WAF, RuleSet, PhraseList and
  IPList. An admission is the list of warnings and the list of field errors; a request is admitted when
  there is no error. Field paths are the printed ones; messages are left out. Create and update run the
  same check and a delete is always admitted.
\<close>

datatype field_error = FRequired string | FInvalid string

type_synonym admission = "string list \<times> field_error list"

definition admitted :: "admission \<Rightarrow> bool" where
  "admitted a \<longleftrightarrow> snd a = []"

definition index_path :: "string \<Rightarrow> nat \<Rightarrow> string" where
  "index_path p i = p @ ''['' @ nat_to_dec i @ '']''"

definition key_path :: "string \<Rightarrow> string \<Rightarrow> string" where
  "key_path p k = p @ ''['' @ k @ '']''"

text \<open>A \<open>for\<close> loop over a slice that appends what its body reports.\<close>

fun collect_from :: "(nat \<Rightarrow> 'a \<Rightarrow> 'b list) \<Rightarrow> nat \<Rightarrow> 'a list \<Rightarrow> 'b list" where
  "collect_from f i [] = []"
| "collect_from f i (x # xs) = f i x @ collect_from f (Suc i) xs"

section \<open>SecRule\<close>

definition phaseOf :: "SecRuleMetadata option \<Rightarrow> string" where
  "phaseOf m = (case m of None \<Rightarrow> [] | Some md \<Rightarrow> trim_space (md_Phase md))"

definition validPhase :: "string \<Rightarrow> bool" where
  "validPhase p \<longleftrightarrow> p \<in> set [''1'', ''2'', ''3'', ''4'', ''5'']"

definition phase_errors :: "string \<Rightarrow> SecRuleMetadata option \<Rightarrow> field_error list" where
  "phase_errors p m =
     (let phase = phaseOf m in
      if phase \<noteq> [] \<and> \<not> validPhase phase then [FInvalid (p @ ''.metadata.phase'')] else [])"

definition transform_errors :: "('a, 'm) crslang \<Rightarrow> string \<Rightarrow> Transformation list \<Rightarrow> field_error list" where
  "transform_errors L p ts =
     (case ValidateAPITransformations L ts of None \<Rightarrow> [] | Some _ \<Rightarrow> [FInvalid (p @ ''.transformations'')])"

definition match_errors :: "('a, 'm) crslang \<Rightarrow> string \<Rightarrow> Match \<Rightarrow> field_error list" where
  "match_errors L mp m =
     (if \<not> match_AlwaysMatch m \<and> match_Variables m = [] \<and> match_Collections m = [] \<and>
         trim_space (match_Script m) = []
      then [FInvalid mp] else []) @
     transform_errors L mp (match_Transformations m)"

definition validateSingleRuleForm :: "('a, 'm) crslang \<Rightarrow> SecRuleSpec \<Rightarrow> string \<Rightarrow> field_error list" where
  "validateSingleRuleForm L spec p =
     (if spec_Match spec = [] \<and> spec_Metadata spec \<noteq> None \<and> spec_SecRules spec = []
      then [FRequired (p @ ''.match'')] else []) @
     collect_from (\<lambda>i. match_errors L (index_path (p @ ''.match'') i)) 0 (spec_Match spec) @
     phase_errors p (spec_Metadata spec)"

definition low_id :: "SecRuleMetadata option \<Rightarrow> bool" where
  "low_id m \<longleftrightarrow> (case m of None \<Rightarrow> False | Some md \<Rightarrow> md_Id md > 0 \<and> md_Id md \<le> 100000)"

definition singleRuleWarnings :: "SecRuleSpec \<Rightarrow> string list" where
  "singleRuleWarnings spec =
     (if low_id (spec_Metadata spec)
      then [''metadata.id='' @ itoa (md_Id (the (spec_Metadata spec))) @
            '': custom rules should use ids > 100000 to avoid CRS collisions''] else [])"

definition validateMatchTransforms :: "('a, 'm) crslang \<Rightarrow> Match list \<Rightarrow> string \<Rightarrow> field_error list" where
  "validateMatchTransforms L matches p =
     collect_from (\<lambda>i m. transform_errors L (index_path (p @ ''.match'') i) (match_Transformations m)) 0 matches"

definition bag_warnings :: "nat \<Rightarrow> SecLangSecRule \<Rightarrow> string list" where
  "bag_warnings i bag =
     (if low_id (slr_Metadata bag)
      then [index_path ''secLangRules'' i @ ''.metadata.id='' @ itoa (md_Id (the (slr_Metadata bag))) @
            '': prefer ids > 100000 for custom rules''] else [])"

definition bag_errors :: "('a, 'm) crslang \<Rightarrow> string \<Rightarrow> SecLangSecRule \<Rightarrow> field_error list" where
  "bag_errors L bp bag =
     phase_errors bp (slr_Metadata bag) @
     collect_from (\<lambda>j c. transform_errors L (index_path (bp @ ''.conditions'') j) (cond_Transformations c)) 0
       (slr_Conditions bag)"

definition validateSecLangBags :: "('a, 'm) crslang \<Rightarrow> SecLangSecRule list \<Rightarrow> string \<Rightarrow> admission" where
  "validateSecLangBags L bags p =
     (collect_from bag_warnings 0 bags,
      collect_from (\<lambda>i. bag_errors L (index_path (p @ ''.secLangRules'') i)) 0 bags)"

definition validateSecRuleSpec :: "('a, 'm) crslang \<Rightarrow> SecRuleSpec \<Rightarrow> string \<Rightarrow> admission" where
  "validateSecRuleSpec L spec p =
     (let single = IsSingleRuleForm spec in
      if \<not> single \<and> spec_SecRules spec = [] then ([], [FInvalid p])
      else
        (let (bagWarns, bagErrs) = validateSecLangBags L (spec_SecRules spec) p in
         ((if single then singleRuleWarnings spec else []) @ bagWarns,
          (if single then validateSingleRuleForm L spec p
           else if spec_Match spec \<noteq> [] then validateMatchTransforms L (spec_Match spec) p else []) @ bagErrs)))"

definition validate_SecRule :: "('a, 'm) crslang \<Rightarrow> SecRule \<Rightarrow> admission" where
  "validate_SecRule L sr = validateSecRuleSpec L (sr_Spec sr) ''spec''"

section \<open>SecAction\<close>

definition validate_SecAction :: "SecAction \<Rightarrow> admission" where
  "validate_SecAction sa =
     (let spec = sa_Spec sa in
      ([],
       (if sa_Metadata spec \<noteq> None then phase_errors ''spec'' (sa_Metadata spec) else []) @
       (if act_DisruptiveAction spec = None \<and> act_NonDisruptive spec = [] \<and> act_Flow spec = [] \<and>
           sa_Metadata spec = None
        then [FRequired ''spec''] else [])))"

section \<open>References\<close>

definition allowedRuleRefKinds :: "string list" where
  "allowedRuleRefKinds = [[], ''SecRule'', ''SecAction'', ''RuleSet'', ''ConfigMap'']"

definition allowedWAFRefKinds :: "string list" where
  "allowedWAFRefKinds = [[], ''RuleSet'']"

definition ValidateRuleRef :: "RuleRef \<Rightarrow> string \<Rightarrow> bool" where
  "ValidateRuleRef ref ownerKind \<longleftrightarrow>
     ((trim_space (rr_Name ref) \<noteq> []) \<noteq> (rr_Selector ref \<noteq> None)) \<and>
     trim_space (rr_Kind ref) \<in> set (if ownerKind = ''WAF'' then allowedWAFRefKinds else allowedRuleRefKinds)"

definition ValidateRuleRefs :: "RuleRef list \<Rightarrow> string \<Rightarrow> bool" where
  "ValidateRuleRefs refs ownerKind \<longleftrightarrow> list_all (\<lambda>ref. ValidateRuleRef ref ownerKind) refs"

definition ValidateAllowedRules :: "RuleNamespaces \<Rightarrow> bool" where
  "ValidateAllowedRules a \<longleftrightarrow>
     (case rn_From a of
        None \<Rightarrow> True
      | Some from \<Rightarrow>
          if from = ''All'' \<or> from = ''Same'' \<or> from = [] then True
          else if from = ''Selector'' then rn_Selector a \<noteq> None
          else from = ''None'')"

definition validate_RuleSet :: "RuleSetSpec \<Rightarrow> admission" where
  "validate_RuleSet spec =
     ([], (if ValidateRuleRefs (rss_RuleRefs spec) ''RuleSet'' then [] else [FInvalid ''spec.ruleRefs'']) @
          (if ValidateAllowedRules (rss_AllowedRules spec) then [] else [FInvalid ''spec.allowedRules'']))"

section \<open>WAF\<close>

definition is_alnum :: "char \<Rightarrow> bool" where
  "is_alnum c \<longleftrightarrow> is_digit c \<or> (65 \<le> byte c \<and> byte c \<le> 90) \<or> (97 \<le> byte c \<and> byte c \<le> 122)"

text \<open>\<open>telemetrySampleRateRE\<close>, \<open>extraLabelKeyRE\<close> and \<open>extraLabelValueRE\<close>.\<close>

definition sample_rate_ok :: "string \<Rightarrow> bool" where
  "sample_rate_ok s \<longleftrightarrow>
     s = ''0'' \<or> s = ''1'' \<or>
     (has_prefix s ''0.'' \<and> drop 2 s \<noteq> [] \<and> list_all is_digit (drop 2 s)) \<or>
     (has_prefix s ''1.'' \<and> drop 2 s \<noteq> [] \<and> list_all (\<lambda>c. c = CHR ''0'') (drop 2 s))"

definition label_key_ok :: "string \<Rightarrow> bool" where
  "label_key_ok k \<longleftrightarrow>
     (case k of [] \<Rightarrow> False | c # t \<Rightarrow> is_alnum c \<and> list_all (\<lambda>x. is_alnum x \<or> x \<in> set ''_.-'') t)"

definition label_value_ok :: "string \<Rightarrow> bool" where
  "label_value_ok v \<longleftrightarrow> list_all (\<lambda>x. is_alnum x \<or> x \<in> set ''.:_-'') v"

definition extraLabelSpoofFrags :: "string list" where
  "extraLabelSpoofFrags =
     [''_waf_namespace='', ''_waf_name='', ''_engine='', ''_owner='',
      ''_phase='', ''_ruleid='', ''_severity='', ''_tag='']"

definition reservedMetricLabelKey :: "string \<Rightarrow> bool" where
  "reservedMetricLabelKey k \<longleftrightarrow> k \<in> set [''waf_namespace'', ''waf_name'', ''engine'', ''owner'']"

definition extraLabelSpoofsStatsTags :: "string \<Rightarrow> string \<Rightarrow> bool" where
  "extraLabelSpoofsStatsTags k v \<longleftrightarrow>
     list_ex (\<lambda>f. str_contains (''_'' @ k @ ''='' @ v) f \<or> str_contains k f \<or> str_contains v f) extraLabelSpoofFrags"

definition label_errors :: "string \<times> string \<Rightarrow> field_error list" where
  "label_errors = (\<lambda>(k, v).
     (let p = key_path ''spec.metrics.extraLabels'' k in
      if reservedMetricLabelKey k then [FInvalid p]
      else (if label_key_ok k then [] else [FInvalid p]) @
           (if \<not> label_value_ok v \<or> extraLabelSpoofsStatsTags k v then [FInvalid p] else [])))"

definition rate_errors :: "string \<Rightarrow> string \<Rightarrow> field_error list" where
  "rate_errors name r = (if r \<noteq> [] \<and> \<not> sample_rate_ok r then [FInvalid (''spec.telemetry.traces.'' @ name)] else [])"

definition telemetry_errors :: "WAFTelemetry \<Rightarrow> field_error list" where
  "telemetry_errors t =
     (if wt_Mode t \<in> {[], TelemetryModeNone, TelemetryModeManaged} then [] else [FInvalid ''spec.telemetry.mode'']) @
     (case wt_Traces t of
        None \<Rightarrow> []
      | Some tr \<Rightarrow> rate_errors ''sampleRate'' (tt_SampleRate tr) @ rate_errors ''sampleDisruptive'' (tt_SampleDisruptive tr))"

definition validate_WAF :: "WAF \<Rightarrow> admission" where
  "validate_WAF waf =
     (let spec = waf_Spec waf; targets = EffectivePolicyTargets spec in
      (if (ws_Mode spec = [] \<or> ws_Mode spec = WAFModeBlocking) \<and> ws_CRSEnable spec
       then [''crsEnable with mode=Blocking: prefer DetectionOnly for first CRS rollouts''] else [],
       (if ptr_TargetRef targets = None \<and> ptr_TargetRefs targets = [] then [FRequired ''spec''] else []) @
       (if ValidateRuleRefs (ws_RuleSetRefs spec) ''WAF'' then [] else [FInvalid ''spec.ruleRefs'']) @
       (if ws_LogLevel spec < 0 \<or> ws_LogLevel spec > 7 then [FInvalid ''spec.logLevel''] else []) @
       (if ws_Mode spec \<in> {[], WAFModeBlocking, WAFModeDetectionOnly} then [] else [FInvalid ''spec.mode'']) @
       (case ws_Provider spec of
          None \<Rightarrow> []
        | Some p \<Rightarrow>
            if wp_Type p \<in> {[], ProviderAuto, ProviderEnvoyGateway, ProviderIstio, ProviderCilium} then []
            else [FInvalid ''spec.provider.type'']) @
       (case ws_CRS spec of
          None \<Rightarrow> []
        | Some crs \<Rightarrow>
            (case crs_ParanoiaLevel crs of
               None \<Rightarrow> []
             | Some pl \<Rightarrow> if pl < 1 \<or> pl > 4 then [FInvalid ''spec.crs.paranoiaLevel''] else [])) @
       (case ws_Metrics spec of None \<Rightarrow> [] | Some m \<Rightarrow> concat (map label_errors (wm_ExtraLabels m))) @
       (case ws_Telemetry spec of None \<Rightarrow> [] | Some t \<Rightarrow> telemetry_errors t)))"

section \<open>Lists\<close>

definition blank_ref :: "ConfigMapKeyRef \<Rightarrow> bool" where
  "blank_ref r \<longleftrightarrow> trim_space (cmr_Name r) = [] \<or> trim_space (cmr_Key r) = []"

definition list_errors :: "ListResource \<Rightarrow> field_error list" where
  "list_errors pl =
     (let sources = of_bool (pl_Content pl \<noteq> []) + of_bool (pl_ConfigMapRef pl \<noteq> None) + of_bool (pl_Parts pl \<noteq> []) :: nat
      in (if pl_FileName pl = [] then [FRequired ''spec.fileName''] else []) @
         (case pl_ConfigMapRef pl of None \<Rightarrow> [] | Some r \<Rightarrow> if blank_ref r then [FInvalid ''spec.configMapRef''] else []) @
         collect_from (\<lambda>i r. if blank_ref r then [FInvalid (index_path ''spec.parts'' i @ ''.configMapRef'')] else []) 0
           (pl_Parts pl) @
         (if sources \<noteq> 1 then [FInvalid ''spec''] else []) @
         (if pl_Content pl \<noteq> [] \<and> trim_space (pl_Content pl) = [] then [FInvalid ''spec.content''] else []))"

definition validate_PhraseList :: "ListResource \<Rightarrow> admission" where
  "validate_PhraseList pl = ([], list_errors pl)"

fun first_invalid :: "string list \<Rightarrow> string" where
  "first_invalid [] = []"
| "first_invalid (raw # rest) =
     (let line = trim_space raw in
      if line = [] \<or> has_prefix line ''#'' then first_invalid rest
      else (let l = (case str_index line ''#'' of None \<Rightarrow> line | Some i \<Rightarrow> trim_space (take i line)) in
            if l = [] \<or> ParseIP l \<noteq> None \<or> ParseCIDR l then first_invalid rest else l))"

definition firstInvalidIPLine :: "string \<Rightarrow> string" where
  "firstInvalidIPLine content = first_invalid (split_on newline content)"

definition validate_IPList :: "ListResource \<Rightarrow> admission" where
  "validate_IPList ipl =
     (if pl_Content ipl \<noteq> [] \<and> firstInvalidIPLine (pl_Content ipl) \<noteq> []
      then [''line does not look like an IP or CIDR (use one address/prefix per line): '' @
            firstInvalidIPLine (pl_Content ipl)] else [],
      list_errors ipl)"

end
