(* ===== verification/WebhookThms.thy ===== *)
theory WebhookThms
  imports Webhook ConvertThms AssemblyThms PhraseFilesThms
begin

text \<open>
  What admission guarantees to the components behind it, and what it does not: the conversion of
  admitted rules, the bodies of admitted lists, and two kinds of resources that are admitted although
  the conversion refuses or ignores them.
\<close>

lemma collect_from_Nil_iff: "collect_from f i xs = [] \<longleftrightarrow> (\<forall>j < length xs. f (i + j) (xs ! j) = [])"
proof (induction xs arbitrary: i)
  case (Cons x xs)
  have "(\<forall>j < length (x # xs). f (i + j) ((x # xs) ! j) = []) \<longleftrightarrow> f i x = [] \<and> (\<forall>j < length xs. f (Suc i + j) (xs ! j) = [])"
    by (auto simp: less_Suc_eq_0_disj)
  with Cons.IH show ?case by simp
qed simp

lemma collect_from_mem:
  assumes "collect_from f i xs = []" and "x \<in> set xs"
  obtains j where "f j x = []"
  using assms unfolding collect_from_Nil_iff by (metis in_set_conv_nth)

section \<open>Rules\<close>

text \<open>The errors of a conversion that a webhook cannot foresee: those of crslang and copier.\<close>

definition library_error :: "conv_error \<Rightarrow> bool" where
  "library_error e \<longleftrightarrow> e = CopyFailed \<or> (\<exists>t v. e = ActionFailed t v)"

lemma actionToCSR_Inl: "actionToCSR L t v = Inl e \<Longrightarrow> library_error e"
  by (auto simp: actionToCSR_def library_error_def split: option.splits if_splits)

lemma SecActionToCSR_Inl: "SecActionToCSR L a = Inl e \<Longrightarrow> library_error e"
  by (auto simp: SecActionToCSR_def bindE_Inl_iff dest!: mapE_Inl_ex actionToCSR_Inl split: option.splits)

lemma convert_parts_Inl:
  "convert_actions L acts = Inl e \<Longrightarrow> library_error e"
  "copy_metadata L md = Inl e \<Longrightarrow> library_error e"
  by (auto simp: convert_actions_def copy_metadata_def library_error_def dest!: SecActionToCSR_Inl split: option.splits)

definition transforms_ok :: "('a, 'm) crslang \<Rightarrow> Transformation list \<Rightarrow> bool" where
  "transforms_ok L ts \<longleftrightarrow> ValidateAPITransformations L ts = None"

lemma transforms_ok_map: "transforms_ok L ts \<Longrightarrow> mapAPITransformations L ts \<noteq> Inl e"
  using validate_from_iff [of L 0 ts 0]
  by (auto simp: transforms_ok_def ValidateAPITransformations_def mapAPITransformations_def)

lemma convert_condition_Inl:
  "convert_condition L c = Inl e \<Longrightarrow> \<not> transforms_ok L (cond_Transformations c)"
  using transforms_ok_map by (auto simp: convert_condition_def bindE_Inl_iff)

lemma secLangSecRule_Inl:
  assumes "secLangSecRuleToRuleWithCondition L r = Inl e"
    and "\<forall>c \<in> set (slr_Conditions r). transforms_ok L (cond_Transformations c)"
  shows "library_error e"
proof -
  have "mapE (convert_condition L) (slr_Conditions r) \<noteq> Inl e"
    using assms(2) by (blast dest: mapE_Inl_ex convert_condition_Inl)
  with assms(1) show ?thesis
    by (auto simp: secLangSecRuleToRuleWithCondition_def bindE_Inl_iff dest: convert_parts_Inl)
qed

lemma convert_links_Inl:
  assumes "convert_links L spec k p ms = Inl e" and "\<forall>m \<in> set ms. transforms_ok L (match_Transformations m)"
  shows "library_error e"
  using assms
proof (induction ms arbitrary: p)
  case (Cons m ms)
  have "library_error e" if "convert_link L spec k p (ms = []) m = Inl e"
  proof -
    from that obtain r where r: "secLangSecRuleToRuleWithCondition L r = Inl e" "slr_Conditions r = [ToCondition m]"
      by (auto simp: convert_link_def bindE_Inl_iff matchToRuleWithCondition_def)
    with Cons.prems(2) secLangSecRule_Inl [OF r(1)] show ?thesis by (simp add: ToCondition_def)
  qed
  with Cons show ?case by (auto simp: bindE_Inl_iff)
qed simp

definition bag_ok :: "('a, 'm) crslang \<Rightarrow> SecLangSecRule \<Rightarrow> bool" where
  "bag_ok L r \<longleftrightarrow> (\<forall>c \<in> set (slr_Conditions r). transforms_ok L (cond_Transformations c))"

lemma consume_chain_Inl:
  assumes "consume_chain L e0 r es = Inl e" and "\<forall>x \<in> set es. bag_ok L x"
  shows "library_error e"
  using assms
  by (induction L e0 r es rule: consume_chain.induct)
    (auto simp: bindE_Inl_iff bag_ok_def dest: secLangSecRule_Inl split: if_splits)

lemma consume_chain_rest:
  "consume_chain L e0 r es = Inr (r', lst, rest) \<Longrightarrow> set rest \<subseteq> set es"
  by (induction L e0 r es arbitrary: r' lst rest rule: consume_chain.induct) (fastforce split: if_splits)+

lemma convert_bag_Inl:
  assumes "convert_bag L es = Inl e" and "\<forall>x \<in> set es. bag_ok L x"
  shows "library_error e"
  using assms
proof (induction es rule: measure_induct_rule [where f = length])
  case (less es)
  show ?case
  proof (cases es)
    case Nil
    with less.prems show ?thesis by simp
  next
    case (Cons x xs)
    from Cons less.prems(2) have x: "\<forall>c \<in> set (slr_Conditions x). transforms_ok L (cond_Transformations c)"
      and xs: "\<forall>y \<in> set xs. bag_ok L y" by (simp_all add: bag_ok_def)
    from Cons less.prems(1) consider "secLangSecRuleToRuleWithCondition L x = Inl e"
      | r where "consume_chain L x r xs = Inl e"
      | r r' lst rest where "consume_chain L x r xs = Inr (r', lst, rest)" "convert_bag L rest = Inl e"
      by (auto simp: bindE_Inl_iff)
    then show ?thesis
    proof cases
      case 1
      then show ?thesis by (rule secLangSecRule_Inl [OF _ x])
    next
      case 2
      then show ?thesis by (rule consume_chain_Inl [OF _ xs])
    next
      case 3
      with xs consume_chain_rest [OF 3(1)] have "\<forall>y \<in> set rest. bag_ok L y" by blast
      moreover have "length rest < length es" using consume_chain_shorter [OF 3(1)] Cons by simp
      ultimately show ?thesis using less.IH 3(2) by blast
    qed
  qed
qed

lemma transform_errors_Nil: "transform_errors L p ts = [] \<longleftrightarrow> transforms_ok L ts"
  by (simp add: transform_errors_def transforms_ok_def split: option.split)

lemma admitted_matches:
  assumes "admitted (validate_SecRule L sr)" and "m \<in> set (spec_Match (sr_Spec sr))"
  shows "transforms_ok L (match_Transformations m)"
proof (cases "IsSingleRuleForm (sr_Spec sr)")
  case True
  with assms(1) have "collect_from (\<lambda>i. match_errors L (index_path (''spec'' @ ''.match'') i)) 0 (spec_Match (sr_Spec sr)) = []"
    by (simp add: admitted_def validate_SecRule_def validateSecRuleSpec_def validateSecLangBags_def Let_def
        validateSingleRuleForm_def split: if_splits)
  from collect_from_mem [OF this assms(2)] show ?thesis
    by (auto simp: match_errors_def transform_errors_Nil split: if_splits)
next
  case False
  then show ?thesis using assms(2) by (auto simp: IsSingleRuleForm_def)
qed

lemma admitted_bag:
  assumes "admitted (validate_SecRule L sr)" and "r \<in> set (spec_SecRules (sr_Spec sr))"
  shows "bag_ok L r"
proof -
  from assms have "collect_from (\<lambda>i. bag_errors L (index_path (''spec'' @ ''.secLangRules'') i)) 0 (spec_SecRules (sr_Spec sr)) = []"
    by (auto simp: admitted_def validate_SecRule_def validateSecRuleSpec_def validateSecLangBags_def Let_def split: if_splits)
  from collect_from_mem [OF this assms(2)] obtain bp where b: "bag_errors L bp r = []" by metis
  show ?thesis unfolding bag_ok_def
  proof
    fix c
    assume "c \<in> set (slr_Conditions r)"
    with b show "transforms_ok L (cond_Transformations c)"
      unfolding bag_errors_def append_is_Nil_conv by (metis (no_types, lifting) collect_from_mem transform_errors_Nil)
  qed
qed

text \<open>
  C37: A SecRule the webhook admits is never refused by the conversion because of a transformation: if
  its conversion fails, crslang refused an action or the metadata could not be copied. This holds for
  the one-rule form and for the legacy bag.
\<close>

theorem admitted_rule_converts:
  assumes "admitted (validate_SecRule L sr)" and "ConvertSecRule L (sr_Spec sr) = Inl e"
  shows "e = CopyFailed \<or> (\<exists>t v. e = ActionFailed t v)"
proof (cases "IsSingleRuleForm (sr_Spec sr)")
  case True
  let ?ms = "effective_matches (sr_Spec sr)"
  have ok: "\<forall>m \<in> set ?ms. transforms_ok L (match_Transformations m)"
    using admitted_matches [OF assms(1)]
    by (auto simp: effective_matches_def always_match_def transforms_ok_def ValidateAPITransformations_def)
  have ne: "?ms \<noteq> []" by (simp add: effective_matches_def)
  have "library_error e"
  proof (cases "length ?ms = 1 \<and> match_AlwaysMatch (hd ?ms)")
    case True
    with ne ok have "transforms_ok L (match_Transformations (hd ?ms))" by simp
    from transforms_ok_map [OF this] assms(2) True \<open>IsSingleRuleForm (sr_Spec sr)\<close> show ?thesis
      by (auto simp: ConvertSecRule_def convertSingleRuleForm_def Let_def bindE_Inl_iff
          alwaysMatchToRuleWithCondition_def dest: convert_parts_Inl)
  next
    case False
    with assms(2) True have "convert_links L (sr_Spec sr) (length ?ms) True ?ms = Inl e"
      by (auto simp: ConvertSecRule_def convertSingleRuleForm_def Let_def bindE_Inl_iff)
    from convert_links_Inl [OF this ok] show ?thesis .
  qed
  then show ?thesis by (simp add: library_error_def)
next
  case False
  with assms(2) have "convert_bag L (spec_SecRules (sr_Spec sr)) = Inl e"
    by (simp add: ConvertSecRule_def convertLegacySecLangRules_def bindE_Inl_iff)
  from convert_bag_Inl [OF this] admitted_bag [OF assms(1)] show ?thesis by (simp add: library_error_def)
qed

text \<open>
  A rule that has both its own metadata and a bag of rules counts as the one-rule form. It is
  admitted, and the conversion ignores the bag: whatever the bag holds, the result is one action that
  matches every request.
\<close>

lemma admitted_bag_ignored:
  assumes "spec_Metadata (sr_Spec sr) \<noteq> None" and "spec_Match (sr_Spec sr) = []" and "spec_SecRules (sr_Spec sr) \<noteq> []"
    and "phase_errors ''spec'' (spec_Metadata (sr_Spec sr)) = []"
    and "\<forall>i. \<forall>r \<in> set (spec_SecRules (sr_Spec sr)). bag_errors L i r = []"
  shows "admitted (validate_SecRule L sr) \<and>
         ConvertSecRule L (sr_Spec sr) =
           bindE (alwaysMatchToRuleWithCondition L (spec_Metadata (sr_Spec sr)) always_match (spec_Actions (sr_Spec sr)))
             (\<lambda>r. Inr (DRule r # marker_after (spec_MarkerAfter (sr_Spec sr))))"
proof -
  have single: "IsSingleRuleForm (sr_Spec sr)" using assms(1) by (simp add: IsSingleRuleForm_def)
  have "collect_from (\<lambda>i. bag_errors L (index_path (''spec'' @ ''.secLangRules'') i)) 0 (spec_SecRules (sr_Spec sr)) = []"
    using assms(5) by (simp add: collect_from_Nil_iff)
  with single assms(2-4) have "admitted (validate_SecRule L sr)"
    by (simp add: admitted_def validate_SecRule_def validateSecRuleSpec_def validateSecLangBags_def Let_def validateSingleRuleForm_def)
  moreover have "match_Actions always_match = None" "match_AlwaysMatch always_match" by (simp_all add: always_match_def)
  ultimately show ?thesis
    using single assms(2) by (simp add: ConvertSecRule_def convertSingleRuleForm_def effective_matches_def)
qed

section \<open>Actions\<close>

lemma map_from_Inl_mem: "t \<in> set ts \<Longrightarrow> isl (f t) \<Longrightarrow> isl (map_from f i ts)"
proof (induction ts arbitrary: i)
  case (Cons x xs)
  show ?case
  proof (cases "f x")
    case (Inr y)
    with Cons have "isl (map_from f (Suc i) xs)" by auto
    with Inr show ?thesis by (cases "map_from f (Suc i) xs") auto
  qed simp
qed simp

lemma mapE_isl: "x \<in> set xs \<Longrightarrow> isl (f x) \<Longrightarrow> isl (mapE f xs)"
proof (induction xs)
  case (Cons y ys)
  show ?case
  proof (cases "f y")
    case (Inr z)
    with Cons have "isl (mapE f ys)" by auto
    with Inr show ?thesis by (cases "mapE f ys") auto
  qed simp
qed simp

lemma unknown_action_fails:
  assumes "t \<in> set (sa_Transformations spec)" and "trim_space t \<in> {[], ''unknown'', ''unknownTransformation''}"
  shows "isl (ConvertSecActionToString order P spec)"
proof -
  let ?L = "crslang.truncate P"
  have "isl (ToCRSTransformation ?L t)" using assms(2) by (auto simp: ToCRSTransformation_def Let_def)
  then have "isl (mapAPITransformations ?L (sa_Transformations spec))"
    unfolding mapAPITransformations_def by (rule map_from_Inl_mem [OF assms(1)])
  then obtain e where "mapAPITransformations ?L (sa_Transformations spec) = Inl e" by (auto simp: isl_def)
  then show ?thesis
    by (simp add: ConvertSecActionToString_def ConvertSecAction_def ConvertSecRule_def IsSingleRuleForm_def
        convertSingleRuleForm_def effective_matches_def always_match_def alwaysMatchToRuleWithCondition_def)
qed

text \<open>
  C38: The webhook does not look at the transformations of a SecAction, although the conversion refuses
  unknown ones. A single such SecAction among the objects a WAF refers to makes the assembly of the
  whole WAF fail.
\<close>

theorem unchecked_action_blocks_assembly:
  assumes "obj \<in> set objs" and "uo_Kind obj = ''SecAction''" and "uo_Payload obj = PSecAction sa"
    and "t \<in> set (sa_Transformations (sa_Spec sa))" and "trim_space t \<in> {[], ''unknown'', ''unknownTransformation''}"
  shows "validate_SecAction (sa\<lparr> sa_Spec := (sa_Spec sa)\<lparr> sa_Transformations := [] \<rparr> \<rparr>) = validate_SecAction sa \<and>
         isl (GetSecLang order P objs)"
proof
  show "validate_SecAction (sa\<lparr> sa_Spec := (sa_Spec sa)\<lparr> sa_Transformations := [] \<rparr> \<rparr>) = validate_SecAction sa"
    by (simp add: validate_SecAction_def Let_def)
  show "isl (GetSecLang order P objs)"
  proof (cases "lang_items objs")
    case (Inr items)
    have "lang_item obj = Inr (action_item sa)" "is_lang obj"
      using assms(2,3) by (simp_all add: lang_item_def is_lang_def)
    with Inr assms(1) have "action_item sa \<in> set items"
      by (auto simp: lang_items_def dest!: mapE_mem [where x = obj])
    moreover have "isl (render_item order P (action_item sa))"
      using unknown_action_fails [OF assms(4,5), of order P]
      by (auto simp: render_item_def action_item_def isl_def)
    ultimately have "isl (mapE (render_item order P) (sort_key item_order items))" by (intro mapE_isl) simp
    with Inr show ?thesis by (simp add: GetSecLang_def)
  qed (simp add: GetSecLang_def)
qed

section \<open>Lists\<close>

lemma readConfigMapKey_Inl:
  "readConfigMapKey c ns name key = Inl e \<Longrightarrow> e = ConfigMapFailed ns name \<or> e = ConfigMapKeyMissing ns name key"
  by (auto simp: readConfigMapKey_def split: option.splits)

lemma compose_parts_Inl:
  "compose_parts rd buf ps = Inl e \<Longrightarrow> \<exists>p \<in> set ps. rd (cmr_Name p) (cmr_Key p) = Inl e"
  by (induction ps arbitrary: buf) (auto simp: bindE_Inl_iff)

lemma list_errors_sources:
  assumes "list_errors pl = []"
  shows "pl_FileName pl \<noteq> []"
    and "pl_Content pl \<noteq> [] \<Longrightarrow> pl_ConfigMapRef pl = None \<and> pl_Parts pl = [] \<and> trim_space (pl_Content pl) \<noteq> []"
    and "pl_Content pl = [] \<Longrightarrow> (pl_ConfigMapRef pl \<noteq> None) \<noteq> (pl_Parts pl \<noteq> [])"
  using assms by (auto simp: list_errors_def Let_def of_bool_def split: if_splits)

text \<open>
  An admitted PhraseList has a file name and a body: reading the body fails only when a ConfigMap
  it names, or the key in it, does not exist, and inline content is the body as it stands. A list
  without a source never reaches the data plane.
\<close>

theorem admitted_list_body:
  assumes "admitted (validate_PhraseList pl)"
  shows "pl_FileName pl \<noteq> [] \<and>
         (pl_Content pl \<noteq> [] \<longrightarrow> resolvePhraseListBody c pl = Inr (pl_Content pl)) \<and>
         (\<forall>e. resolvePhraseListBody c pl = Inl e \<longrightarrow>
            (\<exists>name key. e = ConfigMapFailed (pl_Namespace pl) name \<or> e = ConfigMapKeyMissing (pl_Namespace pl) name key))"
proof -
  have errs: "list_errors pl = []" using assms by (simp add: admitted_def validate_PhraseList_def)
  have "\<exists>name key. e = ConfigMapFailed (pl_Namespace pl) name \<or> e = ConfigMapKeyMissing (pl_Namespace pl) name key"
    if e: "resolvePhraseListBody c pl = Inl e" for e
  proof -
    from e list_errors_sources [OF errs] obtain name key where "readConfigMapKey c (pl_Namespace pl) name key = Inl e"
      by (auto simp: resolvePhraseListBody_def list_body_def split: if_splits option.splits dest!: compose_parts_Inl)
    then show ?thesis by (auto dest: readConfigMapKey_Inl)
  qed
  with list_errors_sources(1) [OF errs] show ?thesis by (auto simp: resolvePhraseListBody_def list_body_def)
qed

section \<open>Instances\<close>

definition demo_flow_rule :: SecRule where
  "demo_flow_rule =
     (demo_secrule ''x'' 7 ''a'')\<lparr> sr_Spec := empty_spec\<lparr> spec_Match := [always_match],
        spec_Actions := Some (no_actions\<lparr> act_Flow := [\<lparr> fa_Type = Chain, fa_Value = [] \<rparr>] \<rparr>) \<rparr> \<rparr>"

theorem admitted_rule_converts_witness:
  "\<exists>e. ConvertSecRule (crslang.truncate demo_pattern_printer) (sr_Spec demo_flow_rule) = Inl e \<and>
       (e = CopyFailed \<or> (\<exists>t v. e = ActionFailed t v))"
proof -
  let ?L = "crslang.truncate demo_pattern_printer"
  have adm: "admitted (validate_SecRule ?L demo_flow_rule)"
    by (simp add: admitted_def validate_SecRule_def validateSecRuleSpec_def validateSecLangBags_def validateSingleRuleForm_def
        demo_flow_rule_def empty_spec_def IsSingleRuleForm_def match_errors_def transform_errors_def always_match_def
        ValidateAPITransformations_def phase_errors_def phaseOf_def)
  have "\<exists>e. ConvertSecRule ?L (sr_Spec demo_flow_rule) = Inl e"
    by (simp add: demo_flow_rule_def empty_spec_def ConvertSecRule_def IsSingleRuleForm_def convertSingleRuleForm_def
        effective_matches_def always_match_def alwaysMatchToRuleWithCondition_def mapAPITransformations_def copy_metadata_def
        convert_actions_def SecActionToCSR_def no_actions_def actionToCSR_def crslang.truncate_def demo_pattern_printer_def)
  with admitted_rule_converts [OF adm] show ?thesis by blast
qed

definition demo_bad_action :: SecAction where
  "demo_bad_action =
     \<lparr> sa_Meta = sr_Meta (demo_secrule ''x'' 7 ''a''),
       sa_Spec = \<lparr> act_Data = [], act_DisruptiveAction = None, act_Flow = [], act_NonDisruptive = [],
                   sa_Metadata = Some no_metadata, sa_Transformations = [''unknown''] \<rparr>,
       sa_Status = \<lparr> sas_SecRuleString = [], sas_RuleSetRefs = [] \<rparr> \<rparr>"

definition demo_bad_obj :: uobj where
  "demo_bad_obj = \<lparr> uo_Kind = ''SecAction'', uo_Namespace = ''x'', uo_Name = ''r'', uo_Finalizers = [],
                    uo_Payload = PSecAction demo_bad_action \<rparr>"

theorem unchecked_action_blocks_assembly_witness:
  "admitted (validate_SecAction demo_bad_action) \<and>
   isl (GetSecLang severityNameToLevel demo_pattern_printer [demo_uobj (demo_secrule ''x'' 7 ''a''), demo_bad_obj])"
proof -
  have "trim_space ''unknown'' = ''unknown''" by code_simp
  then show ?thesis
    using unchecked_action_blocks_assembly [of demo_bad_obj "[demo_uobj (demo_secrule ''x'' 7 ''a''), demo_bad_obj]"
        demo_bad_action "''unknown''" severityNameToLevel demo_pattern_printer]
    by (simp add: demo_bad_obj_def demo_bad_action_def validate_SecAction_def admitted_def phase_errors_def phaseOf_def no_metadata_def)
qed

definition demo_no_cluster :: pf_client where
  "demo_no_cluster =
     \<lparr> pf_ListPhraseListIndexed = (\<lambda>_ _. None), pf_ListPhraseList = (\<lambda>_. None), pf_GetPhraseList = (\<lambda>_ _. None),
       pf_ListIPListIndexed = (\<lambda>_ _. None), pf_ListIPList = (\<lambda>_. None), pf_GetIPList = (\<lambda>_ _. None),
       pf_GetConfigMap = (\<lambda>_ _. None) \<rparr>"

theorem admitted_list_body_witness: "resolvePhraseListBody demo_no_cluster (demo_list ''x.data'' ''a'') = Inr ''a''"
proof -
  have "admitted (validate_PhraseList (demo_list ''x.data'' ''a''))" by code_simp
  from admitted_list_body [OF this] show ?thesis by (simp add: demo_list_def)
qed

end
