(* ===== verification/Challenge.thy ===== *)
theory Challenge
  imports Directives Base64
begin

text \<open>
  The HMAC secret of the challenge filter, \<open>internal/dataplane/challenge/secret.go\<close>.

  The cluster is a state \<open>'w\<close> with the operations of the API client and the source of randomness as
  parameters; an update that fails, a \<open>Create\<close> that loses a race and a read that fails are answers of
  the client. \<open>uid\<close> is the UID of the WAF. The scheme is \<open>None\<close> when it is nil, and otherwise what
  \<open>SetControllerReference\<close> does under it.
\<close>

section \<open>Secrets\<close>

record Secret =
  sec_Namespace :: string
  sec_Name :: string
  sec_Labels :: string_map
  sec_Owners :: "(string \<times> bool) list"
  sec_Data :: string_map

record 'w secret_client =
  sc_Get :: "string \<Rightarrow> string \<Rightarrow> 'w \<Rightarrow> Secret api_result"
  sc_Create :: "Secret \<Rightarrow> 'w \<Rightarrow> Secret api_result \<times> 'w"
  sc_Update :: "Secret \<Rightarrow> 'w \<Rightarrow> Secret api_result \<times> 'w"
  sc_Rand :: "nat \<Rightarrow> 'w \<Rightarrow> string option \<times> 'w"

type_synonym owner_scheme = "(string \<Rightarrow> Secret \<Rightarrow> Secret option) option"

datatype challenge_error =
    InlineSecretShort
  | SecretRefIncomplete
  | SecretRefFailed "Secret api_result"
  | SecretRefKeyMissing
  | SecretRefShort
  | ManagedReadFailed "Secret api_result"
  | ManagedUnusable
  | RandomFailed
  | OwnerFailed
  | UpdateFailed "Secret api_result"
  | CreateFailed "Secret api_result"
  | RegetFailed "Secret api_result"

record ChallengeHMACResult =
  chr_Value :: string
  chr_SecretName :: string
  chr_Managed :: bool

definition ChallengeHMACKey :: string where "ChallengeHMACKey = ''hmac''"
definition challengeHMACBytes :: nat where "challengeHMACBytes = 32"
definition managedChallengeSecretSuffix :: string where "managedChallengeSecretSuffix = ''-challenge-hmac''"

definition ManagedChallengeSecretName :: "string \<Rightarrow> string" where
  "ManagedChallengeSecretName wafName =
     (let suffix = managedChallengeSecretSuffix in
      if length wafName + length suffix \<le> 63 then wafName @ suffix
      else (let keep = 63 - int (length suffix) in
            if keep < 1 then ''challenge-hmac'' else take (nat keep) wafName @ suffix))"

text \<open>\<open>base64.RawURLEncoding\<close>: the URL alphabet, no padding.\<close>

definition rawURLEncode :: "string \<Rightarrow> string" where
  "rawURLEncode raw =
     map (\<lambda>c. if c = CHR ''+'' then CHR ''-'' else if c = CHR ''/'' then CHR ''_'' else c)
       (filter (\<lambda>c. c \<noteq> CHR ''='') (base64Encode raw))"

definition generateChallengeHMAC :: "'w secret_client \<Rightarrow> 'w \<Rightarrow> (challenge_error + string) \<times> 'w" where
  "generateChallengeHMAC c w =
     (case sc_Rand c challengeHMACBytes w of
        (None, w') \<Rightarrow> (Inl RandomFailed, w')
      | (Some raw, w') \<Rightarrow> (Inr (rawURLEncode raw), w'))"

definition secretHMACValue :: "Secret \<Rightarrow> string option" where
  "secretHMACValue sec =
     (let usable = (\<lambda>k. case map_of (sec_Data sec) k of None \<Rightarrow> None | Some v \<Rightarrow> if length v \<ge> 32 then Some v else None)
      in case usable ChallengeHMACKey of Some v \<Rightarrow> Some v | None \<Rightarrow> usable ''secret'')"

definition managed_labels :: "string \<Rightarrow> string_map" where
  "managed_labels wafName =
     [(''app.kubernetes.io/managed-by'', ''kubewaf''), (''kubewaf.io/waf'', wafName),
      (''kubewaf.io/component'', ''challenge-hmac'')]"

definition setManagedSecretLabels :: "string \<Rightarrow> Secret \<Rightarrow> Secret" where
  "setManagedSecretLabels wafName sec =
     sec\<lparr> sec_Labels := fold (\<lambda>(k, v). AList.update k v) (managed_labels wafName) (sec_Labels sec) \<rparr>"

definition set_owner :: "owner_scheme \<Rightarrow> string \<Rightarrow> Secret \<Rightarrow> challenge_error + Secret" where
  "set_owner scheme uid sec =
     (case scheme of
        None \<Rightarrow> Inr sec
      | Some own \<Rightarrow> (case own uid sec of None \<Rightarrow> Inl OwnerFailed | Some s \<Rightarrow> Inr s))"

definition update_secret :: "'w secret_client \<Rightarrow> Secret \<Rightarrow> 'w \<Rightarrow> challenge_error option \<times> 'w" where
  "update_secret c sec w =
     (case sc_Update c sec w of
        (ApiOk _, w') \<Rightarrow> (None, w')
      | (r, w') \<Rightarrow> (Some (UpdateFailed r), w'))"

section \<open>The managed secret\<close>

definition managed_result :: "string \<Rightarrow> string \<Rightarrow> ChallengeHMACResult" where
  "managed_result v name = \<lparr> chr_Value = v, chr_SecretName = name, chr_Managed = True \<rparr>"

definition readManagedChallengeSecret ::
  "'w secret_client \<Rightarrow> WAF \<Rightarrow> 'w \<Rightarrow> challenge_error + ChallengeHMACResult" where
  "readManagedChallengeSecret c waf w =
     (let name = ManagedChallengeSecretName (waf_Name waf) in
      case sc_Get c (waf_Namespace waf) name w of
        ApiOk sec \<Rightarrow>
          (case secretHMACValue sec of Some v \<Rightarrow> Inr (managed_result v name) | None \<Rightarrow> Inl ManagedUnusable)
      | r \<Rightarrow> Inl (ManagedReadFailed r))"

text \<open>\<open>needsUpdate\<close> and the secret to write; a nil label map counts as empty.\<close>

definition adoptManagedSecretIfNeeded ::
  "'w secret_client \<Rightarrow> owner_scheme \<Rightarrow> string \<Rightarrow> WAF \<Rightarrow> Secret \<Rightarrow> 'w \<Rightarrow> challenge_error option \<times> 'w" where
  "adoptManagedSecretIfNeeded c scheme uid waf sec w =
     (let labelled = list_all (\<lambda>(k, v). smap_get (sec_Labels sec) k = v) (managed_labels (waf_Name waf));
          sec1 = (if labelled then sec else setManagedSecretLabels (waf_Name waf) sec);
          hasOwner = list_ex (\<lambda>o'. o' = (uid, True)) (sec_Owners sec)
      in if hasOwner \<or> scheme = None then
           (if labelled then (None, w) else update_secret c sec1 w)
         else (case set_owner scheme uid sec1 of
                 Inl e \<Rightarrow> (Some e, w)
               | Inr sec2 \<Rightarrow> update_secret c sec2 w))"

definition refill_secret ::
  "'w secret_client \<Rightarrow> owner_scheme \<Rightarrow> string \<Rightarrow> WAF \<Rightarrow> Secret \<Rightarrow> 'w \<Rightarrow> (challenge_error + ChallengeHMACResult) \<times> 'w" where
  "refill_secret c scheme uid waf sec w =
     (case generateChallengeHMAC c w of
        (Inl e, w1) \<Rightarrow> (Inl e, w1)
      | (Inr val, w1) \<Rightarrow>
          (case set_owner scheme uid
                  (setManagedSecretLabels (waf_Name waf)
                    (sec\<lparr> sec_Data := AList.update ChallengeHMACKey val (sec_Data sec) \<rparr>)) of
             Inl e \<Rightarrow> (Inl e, w1)
           | Inr sec' \<Rightarrow>
               (case update_secret c sec' w1 of
                  (Some e, w2) \<Rightarrow> (Inl e, w2)
                | (None, w2) \<Rightarrow> (Inr (managed_result val (ManagedChallengeSecretName (waf_Name waf))), w2))))"

definition create_secret ::
  "'w secret_client \<Rightarrow> owner_scheme \<Rightarrow> string \<Rightarrow> WAF \<Rightarrow> 'w \<Rightarrow> (challenge_error + ChallengeHMACResult) \<times> 'w" where
  "create_secret c scheme uid waf w =
     (let name = ManagedChallengeSecretName (waf_Name waf); ns = waf_Namespace waf in
      case generateChallengeHMAC c w of
        (Inl e, w1) \<Rightarrow> (Inl e, w1)
      | (Inr val, w1) \<Rightarrow>
          (case set_owner scheme uid
                  \<lparr> sec_Namespace = ns, sec_Name = name, sec_Labels = managed_labels (waf_Name waf), sec_Owners = [],
                    sec_Data = [(ChallengeHMACKey, val)] \<rparr> of
             Inl e \<Rightarrow> (Inl e, w1)
           | Inr sec \<Rightarrow>
               (case sc_Create c sec w1 of
                  (ApiOk _, w2) \<Rightarrow> (Inr (managed_result val name), w2)
                | (ApiAlreadyExists, w2) \<Rightarrow>
                    (case sc_Get c ns name w2 of
                       ApiOk existing \<Rightarrow>
                         (case secretHMACValue existing of
                            Some v \<Rightarrow> (Inr (managed_result v name), w2)
                          | None \<Rightarrow> (Inl ManagedUnusable, w2))
                     | r \<Rightarrow> (Inl (RegetFailed r), w2))
                | (r, w2) \<Rightarrow> (Inl (CreateFailed r), w2))))"

definition ensureManagedChallengeSecret ::
  "'w secret_client \<Rightarrow> owner_scheme \<Rightarrow> string \<Rightarrow> WAF \<Rightarrow> 'w \<Rightarrow> (challenge_error + ChallengeHMACResult) \<times> 'w" where
  "ensureManagedChallengeSecret c scheme uid waf w =
     (let name = ManagedChallengeSecretName (waf_Name waf) in
      case sc_Get c (waf_Namespace waf) name w of
        ApiOk existing \<Rightarrow>
          (case secretHMACValue existing of
             Some v \<Rightarrow>
               (case adoptManagedSecretIfNeeded c scheme uid waf existing w of
                  (Some e, w') \<Rightarrow> (Inl e, w')
                | (None, w') \<Rightarrow> (Inr (managed_result v name), w'))
           | None \<Rightarrow> refill_secret c scheme uid waf existing w)
      | ApiNotFound \<Rightarrow> create_secret c scheme uid waf w
      | r \<Rightarrow> (Inl (ManagedReadFailed r), w))"

section \<open>Resolution\<close>

definition no_hmac :: ChallengeHMACResult where
  "no_hmac = \<lparr> chr_Value = [], chr_SecretName = [], chr_Managed = False \<rparr>"

definition referenced_hmac :: "'w secret_client \<Rightarrow> string \<Rightarrow> SecretKeyRef \<Rightarrow> 'w \<Rightarrow> challenge_error + ChallengeHMACResult" where
  "referenced_hmac c ns ref w =
     (if skr_Name ref = [] \<or> skr_Key ref = [] then Inl SecretRefIncomplete
      else case sc_Get c ns (skr_Name ref) w of
             ApiOk sec \<Rightarrow>
               (let raw = smap_get (sec_Data sec) (skr_Key ref) in
                if raw = [] then Inl SecretRefKeyMissing
                else if length raw < 32 then Inl SecretRefShort
                else Inr \<lparr> chr_Value = raw, chr_SecretName = skr_Name ref, chr_Managed = False \<rparr>)
           | r \<Rightarrow> Inl (SecretRefFailed r))"

definition ResolveChallengeHMAC ::
  "'w secret_client \<Rightarrow> owner_scheme \<Rightarrow> string \<Rightarrow> WAF \<Rightarrow> bool \<Rightarrow> 'w \<Rightarrow> (challenge_error + ChallengeHMACResult) \<times> 'w" where
  "ResolveChallengeHMAC c scheme uid waf ensureManaged w =
     (case ws_Challenge (waf_Spec waf) of
        None \<Rightarrow> (Inr no_hmac, w)
      | Some ch \<Rightarrow>
          if \<not> ChallengeEnabled (Some ch) then (Inr no_hmac, w)
          else if ch_Secret ch \<noteq> [] then
            (if length (ch_Secret ch) < 32 then (Inl InlineSecretShort, w)
             else (Inr \<lparr> chr_Value = ch_Secret ch, chr_SecretName = [], chr_Managed = False \<rparr>, w))
          else case ch_SecretRef ch of
                 Some ref \<Rightarrow> (referenced_hmac c (waf_Namespace waf) ref w, w)
               | None \<Rightarrow>
                   if ensureManaged then ensureManagedChallengeSecret c scheme uid waf w
                   else (readManagedChallengeSecret c waf w, w))"

end
