(* ===== verification/ChallengeThms.thy ===== *)
theory ChallengeThms
  imports Challenge
begin

text \<open>
  The leader creates or adopts the managed secret and the other replicas only read it. They agree, and
  the key is never replaced once it is usable.
\<close>

section \<open>Generated keys\<close>

lemma rawURLEncode_length: "length (rawURLEncode raw) = (4 * length raw + 2) div 3"
proof -
  have "length (filter (\<lambda>c. c \<noteq> CHR ''='') (base64Encode raw)) = (4 * length raw + 2) div 3"
    by (induction raw rule: base64Encode.induct) (simp_all add: sextets [THEN b64_char_not_pad])
  then show ?thesis by (simp add: rawURLEncode_def)
qed

section \<open>The API\<close>

text \<open>
  What the code relies on: a read answers with the object asked for, a read after a successful write
  with the data written, the random source fills the buffer, and setting the owner leaves name and
  data alone.
\<close>

definition secret_store_ok :: "'w secret_client \<Rightarrow> bool" where
  "secret_store_ok c \<longleftrightarrow>
     (\<forall>ns n w s. sc_Get c ns n w = ApiOk s \<longrightarrow> sec_Namespace s = ns \<and> sec_Name s = n) \<and>
     (\<forall>s w r w'. sc_Create c s w = (ApiOk r, w') \<longrightarrow>
        (\<exists>s'. sc_Get c (sec_Namespace s) (sec_Name s) w' = ApiOk s' \<and> sec_Data s' = sec_Data s)) \<and>
     (\<forall>s w r w'. sc_Update c s w = (ApiOk r, w') \<longrightarrow>
        (\<exists>s'. sc_Get c (sec_Namespace s) (sec_Name s) w' = ApiOk s' \<and> sec_Data s' = sec_Data s)) \<and>
     (\<forall>k w raw w'. sc_Rand c k w = (Some raw, w') \<longrightarrow> length raw = k)"

definition scheme_ok :: "owner_scheme \<Rightarrow> bool" where
  "scheme_ok scheme \<longleftrightarrow>
     (\<forall>own uid s s'. scheme = Some own \<longrightarrow> own uid s = Some s' \<longrightarrow>
        sec_Namespace s' = sec_Namespace s \<and> sec_Name s' = sec_Name s \<and> sec_Data s' = sec_Data s)"

lemma set_owner_keeps:
  assumes "scheme_ok scheme" and "set_owner scheme uid s = Inr s'"
  shows "sec_Namespace s' = sec_Namespace s \<and> sec_Name s' = sec_Name s \<and> sec_Data s' = sec_Data s"
  using assms by (auto simp: scheme_ok_def set_owner_def split: option.splits)

lemma setManagedSecretLabels_keeps [simp]:
  "sec_Namespace (setManagedSecretLabels n s) = sec_Namespace s"
  "sec_Name (setManagedSecretLabels n s) = sec_Name s"
  "sec_Data (setManagedSecretLabels n s) = sec_Data s"
  by (simp_all add: setManagedSecretLabels_def)

lemma secretHMACValue_cong: "sec_Data s = sec_Data t \<Longrightarrow> secretHMACValue s = secretHMACValue t"
  by (simp add: secretHMACValue_def)

lemma secretHMACValue_length: "secretHMACValue s = Some v \<Longrightarrow> 32 \<le> length v"
  by (auto simp: secretHMACValue_def Let_def split: option.splits if_splits)

lemma secretHMACValue_key:
  "map_of (sec_Data s) ChallengeHMACKey = Some v \<Longrightarrow> 32 \<le> length v \<Longrightarrow> secretHMACValue s = Some v"
  by (simp add: secretHMACValue_def)

text \<open>The managed secret of a WAF holds a usable key.\<close>

definition holds_key :: "'w secret_client \<Rightarrow> WAF \<Rightarrow> string \<Rightarrow> 'w \<Rightarrow> bool" where
  "holds_key c waf v w \<longleftrightarrow>
     (\<exists>s. sc_Get c (waf_Namespace waf) (ManagedChallengeSecretName (waf_Name waf)) w = ApiOk s \<and> secretHMACValue s = Some v)"

lemma update_secret_holds:
  assumes "secret_store_ok c" and "update_secret c s w = (None, w')" and "secretHMACValue s = Some v"
    and "sec_Namespace s = waf_Namespace waf" and "sec_Name s = ManagedChallengeSecretName (waf_Name waf)"
  shows "holds_key c waf v w'"
proof -
  from assms(2) obtain r where "sc_Update c s w = (ApiOk r, w')"
    by (auto simp: update_secret_def split: prod.splits api_result.splits)
  with assms(1) obtain s' where "sc_Get c (sec_Namespace s) (sec_Name s) w' = ApiOk s'" "sec_Data s' = sec_Data s"
    unfolding secret_store_ok_def by blast
  with assms(3-5) secretHMACValue_cong [of s' s] show ?thesis by (auto simp: holds_key_def)
qed

lemma adopt_writes:
  assumes "scheme_ok scheme" and "adoptManagedSecretIfNeeded c scheme uid waf s w = (None, w')"
  shows "w' = w \<or> (\<exists>s1. update_secret c s1 w = (None, w') \<and> sec_Data s1 = sec_Data s \<and>
                       sec_Namespace s1 = sec_Namespace s \<and> sec_Name s1 = sec_Name s)"
proof -
  define labelled where "labelled = list_all (\<lambda>(k, v). smap_get (sec_Labels s) k = v) (managed_labels (waf_Name waf))"
  define s1 where "s1 = (if labelled then s else setManagedSecretLabels (waf_Name waf) s)"
  have s1: "sec_Data s1 = sec_Data s" "sec_Namespace s1 = sec_Namespace s" "sec_Name s1 = sec_Name s"
    by (simp_all add: s1_def)
  note adopt = assms(2) [unfolded adoptManagedSecretIfNeeded_def Let_def, folded labelled_def, folded s1_def]
  show ?thesis
  proof (cases "list_ex (\<lambda>o'. o' = (uid, True)) (sec_Owners s) \<or> scheme = None")
    case True
    with adopt s1 show ?thesis by (cases labelled) auto
  next
    case False
    with adopt obtain s2 where s2: "set_owner scheme uid s1 = Inr s2" "update_secret c s2 w = (None, w')"
      by (cases "set_owner scheme uid s1") auto
    with set_owner_keeps [OF assms(1) s2(1)] s1 show ?thesis by auto
  qed
qed

lemma adopt_holds:
  assumes "secret_store_ok c" and "scheme_ok scheme"
    and "sc_Get c (waf_Namespace waf) (ManagedChallengeSecretName (waf_Name waf)) w = ApiOk s"
    and "secretHMACValue s = Some v" and "adoptManagedSecretIfNeeded c scheme uid waf s w = (None, w')"
  shows "holds_key c waf v w'"
proof -
  have s: "sec_Namespace s = waf_Namespace waf" "sec_Name s = ManagedChallengeSecretName (waf_Name waf)"
    using assms(1,3) unfolding secret_store_ok_def by blast+
  consider "w' = w"
    | s1 where "update_secret c s1 w = (None, w')" "sec_Data s1 = sec_Data s" "sec_Namespace s1 = sec_Namespace s" "sec_Name s1 = sec_Name s"
    using adopt_writes [OF assms(2,5)] by blast
  then show ?thesis
  proof cases
    case 1
    with assms(3,4) show ?thesis by (simp add: holds_key_def)
  next
    case 2
    with s assms(4) show ?thesis
      using update_secret_holds [OF assms(1) 2(1)] secretHMACValue_cong [OF 2(2)] by simp
  qed
qed

lemma generate_length:
  assumes "secret_store_ok c" and "generateChallengeHMAC c w = (Inr v, w')"
  shows "32 \<le> length v"
proof -
  from assms(2) obtain raw where "sc_Rand c challengeHMACBytes w = (Some raw, w')" "v = rawURLEncode raw"
    by (auto simp: generateChallengeHMAC_def split: prod.splits option.splits)
  with assms(1) have "length raw = 32" unfolding secret_store_ok_def challengeHMACBytes_def by blast
  with \<open>v = rawURLEncode raw\<close> show ?thesis by (simp add: rawURLEncode_length)
qed

lemma refill_holds:
  assumes "secret_store_ok c" and "scheme_ok scheme"
    and "sc_Get c (waf_Namespace waf) (ManagedChallengeSecretName (waf_Name waf)) w0 = ApiOk s"
    and "refill_secret c scheme uid waf s w = (Inr r, w')"
  shows "holds_key c waf (chr_Value r) w' \<and> r = managed_result (chr_Value r) (ManagedChallengeSecretName (waf_Name waf))"
proof -
  have s: "sec_Namespace s = waf_Namespace waf" "sec_Name s = ManagedChallengeSecretName (waf_Name waf)"
    using assms(1,3) unfolding secret_store_ok_def by blast+
  from assms(4) obtain v w1 s' where v: "generateChallengeHMAC c w = (Inr v, w1)"
    and own: "set_owner scheme uid (setManagedSecretLabels (waf_Name waf) (s\<lparr> sec_Data := AList.update ChallengeHMACKey v (sec_Data s) \<rparr>)) = Inr s'"
    and up: "update_secret c s' w1 = (None, w')" and r: "r = managed_result v (ManagedChallengeSecretName (waf_Name waf))"
    by (auto simp: refill_secret_def split: prod.splits sum.splits option.splits)
  have "map_of (sec_Data s') ChallengeHMACKey = Some v" "sec_Namespace s' = sec_Namespace s" "sec_Name s' = sec_Name s"
    using set_owner_keeps [OF assms(2) own] by (simp_all add: update_conv')
  with s update_secret_holds [OF assms(1) up secretHMACValue_key] generate_length [OF assms(1) v] r
  show ?thesis by (simp add: managed_result_def)
qed

lemma create_holds:
  assumes "secret_store_ok c" and "scheme_ok scheme" and "create_secret c scheme uid waf w = (Inr r, w')"
  shows "holds_key c waf (chr_Value r) w' \<and> r = managed_result (chr_Value r) (ManagedChallengeSecretName (waf_Name waf))"
proof -
  let ?new = "\<lambda>v. \<lparr> sec_Namespace = waf_Namespace waf, sec_Name = ManagedChallengeSecretName (waf_Name waf),
                   sec_Labels = managed_labels (waf_Name waf), sec_Owners = [], sec_Data = [(ChallengeHMACKey, v)] \<rparr>"
  from assms(3) obtain v w1 s where v: "generateChallengeHMAC c w = (Inr v, w1)"
    and own: "set_owner scheme uid (?new v) = Inr s"
    and "(\<exists>a. sc_Create c s w1 = (ApiOk a, w') \<and> r = managed_result v (ManagedChallengeSecretName (waf_Name waf))) \<or>
         (\<exists>x. holds_key c waf x w' \<and> r = managed_result x (ManagedChallengeSecretName (waf_Name waf)))"
    by (auto simp: create_secret_def Let_def holds_key_def split: prod.splits sum.splits option.splits api_result.splits)
  then consider a where "sc_Create c s w1 = (ApiOk a, w')" "r = managed_result v (ManagedChallengeSecretName (waf_Name waf))"
    | x where "holds_key c waf x w'" "r = managed_result x (ManagedChallengeSecretName (waf_Name waf))" by blast
  then show ?thesis
  proof cases
    case 1
    have keeps: "sec_Namespace s = waf_Namespace waf" "sec_Name s = ManagedChallengeSecretName (waf_Name waf)"
      "sec_Data s = [(ChallengeHMACKey, v)]" using set_owner_keeps [OF assms(2) own] by simp_all
    from assms(1) 1(1) obtain s' where s': "sc_Get c (sec_Namespace s) (sec_Name s) w' = ApiOk s'" "sec_Data s' = sec_Data s"
      unfolding secret_store_ok_def by blast
    have "secretHMACValue s' = Some v"
      by (rule secretHMACValue_key) (use s'(2) keeps generate_length [OF assms(1) v] in simp_all)
    with s'(1) keeps 1(2) show ?thesis by (auto simp: holds_key_def managed_result_def)
  qed (simp add: managed_result_def)
qed

lemma ensure_holds:
  assumes "secret_store_ok c" and "scheme_ok scheme" and "ensureManagedChallengeSecret c scheme uid waf w = (Inr r, w')"
  shows "holds_key c waf (chr_Value r) w' \<and> r = managed_result (chr_Value r) (ManagedChallengeSecretName (waf_Name waf))"
proof (cases "sc_Get c (waf_Namespace waf) (ManagedChallengeSecretName (waf_Name waf)) w")
  case (ApiOk s)
  show ?thesis
  proof (cases "secretHMACValue s")
    case None
    with ApiOk assms(3) refill_holds [OF assms(1,2) ApiOk] show ?thesis by (simp add: ensureManagedChallengeSecret_def)
  next
    case (Some v)
    with ApiOk assms(3) have "adoptManagedSecretIfNeeded c scheme uid waf s w = (None, w')"
      "r = managed_result v (ManagedChallengeSecretName (waf_Name waf))"
      by (auto simp: ensureManagedChallengeSecret_def Let_def split: prod.splits option.splits)
    with adopt_holds [OF assms(1,2) ApiOk Some] show ?thesis by (simp add: managed_result_def)
  qed
next
  case ApiNotFound
  with assms(3) create_holds [OF assms(1,2)] show ?thesis by (simp add: ensureManagedChallengeSecret_def)
qed (use assms(3) in \<open>simp_all add: ensureManagedChallengeSecret_def\<close>)

section \<open>Agreement\<close>

lemma read_holds:
  assumes "holds_key c waf v w"
  shows "readManagedChallengeSecret c waf w = Inr (managed_result v (ManagedChallengeSecretName (waf_Name waf)))"
  using assms by (auto simp: holds_key_def readManagedChallengeSecret_def)

lemma ensure_keeps_key:
  assumes "holds_key c waf v w" and "ensureManagedChallengeSecret c scheme uid waf w = (Inr r, w')"
  shows "r = managed_result v (ManagedChallengeSecretName (waf_Name waf))"
  using assms by (auto simp: holds_key_def ensureManagedChallengeSecret_def Let_def split: prod.splits option.splits)

lemma referenced_hmac_length: "referenced_hmac c ns ref w = Inr r \<Longrightarrow> 32 \<le> length (chr_Value r)"
  by (auto simp: referenced_hmac_def Let_def split: api_result.splits if_splits)

text \<open>
  C39: The key of an enabled challenge has at least 32 bytes, and all replicas use the same one: after
  the leader has resolved it, a replica that may only read resolves the same key without writing, and
  every later resolution by a leader that succeeds gives that key again.
\<close>

theorem challenge_key_agreed:
  assumes "secret_store_ok c" and "scheme_ok scheme" and "ChallengeEnabled (ws_Challenge (waf_Spec waf))"
    and "ResolveChallengeHMAC c scheme uid waf True w = (Inr r, w')"
  shows "32 \<le> length (chr_Value r) \<and>
         ResolveChallengeHMAC c scheme' uid' waf False w' = (Inr r, w') \<and>
         (\<forall>scheme2 uid2 r2 w2. ResolveChallengeHMAC c scheme2 uid2 waf True w' = (Inr r2, w2) \<longrightarrow> r2 = r)"
proof -
  obtain ch where ch: "ws_Challenge (waf_Spec waf) = Some ch" "ChallengeEnabled (Some ch)"
    using assms(3) by (cases "ws_Challenge (waf_Spec waf)") (auto simp: ChallengeEnabled_def)
  show ?thesis
  proof (cases "ch_Secret ch = [] \<and> ch_SecretRef ch = None")
    case True
    with ch assms(4) have "ensureManagedChallengeSecret c scheme uid waf w = (Inr r, w')"
      by (simp add: ResolveChallengeHMAC_def)
    note h = ensure_holds [OF assms(1,2) this]
    then have "32 \<le> length (chr_Value r)" by (auto simp: holds_key_def dest: secretHMACValue_length)
    moreover have "ResolveChallengeHMAC c scheme' uid' waf False w' = (Inr r, w')"
      using True ch h read_holds [of c waf "chr_Value r" w'] by (simp add: ResolveChallengeHMAC_def)
    moreover have "r2 = r" if "ResolveChallengeHMAC c scheme2 uid2 waf True w' = (Inr r2, w2)" for scheme2 uid2 r2 w2
      using True ch h that ensure_keeps_key [of c waf "chr_Value r" w' scheme2 uid2 r2 w2] by (simp add: ResolveChallengeHMAC_def)
    ultimately show ?thesis by blast
  next
    case False
    with ch assms(4) show ?thesis
      by (cases "ch_Secret ch = []") (auto simp: ResolveChallengeHMAC_def dest: referenced_hmac_length split: if_splits)
  qed
qed

text \<open>
  The name of the managed secret keeps 48 bytes of the name of the WAF, so WAFs of one namespace whose
  long names agree that far share the secret.
\<close>

lemma ManagedChallengeSecretName_collision:
  assumes "length a > 48" and "length b > 48" and "take 48 a = take 48 b"
  shows "ManagedChallengeSecretName a = ManagedChallengeSecretName b"
  using assms by (simp add: ManagedChallengeSecretName_def managedChallengeSecretSuffix_def)

section \<open>An instance\<close>

definition demo_secrets :: "Secret list secret_client" where
  "demo_secrets =
     \<lparr> sc_Get = (\<lambda>ns n w. case find (\<lambda>s. sec_Namespace s = ns \<and> sec_Name s = n) w of None \<Rightarrow> ApiNotFound | Some s \<Rightarrow> ApiOk s),
       sc_Create = (\<lambda>s w. (ApiOk s, s # w)), sc_Update = (\<lambda>s w. (ApiOk s, s # w)),
       sc_Rand = (\<lambda>k w. (Some (replicate k (CHR ''x'')), w)) \<rparr>"

lemma demo_secrets_ok: "secret_store_ok demo_secrets"
  by (auto simp: secret_store_ok_def demo_secrets_def find_Some_iff split: option.splits)

definition demo_challenge_waf :: WAF where
  "demo_challenge_waf =
     \<lparr> waf_Namespace = ''n'', waf_Name = ''w'', waf_Annotations = [],
       waf_Spec = \<lparr> ws_Targets = \<lparr> ptr_TargetRef = None, ptr_TargetRefs = [] \<rparr>, ws_ParentRefs = None,
         ws_Provider = None,
         ws_Challenge = Some \<lparr> ch_Enabled = None, ch_Secret = [], ch_SecretRef = None, ch_BaseDifficulty = None,
           ch_MinDifficulty = None, ch_MaxDifficulty = None, ch_Header = [], ch_HeaderValue = [] \<rparr>,
         ws_RuleSetRefs = [], ws_CRSEnable = False, ws_Mode = [], ws_LogLevel = 0, ws_Metrics = None,
         ws_Telemetry = None, ws_Block = None, ws_CRS = None, ws_PhraseListPolicy = [] \<rparr> \<rparr>"

theorem challenge_key_agreed_witness:
  "\<exists>r w'. ResolveChallengeHMAC demo_secrets None ''u'' demo_challenge_waf True [] = (Inr r, w') \<and>
          32 \<le> length (chr_Value r) \<and> ResolveChallengeHMAC demo_secrets None ''v'' demo_challenge_waf False w' = (Inr r, w')"
proof -
  have on: "ChallengeEnabled (ws_Challenge (waf_Spec demo_challenge_waf))"
    by (simp add: demo_challenge_waf_def ChallengeEnabled_def)
  have "\<exists>r w'. ResolveChallengeHMAC demo_secrets None ''u'' demo_challenge_waf True [] = (Inr r, w')"
    by (simp add: ResolveChallengeHMAC_def demo_challenge_waf_def ChallengeEnabled_def ensureManagedChallengeSecret_def
        create_secret_def generateChallengeHMAC_def demo_secrets_def set_owner_def Let_def)
  then obtain r w' where r: "ResolveChallengeHMAC demo_secrets None ''u'' demo_challenge_waf True [] = (Inr r, w')" by blast
  have "scheme_ok None" by (simp add: scheme_ok_def)
  from challenge_key_agreed [OF demo_secrets_ok this on r] r show ?thesis by blast
qed

end
