(* ===== verification/Discover.thy ===== *)
theory Discover
  imports Directives
begin

text \<open>
  Detection of the data-plane provider, \<open>internal/dataplane/config/discover.go\<close>.

  The cluster is a reader: the class of a Gateway, the controller of a GatewayClass, whether a list of
  an API succeeds, and the HTTPRoutes of a namespace; \<open>None\<close> is an error. The explanations meant for
  the status are left out.
\<close>

record BackendRef =
  br_Kind :: "string option"
  br_Name :: string
  br_Namespace :: "string option"

record HTTPRoute =
  rt_ParentRefs :: "(string option \<times> string) list"
  rt_Rules :: "BackendRef list list"

record disc_reader =
  dr_GatewayClassName :: "string \<Rightarrow> string \<Rightarrow> string option"
  dr_ControllerName :: "string \<Rightarrow> string option"
  dr_ListSucceeds :: "string \<Rightarrow> string \<Rightarrow> string \<Rightarrow> bool"
  dr_HTTPRoutes :: "string \<Rightarrow> HTTPRoute list option"

record DiscoveryResult =
  ds_Provider :: ProviderType
  ds_CiliumServiceName :: string
  ds_CiliumServiceNamespace :: string

definition NeedsProviderDiscovery :: "WAF \<Rightarrow> bool" where
  "NeedsProviderDiscovery waf \<longleftrightarrow>
     (case ws_Provider (waf_Spec waf) of None \<Rightarrow> True | Some p \<Rightarrow> wp_Type p = [] \<or> wp_Type p = ProviderAuto)"

definition ProviderFromControllerName :: "string \<Rightarrow> ProviderType option" where
  "ProviderFromControllerName controllerName =
     (let c = to_lower (trim_space controllerName) in
      if c = [] then None
      else if str_contains c ''envoyproxy.io'' \<or> str_contains c ''gateway.envoyproxy.io'' then Some ProviderEnvoyGateway
      else if str_contains c ''istio.io'' \<or> has_prefix c ''istio/'' then Some ProviderIstio
      else if str_contains c ''cilium'' \<or> str_contains c ''io.cilium'' then Some ProviderCilium
      else None)"

definition providerFromGatewayClassName :: "string \<Rightarrow> ProviderType option" where
  "providerFromGatewayClassName name =
     (let n = to_lower name in
      if str_contains n ''cilium'' then Some ProviderCilium
      else if str_contains n ''istio'' then Some ProviderIstio
      else if n = ''eg'' \<or> str_contains n ''envoy'' \<or> str_contains n ''envoy-gateway'' then Some ProviderEnvoyGateway
      else None)"

section \<open>Targeted Gateways\<close>

definition target_list :: "WAF \<Rightarrow> TargetRef list" where
  "target_list waf =
     (let targets = EffectivePolicyTargets (waf_Spec waf) in
      (case ptr_TargetRef targets of None \<Rightarrow> [] | Some tr \<Rightarrow> [tr]) @ ptr_TargetRefs targets)"

definition target_gateways :: "WAF \<Rightarrow> string list" where
  "target_gateways waf = map tr_Name (filter (\<lambda>tr. tr_Kind tr = ''Gateway'' \<and> tr_Name tr \<noteq> []) (target_list waf))"

text \<open>
  The loop over the Gateways. \<open>chosen\<close> is the provider found so far, empty for none. A Gateway whose
  controller is known and differs from the choice ends the loop.
\<close>

fun choose_gateway :: "disc_reader \<Rightarrow> string \<Rightarrow> ProviderType \<Rightarrow> string list \<Rightarrow> ProviderType" where
  "choose_gateway c ns chosen [] = chosen"
| "choose_gateway c ns chosen (g # gs) =
     (case dr_GatewayClassName c ns g of
        None \<Rightarrow> choose_gateway c ns chosen gs
      | Some className \<Rightarrow>
          if className = [] then choose_gateway c ns chosen gs
          else
            (case (case dr_ControllerName c className of None \<Rightarrow> None | Some n \<Rightarrow> ProviderFromControllerName n) of
               Some p \<Rightarrow>
                 if chosen = [] then choose_gateway c ns p gs
                 else if chosen \<noteq> p then chosen
                 else choose_gateway c ns chosen gs
             | None \<Rightarrow>
                 (case providerFromGatewayClassName className of
                    Some p \<Rightarrow> choose_gateway c ns (if chosen = [] then p else chosen) gs
                  | None \<Rightarrow> choose_gateway c ns chosen gs)))"

definition discoverFromTargetedGateways :: "disc_reader \<Rightarrow> WAF \<Rightarrow> ProviderType option" where
  "discoverFromTargetedGateways c waf =
     (let chosen = choose_gateway c (waf_Namespace waf) [] (target_gateways waf)
      in if chosen \<noteq> [] then Some chosen else None)"

section \<open>Installed APIs\<close>

definition apiAvailable :: "disc_reader \<Rightarrow> string \<Rightarrow> string \<Rightarrow> string \<Rightarrow> bool" where
  "apiAvailable c grp version kind = dr_ListSucceeds c grp version (kind @ ''List'')"

definition discoverFromInstalledAPIs :: "disc_reader \<Rightarrow> ProviderType option" where
  "discoverFromInstalledAPIs c =
     (let hasEG = apiAvailable c ''gateway.envoyproxy.io'' ''v1alpha1'' ''EnvoyProxy'' \<or>
                  apiAvailable c ''gateway.envoyproxy.io'' ''v1alpha1'' ''ClientTrafficPolicy'';
          hasIstio = apiAvailable c ''networking.istio.io'' ''v1alpha3'' ''EnvoyFilter'' \<or>
                     apiAvailable c ''networking.istio.io'' ''v1beta1'' ''EnvoyFilter'';
          hasCilium = apiAvailable c ''cilium.io'' ''v2'' ''CiliumEnvoyConfig'';
          n = of_bool hasEG + of_bool hasIstio + of_bool hasCilium :: nat
      in if n = 1 then
           (if hasEG then Some ProviderEnvoyGateway else if hasIstio then Some ProviderIstio else Some ProviderCilium)
         else if n > 1 then
           (if hasEG then Some ProviderEnvoyGateway else if hasIstio then Some ProviderIstio else Some ProviderCilium)
         else None)"

section \<open>The service of Cilium\<close>

definition httpRouteParentsGateway :: "HTTPRoute \<Rightarrow> string list \<Rightarrow> bool" where
  "httpRouteParentsGateway rt gwNames \<longleftrightarrow>
     list_ex (\<lambda>(kind, name). (case kind of None \<Rightarrow> True | Some k \<Rightarrow> k = ''Gateway'') \<and> name \<in> set gwNames) (rt_ParentRefs rt)"

definition firstServiceBackend :: "HTTPRoute \<Rightarrow> string \<Rightarrow> (string \<times> string) option" where
  "firstServiceBackend rt defaultNS =
     map_option
       (\<lambda>b. (br_Name b, case br_Namespace b of None \<Rightarrow> defaultNS | Some ns \<Rightarrow> if ns = [] then defaultNS else ns))
       (find (\<lambda>b. case br_Kind b of None \<Rightarrow> True | Some k \<Rightarrow> k = ''Service'') (concat (rt_Rules rt)))"

fun first_backend :: "HTTPRoute list \<Rightarrow> string list \<Rightarrow> string \<Rightarrow> (string \<times> string) option" where
  "first_backend [] gwNames ns = None"
| "first_backend (rt # rts) gwNames ns =
     (if \<not> httpRouteParentsGateway rt gwNames then first_backend rts gwNames ns
      else case firstServiceBackend rt ns of
             Some found \<Rightarrow> Some found
           | None \<Rightarrow> first_backend rts gwNames ns)"

definition discoverBackendServiceFromHTTPRoutes :: "disc_reader \<Rightarrow> WAF \<Rightarrow> (string \<times> string) option" where
  "discoverBackendServiceFromHTTPRoutes c waf =
     (let gwNames = map tr_Name (filter (\<lambda>tr. tr_Kind tr = ''Gateway'') (target_list waf)) in
      if gwNames = [] then None
      else case dr_HTTPRoutes c (waf_Namespace waf) of
             None \<Rightarrow> None
           | Some routes \<Rightarrow> first_backend routes gwNames (waf_Namespace waf))"

definition explicit_service :: "WAF \<Rightarrow> (string \<times> string) option" where
  "explicit_service waf =
     (case ws_Provider (waf_Spec waf) of
        None \<Rightarrow> None
      | Some p \<Rightarrow>
          (case wp_Cilium p of
             None \<Rightarrow> None
           | Some ci \<Rightarrow>
               if cp_ServiceName ci = [] then None
               else Some (cp_ServiceName ci,
                          if cp_ServiceNamespace ci = [] then waf_Namespace waf else cp_ServiceNamespace ci)))"

definition fillCiliumService :: "disc_reader \<Rightarrow> WAF \<Rightarrow> DiscoveryResult \<Rightarrow> DiscoveryResult" where
  "fillCiliumService c waf res =
     (if ds_Provider res \<noteq> ProviderCilium then res
      else
        (let with_service = (\<lambda>(name, ns). res\<lparr> ds_CiliumServiceName := name, ds_CiliumServiceNamespace := ns \<rparr>) in
         case explicit_service waf of
           Some s \<Rightarrow> with_service s
         | None \<Rightarrow>
             (case find (\<lambda>tr. tr_Kind tr = ''Service'') (target_list waf) of
                Some tr \<Rightarrow> with_service (tr_Name tr, waf_Namespace waf)
              | None \<Rightarrow>
                  (case discoverBackendServiceFromHTTPRoutes c waf of
                     Some s \<Rightarrow> with_service s
                   | None \<Rightarrow> res))))"

section \<open>Discovery\<close>

definition DiscoverProvider :: "disc_reader \<Rightarrow> WAF \<Rightarrow> DiscoveryResult" where
  "DiscoverProvider c waf =
     fillCiliumService c waf
       \<lparr> ds_Provider =
           (case discoverFromTargetedGateways c waf of
              Some p \<Rightarrow> p
            | None \<Rightarrow> (case discoverFromInstalledAPIs c of Some p \<Rightarrow> p | None \<Rightarrow> DefaultProvider)),
         ds_CiliumServiceName = [], ds_CiliumServiceNamespace = [] \<rparr>"

definition ApplyDiscovery :: "BuildOptions \<Rightarrow> DiscoveryResult \<Rightarrow> BuildOptions" where
  "ApplyDiscovery opts d =
     (let o1 = opts\<lparr> bo_DetectedProvider := ds_Provider d \<rparr> in
      if ds_CiliumServiceName d \<noteq> []
      then o1\<lparr> bo_DetectedCiliumServiceName := ds_CiliumServiceName d,
               bo_DetectedCiliumServiceNamespace := ds_CiliumServiceNamespace d \<rparr>
      else o1)"

section \<open>What the loop computes\<close>

text \<open>The provider one Gateway stands for.\<close>

definition gateway_provider :: "disc_reader \<Rightarrow> string \<Rightarrow> string \<Rightarrow> ProviderType option" where
  "gateway_provider c ns g =
     (case dr_GatewayClassName c ns g of
        None \<Rightarrow> None
      | Some className \<Rightarrow>
          if className = [] then None
          else (case (case dr_ControllerName c className of None \<Rightarrow> None | Some n \<Rightarrow> ProviderFromControllerName n) of
                  Some p \<Rightarrow> Some p
                | None \<Rightarrow> providerFromGatewayClassName className))"

lemma gateway_provider_known:
  "gateway_provider c ns g = Some p \<Longrightarrow> p \<in> {ProviderEnvoyGateway, ProviderIstio, ProviderCilium}"
  by (auto simp: gateway_provider_def ProviderFromControllerName_def providerFromGatewayClassName_def Let_def
      split: option.splits if_splits)

lemma choose_gateway_kept: "chosen \<noteq> [] \<Longrightarrow> choose_gateway c ns chosen gs = chosen"
  by (induction gs) (auto split: option.splits)

lemma choose_gateway_first:
  "choose_gateway c ns [] gs = (case List.map_filter (gateway_provider c ns) gs of [] \<Rightarrow> [] | p # _ \<Rightarrow> p)"
proof (induction gs)
  case (Cons g gs)
  show ?case
  proof (cases "gateway_provider c ns g")
    case None
    then have "choose_gateway c ns [] (g # gs) = choose_gateway c ns [] gs"
      by (auto simp: gateway_provider_def split: option.splits if_splits)
    with None Cons show ?thesis by (simp add: map_filter_simps)
  next
    case (Some p)
    then have "choose_gateway c ns [] (g # gs) = choose_gateway c ns p gs"
      by (auto simp: gateway_provider_def split: option.splits if_splits)
    moreover have "p \<noteq> []" using gateway_provider_known [OF Some] by (auto simp: ProviderEnvoyGateway_def ProviderIstio_def ProviderCilium_def)
    ultimately show ?thesis using Some by (simp add: map_filter_simps choose_gateway_kept)
  qed
qed (simp add: map_filter_simps)

end
