(* ===== verification/DiscoverThms.thy ===== *)
theory DiscoverThms
  imports Discover DirectivesThms
begin

text \<open>
  Provider discovery decides the platform of a WAF that leaves it open, and always a concrete one.
\<close>

section \<open>The provider of a WAF that leaves it open\<close>

lemma fillCiliumService_provider [simp]: "ds_Provider (fillCiliumService c waf res) = ds_Provider res"
  by (auto simp: fillCiliumService_def Let_def split: option.splits)

lemma discovered_api_known:
  "discoverFromInstalledAPIs c = Some p \<Longrightarrow> p \<in> {ProviderEnvoyGateway, ProviderIstio, ProviderCilium}"
  by (auto simp: discoverFromInstalledAPIs_def Let_def split: if_splits)

lemma first_provider_known:
  "List.map_filter (gateway_provider c ns) gs = p # ps \<Longrightarrow> p \<in> {ProviderEnvoyGateway, ProviderIstio, ProviderCilium}"
proof -
  assume "List.map_filter (gateway_provider c ns) gs = p # ps"
  then have "p \<in> set (List.map_filter (gateway_provider c ns) gs)" by simp
  then show ?thesis by (auto simp: List.map_filter_def dest: gateway_provider_known)
qed

lemma DiscoverProvider_provider:
  "ds_Provider (DiscoverProvider c waf) =
     (case List.map_filter (gateway_provider c (waf_Namespace waf)) (target_gateways waf) of
        p # _ \<Rightarrow> p
      | [] \<Rightarrow> opt_or DefaultProvider (discoverFromInstalledAPIs c))"
  using first_provider_known [of c "waf_Namespace waf" "target_gateways waf"]
  by (auto simp: DiscoverProvider_def discoverFromTargetedGateways_def choose_gateway_first Let_def opt_or_def
      providers_distinct [symmetric] split: list.splits option.splits)

lemma resolveProvider_open:
  assumes "NeedsProviderDiscovery waf"
  shows "pr_provider (resolveProvider waf opts) = pr_provider (provider_defaults waf opts)"
proof (cases "ws_Provider (waf_Spec waf)")
  case (Some p)
  with assms have "wp_Type p = [] \<or> wp_Type p = ProviderAuto" by (simp add: NeedsProviderDiscovery_def)
  then show ?thesis
    by (auto simp: resolveProvider_def Some Let_def split_beta providers_distinct [symmetric])
qed (simp add: resolveProvider_def)

text \<open>
  C40: A WAF that leaves its provider open is built for a concrete one: that of the first targeted Gateway
  whose class or controller is recognised, else that of the installed platform APIs, else the default.
\<close>

theorem auto_provider_resolved:
  assumes "NeedsProviderDiscovery waf"
  shows "pr_provider (resolveProvider waf (ApplyDiscovery opts (DiscoverProvider c waf))) =
     (case List.map_filter (gateway_provider c (waf_Namespace waf)) (target_gateways waf) of
        p # _ \<Rightarrow> p
      | [] \<Rightarrow> opt_or DefaultProvider (discoverFromInstalledAPIs c)) \<and>
    pr_provider (resolveProvider waf (ApplyDiscovery opts (DiscoverProvider c waf)))
      \<in> {ProviderEnvoyGateway, ProviderIstio, ProviderCilium}"
proof -
  have known: "ds_Provider (DiscoverProvider c waf) \<in> {ProviderEnvoyGateway, ProviderIstio, ProviderCilium}"
    using first_provider_known [of c "waf_Namespace waf" "target_gateways waf"] discovered_api_known [of c]
    by (auto simp: DiscoverProvider_provider opt_or_def DefaultProvider_def split: list.splits option.splits)
  then have "pr_provider (resolveProvider waf (ApplyDiscovery opts (DiscoverProvider c waf))) = ds_Provider (DiscoverProvider c waf)"
    by (auto simp: resolveProvider_open [OF assms] provider_defaults_def ApplyDiscovery_def Let_def
        providers_distinct [symmetric])
  with known show ?thesis by (simp add: DiscoverProvider_provider)
qed

definition demo_reader :: disc_reader where
  "demo_reader =
     \<lparr> dr_GatewayClassName = (\<lambda>ns g. if g = ''edge'' then Some ''cls'' else None),
       dr_ControllerName = (\<lambda>n. Some ''io.cilium/gateway-controller''), dr_ListSucceeds = (\<lambda>g v k. True),
       dr_HTTPRoutes = (\<lambda>ns. None) \<rparr>"

definition demo_auto_waf :: WAF where
  "demo_auto_waf = (demo_waf ''a'' ''w'' ProviderAuto None)
     \<lparr> waf_Spec := (waf_Spec (demo_waf ''a'' ''w'' ProviderAuto None))
         \<lparr> ws_Targets := \<lparr> ptr_TargetRef = None,
             ptr_TargetRefs = [\<lparr> tr_Group = [], tr_Kind = ''Gateway'', tr_Name = ''gone'' \<rparr>, \<lparr> tr_Group = [], tr_Kind = ''Gateway'', tr_Name = ''edge'' \<rparr>] \<rparr> \<rparr> \<rparr>"

theorem auto_provider_resolved_witness:
  "NeedsProviderDiscovery demo_auto_waf \<and>
   pr_provider (resolveProvider demo_auto_waf (ApplyDiscovery demo_opts (DiscoverProvider demo_reader demo_auto_waf))) = ProviderCilium"
proof -
  have n: "NeedsProviderDiscovery demo_auto_waf" by code_simp
  have "List.map_filter (gateway_provider demo_reader (waf_Namespace demo_auto_waf)) (target_gateways demo_auto_waf) = [ProviderCilium]"
    by code_simp
  with n auto_provider_resolved [OF n, of demo_opts demo_reader] show ?thesis by simp
qed

end
