(* ===== verification/Pipeline.thy ===== *)
theory Pipeline
  imports Challenge Discover Assembly PhraseFiles Ecds ExtServer
begin

text \<open>
  The build-and-publish path of \<open>internal/dataplane/pipeline/pipeline.go\<close> and the reconciler of
  \<open>internal/dataplane/sync/controller.go\<close> that runs it on every replica.

  A cluster is a state \<open>'w\<close> with the clients of the components; \<open>cl_fuel\<close> bounds the nesting of
  RuleSets, and \<open>None\<close> stands for a resolution that does not return. The publishers of a replica are
  its ECDS server and its Envoy Gateway index, \<open>None\<close> when not configured.
\<close>

section \<open>The cluster and the replica\<close>

record ('w, 'a, 'm, 'u) cluster =
  cl_fuel :: nat
  cl_refs :: "'w ref_client"
  cl_secrets :: "'w secret_client"
  cl_scheme :: owner_scheme
  cl_reader :: "'w \<Rightarrow> disc_reader"
  cl_files :: "'w \<Rightarrow> pf_client"
  cl_pack :: "string \<rightharpoonup> string"
  cl_sha :: "string \<Rightarrow> string"
  cl_gzip :: "string \<Rightarrow> string option"
  cl_printer :: "('a, 'm, 'u) crsprinter"
  cl_severities :: "(string \<times> string) list"

record Publishers =
  pub_ECDS :: "ecds_server option"
  pub_EGExtension :: "eg_index option"

text \<open>What a server needs to publish: the address check and the acceptance of a snapshot.\<close>

record ecds_env =
  ee_ip6 :: "string \<Rightarrow> string option"
  ee_accept :: "64 word \<Rightarrow> resources \<Rightarrow> bool"

record Options =
  opt_BuildOpts :: BuildOptions
  opt_EnsureChallengeSecret :: bool
  opt_LockRefs :: bool
  opt_SkipECDS :: bool
  opt_RequireRefsOK :: bool

datatype pipeline_error =
    ResolveFailed uobj
  | ReferencesFailed "ReferenceError list"
  | AssemblyFailed assembly_error
  | ChallengeFailed challenge_error
  | PhraseListsFailed pf_error
  | BuildFailed build_error
  | PortableNil
  | ECDSNotConfigured
  | ECDSUpsertFailed ecds_error

text \<open>\<open>Result\<close>; \<open>Portable\<close> is \<open>None\<close> in the results that come with an error.\<close>

record Result =
  res_Portable :: "PortableConfig option"
  res_Challenge :: ChallengeHMACResult
  res_ReferenceErrors :: "ReferenceError list"
  res_ResolvedObjects :: "uobj list"
  res_PhraseFiles :: "PhraseFilesResult option"

definition waf_source :: "WAF \<Rightarrow> ref_source" where
  "waf_source waf = \<lparr> rs_Kind = ''WAF'', rs_Namespace = waf_Namespace waf, rs_Name = waf_Name waf, rs_Policy = None \<rparr>"

section \<open>Build\<close>

definition build_challenge ::
  "('w, 'a, 'm, 'u) cluster \<Rightarrow> string \<Rightarrow> WAF \<Rightarrow> bool \<Rightarrow> 'w \<Rightarrow> (challenge_error + ChallengeHMACResult) \<times> 'w" where
  "build_challenge cl uid waf ensure w =
     (if ChallengeEnabled (ws_Challenge (waf_Spec waf))
      then ResolveChallengeHMAC (cl_secrets cl) (cl_scheme cl) uid waf ensure w
      else (Inr no_hmac, w))"

definition build_options :: "('w, 'a, 'm, 'u) cluster \<Rightarrow> WAF \<Rightarrow> BuildOptions \<Rightarrow> ChallengeHMACResult \<Rightarrow> 'w \<Rightarrow> BuildOptions" where
  "build_options cl waf opts hmac w =
     (let o1 = (if ChallengeEnabled (ws_Challenge (waf_Spec waf)) then opts\<lparr> bo_ChallengeHMAC := chr_Value hmac \<rparr> else opts)
      in if NeedsProviderDiscovery waf then ApplyDiscovery o1 (DiscoverProvider (cl_reader cl w) waf) else o1)"

definition with_files :: "PhraseFilesResult \<Rightarrow> BuildOptions \<Rightarrow> BuildOptions" where
  "with_files pr opts =
     (let o1 = (if pr_Files pr \<noteq> []
                then opts\<lparr> bo_PhraseFiles := pr_Files pr, bo_OverrideCRSCount := int (pr_OverrideCRSCount pr) \<rparr> else opts)
      in if pr_DroppedBasenames pr \<noteq> [] then o1\<lparr> bo_DirectivesOverride := Some (pr_Directives pr) \<rparr> else o1)"

text \<open>The two results of \<open>Build\<close>: an error, possibly with a partial result, or a result.\<close>

type_synonym build_outcome = "(pipeline_error \<times> Result option) + Result"

definition finish_build ::
  "('w, 'a, 'm, 'u) cluster \<Rightarrow> WAF \<Rightarrow> Options \<Rightarrow> uobj list \<Rightarrow> ReferenceError list \<Rightarrow> string list \<Rightarrow>
   ChallengeHMACResult \<Rightarrow> 'w \<Rightarrow> build_outcome" where
  "finish_build cl waf opts objects refErrs rules hmac w =
     (let o1 = build_options cl waf (opt_BuildOpts opts) hmac w;
          pr = DiscoverAndResolvePhraseFiles (cl_sha cl) (cl_files cl w) (cl_pack cl) waf (BuildDirectives waf rules) objects
      in case (if pr_Ready pr then None else pr_Error pr) of
           Some e \<Rightarrow>
             Inl (PhraseListsFailed e,
                  Some \<lparr> res_Portable = None, res_Challenge = no_hmac, res_ReferenceErrors = refErrs,
                         res_ResolvedObjects = objects, res_PhraseFiles = Some pr \<rparr>)
         | None \<Rightarrow>
             (case BuildFromWAF (cl_gzip cl) (Some waf) (if pr_DroppedBasenames pr \<noteq> [] then [] else rules) (with_files pr o1) of
                Inl e \<Rightarrow> Inl (BuildFailed e, None)
              | Inr p \<Rightarrow> Inr \<lparr> res_Portable = Some p, res_Challenge = hmac, res_ReferenceErrors = refErrs,
                              res_ResolvedObjects = objects, res_PhraseFiles = Some pr \<rparr>))"

definition Build ::
  "('w, 'a, 'm, 'u) cluster \<Rightarrow> string \<Rightarrow> WAF \<Rightarrow> Options \<Rightarrow> 'w \<Rightarrow> (build_outcome \<times> 'w) option" where
  "Build cl uid waf opts w =
     (case (if opt_LockRefs opts then AddUpdateReconcile (cl_fuel cl) (cl_refs cl) else Resolve (cl_fuel cl) (cl_refs cl))
             (ws_RuleSetRefs (waf_Spec waf)) (waf_source waf) w of
        None \<Rightarrow> None
      | Some ((objects, refErrs, Some obj), w1) \<Rightarrow> Some (Inl (ResolveFailed obj, None), w1)
      | Some ((objects, refErrs, None), w1) \<Rightarrow>
          Some
            (if opt_RequireRefsOK opts \<and> refErrs \<noteq> []
             then (Inl (ReferencesFailed refErrs,
                        Some \<lparr> res_Portable = None, res_Challenge = no_hmac, res_ReferenceErrors = refErrs,
                               res_ResolvedObjects = [], res_PhraseFiles = None \<rparr>), w1)
             else
               (case GetSecRule (cl_severities cl) (cl_printer cl) objects of
                  Inl e \<Rightarrow> (Inl (AssemblyFailed e, None), w1)
                | Inr rules \<Rightarrow>
                    (case build_challenge cl uid waf (opt_EnsureChallengeSecret opts) w1 of
                       (Inl e, w2) \<Rightarrow> (Inl (ChallengeFailed e, None), w2)
                     | (Inr hmac, w2) \<Rightarrow> (finish_build cl waf opts objects refErrs rules hmac w2, w2)))))"

section \<open>Publish\<close>

definition publish_eg :: "PortableConfig \<Rightarrow> Publishers \<Rightarrow> Publishers" where
  "publish_eg p pubs = pubs\<lparr> pub_EGExtension := map_option (eg_Upsert p) (pub_EGExtension pubs) \<rparr>"

definition Publish ::
  "ecds_env \<Rightarrow> PortableConfig option \<Rightarrow> Options \<Rightarrow> Publishers \<Rightarrow> pipeline_error option \<times> Publishers" where
  "Publish env portable opts pubs =
     (case portable of
        None \<Rightarrow> (Some PortableNil, pubs)
      | Some p \<Rightarrow>
          if opt_SkipECDS opts then (None, publish_eg p pubs)
          else (case pub_ECDS pubs of
                  None \<Rightarrow> (Some ECDSNotConfigured, pubs)
                | Some srv \<Rightarrow>
                    (case Upsert (ee_ip6 env) (ee_accept env) p srv of
                       (Some e, srv') \<Rightarrow> (Some (ECDSUpsertFailed e), pubs\<lparr> pub_ECDS := Some srv' \<rparr>)
                     | (None, srv') \<Rightarrow> (None, publish_eg p (pubs\<lparr> pub_ECDS := Some srv' \<rparr>)))))"

definition BuildAndPublish ::
  "('w, 'a, 'm, 'u) cluster \<Rightarrow> ecds_env \<Rightarrow> string \<Rightarrow> WAF \<Rightarrow> Options \<Rightarrow> 'w \<Rightarrow> Publishers \<Rightarrow>
   ((Result option \<times> pipeline_error option) \<times> 'w \<times> Publishers) option" where
  "BuildAndPublish cl env uid waf opts w pubs =
     (case Build cl uid waf opts w of
        None \<Rightarrow> None
      | Some (Inl (e, res), w') \<Rightarrow> Some ((res, Some e), w', pubs)
      | Some (Inr res, w') \<Rightarrow>
          Some
            (if res_ReferenceErrors res \<noteq> []
             then ((Some res, Some (ReferencesFailed (res_ReferenceErrors res))), w', pubs)
             else (case Publish env (res_Portable res) opts pubs of (err, pubs') \<Rightarrow> ((Some res, err), w', pubs'))))"

definition DropLocal :: "ecds_env \<Rightarrow> string \<Rightarrow> string \<Rightarrow> Publishers \<Rightarrow> Publishers" where
  "DropLocal env ns name pubs =
     \<lparr> pub_ECDS = map_option (\<lambda>s. snd (Delete (ee_accept env) (ExtensionName ns name) s)) (pub_ECDS pubs),
       pub_EGExtension = map_option (eg_Delete ns name) (pub_EGExtension pubs) \<rparr>"

section \<open>The reconciler of every replica\<close>

text \<open>The answer to the read of a WAF: its UID, the object and whether it is being deleted.\<close>

datatype reconcile_outcome = Done | Requeue

definition sync_options :: "BuildOptions \<Rightarrow> Options" where
  "sync_options opts = \<lparr> opt_BuildOpts = opts, opt_EnsureChallengeSecret = False, opt_LockRefs = False,
                         opt_SkipECDS = False, opt_RequireRefsOK = True \<rparr>"

definition sync_Reconcile ::
  "('w, 'a, 'm, 'u) cluster \<Rightarrow> ecds_env \<Rightarrow> ('w \<Rightarrow> string \<Rightarrow> string \<Rightarrow> (string \<times> WAF \<times> bool) api_result) \<Rightarrow> BuildOptions \<Rightarrow>
   string \<Rightarrow> string \<Rightarrow> 'w \<Rightarrow> Publishers \<Rightarrow> (reconcile_outcome \<times> 'w \<times> Publishers) option" where
  "sync_Reconcile cl env get opts ns name w pubs =
     (case get w ns name of
        ApiOk (uid, waf, deleting) \<Rightarrow>
          if deleting then Some (Done, w, DropLocal env (waf_Namespace waf) (waf_Name waf) pubs)
          else (case BuildAndPublish cl env uid waf (sync_options opts) w pubs of
                  None \<Rightarrow> None
                | Some ((res, err), w', pubs') \<Rightarrow> Some (if err = None then Done else Requeue, w', pubs'))
      | ApiNotFound \<Rightarrow> Some (Done, w, DropLocal env ns name pubs)
      | _ \<Rightarrow> Some (Requeue, w, pubs))"

end
