(* ===== verification/PipelineThms.thy ===== *)
theory PipelineThms
  imports Pipeline AssemblyThms ResolverThms PhraseFilesThms ExtServerThms
begin

text \<open>
  The pipeline is fail-closed: it publishes complete configurations only, and whatever goes wrong
  before or during publication leaves what Envoy is served as it was.
\<close>

section \<open>Failures\<close>

lemma publishLocked_rejected: "publishLocked accept s = (Some e, s') \<Longrightarrow> e = SnapshotRejected \<and> es_snapshot s' = es_snapshot s"
  by (auto simp: publishLocked_def Let_def split: if_splits)

lemma Upsert_failed:
  assumes "Upsert ip6 accept p s = (Some e, s')"
  shows "es_snapshot s' = es_snapshot s \<and> (e \<noteq> SnapshotRejected \<longrightarrow> s' = s)"
  using assms by (auto simp: Upsert_def dest!: publishLocked_rejected split: sum.splits)

lemma Upsert_published:
  assumes "Upsert ip6 accept p s = (None, s')"
  shows "(\<exists>ts. BuildTypedExtensionConfigs ip6 p = Inr ts) \<and> es_snapshot s' = Some (es_version s', es_resources s')"
  using assms by (auto simp: Upsert_def publishLocked_def Let_def split: sum.splits if_splits)

lemma Publish_failed:
  assumes "Publish env p opts pubs = (Some e, pubs')"
  shows "map_option es_snapshot (pub_ECDS pubs') = map_option es_snapshot (pub_ECDS pubs) \<and>
         pub_EGExtension pubs' = pub_EGExtension pubs \<and>
         (e \<noteq> ECDSUpsertFailed SnapshotRejected \<longrightarrow> pubs' = pubs)"
  using assms by (auto simp: Publish_def split: option.splits if_splits prod.splits dest!: Upsert_failed)

text \<open>
  C2: A run of the pipeline that ends with an error changes nothing Envoy or Envoy Gateway sees: the
  ECDS snapshot and the extension index are those from before, whether references, rules, the
  challenge key, data files, the build or the publication failed.
\<close>

theorem failed_run_keeps_last_good:
  assumes "BuildAndPublish cl env uid waf opts w pubs = Some ((res, Some e), w', pubs')"
  shows "map_option es_snapshot (pub_ECDS pubs') = map_option es_snapshot (pub_ECDS pubs) \<and>
         pub_EGExtension pubs' = pub_EGExtension pubs \<and>
         (e \<noteq> ECDSUpsertFailed SnapshotRejected \<longrightarrow> pubs' = pubs)"
  using assms
  by (auto simp: BuildAndPublish_def split: option.splits sum.splits if_splits prod.splits dest!: Publish_failed)

section \<open>Complete configurations\<close>

lemma finish_build_Inr:
  assumes "finish_build cl waf opts objects refErrs rules hmac w = Inr res"
  obtains p pr where
    "pr = DiscoverAndResolvePhraseFiles (cl_sha cl) (cl_files cl w) (cl_pack cl) waf (BuildDirectives waf rules) objects"
    "pr_Ready pr \<or> pr_Error pr = None" "res_Portable res = Some p" "res_ReferenceErrors res = refErrs"
    "BuildFromWAF (cl_gzip cl) (Some waf) (if pr_DroppedBasenames pr \<noteq> [] then [] else rules)
       (with_files pr (build_options cl waf (opt_BuildOpts opts) hmac w)) = Inr p"
  using assms by (auto simp: finish_build_def Let_def split: option.splits sum.splits if_splits)

lemma Build_Inr:
  assumes "Build cl uid waf opts w = Some (Inr res, w')" and "\<not> opt_LockRefs opts"
  obtains objects refErrs rules hmac where
    "Resolve (cl_fuel cl) (cl_refs cl) (ws_RuleSetRefs (waf_Spec waf)) (waf_source waf) w = Some ((objects, refErrs, None), w)"
    "GetSecLang (cl_severities cl) (cl_printer cl) objects = Inr rules"
    "finish_build cl waf opts objects refErrs rules hmac w' = Inr res"
proof -
  from assms obtain objects refErrs w1 where
    r: "Resolve (cl_fuel cl) (cl_refs cl) (ws_RuleSetRefs (waf_Spec waf)) (waf_source waf) w = Some ((objects, refErrs, None), w1)"
    and rest: "(if opt_RequireRefsOK opts \<and> refErrs \<noteq> []
       then (Inl (ReferencesFailed refErrs,
                  Some \<lparr> res_Portable = None, res_Challenge = no_hmac, res_ReferenceErrors = refErrs,
                         res_ResolvedObjects = [], res_PhraseFiles = None \<rparr>), w1)
       else case GetSecRule (cl_severities cl) (cl_printer cl) objects of
              Inl e \<Rightarrow> (Inl (AssemblyFailed e, None), w1)
            | Inr rules \<Rightarrow>
                (case build_challenge cl uid waf (opt_EnsureChallengeSecret opts) w1 of
                   (Inl e, w2) \<Rightarrow> (Inl (ChallengeFailed e, None), w2)
                 | (Inr hmac, w2) \<Rightarrow> (finish_build cl waf opts objects refErrs rules hmac w2, w2))) = (Inr res, w')"
    by (auto simp: Build_def split: option.splits)
  have w1: "w1 = w" using r reconcileRefs_exact [of "cl_refs cl" "cl_fuel cl"] unfolding Resolve_def exact_def by blast
  from rest obtain rules hmac where
    "GetSecLang (cl_severities cl) (cl_printer cl) objects = Inr rules"
    "finish_build cl waf opts objects refErrs rules hmac w' = Inr res"
    by (auto simp: GetSecRule_def split: if_splits sum.splits prod.splits)
  with r w1 show thesis using that by blast
qed


lemma Discover_not_ready:
  "pr_Error (DiscoverAndResolvePhraseFiles sha c pack waf ds objs) = None \<Longrightarrow>
   pr_Ready (DiscoverAndResolvePhraseFiles sha c pack waf ds objs)"
  by (auto simp: DiscoverAndResolvePhraseFiles_def Let_def fail_with_def finish_files_def
      split: option.splits if_splits prod.splits)

lemma Discover_kept_directives:
  "pr_DroppedBasenames (DiscoverAndResolvePhraseFiles sha c pack waf ds objs) = [] \<Longrightarrow>
   pr_Directives (DiscoverAndResolvePhraseFiles sha c pack waf ds objs) = ds"
  by (auto simp: DiscoverAndResolvePhraseFiles_def Let_def fail_with_def finish_files_def
      split: option.splits if_splits prod.splits)

lemma build_options_kept:
  "bo_DirectivesOverride (build_options cl waf opts hmac w) = bo_DirectivesOverride opts"
  "bo_PhraseFiles (build_options cl waf opts hmac w) = bo_PhraseFiles opts"
  by (simp_all add: build_options_def Let_def ApplyDiscovery_def)

lemma with_files_fields:
  "bo_DirectivesOverride (with_files pr opts) =
     (if pr_DroppedBasenames pr \<noteq> [] then Some (pr_Directives pr) else bo_DirectivesOverride opts)"
  "bo_PhraseFiles (with_files pr opts) = (if pr_Files pr \<noteq> [] then pr_Files pr else bo_PhraseFiles opts)"
  by (simp_all add: with_files_def Let_def)

lemma BuildFromWAF_text:
  assumes "BuildFromWAF gz (Some waf) rules opts = Inr p"
  shows "pc_Directives p = opt_or (BuildDirectives waf rules) (bo_DirectivesOverride opts) \<and>
    pc_PluginJSON p = buildWAFPluginJSON gz waf (pc_Directives p) (bo_PhraseFiles opts) (bo_OverrideCRSCount opts)
                        (bo_TelemetryDefaults opts)"
  using assms by (auto simp: BuildFromWAF_def portable_config_def Let_def split: if_splits sum.splits)

text \<open>The configuration a plain build of a WAF ends with: its text is that of the rules, less the lines
  the IgnoreUnknown policy drops, and every data file it names travels with it.\<close>

definition complete_text :: "('w, 'a, 'm, 'u) cluster \<Rightarrow> WAF \<Rightarrow> string list \<Rightarrow> uobj list \<Rightarrow> 'w \<Rightarrow> PortableConfig \<Rightarrow> bool" where
  "complete_text cl waf rules objects w p \<longleftrightarrow>
     (\<exists>files n td.
        pc_PluginJSON p = buildWAFPluginJSON (cl_gzip cl) waf (pc_Directives p) files n td \<and>
        pc_Directives p = pr_Directives (DiscoverAndResolvePhraseFiles (cl_sha cl) (cl_files cl w) (cl_pack cl) waf
                                           (BuildDirectives waf rules) objects) \<and>
        (\<forall>base \<in> set (ScanPmFromFileBasenames (pc_Directives p)). \<exists>body. map_of files base = Some body))"

lemma finish_build_complete:
  assumes "finish_build cl waf opts objects refErrs rules hmac w = Inr res"
    and "bo_DirectivesOverride (opt_BuildOpts opts) = None"
  obtains p opts' rules' where "res_Portable res = Some p" "res_ReferenceErrors res = refErrs"
    "complete_text cl waf rules objects w p" "BuildFromWAF (cl_gzip cl) (Some waf) rules' opts' = Inr p"
proof -
  define pr where "pr = DiscoverAndResolvePhraseFiles (cl_sha cl) (cl_files cl w) (cl_pack cl) waf (BuildDirectives waf rules) objects"
  define opts' where "opts' = with_files pr (build_options cl waf (opt_BuildOpts opts) hmac w)"
  obtain p where p: "pr_Ready pr \<or> pr_Error pr = None" "res_Portable res = Some p" "res_ReferenceErrors res = refErrs"
    "BuildFromWAF (cl_gzip cl) (Some waf) (if pr_DroppedBasenames pr \<noteq> [] then [] else rules) opts' = Inr p"
    using assms(1) unfolding pr_def opts'_def by (auto elim: finish_build_Inr)
  have ready: "pr_Ready pr" using p(1) Discover_not_ready unfolding pr_def by blast
  note t = BuildFromWAF_text [OF p(4)]
  have ds: "pc_Directives p = pr_Directives pr"
    using t Discover_kept_directives [of "cl_sha cl" "cl_files cl w" "cl_pack cl" waf "BuildDirectives waf rules" objects]
    by (simp add: opts'_def with_files_fields build_options_kept assms(2) opt_or_def flip: pr_def)
  have "\<exists>body. map_of (bo_PhraseFiles opts') base = Some body"
    if "base \<in> set (ScanPmFromFileBasenames (pc_Directives p))" for base
    using that phrase_files_complete [OF pr_def ready] by (force simp: ds opts'_def with_files_fields)
  with t ds have "complete_text cl waf rules objects w p" unfolding complete_text_def pr_def by blast
  with p show thesis using that by blast
qed



section \<open>The reconciler\<close>

lemma DropLocal_view:
  assumes "pub_ECDS pubs = Some srv" and "pub_EGExtension pubs = Some idx" and "waf_key_ok (ns, name)"
  shows "\<exists>srv' idx'. DropLocal env ns name pubs = \<lparr> pub_ECDS = Some srv', pub_EGExtension = Some idx' \<rparr> \<and>
    (\<forall>k. waf_key_ok k \<longrightarrow>
       waf_resources srv' k = (if k = (ns, name) then Map.empty else waf_resources srv k) \<and>
       eg_view idx' k = (if k = (ns, name) then None else eg_view idx k))"
  using assms view_Delete [OF assms(3), of _ "ee_accept env" srv] eg_view_Delete [OF assms(3), of _ idx]
  by (auto simp: DropLocal_def)

text \<open>
  C3: When a WAF is gone or is being deleted, every replica stops serving it: one reconciliation ends
  with nothing left of it in the ECDS resources and in the extension index, and with all other WAFs
  untouched.
\<close>

theorem deleted_waf_forgotten:
  assumes "get w ns name = ApiNotFound \<or>
      (\<exists>uid waf. get w ns name = ApiOk (uid, waf, True) \<and> waf_Namespace waf = ns \<and> waf_Name waf = name)"
    and "pub_ECDS pubs = Some srv" and "pub_EGExtension pubs = Some idx" and "waf_key_ok (ns, name)"
  shows "\<exists>srv' idx'.
    sync_Reconcile cl env get opts ns name w pubs =
      Some (Done, w, \<lparr> pub_ECDS = Some srv', pub_EGExtension = Some idx' \<rparr>) \<and>
    (\<forall>k. waf_key_ok k \<longrightarrow>
       waf_resources srv' k = (if k = (ns, name) then Map.empty else waf_resources srv k) \<and>
       eg_view idx' k = (if k = (ns, name) then None else eg_view idx k))"
proof -
  have "sync_Reconcile cl env get opts ns name w pubs = Some (Done, w, DropLocal env ns name pubs)"
    using assms(1) by (auto simp: sync_Reconcile_def)
  with DropLocal_view [OF assms(2-4)] show ?thesis by simp
qed

lemma BuildAndPublish_returns:
  assumes "Resolve (cl_fuel cl) (cl_refs cl) (ws_RuleSetRefs (waf_Spec waf)) (waf_source waf) w \<noteq> None" and "\<not> opt_LockRefs opts"
  shows "BuildAndPublish cl env uid waf opts w pubs \<noteq> None"
  using assms by (auto simp: BuildAndPublish_def Build_def split: option.splits prod.splits sum.splits)

lemma fuel_ignored:
  "build_challenge (cl\<lparr> cl_fuel := n \<rparr>) = build_challenge cl" "finish_build (cl\<lparr> cl_fuel := n \<rparr>) = finish_build cl"
  "cl_severities (cl\<lparr> cl_fuel := n \<rparr>) = cl_severities cl" "cl_printer (cl\<lparr> cl_fuel := n \<rparr>) = cl_printer cl"
  unfolding fun_eq_iff build_challenge_def finish_build_def build_options_def by (simp_all add: Let_def cong: option.case_cong sum.case_cong)

lemma BuildAndPublish_fuel:
  assumes "Resolve n (cl_refs cl) (ws_RuleSetRefs (waf_Spec waf)) (waf_source waf) w =
           Resolve m (cl_refs cl) (ws_RuleSetRefs (waf_Spec waf)) (waf_source waf) w" and "\<not> opt_LockRefs opts"
  shows "BuildAndPublish (cl\<lparr> cl_fuel := n \<rparr>) env uid waf opts w pubs = BuildAndPublish (cl\<lparr> cl_fuel := m \<rparr>) env uid waf opts w pubs"
  unfolding BuildAndPublish_def Build_def fuel_ignored using assms by simp

text \<open>
  C4: A replica always finishes: where the RuleSets of the cluster have no cyclic references, every
  reconciliation returns, with one and the same result from some bound on the nesting of RuleSets on.
\<close>

theorem sync_returns:
  assumes "ranked (cl_refs cl) w rank"
  shows "\<exists>r N. \<forall>n \<ge> N. sync_Reconcile (cl\<lparr> cl_fuel := n \<rparr>) env get opts ns name w pubs = Some r"
proof (cases "get w ns name")
  case (ApiOk x)
  obtain uid waf del where x: "x = (uid, waf, del)" by (metis surj_pair)
  obtain r N where N: "\<forall>n \<ge> N. Resolve n (cl_refs cl) (ws_RuleSetRefs (waf_Spec waf)) (waf_source waf) w = Some r"
    using Resolve_terminates [OF assms] by blast
  obtain y where y: "BuildAndPublish (cl\<lparr> cl_fuel := N \<rparr>) env uid waf (sync_options opts) w pubs = Some y"
    using N BuildAndPublish_returns [of "cl\<lparr> cl_fuel := N \<rparr>" waf w "sync_options opts" env uid pubs]
    by (auto simp: sync_options_def)
  have "BuildAndPublish (cl\<lparr> cl_fuel := n \<rparr>) env uid waf (sync_options opts) w pubs = Some y" if "n \<ge> N" for n
    unfolding y [symmetric] using N that by (intro BuildAndPublish_fuel) (simp_all add: sync_options_def)
  then have "\<forall>n \<ge> N. sync_Reconcile (cl\<lparr> cl_fuel := n \<rparr>) env get opts ns name w pubs =
      Some (if del then (Done, w, DropLocal env (waf_Namespace waf) (waf_Name waf) pubs)
            else case y of ((res, err), w', pubs') \<Rightarrow> (if err = None then Done else Requeue, w', pubs'))"
    using ApiOk x by (simp add: sync_Reconcile_def split: prod.splits)
  then show ?thesis by blast
qed (auto simp: sync_Reconcile_def)

section \<open>The theorems at concrete inputs\<close>

definition demo_wired :: "RuleRef list \<Rightarrow> WAF" where
  "demo_wired refs = (demo_waf ''a'' ''w'' ProviderIstio None)
     \<lparr> waf_Spec := (waf_Spec (demo_waf ''a'' ''w'' ProviderIstio None))\<lparr> ws_RuleSetRefs := refs \<rparr> \<rparr>"

abbreviation rule_rc :: "unit ref_client" where
  "rule_rc \<equiv> demo_rc [(''outer'', demo_rs ''outer'' [demo_ref ''SecRule'' ''r'']), (''r'', demo_uobj (demo_secrule ''a'' 7 ''a''))]"

definition demo_cluster :: "(unit, string \<times> string, SecRuleMetadata, string) cluster" where
  "demo_cluster =
     \<lparr> cl_fuel = 3, cl_refs = rule_rc,
       cl_secrets = \<lparr> sc_Get = (\<lambda>ns n w. ApiNotFound), sc_Create = (\<lambda>s w. (ApiOk s, w)), sc_Update = (\<lambda>s w. (ApiOk s, w)),
                      sc_Rand = (\<lambda>k w. (None, w)) \<rparr>,
       cl_scheme = None,
       cl_reader = (\<lambda>w. \<lparr> dr_GatewayClassName = (\<lambda>ns n. None), dr_ControllerName = (\<lambda>n. None),
                         dr_ListSucceeds = (\<lambda>g v k. False), dr_HTTPRoutes = (\<lambda>ns. None) \<rparr>),
       cl_files = (\<lambda>w. demo_pf), cl_pack = (\<lambda>b. None), cl_sha = id, cl_gzip = Some,
       cl_printer = demo_pattern_printer, cl_severities = severityNameToLevel \<rparr>"

definition demo_env :: ecds_env where
  "demo_env = \<lparr> ee_ip6 = Some, ee_accept = (\<lambda>_ _. True) \<rparr>"

definition demo_pubs :: Publishers where
  "demo_pubs = \<lparr> pub_ECDS = Some (New (\<lambda>_ _. True)), pub_EGExtension = Some [] \<rparr>"

lemma demo_rs_lang: "\<not> is_lang (demo_rs name refs)"
  by (simp add: is_lang_def demo_rs_def)

lemma demo_rules:
  "Resolve 3 rule_rc [demo_ref [] ''outer''] (waf_source (demo_wired refs)) () =
     Some (([demo_uobj (demo_secrule ''a'' 7 ''a''), demo_rs ''outer'' [demo_ref ''SecRule'' ''r'']], [], None), ())"
  "GetSecLang severityNameToLevel demo_pattern_printer
     [demo_uobj (demo_secrule ''a'' 7 ''a''), demo_rs ''outer'' [demo_ref ''SecRule'' ''r'']] = Inr [[CHR ''a'', newline]]"
  subgoal
    by (simp add: demo_resolve demo_uobj_def demo_secrule_def waf_source_def demo_wired_def demo_waf_def)
  subgoal
    using demo_render [of "''a''" "''a''" 7] collapse_short(1) demo_rs_lang
    by (simp add: GetSecLang_def lang_items_def str_contains_def has_prefix_def)
  done

lemma demo_scan: "ScanPmFromFileBasenames (BuildDirectives (demo_wired refs) [[CHR ''a'', newline]]) = []"
proof -
  have "BuildDirectives (demo_wired refs) [[CHR ''a'', newline]] =
      [''Include @kubewaf-defaults'', ''SecRuleEngine On'', ''SecDebugLogLevel 1'', [CHR ''a'', newline]]"
    unfolding demo_wired_def demo_waf_def by code_simp
  moreover have "ScanPmFromFileBasenames
      [''Include @kubewaf-defaults'', ''SecRuleEngine On'', ''SecDebugLogLevel 1'', [CHR ''a'', newline]] = []"
    by code_simp
  ultimately show ?thesis by simp
qed

lemma demo_built:
  "\<exists>r p ts. Build demo_cluster ''u'' (demo_wired [demo_ref [] ''outer'']) (sync_options demo_opts) () = Some (Inr r, ()) \<and>
     res_Portable r = Some p \<and> res_ReferenceErrors r = [] \<and> BuildTypedExtensionConfigs Some p = Inr ts"
proof -
  let ?waf = "demo_wired [demo_ref [] ''outer'']"
  let ?objs = "[demo_uobj (demo_secrule ''a'' 7 ''a''), demo_rs ''outer'' [demo_ref ''SecRule'' ''r'']]"
  let ?pr = "DiscoverAndResolvePhraseFiles id demo_pf (\<lambda>b. None) ?waf (BuildDirectives ?waf [[CHR ''a'', newline]]) ?objs"
  have pr: "pr_Ready ?pr" "pr_DroppedBasenames ?pr = []" "pr_Files ?pr = []"
    unfolding DiscoverAndResolvePhraseFiles_def demo_scan
    by (simp_all add: checkPhraseListRefs_def checkIPListRefs_def collectRuleSetLocalRefs_def demo_rs_def demo_uobj_def
        List.map_filter_def as_RuleSet_def)
  have waf: "ws_RuleSetRefs (waf_Spec ?waf) = [demo_ref [] ''outer'']" "\<not> ChallengeEnabled (ws_Challenge (waf_Spec ?waf))"
    "\<not> NeedsProviderDiscovery ?waf"
    by (simp_all add: demo_wired_def demo_waf_def ChallengeEnabled_def NeedsProviderDiscovery_def ProviderIstio_def ProviderAuto_def)
  obtain p ts where p: "BuildFromWAF Some (Some ?waf) [[CHR ''a'', newline]] demo_opts = Inr p"
    "BuildTypedExtensionConfigs Some p = Inr ts"
    by (simp add: BuildFromWAF_def portable_config_def waf demo_opts_def moduleURL_def moduleSHA_def smap_get_def
        ModuleModSecurity_def ModuleChallenge_def Let_def resolveProvider_def demo_wired_def demo_waf_def
        BuildTypedExtensionConfigs_def wasmFetchCluster_def ProviderIstio_def ProviderCilium_def
        buildOne_def buildVMConfig_def demo_url str_or_def WasmCodeCluster_def ChallengeEnabled_def)
  have "\<exists>r. finish_build demo_cluster ?waf (sync_options demo_opts) ?objs [] [[CHR ''a'', newline]] no_hmac () = Inr r \<and>
      res_Portable r = Some p \<and> res_ReferenceErrors r = []"
    using pr p(1) waf
    by (simp add: finish_build_def demo_cluster_def build_options_def sync_options_def with_files_def Let_def)
  then obtain r where r: "finish_build demo_cluster ?waf (sync_options demo_opts) ?objs [] [[CHR ''a'', newline]] no_hmac () = Inr r"
    "res_Portable r = Some p" "res_ReferenceErrors r = []" by blast
  have "Build demo_cluster ''u'' ?waf (sync_options demo_opts) () = Some (Inr r, ())"
    using demo_rules(2) r(1)
    by (simp add: Build_def demo_cluster_def waf demo_rules(1) sync_options_def GetSecRule_def build_challenge_def)
  with r(2,3) p(2) show ?thesis by blast
qed

abbreviation demo_sync :: "(64 word \<Rightarrow> resources \<Rightarrow> bool) \<Rightarrow> ((Result option \<times> pipeline_error option) \<times> unit \<times> Publishers) option" where
  "demo_sync accept \<equiv>
     BuildAndPublish demo_cluster \<lparr> ee_ip6 = Some, ee_accept = accept \<rparr> ''u'' (demo_wired [demo_ref [] ''outer'']) (sync_options demo_opts) () demo_pubs"

lemma demo_run:
  "\<exists>res pubs'. demo_sync (\<lambda>_ _. True) = Some ((res, None), (), pubs')"
  "\<exists>res pubs'. demo_sync (\<lambda>_ _. False) = Some ((res, Some (ECDSUpsertFailed SnapshotRejected)), (), pubs')"
  using demo_built
  by (auto simp: BuildAndPublish_def Publish_def demo_pubs_def sync_options_def Upsert_def publishLocked_def Let_def)


theorem failed_run_keeps_last_good_witness:
  "\<exists>res pubs'. demo_sync (\<lambda>_ _. False) = Some ((res, Some (ECDSUpsertFailed SnapshotRejected)), (), pubs') \<and>
     map_option es_snapshot (pub_ECDS pubs') = Some (Some (1, []))"
proof -
  obtain res pubs' where r: "demo_sync (\<lambda>_ _. False) = Some ((res, Some (ECDSUpsertFailed SnapshotRejected)), (), pubs')"
    using demo_run(2) by blast
  have "map_option es_snapshot (pub_ECDS demo_pubs) = Some (Some (1, []))"
    by (simp add: demo_pubs_def New_def publishLocked_def Let_def)
  with failed_run_keeps_last_good [OF r] r show ?thesis by simp
qed

theorem deleted_waf_forgotten_witness:
  "\<exists>srv' idx'.
     sync_Reconcile demo_cluster demo_env (\<lambda>w ns n. ApiNotFound) demo_opts ''a'' ''w'' ()
       \<lparr> pub_ECDS = Some (snd (Upsert Some (\<lambda>_ _. True) (demo_config ''a'' ''w'') (New (\<lambda>_ _. True)))), pub_EGExtension = Some [] \<rparr> =
       Some (Done, (), \<lparr> pub_ECDS = Some srv', pub_EGExtension = Some idx' \<rparr>) \<and>
     waf_resources srv' (''a'', ''w'') = Map.empty"
proof -
  let ?pubs = "\<lparr> pub_ECDS = Some (snd (Upsert Some (\<lambda>_ _. True) (demo_config ''a'' ''w'') (New (\<lambda>_ _. True)))), pub_EGExtension = Some [] \<rparr>"
  have k: "waf_key_ok (''a'', ''w'')" by (simp add: waf_key_ok_def slash_free_def)
  have e: "pub_ECDS ?pubs = Some (snd (Upsert Some (\<lambda>_ _. True) (demo_config ''a'' ''w'') (New (\<lambda>_ _. True))))" "pub_EGExtension ?pubs = Some []"
    by simp_all
  show ?thesis
    using deleted_waf_forgotten [OF disjI1 e k, of "\<lambda>w ns n. ApiNotFound" "()" demo_cluster demo_env demo_opts] k by fastforce
qed

lemma item_of_stored:
  assumes "item_of (demo_rc objs) w source ref x"
  shows "x \<in> snd ` set objs \<or> x = demo_other ''a'' \<or> x = demo_other ''b''"
  using assms
  by (force simp: item_of_def lookupRef_def getDynamicObjects_def listDynamicObjects_def demo_rc_def Let_def
      split: option.splits if_splits dest: map_of_SomeD)

lemma not_ruleset: "\<not> is_ruleset (demo_uobj sr) s" "\<not> is_ruleset (demo_other ns) s"
  by (simp_all add: is_ruleset_def demo_uobj_def demo_other_def)

theorem sync_returns_witness:
  "\<exists>r N. \<forall>n \<ge> N. sync_Reconcile (demo_cluster\<lparr> cl_fuel := n \<rparr>) demo_env
     (\<lambda>w ns name. ApiOk (''u'', demo_wired [demo_ref [] ''outer''], False)) demo_opts ''a'' ''w'' () demo_pubs = Some r"
proof (rule sync_returns [where rank = "\<lambda>x. if x = demo_rs ''outer'' [demo_ref ''SecRule'' ''r''] then 0 else 1"])
  let ?outer = "demo_rs ''outer'' [demo_ref ''SecRule'' ''r'']"
  have only: "x = ?outer" if "item_of rule_rc () source ref x" "is_ruleset x s" for source ref x s
    using item_of_stored [OF that(1)] that(2) not_ruleset by auto
  have leaf: "\<not> is_ruleset x s'" if "is_ruleset ?outer s" "ref \<in> set (rss_RuleRefs s)" "item_of rule_rc () source ref x" for source s ref x s'
  proof -
    have "ref = demo_ref ''SecRule'' ''r''" using that(1,2) by (auto simp: is_ruleset_def demo_rs_def as_RuleSet_def)
    with that(3) item_of_named [of ref _ "()" source x] have "x = demo_uobj (demo_secrule ''a'' 7 ''a'')"
      by (simp add: demo_ref_def)
    then show ?thesis by (simp add: not_ruleset)
  qed
  have c: "cl_refs demo_cluster = rule_rc" by (simp add: demo_cluster_def)
  show "ranked (cl_refs demo_cluster) () (\<lambda>x. if x = ?outer then 0 else 1)"
    unfolding ranked_def c
  proof (intro allI impI)
    fix rs s ref rs' s'
    assume a: "is_ruleset rs s" "ref \<in> set (rss_RuleRefs s)" "item_of rule_rc () (ruleset_source rs s) ref rs'" "is_ruleset rs' s'"
    have "rs' = ?outer" using only a by blast
    moreover have "rs \<noteq> ?outer" using leaf a by blast
    ultimately show "(if rs' = ?outer then 0 else 1) < (if rs = ?outer then 0 else 1 :: nat)" by simp
  qed
qed

end
