(* ===== verification/SecLangSchema.thy ===== *)
theory SecLangSchema
  imports ConvertThms
begin

text \<open>
  The enumerations the API declares in \<open>api/seclang/v1beta1/secrule_*.go\<close>, and that the generated
  mappers are their typed conversions: on declared values every mapper is a bijection onto the
  constants of crslang it names, so its default branch is never taken.
\<close>

section \<open>The declared values\<close>

text \<open>The constants of each string type in alphabetical order; for collections and actions they are also
  the values the CRD admits, and \<open>flowUnknown\<close> is not among these.\<close>

definition OperatorTypes :: "string list" where
  "OperatorTypes =
    [''beginsWith'', ''contains'', ''containsWord'', ''detectSQLi'', ''detectXSS'', ''endsWith'',
     ''eq'', ''fuzzyHash'', ''ge'', ''geoLookup'', ''gsbLookup'', ''gt'', ''inspectFile'', ''ipMatch'',
     ''ipMatchF'', ''ipMatchFromFile'', ''le'', ''lt'', ''pm'', ''pmFromFile'', ''pmf'', ''rbl'',
     ''rsub'', ''rx'', ''rxGlobal'', ''strEq'', ''strMatch'', ''unconditionalMatch'',
     ''unknownOperator'', ''validateByteRange'', ''validateDTD'', ''validateHash'', ''validateSchema'',
     ''validateUrlEncoding'', ''validateUtf8Encoding'', ''verifyCC'', ''verifyCPF'', ''verifySSN'',
     ''verifySVNR'', ''within'']"

definition VariableNames :: "string list" where
  "VariableNames =
    [''ARGS_COMBINED_SIZE'', ''AUTH_TYPE'', ''DURATION'', ''FILES_COMBINED_SIZE'', ''FILES_NAMES'',
     ''FILES_SIZES'', ''FILES_TMPNAMES'', ''FILES_TMP_CONTENT'', ''FULL_REQUEST'',
     ''FULL_REQUEST_LENGTH'', ''HIGHEST_SEVERITY'', ''INBOUND_DATA_ERROR'', ''MATCHED_VAR'',
     ''MATCHED_VAR_NAME'', ''MODSEC_BUILD'', ''MSC_PCRE_ERROR'', ''MSC_PCRE_LIMITS_EXCEEDED'',
     ''MULTIPART_BOUNDARY_QUOTED'', ''MULTIPART_BOUNDARY_WHITESPACE'', ''MULTIPART_CRLF_LF_LINES'',
     ''MULTIPART_DATA_AFTER'', ''MULTIPART_DATA_BEFORE'', ''MULTIPART_FILENAME'',
     ''MULTIPART_FILE_LIMIT_EXCEEDED'', ''MULTIPART_HEADER_FOLDING'',
     ''MULTIPART_INVALID_HEADER_FOLDING'', ''MULTIPART_INVALID_PART'', ''MULTIPART_INVALID_QUOTING'',
     ''MULTIPART_LF_LINE'', ''MULTIPART_MISSING_SEMICOLON'', ''MULTIPART_NAME'',
     ''MULTIPART_SEMICOLON_MISSING'', ''MULTIPART_STRICT_ERROR'', ''MULTIPART_UNMATCHED_BOUNDARY'',
     ''OUTBOUND_DATA_ERROR'', ''PATH_INFO'', ''PERF_ALL'', ''PERF_COMBINED'', ''PERF_GC'',
     ''PERF_LOGGING'', ''PERF_PHASE1'', ''PERF_PHASE2'', ''PERF_PHASE3'', ''PERF_PHASE4'',
     ''PERF_PHASE5'', ''PERF_SREAD'', ''PERF_SWRITE'', ''QUERY_STRING'', ''REMOTE_ADDR'',
     ''REMOTE_HOST'', ''REMOTE_PORT'', ''REMOTE_USER'', ''REQBODY_ERROR'', ''REQBODY_ERROR_MSG'',
     ''REQBODY_PROCESSOR'', ''REQBODY_PROCESSOR_ERROR'', ''REQBODY_PROCESSOR_ERROR_MSG'',
     ''REQUEST_BASENAME'', ''REQUEST_BODY'', ''REQUEST_BODY_LENGTH'', ''REQUEST_FILENAME'',
     ''REQUEST_LINE'', ''REQUEST_METHOD'', ''REQUEST_PROTOCOL'', ''REQUEST_URI'', ''REQUEST_URI_RAW'',
     ''RESPONSE_BODY'', ''RESPONSE_CONTENT_LENGTH'', ''RESPONSE_CONTENT_TYPE'', ''RESPONSE_PROTOCOL'',
     ''RESPONSE_STATUS'', ''SCRIPT_BASENAME'', ''SCRIPT_FILENAME'', ''SCRIPT_GID'',
     ''SCRIPT_GROUPNAME'', ''SCRIPT_MODE'', ''SCRIPT_UID'', ''SCRIPT_USERNAME'', ''SDBM_DELETE_ERROR'',
     ''SERVER_ADDR'', ''SERVER_NAME'', ''SERVER_PORT'', ''SESSIONID'', ''STATUS'', ''STATUS_LINE'',
     ''STREAM_INPUT_BODY'', ''STREAM_OUTPUT_BODY'', ''TIME'', ''TIME_DAY'', ''TIME_EPOCH'',
     ''TIME_HOUR'', ''TIME_MIN'', ''TIME_MON'', ''TIME_SEC'', ''TIME_WDAY'', ''TIME_YEAR'',
     ''UNIQUE_ID'', ''UNKNOWN_VAR'', ''URLENCODED_ERROR'', ''USERAGENT_IP'', ''USERID'', ''WEBAPPID'',
     ''WEBSERVER_ERROR_LOG'']"

definition CollectionNames :: "string list" where
  "CollectionNames =
    [''ARGS'', ''ARGS_GET'', ''ARGS_GET_NAMES'', ''ARGS_NAMES'', ''ARGS_POST'', ''ARGS_POST_NAMES'',
     ''ENV'', ''FILES'', ''GEO'', ''GLOBAL'', ''IP'', ''MATCHED_VARS'', ''MATCHED_VARS_NAMES'',
     ''MULTIPART_PART_HEADERS'', ''PERF_RULES'', ''REQUEST_COOKIES'', ''REQUEST_COOKIES_NAMES'',
     ''REQUEST_HEADERS'', ''REQUEST_HEADERS_NAMES'', ''RESOURCE'', ''RESPONSE_HEADERS'',
     ''RESPONSE_HEADERS_NAMES'', ''RULE'', ''SESSION'', ''TX'', ''UNKNOWN_COLLECTION'', ''USER'',
     ''XML'']"

definition Transformations :: "string list" where
  "Transformations =
    [''base64Decode'', ''base64DecodeExt'', ''base64Encode'', ''cmdLine'', ''compressWhitespace'',
     ''cssDecode'', ''escapeSeqDecode'', ''hexDecode'', ''hexEncode'', ''htmlEntityDecode'',
     ''jsDecode'', ''length'', ''lowercase'', ''md5'', ''none'', ''normalisePath'',
     ''normalisePathWin'', ''parityEven7bit'', ''parityOdd7bit'', ''parityZero7bit'',
     ''removeComments'', ''removeCommentsChar'', ''removeNulls'', ''removeWhitespace'',
     ''replaceComments'', ''replaceNulls'', ''sha1'', ''sqlHexDecode'', ''trim'', ''trimLeft'',
     ''trimRight'', ''unknownTransformation'', ''uppercase'', ''urlDecode'', ''urlDecodeUni'',
     ''urlEncode'', ''utf8toUnicode'']"

definition DisruptiveActionTypes :: "string list" where
  "DisruptiveActionTypes =
    [''allow'', ''block'', ''deny'', ''drop'', ''pass'', ''pause'', ''proxy'', ''redirect'']"

definition NonDisruptiveActionTypes :: "string list" where
  "NonDisruptiveActionTypes =
    [''append'', ''auditlog'', ''capture'', ''ctl'', ''deprecatevar'', ''exec'', ''expirevar'',
     ''initcol'', ''log'', ''logdata'', ''multiMatch'', ''noauditlog'', ''nolog'', ''sanitiseArg'',
     ''sanitiseMatched'', ''sanitiseMatchedBytes'', ''sanitiseRequestHeader'',
     ''sanitiseResponseHeader'', ''setenv'', ''setrsc'', ''setsid'', ''setuid'', ''setvar'']"

definition FlowActionTypes :: "string list" where
  "FlowActionTypes =
    [''chain'', ''skip'', ''skipAfter'']"

definition DataActionTypes :: "string list" where
  "DataActionTypes =
    [''status'', ''xmlns'']"

section \<open>Typed values\<close>

definition typed_condition :: "Condition \<Rightarrow> bool" where
  "typed_condition c \<longleftrightarrow>
     \<not> cond_AlwaysMatch c \<and>
     list_all (\<lambda>v. var_Name v \<in> set VariableNames) (cond_Variables c) \<and>
     list_all (\<lambda>k. col_Name k \<in> set CollectionNames) (cond_Collections c) \<and>
     op_Name (cond_Operator c) \<in> set OperatorTypes \<and>
     list_all (\<lambda>t. t \<in> set Transformations \<and> t \<noteq> ''unknownTransformation'') (cond_Transformations c)"

fun typed_action :: "SecLangActions \<Rightarrow> bool" where
  "typed_action (ADataAction a) \<longleftrightarrow> dta_Type a \<in> set DataActionTypes"
| "typed_action (AFlowAction a) \<longleftrightarrow> fa_Type a \<in> set FlowActionTypes"
| "typed_action (ANonDisruptiveAction a) \<longleftrightarrow> nda_Type a \<in> set NonDisruptiveActionTypes"
| "typed_action (ADisruptiveAction a) \<longleftrightarrow> da_Type a \<in> set DisruptiveActionTypes"

text \<open>The action type of crslang that an action is converted to.\<close>

fun crs_action_type :: "SecLangActions \<Rightarrow> action_type" where
  "crs_action_type (ADataAction a) = TData (DataActionTypeMapper (dta_Type a))"
| "crs_action_type (AFlowAction a) = TFlow (FlowActionTypeMapper (fa_Type a))"
| "crs_action_type (ANonDisruptiveAction a) = TNonDisruptive (NonDisruptiveActionTypeMapper (nda_Type a))"
| "crs_action_type (ADisruptiveAction a) = TDisruptive (DisruptiveActionMapper (da_Type a))"

section \<open>The contract of a mapper pair\<close>

locale enum_mapper =
  fixes to_crs :: "string \<Rightarrow> crs_label" and from_crs :: "crs_label \<Rightarrow> string"
    and names :: "string set" and labels :: "crs_label set"
  assumes to_label: "n \<in> names \<Longrightarrow> to_crs n \<in> labels \<and> from_crs (to_crs n) = n"
    and from_label: "l \<in> labels \<Longrightarrow> from_crs l \<in> names \<and> to_crs (from_crs l) = l"
begin

lemma to_bij: "bij_betw to_crs names labels"
  by (rule bij_betw_byWitness [where f' = from_crs]) (auto dest: to_label from_label)

lemma to_eq_iff: "n \<in> names \<Longrightarrow> l \<in> labels \<Longrightarrow> to_crs n = l \<longleftrightarrow> from_crs l = n"
  using to_label [of n] from_label [of l] by blast

end

lemma table_mapper:
  assumes "inverse_tables table rtable" and "names = fst ` set table" and "labels = fst ` set rtable"
  shows "enum_mapper (switch table d) (switch rtable rd) names labels"
proof
  fix n assume n: "n \<in> names"
  have "(n, switch table d n) \<in> set table" using n unfolding assms(2) by (rule switch_row)
  then have "(switch table d n, n) \<in> set rtable" unfolding inverse_tables_row [OF assms(1)] .
  then have "switch table d n \<in> labels" unfolding assms(3) by (rule image_eqI [rotated]) simp
  moreover have "switch rtable rd (switch table d n) = n"
    using n unfolding assms(2) by (rule switch_back [OF inverse_tables_back(1) [OF assms(1)]])
  ultimately show "switch table d n \<in> labels \<and> switch rtable rd (switch table d n) = n" ..
next
  fix l assume l: "l \<in> labels"
  have "(l, switch rtable rd l) \<in> set rtable" using l unfolding assms(3) by (rule switch_row)
  then have "(switch rtable rd l, l) \<in> set table" unfolding inverse_tables_row [OF assms(1), symmetric] .
  then have "switch rtable rd l \<in> names" unfolding assms(2) by (rule image_eqI [rotated]) simp
  moreover have "switch table d (switch rtable rd l) = l"
    using l unfolding assms(3) by (rule switch_back [OF inverse_tables_back(2) [OF assms(1)]])
  ultimately show "switch rtable rd l \<in> names \<and> switch table d (switch rtable rd l) = l" ..
qed

lemma declared_rows:
  "OperatorTypes = map fst OperatorMapper_table" "CollectionNames = map fst CollectionMapper_table"
  "Transformations = map fst TransformationMapper_table" "VariableNames = map fst VariableMapper_table"
  by code_simp+

interpretation operators: enum_mapper OperatorMapper OperatorReverseMapper
    "set OperatorTypes" "fst ` set OperatorReverseMapper_table"
  unfolding OperatorMapper_def OperatorReverseMapper_def declared_rows
  by (rule table_mapper [OF generated_tables(1)]) simp_all

interpretation collections: enum_mapper CollectionMapper CollectionReverseMapper
    "set CollectionNames" "fst ` set CollectionReverseMapper_table"
  unfolding CollectionMapper_def CollectionReverseMapper_def declared_rows
  by (rule table_mapper [OF generated_tables(3)]) simp_all

interpretation transformations: enum_mapper "TransformationMapper zero" TransformationMapperCSR
    "set Transformations" "fst ` set TransformationMapperCSR_table" for zero
  unfolding TransformationMapper_def TransformationMapperCSR_def declared_rows
  by (rule table_mapper [OF generated_tables(4)]) simp_all

interpretation variables: enum_mapper "VariableMapper zero" VariableReverseMapper
    "set VariableNames" "fst ` set VariableReverseMapper_table" for zero
  unfolding VariableMapper_def VariableReverseMapper_def declared_rows
  by (rule table_mapper [OF generated_tables(2)]) simp_all

interpretation flow_types: enum_mapper FlowActionTypeMapper FlowActionTypeReverseMapper
    "set (''flowUnknown'' # FlowActionTypes)" "fst ` set FlowActionTypeReverseMapper_table"
  unfolding FlowActionTypeMapper_def FlowActionTypeReverseMapper_def
  by (rule table_mapper [OF generated_tables(5)]) (auto simp: FlowActionTypes_def FlowActionTypeMapper_table_def)

section \<open>Conditions\<close>

lemma typed_transformation:
  assumes "prints_names L" and "t \<in> set Transformations" and "t \<noteq> ''unknownTransformation''"
  shows "\<exists>c. (c \<in> fst ` set TransformationMapperCSR_table \<and> c \<noteq> ''UnknownTransformation'') \<and>
    ToCRSTransformation L t = Inr c \<and> FromCRSTransformation L c = Inr t"
proof -
  define c where "c = TransformationMapper [] t"
  have c: "c \<in> fst ` set TransformationMapperCSR_table" "TransformationMapperCSR c = t"
    using transformations.to_label [OF assms(2), of "[]"] unfolding c_def by auto
  have "TransformationMapperCSR ''UnknownTransformation'' = ''unknownTransformation''" by code_simp
  then have "c \<noteq> ''UnknownTransformation''" using c(2) assms(3) by auto
  with transformation_back [OF assms(1) c(1)] c show ?thesis by auto
qed

lemma map_from_typed:
  assumes "\<And>t. t \<in> set ts \<Longrightarrow> \<exists>c. P c \<and> f t = Inr c \<and> g c = Inr t"
  shows "\<exists>cs. list_all P cs \<and> map_from f i ts = Inr cs \<and> map_from g j cs = Inr ts"
  using assms
proof (induction ts arbitrary: i j)
  case (Cons t ts)
  obtain c where c: "P c" "f t = Inr c" "g c = Inr t" using Cons.prems [of t] by auto
  obtain cs where "list_all P cs" "map_from f (Suc i) ts = Inr cs" "map_from g (Suc j) cs = Inr ts"
    using Cons.IH [of "Suc i" "Suc j"] Cons.prems by auto
  with c show ?case by (intro exI [of _ "c # cs"]) simp
qed simp

lemma typed_to_known:
  assumes "prints_names L" and "typed_condition d"
  shows "\<exists>c. known_condition c \<and> convert_condition L d = Inr c \<and> import_condition L c = Inr d"
proof -
  note ty = assms(2) [unfolded typed_condition_def]
  let ?P = "\<lambda>c. c \<in> fst ` set TransformationMapperCSR_table \<and> c \<noteq> ''UnknownTransformation''"
  have tr: "\<exists>c. ?P c \<and> ToCRSTransformation L t = Inr c \<and> FromCRSTransformation L c = Inr t"
    if "t \<in> set (cond_Transformations d)" for t
  proof (rule typed_transformation [OF assms(1)])
    show "t \<in> set Transformations" "t \<noteq> ''unknownTransformation''" using ty that by (simp_all add: list_all_iff)
  qed
  obtain ts where ts: "list_all ?P ts"
    "mapAPITransformations L (cond_Transformations d) = Inr ts" "mapCRSTransformations L ts = Inr (cond_Transformations d)"
    unfolding mapAPITransformations_def mapCRSTransformations_def using map_from_typed [OF tr] by blast
  have op: "op_Name (cond_Operator d) \<in> set OperatorTypes" using ty by blast
  then have op0: "op_Name (cond_Operator d) \<noteq> []"
    using operator_rows unfolding declared_rows list_all_iff by auto
  define c where "c = \<lparr> cc_Variables =
             map (\<lambda>v. \<lparr> cv_Name = VariableMapper (cl_zeroVariable L) (var_Name v), cv_Excluded = var_Excluded v \<rparr>)
                 (cond_Variables d),
           cc_Collections =
             map (\<lambda>k. \<lparr> cco_Name = CollectionMapper (col_Name k), cco_Arguments = col_Arguments k,
                        cco_Excluded = col_Excluded k, cco_Count = col_Count k \<rparr>)
                 (cond_Collections d),
           cc_Operator = convert_operator L d, cc_Transformations = ts,
           cc_AlwaysMatch = cond_AlwaysMatch d, cc_Script = cond_Script d \<rparr>"
  have "convert_condition L d = Inr c" unfolding c_def convert_condition_def by (simp add: ts(2))
  moreover have "known_condition c"
    using ty op0 ts(1) operators.to_label [OF op] variables.to_label collections.to_label
    unfolding known_condition_def c_def by (simp add: convert_operator_def list_all_iff)
  moreover have "import_condition L c = Inr d"
  proof -
    have v: "map (\<lambda>v. \<lparr> var_Name = VariableReverseMapper (VariableMapper z (var_Name v)), var_Excluded = var_Excluded v \<rparr>)
        (cond_Variables d) = cond_Variables d" for z
      using ty variables.to_label by (intro map_idI) (simp add: list_all_iff)
    have k: "map (\<lambda>k. \<lparr> col_Name = CollectionReverseMapper (CollectionMapper (col_Name k)), col_Arguments = col_Arguments k,
        col_Excluded = col_Excluded k, col_Count = col_Count k \<rparr>) (cond_Collections d) = cond_Collections d"
      using ty collections.to_label by (intro map_idI) (simp add: list_all_iff)
    have o': "OperatorReverseMapper (OperatorMapper (op_Name (cond_Operator d))) = op_Name (cond_Operator d)"
      using operators.to_label [OF op] ..
    show ?thesis
      using ty ts(3) op0 unfolding import_condition_def c_def
      by (simp add: import_operator_def convert_operator_def comp_def v k o')
  qed
  ultimately show ?thesis by blast
qed

lemma known_transformation:
  assumes "prints_names L" and "c \<in> fst ` set TransformationMapperCSR_table" and "c \<noteq> ''UnknownTransformation''"
    and "FromCRSTransformation L c = Inr t"
  shows "t \<in> set Transformations \<and> t \<noteq> ''unknownTransformation''"
proof -
  have t: "t = TransformationMapperCSR c" using transformation_back [OF assms(1-3)] assms(4) by simp
  have "TransformationMapper [] t = c" "t \<in> set Transformations"
    using transformations.from_label [OF assms(2)] unfolding t by blast+
  moreover have "TransformationMapper [] ''unknownTransformation'' = ''UnknownTransformation''"
    unfolding TransformationMapper_def by (rule unknown_row)
  ultimately show ?thesis using assms(3) by metis
qed

lemma imported_typed:
  assumes "prints_names L" and "known_condition c" and "import_condition L c = Inr d"
  shows "typed_condition d"
proof -
  note kn = assms(2) [unfolded known_condition_def]
  obtain ts where ts: "mapCRSTransformations L (cc_Transformations c) = Inr ts" "cond_Transformations d = ts"
    using assms(3) by (auto simp: import_condition_def bindE_def split: sum.splits)
  have d: "cond_Variables d = map (\<lambda>v. \<lparr> var_Name = VariableReverseMapper (cv_Name v), var_Excluded = cv_Excluded v \<rparr>) (cc_Variables c)"
    "cond_Collections d = map (\<lambda>k. \<lparr> col_Name = CollectionReverseMapper (cco_Name k), col_Arguments = cco_Arguments k,
        col_Excluded = cco_Excluded k, col_Count = cco_Count k \<rparr>) (cc_Collections c)"
    "cond_AlwaysMatch d = cc_AlwaysMatch c" "op_Name (cond_Operator d) = OperatorReverseMapper (cop_Name (cc_Operator c))"
    using assms(3) ts kn by (auto simp: import_condition_def import_operator_def Let_def)
  have "t \<in> set Transformations \<and> t \<noteq> ''unknownTransformation''" if "t \<in> set ts" for t
  proof -
    have "list_all2 (\<lambda>c t. FromCRSTransformation L c = Inr t) (cc_Transformations c) ts"
      using ts(1) unfolding mapCRSTransformations_def map_from_Inr_iff .
    moreover obtain i where i: "i < length ts" "ts ! i = t" using \<open>t \<in> set ts\<close> unfolding in_set_conv_nth by blast
    ultimately have c': "cc_Transformations c ! i \<in> set (cc_Transformations c)"
        "FromCRSTransformation L (cc_Transformations c ! i) = Inr t"
      by (auto simp: list_all2_conv_all_nth)
    have "cc_Transformations c ! i \<in> fst ` set TransformationMapperCSR_table" "cc_Transformations c ! i \<noteq> ''UnknownTransformation''"
      using kn c'(1) by (simp_all add: list_all_iff)
    from known_transformation [OF assms(1) this c'(2)] show ?thesis .
  qed
  then show ?thesis
    unfolding typed_condition_def d ts(2)
    using kn operators.from_label variables.from_label collections.from_label by (simp add: list_all_iff)
qed

lemma known_to_typed:
  assumes "prints_names L" and "known_condition c"
  shows "\<exists>d. typed_condition d \<and> import_condition L c = Inr d \<and> convert_condition L d = Inr c"
  using condition_back [OF assms] imported_typed [OF assms] by blast

section \<open>Actions\<close>

definition default_types :: "action_type set" where
  "default_types = {TData ''DataUnknown'', TFlow ''FlowUnknown'', TNonDisruptive ''NonDisruptiveUnknown'', TDisruptive ''Unknown''}"

lemma ActionToCSR_type:
  "ActionToCSR L a = actionToCSR L (crs_action_type a)
     (case a of ADataAction x \<Rightarrow> dta_Value x | AFlowAction x \<Rightarrow> fa_Value x | ANonDisruptiveAction x \<Rightarrow> nda_Value x
      | ADisruptiveAction x \<Rightarrow> da_Value x)"
  by (cases a) simp_all

lemma declared_actions:
  "DataActionTypes = map fst DataActionTypeMapper_table"
  "DisruptiveActionTypes = map fst DisruptiveActionMapper_table"
  "NonDisruptiveActionTypes = map fst NonDisruptiveActionTypeMapper_table"
  "list_all (\<lambda>n. FlowActionTypeMapper n \<noteq> ''FlowUnknown'') FlowActionTypes"
  "list_all (\<lambda>n. DataActionTypeMapper n \<noteq> ''DataUnknown'') DataActionTypes"
  "list_all (\<lambda>n. DisruptiveActionMapper n \<noteq> ''Unknown'') DisruptiveActionTypes"
  "list_all (\<lambda>n. NonDisruptiveActionTypeMapper n \<noteq> ''NonDisruptiveUnknown'') NonDisruptiveActionTypes"
  by code_simp+

lemma typed_action_known: "typed_action a \<Longrightarrow> crs_action_type a \<notin> default_types"
  using declared_actions(4-) by (cases a) (auto simp: default_types_def list_all_iff)


definition demo_typed :: Condition where
  "demo_typed = \<lparr> cond_Variables = [\<lparr> var_Name = ''REQUEST_URI'', var_Excluded = False \<rparr>],
     cond_Collections = [\<lparr> col_Name = ''ARGS'', col_Arguments = [], col_Excluded = [''token''], col_Count = False \<rparr>],
     cond_Operator = \<lparr> op_Negate = False, op_Name = ''detectSQLi'', op_Value = [] \<rparr>,
     cond_Transformations = [''urlDecodeUni'', ''lowercase''], cond_AlwaysMatch = False, cond_Script = [] \<rparr>"


end
