(* ===== verification/SlotIstio.thy ===== *)
theory SlotIstio
  imports XdsUtil
begin

text \<open>
  The Istio slot \<open>internal/dataplane/slot/istio/envoyfilter.go\<close> with the unstructured values of
  \<open>internal/dataplane/xdsutil/otel.go\<close> it uses.

  An unstructured value is JSON; a Go map is the list of its entries, whose order means nothing. The
  API server is a client over a state \<open>'w\<close>. \<open>controllerutil.CreateOrUpdate\<close> is a function of the
  client: it applies the given change to the stored object, or to an empty one, and stores the result.
\<close>

section \<open>Unstructured objects and the client\<close>

datatype json = JS string | JI int | JB bool | JL "json list" | JO "(string \<times> json) list"

record OwnerReference =
  own_APIVersion :: string
  own_Kind :: string
  own_Name :: string
  own_UID :: string

record SlotObject =
  so_Labels :: string_map
  so_Owners :: "OwnerReference list"
  so_Spec :: json

datatype slot_kind = EnvoyFilter | CiliumEnvoyConfig

text \<open>The answers to a delete that the code tells apart.\<close>

datatype delete_answer = Deleted | NotFound | NoMatch | DeleteError

text \<open>The WAFs of a namespace, each with whether it is being deleted.\<close>

datatype waf_list = WafList "(WAF \<times> bool) list" | ListNoMatch | ListError

datatype slot_error = WriteFailed slot_kind | DeleteFailed slot_kind | ListFailed | UnsupportedProvider string | PortableMissing

record 'w slot_client =
  sl_CreateOrUpdate :: "slot_kind \<Rightarrow> string \<Rightarrow> string \<Rightarrow> (SlotObject \<Rightarrow> SlotObject) \<Rightarrow> 'w \<Rightarrow> bool \<times> 'w"
  sl_Delete :: "slot_kind \<Rightarrow> string \<Rightarrow> string \<Rightarrow> 'w \<Rightarrow> delete_answer \<times> 'w"
  sl_ListWAFs :: "string \<Rightarrow> 'w \<Rightarrow> waf_list"
  sl_LookupIP :: "string \<Rightarrow> 'w \<Rightarrow> (bool \<times> string) list option"

text \<open>The owner: its group, version and kind, which a typed object may leave empty, its name and UID.\<close>

record slot_owner =
  ow_Group :: string
  ow_Version :: string
  ow_Kind :: string
  ow_Name :: string
  ow_UID :: string

definition owner_reference :: "slot_owner \<Rightarrow> OwnerReference" where
  "owner_reference owner =
     \<lparr> own_APIVersion =
         (if ow_Kind owner \<noteq> []
          then (if ow_Group owner = [] then ow_Version owner else ow_Group owner @ ''/'' @ ow_Version owner)
          else ''waf.kubewaf.io/v1beta1''),
       own_Kind = (if ow_Kind owner \<noteq> [] then ow_Kind owner else ''WAF''),
       own_Name = ow_Name owner, own_UID = ow_UID owner \<rparr>"

text \<open>The change \<open>CreateOrUpdate\<close> makes to the slot object of a WAF.\<close>

definition slot_change :: "slot_owner option \<Rightarrow> string \<Rightarrow> json \<Rightarrow> SlotObject \<Rightarrow> SlotObject" where
  "slot_change owner wafName spec obj =
     \<lparr> so_Labels =
         AList.update ''kubewaf.io/waf'' wafName
           (AList.update ''app.kubernetes.io/managed-by'' ''kubewaf'' (so_Labels obj)),
       so_Owners = (case owner of None \<Rightarrow> so_Owners obj | Some w \<Rightarrow> [owner_reference w]),
       so_Spec = spec \<rparr>"

section \<open>Values of xdsutil\<close>

definition otelString :: "string \<Rightarrow> json" where
  "otelString v = JO [(''string_value'', JS v)]"

definition otelStringKV :: "string \<Rightarrow> string \<Rightarrow> json" where
  "otelStringKV key v = JO [(''key'', JS key), (''value'', otelString v)]"

definition OTelAccessLogMap :: "string \<Rightarrow> json" where
  "OTelAccessLogMap cluster0 =
     (let cluster = str_or DefaultOTelCluster cluster0 in
      JO [(''name'', JS OTelAccessLogName),
          (''typed_config'',
           JO [(''@type'', JS ''type.googleapis.com/envoy.extensions.access_loggers.open_telemetry.v3.OpenTelemetryAccessLogConfig''),
               (''disable_builtin_labels'', JB True),
               (''stat_prefix'', JS OTelAccessLogStatPrefix),
               (''grpc_service'', JO [(''envoy_grpc'', JO [(''cluster_name'', JS cluster)])]),
               (''resource_attributes'', JO [(''values'', JL [otelStringKV ''service.name'' ''kubewaf''])]),
               (''body'', otelString (''%FILTER_STATE('' @ FilterStateEventKey @ '':PLAIN)%'')),
               (''attributes'',
                JO [(''values'',
                     JL [otelStringKV ''http.request.method'' ''%REQ(:METHOD)%'',
                         otelStringKV ''url.path'' ''%REQ(:PATH)%'',
                         otelStringKV ''http.response.status_code'' ''%RESPONSE_CODE%'',
                         otelStringKV ''waf.request_id'' ''%REQ(X-REQUEST-ID)%'',
                         otelStringKV ''traceparent'' ''%REQ(TRACEPARENT)%''])])])])"

text \<open>The endpoint part of a cluster with one address, the same literal in all three builders.\<close>

definition load_assignment :: "string \<Rightarrow> string \<Rightarrow> int \<Rightarrow> json" where
  "load_assignment cluster host port =
     JO [(''cluster_name'', JS cluster),
         (''endpoints'',
          JL [JO [(''lb_endpoints'',
                   JL [JO [(''endpoint'',
                            JO [(''address'',
                                 JO [(''socket_address'',
                                      JO [(''address'', JS host), (''port_value'', JI port)])])])]])]])]"

definition http2_options :: json where
  "http2_options =
     JO [(''envoy.extensions.upstreams.http.v3.HttpProtocolOptions'',
          JO [(''@type'', JS ''type.googleapis.com/envoy.extensions.upstreams.http.v3.HttpProtocolOptions''),
              (''explicit_http_config'', JO [(''http2_protocol_options'', JO [])])])]"

definition OTelClusterMap :: "string \<Rightarrow> nat \<Rightarrow> json" where
  "OTelClusterMap host port0 =
     (let port = (if port0 = 0 then DefaultOTelPort else port0) in
      JO [(''name'', JS DefaultOTelCluster), (''type'', JS ''STRICT_DNS''), (''connect_timeout'', JS ''2s''),
          (''lb_policy'', JS ''ROUND_ROBIN''), (''typed_extension_protocol_options'', http2_options),
          (''load_assignment'', load_assignment DefaultOTelCluster host (int port))])"

section \<open>The spec of an EnvoyFilter\<close>

definition ResourceName :: "string \<Rightarrow> string" where
  "ResourceName wafName = ''kubewaf-'' @ wafName"

definition AccessLogResourceName :: string where
  "AccessLogResourceName = ''kubewaf-otel-access-log''"

definition ecdsClusterValue :: "PortableConfig \<Rightarrow> json" where
  "ecdsClusterValue p =
     JO [(''name'', JS (pc_ECDSCluster p)), (''type'', JS ''STRICT_DNS''), (''connect_timeout'', JS ''2s''),
         (''lb_policy'', JS ''ROUND_ROBIN''), (''typed_extension_protocol_options'', http2_options),
         (''load_assignment'', load_assignment (pc_ECDSCluster p) (pc_ECDSHost p) (int (pc_ECDSPort p)))]"

text \<open>The config discovery stub, the same value for Istio and Cilium.\<close>

definition discovery_stub :: "string \<Rightarrow> string \<Rightarrow> json" where
  "discovery_stub extensionName cluster =
     JO [(''name'', JS extensionName),
         (''config_discovery'',
          JO [(''config_source'',
               JO [(''resource_api_version'', JS ''V3''),
                   (''api_config_source'',
                    JO [(''api_type'', JS ''GRPC''), (''transport_api_version'', JS ''V3''),
                        (''set_node_on_first_message_only'', JB True),
                        (''grpc_services'', JL [JO [(''envoy_grpc'', JO [(''cluster_name'', JS cluster)])]])])]),
              (''type_urls'', JL [JS ''type.googleapis.com/envoy.extensions.filters.http.wasm.v3.Wasm''])])]"

definition ecdsFilterValueNamed :: "PortableConfig \<Rightarrow> string \<Rightarrow> json" where
  "ecdsFilterValueNamed p extensionName = discovery_stub extensionName (pc_ECDSCluster p)"

definition tls_socket :: "string \<Rightarrow> json" where
  "tls_socket sni =
     JO [(''name'', JS ''envoy.transport_sockets.tls''),
         (''typed_config'',
          JO [(''@type'', JS ''type.googleapis.com/envoy.extensions.transport_sockets.tls.v3.UpstreamTlsContext''),
              (''sni'', JS sni)])]"

definition wasmCodeClusterValueURL :: "(string \<Rightarrow> string option) \<Rightarrow> string \<Rightarrow> json option" where
  "wasmCodeClusterValueURL ip6 httpURL =
     (case WasmCodeClusterHostPort ip6 httpURL of
        None \<Rightarrow> None
      | Some (host, port) \<Rightarrow>
          Some (JO ([(''name'', JS WasmCodeCluster), (''type'', JS ''STRICT_DNS''), (''connect_timeout'', JS ''2s''),
                     (''lb_policy'', JS ''ROUND_ROBIN''),
                     (''load_assignment'', load_assignment WasmCodeCluster host (uint port))] @
                    (if IsHTTPS httpURL then [(''transport_socket'', tls_socket host)] else []))))"

definition cluster_patch :: "string \<Rightarrow> json \<Rightarrow> json" where
  "cluster_patch ctxName v =
     JO [(''applyTo'', JS ''CLUSTER''), (''match'', JO [(''context'', JS ctxName)]),
         (''patch'', JO [(''operation'', JS ''ADD''), (''value'', v)])]"

definition filter_patch :: "string \<Rightarrow> json \<Rightarrow> json" where
  "filter_patch ctxName v =
     JO [(''applyTo'', JS ''HTTP_FILTER''),
         (''match'',
          JO [(''context'', JS ctxName),
              (''listener'',
               JO [(''filterChain'',
                    JO [(''filter'',
                         JO [(''name'', JS ''envoy.filters.network.http_connection_manager''),
                             (''subFilter'', JO [(''name'', JS ''envoy.filters.http.router'')])])])])]),
         (''patch'', JO [(''operation'', JS ''INSERT_BEFORE''), (''value'', v)])]"

definition filter_names :: "PortableConfig \<Rightarrow> string list" where
  "filter_names p =
     (if length (pc_Filters p) > 0 then map pf_ExtensionName (pc_Filters p) else [pc_ExtensionName p])"

text \<open>The first URL of a filter, else that of the configuration; Cilium computes the same value.\<close>

definition primaryHTTPURL :: "PortableConfig \<Rightarrow> string" where
  "primaryHTTPURL p =
     (case find (\<lambda>f. pf_HTTPURL f \<noteq> []) (pc_Filters p) of None \<Rightarrow> pc_HTTPURL p | Some f \<Rightarrow> pf_HTTPURL f)"

definition istio_context :: "PortableConfig \<Rightarrow> string" where
  "istio_context p = str_or ''GATEWAY'' (pc_IstioContext p)"

definition istio_patches :: "(string \<Rightarrow> string option) \<Rightarrow> PortableConfig \<Rightarrow> json list" where
  "istio_patches ip6 p =
     (let ctxName = istio_context p; httpURL = primaryHTTPURL p in
      (case (if httpURL = [] then None else wasmCodeClusterValueURL ip6 httpURL) of
         None \<Rightarrow> []
       | Some wasmCluster \<Rightarrow> [cluster_patch ctxName wasmCluster]) @
      [cluster_patch ctxName (ecdsClusterValue p)] @
      (if pc_OTelHost p \<noteq> [] then [cluster_patch ctxName (OTelClusterMap (pc_OTelHost p) (pc_OTelPort p))] else []) @
      map (\<lambda>n. filter_patch ctxName (ecdsFilterValueNamed p n)) (rev (filter_names p)))"

definition buildSpec :: "(string \<Rightarrow> string option) \<Rightarrow> PortableConfig \<Rightarrow> json" where
  "buildSpec ip6 p =
     (let selector = (if length (pc_IstioWorkloadSelector p) = 0 then [(''istio'', ''ingressgateway'')]
                      else pc_IstioWorkloadSelector p)
      in JO [(''workloadSelector'', JO [(''labels'', JO (map (\<lambda>(k, v). (k, JS v)) selector))]),
             (''configPatches'', JL (istio_patches ip6 p)),
             (''priority'', JI 10)])"

definition buildAccessLogSpec :: json where
  "buildAccessLogSpec =
     JO [(''priority'', JI 10),
         (''configPatches'',
          JL [JO [(''applyTo'', JS ''NETWORK_FILTER''),
                  (''match'',
                   JO [(''listener'',
                        JO [(''filterChain'',
                             JO [(''filter'', JO [(''name'', JS ''envoy.filters.network.http_connection_manager'')])])])]),
                  (''patch'',
                   JO [(''operation'', JS ''MERGE''),
                       (''value'',
                        JO [(''name'', JS ''envoy.filters.network.http_connection_manager''),
                            (''typed_config'',
                             JO [(''@type'', JS ''type.googleapis.com/envoy.extensions.filters.network.http_connection_manager.v3.HttpConnectionManager''),
                                 (''access_log'', JL [OTelAccessLogMap DefaultOTelCluster])])])])]])]"

section \<open>The lifecycle\<close>

definition slot_write ::
  "'w slot_client \<Rightarrow> slot_kind \<Rightarrow> string \<Rightarrow> string \<Rightarrow> (SlotObject \<Rightarrow> SlotObject) \<Rightarrow> 'w \<Rightarrow> slot_error option \<times> 'w" where
  "slot_write c kind ns name f w =
     (case sl_CreateOrUpdate c kind ns name f w of
        (ok, w') \<Rightarrow> (if ok then None else Some (WriteFailed kind), w'))"

definition slot_delete ::
  "'w slot_client \<Rightarrow> slot_kind \<Rightarrow> string \<Rightarrow> string \<Rightarrow> 'w \<Rightarrow> slot_error option \<times> 'w" where
  "slot_delete c kind ns name w =
     (case sl_Delete c kind ns name w of
        (answer, w') \<Rightarrow> (if answer = DeleteError then Some (DeleteFailed kind) else None, w'))"

definition wafNeedsIstioAccessLog :: "WAF \<times> bool \<Rightarrow> bool" where
  "wafNeedsIstioAccessLog = (\<lambda>(w, deleting).
     \<not> deleting \<and>
     (case ws_Telemetry (waf_Spec w) of None \<Rightarrow> False | Some t \<Rightarrow> wt_Mode t = TelemetryModeManaged) \<and>
     (case ws_Provider (waf_Spec w) of
        None \<Rightarrow> True
      | Some p \<Rightarrow> wp_Type p = [] \<or> wp_Type p = ProviderAuto \<or> wp_Type p = ProviderIstio))"

definition deleteAccessLogEnvoyFilter :: "'w slot_client \<Rightarrow> string \<Rightarrow> 'w \<Rightarrow> slot_error option \<times> 'w" where
  "deleteAccessLogEnvoyFilter c ns w = slot_delete c EnvoyFilter ns AccessLogResourceName w"

definition MaybeDeleteOTelAccessLogEnvoyFilter ::
  "'w slot_client \<Rightarrow> string \<Rightarrow> string \<Rightarrow> 'w \<Rightarrow> slot_error option \<times> 'w" where
  "MaybeDeleteOTelAccessLogEnvoyFilter c ns exceptWAF w =
     (case sl_ListWAFs c ns w of
        ListNoMatch \<Rightarrow> deleteAccessLogEnvoyFilter c ns w
      | ListError \<Rightarrow> (Some ListFailed, w)
      | WafList wafs \<Rightarrow>
          if list_ex (\<lambda>(x, d). waf_Name x \<noteq> exceptWAF \<and> wafNeedsIstioAccessLog (x, d)) wafs then (None, w)
          else deleteAccessLogEnvoyFilter c ns w)"

definition access_log_change :: "SlotObject \<Rightarrow> SlotObject" where
  "access_log_change obj =
     obj\<lparr> so_Labels := AList.update ''kubewaf.io/component'' ''otel-access-log''
                         (AList.update ''app.kubernetes.io/managed-by'' ''kubewaf'' (so_Labels obj)),
          so_Spec := buildAccessLogSpec \<rparr>"

definition EnsureOTelAccessLogEnvoyFilter :: "'w slot_client \<Rightarrow> PortableConfig \<Rightarrow> 'w \<Rightarrow> slot_error option \<times> 'w" where
  "EnsureOTelAccessLogEnvoyFilter c p w =
     (if \<not> pc_TelemetryManaged p then (None, w)
      else slot_write c EnvoyFilter (pc_Namespace p) AccessLogResourceName access_log_change w)"

definition EnsureEnvoyFilter ::
  "'w slot_client \<Rightarrow> (string \<Rightarrow> string option) \<Rightarrow> slot_owner option \<Rightarrow> PortableConfig \<Rightarrow> 'w \<Rightarrow> slot_error option \<times> 'w" where
  "EnsureEnvoyFilter c ip6 owner p w =
     (case slot_write c EnvoyFilter (pc_Namespace p) (ResourceName (pc_Name p))
             (slot_change owner (pc_Name p) (buildSpec ip6 p)) w of
        (Some e, w1) \<Rightarrow> (Some e, w1)
      | (None, w1) \<Rightarrow>
          if pc_TelemetryManaged p then EnsureOTelAccessLogEnvoyFilter c p w1
          else MaybeDeleteOTelAccessLogEnvoyFilter c (pc_Namespace p) (pc_Name p) w1)"

definition DeleteEnvoyFilter :: "'w slot_client \<Rightarrow> string \<Rightarrow> string \<Rightarrow> 'w \<Rightarrow> slot_error option \<times> 'w" where
  "DeleteEnvoyFilter c ns wafName w =
     (case slot_delete c EnvoyFilter ns (ResourceName wafName) w of
        (Some e, w1) \<Rightarrow> (Some e, w1)
      | (None, w1) \<Rightarrow> MaybeDeleteOTelAccessLogEnvoyFilter c ns wafName w1)"

end
