(* ===== verification/SlotCilium.thy ===== *)
theory SlotCilium
  imports SlotIstio GoNet
begin

text \<open>
  The Cilium slot \<open>internal/dataplane/slot/cilium/cec.go\<close>. The DNS resolver of the operator is the
  function \<open>sl_LookupIP\<close> of the client: the addresses of a host, each with whether it is IPv4.
\<close>

section \<open>Services\<close>

definition GatewayServiceName :: "string \<Rightarrow> string" where
  "GatewayServiceName gatewayName = ''cilium-gateway-'' @ gatewayName"

definition gatewayTargets :: "PortableConfig \<Rightarrow> (string \<times> string) list" where
  "gatewayTargets p =
     (let targets = pc_PolicyTargets p in
      map (\<lambda>tr. (tr_Name tr, pc_Namespace p))
        (filter (\<lambda>tr. tr_Kind tr = ''Gateway'' \<and> tr_Name tr \<noteq> [])
          ((case ptr_TargetRef targets of None \<Rightarrow> [] | Some tr \<Rightarrow> [tr]) @ ptr_TargetRefs targets)))"

definition cilium_service :: "PortableConfig \<Rightarrow> string \<times> string" where
  "cilium_service p = (str_or (pc_Name p) (pc_CiliumServiceName p), str_or (pc_Namespace p) (pc_CiliumServiceNamespace p))"

text \<open>\<open>add\<close> skips a service without name and one whose key was seen.\<close>

fun add_services :: "string set \<Rightarrow> (string \<times> string) list \<Rightarrow> (string \<times> string) list" where
  "add_services seen [] = []"
| "add_services seen ((name, ns) # rest) =
     (let key = ns @ ''/'' @ name in
      if key \<in> seen \<or> name = [] then add_services seen rest
      else (name, ns) # add_services (insert key seen) rest)"

definition buildServices :: "PortableConfig \<Rightarrow> json list" where
  "buildServices p =
     map (\<lambda>(name, ns). JO [(''name'', JS name), (''namespace'', JS ns)])
       (add_services {} (map (\<lambda>(name, ns). (GatewayServiceName name, ns)) (gatewayTargets p) @ [cilium_service p]))"

section \<open>The endpoint of the module\<close>

record wasmEndpoint =
  ep_host :: string
  ep_port :: "32 word"
  ep_https :: bool
  ep_static :: bool

definition no_endpoint :: wasmEndpoint where
  "no_endpoint = \<lparr> ep_host = [], ep_port = 0, ep_https = False, ep_static = False \<rparr>"

definition resolveWasmEndpoint ::
  "(string \<Rightarrow> (bool \<times> string) list option) \<Rightarrow> (string \<Rightarrow> string option) \<Rightarrow> string \<Rightarrow> wasmEndpoint" where
  "resolveWasmEndpoint lookup ip6 httpURL =
     (if httpURL = [] then no_endpoint
      else case WasmCodeClusterHostPort ip6 httpURL of
             None \<Rightarrow> no_endpoint
           | Some (host, port) \<Rightarrow>
               (let ep = \<lparr> ep_host = host, ep_port = port, ep_https = IsHTTPS httpURL, ep_static = False \<rparr> in
                if ParseIP host \<noteq> None then ep\<lparr> ep_static := True \<rparr>
                else case lookup host of
                       None \<Rightarrow> ep
                     | Some [] \<Rightarrow> ep
                     | Some (a # as) \<Rightarrow>
                         ep\<lparr> ep_host := (case find fst (a # as) of Some v4 \<Rightarrow> snd v4 | None \<Rightarrow> snd a), ep_static := True \<rparr>))"

section \<open>Resources\<close>

definition portableFilters :: "PortableConfig \<Rightarrow> PortableFilter list" where
  "portableFilters p =
     (if length (pc_Filters p) > 0 then pc_Filters p
      else if pc_HTTPURL p = [] \<and> pc_ExtensionName p = [] then []
      else [compat_filter p])"

definition downstream_options :: json where
  "downstream_options =
     JO [(''envoy.extensions.upstreams.http.v3.HttpProtocolOptions'',
          JO [(''@type'', JS ''type.googleapis.com/envoy.extensions.upstreams.http.v3.HttpProtocolOptions''),
              (''use_downstream_protocol_config'',
               JO [(''http_protocol_options'', JO []), (''http2_protocol_options'', JO [])])])]"

definition backendServiceCluster :: "PortableConfig \<Rightarrow> string" where
  "backendServiceCluster p = (case cilium_service p of (name, ns) \<Rightarrow> ns @ '':'' @ name @ '':80'')"

definition backendServiceClusterResource :: "PortableConfig \<Rightarrow> json" where
  "backendServiceClusterResource p =
     (case cilium_service p of (name, ns) \<Rightarrow>
        JO [(''@type'', JS ''type.googleapis.com/envoy.config.cluster.v3.Cluster''),
            (''name'', JS (ns @ '':'' @ name @ '':80'')), (''type'', JS ''EDS''), (''connect_timeout'', JS ''5s''),
            (''lb_policy'', JS ''ROUND_ROBIN''),
            (''eds_cluster_config'', JO [(''service_name'', JS (ns @ ''/'' @ name @ '':80''))]),
            (''typed_extension_protocol_options'', downstream_options)])"

definition wasmCodeClusterResource :: "wasmEndpoint \<Rightarrow> json" where
  "wasmCodeClusterResource ep =
     (let isIP = (ParseIP (ep_host ep) \<noteq> None) in
      JO ([(''@type'', JS ''type.googleapis.com/envoy.config.cluster.v3.Cluster''),
           (''name'', JS WasmCodeCluster),
           (''type'', JS (if ep_static ep \<or> isIP then ''STATIC'' else ''STRICT_DNS'')),
           (''connect_timeout'', JS ''5s''), (''lb_policy'', JS ''ROUND_ROBIN''),
           (''load_assignment'', load_assignment WasmCodeCluster (ep_host ep) (uint (ep_port ep)))] @
          (if ep_https ep then [(''transport_socket'', tls_socket (if isIP then ''kubewaf-wasm'' else ep_host ep))] else [])))"

definition originalDstClusterResource :: json where
  "originalDstClusterResource =
     JO [(''@type'', JS ''type.googleapis.com/envoy.config.cluster.v3.Cluster''),
         (''name'', JS ''kubewaf_original_dst''), (''type'', JS ''ORIGINAL_DST''), (''lb_policy'', JS ''CLUSTER_PROVIDED''),
         (''cleanup_interval'', JS ''1s''), (''typed_extension_protocol_options'', downstream_options)]"

definition ecdsClusterName :: "PortableConfig \<Rightarrow> string" where
  "ecdsClusterName p = str_or DefaultECDSCluster (pc_ECDSCluster p)"

definition ecdsHTTPFilter :: "string \<Rightarrow> string \<Rightarrow> json" where
  "ecdsHTTPFilter extensionName ecdsCluster = discovery_stub extensionName (str_or DefaultECDSCluster ecdsCluster)"

definition router_filter :: json where
  "router_filter =
     JO [(''name'', JS ''envoy.filters.http.router''),
         (''typed_config'', JO [(''@type'', JS ''type.googleapis.com/envoy.extensions.filters.http.router.v3.Router'')])]"

definition httpFilters :: "PortableConfig \<Rightarrow> json list" where
  "httpFilters p =
     map (\<lambda>name. ecdsHTTPFilter name (ecdsClusterName p))
       (filter (\<lambda>name. name \<noteq> []) (map (\<lambda>f. str_or (pf_WasmName f) (pf_ExtensionName f)) (portableFilters p))) @
     [router_filter]"

text \<open>\<open>hcmAccessLogs\<close> is always nil, so \<open>withAccessLog\<close> leaves the configuration as it is.\<close>

definition hcmAccessLogs :: "PortableConfig \<Rightarrow> json list" where
  "hcmAccessLogs p = []"

definition withAccessLog :: "(string \<times> json) list \<Rightarrow> PortableConfig \<Rightarrow> (string \<times> json) list" where
  "withAccessLog tc p = (if length (hcmAccessLogs p) > 0 then AList.update ''access_log'' (JL (hcmAccessLogs p)) tc else tc)"

definition hcm_filter :: "(string \<times> json) list \<Rightarrow> PortableConfig \<Rightarrow> json" where
  "hcm_filter tc p =
     JO [(''name'', JS ''envoy.filters.network.http_connection_manager''), (''typed_config'', JO (withAccessLog tc p))]"

definition hcm_type :: json where
  "hcm_type = JS ''type.googleapis.com/envoy.extensions.filters.network.http_connection_manager.v3.HttpConnectionManager''"

definition route_all :: "string \<Rightarrow> string \<Rightarrow> json" where
  "route_all vhost cluster =
     JO [(''name'', JS vhost), (''domains'', JL [JS ''*'']),
         (''routes'', JL [JO [(''match'', JO [(''prefix'', JS ''/'')]), (''route'', JO [(''cluster'', JS cluster)])]])]"

definition gatewayListenerResource :: "PortableConfig \<Rightarrow> json" where
  "gatewayListenerResource p =
     JO [(''@type'', JS ''type.googleapis.com/envoy.config.listener.v3.Listener''),
         (''name'', JS ''listener''),
         (''filter_chains'',
          JL [JO [(''filter_chain_match'', JO [(''transport_protocol'', JS ''raw_buffer'')]),
                  (''filters'',
                   JL [hcm_filter
                         [(''@type'', hcm_type), (''stat_prefix'', JS ''kubewaf-gateway''), (''use_remote_address'', JB True),
                          (''route_config'',
                           JO [(''name'', JS ''kubewaf-gateway-route''),
                               (''virtual_hosts'', JL [route_all ''kubewaf-gateway'' (backendServiceCluster p)])]),
                          (''http_filters'', JL (httpFilters p)),
                          (''upgrade_configs'', JL [JO [(''upgrade_type'', JS ''websocket'')]])] p])]]),
         (''listener_filters'',
          JL [JO [(''name'', JS ''envoy.filters.listener.tls_inspector''),
                  (''typed_config'',
                   JO [(''@type'', JS ''type.googleapis.com/envoy.extensions.filters.listener.tls_inspector.v3.TlsInspector'')])]])]"

definition serviceListenerResource :: "PortableConfig \<Rightarrow> json" where
  "serviceListenerResource p =
     JO [(''@type'', JS ''type.googleapis.com/envoy.config.listener.v3.Listener''),
         (''name'', JS (''kubewaf-'' @ pc_Name p @ ''-listener'')),
         (''filter_chains'',
          JL [JO [(''filters'',
                   JL [hcm_filter
                         [(''@type'', hcm_type), (''stat_prefix'', JS (''kubewaf-'' @ pc_Name p)),
                          (''rds'', JO [(''route_config_name'', JS (''kubewaf-'' @ pc_Name p @ ''-route''))]),
                          (''http_filters'', JL (httpFilters p))] p])]])]"

definition serviceRouteResource :: "PortableConfig \<Rightarrow> json" where
  "serviceRouteResource p =
     JO [(''@type'', JS ''type.googleapis.com/envoy.config.route.v3.RouteConfiguration''),
         (''name'', JS (''kubewaf-'' @ pc_Name p @ ''-route'')),
         (''virtual_hosts'', JL [route_all ''kubewaf-backend'' ''kubewaf_original_dst''])]"

definition effective_endpoint :: "(string \<Rightarrow> string option) \<Rightarrow> PortableConfig \<Rightarrow> wasmEndpoint \<Rightarrow> wasmEndpoint" where
  "effective_endpoint ip6 p ep =
     (if ep_host ep = [] \<and> primaryHTTPURL p \<noteq> []
      then (case WasmCodeClusterHostPort ip6 (primaryHTTPURL p) of
              None \<Rightarrow> ep
            | Some (host, port) \<Rightarrow>
                \<lparr> ep_host = host, ep_port = port, ep_https = IsHTTPS (primaryHTTPURL p), ep_static = False \<rparr>)
      else ep)"

definition buildResources :: "(string \<Rightarrow> string option) \<Rightarrow> PortableConfig \<Rightarrow> wasmEndpoint \<Rightarrow> json list" where
  "buildResources ip6 p ep0 =
     (let ep = effective_endpoint ip6 p ep0 in
      (if ep_host ep \<noteq> [] then [wasmCodeClusterResource ep] else []) @
      [originalDstClusterResource] @
      (if length (gatewayTargets p) > 0
       then [backendServiceClusterResource p, gatewayListenerResource p]
       else [serviceListenerResource p, serviceRouteResource p]))"

section \<open>The lifecycle\<close>

definition EnsureCiliumEnvoyConfig ::
  "'w slot_client \<Rightarrow> (string \<Rightarrow> string option) \<Rightarrow> slot_owner option \<Rightarrow> PortableConfig \<Rightarrow> 'w \<Rightarrow> slot_error option \<times> 'w" where
  "EnsureCiliumEnvoyConfig c ip6 owner p w =
     (let wasmEP = resolveWasmEndpoint (\<lambda>host. sl_LookupIP c host w) ip6 (primaryHTTPURL p) in
      slot_write c CiliumEnvoyConfig (pc_Namespace p) (ResourceName (pc_Name p))
        (slot_change owner (pc_Name p)
          (JO [(''services'', JL (buildServices p)), (''resources'', JL (buildResources ip6 p wasmEP))])) w)"

definition DeleteCiliumEnvoyConfig :: "'w slot_client \<Rightarrow> string \<Rightarrow> string \<Rightarrow> 'w \<Rightarrow> slot_error option \<times> 'w" where
  "DeleteCiliumEnvoyConfig c ns wafName w = slot_delete c CiliumEnvoyConfig ns (ResourceName wafName) w"

end
