(* ===== verification/SlotRegistry.thy ===== *)
theory SlotRegistry
  imports SlotCilium ExtServer
begin

text \<open>
  The registry of platform slots \<open>internal/dataplane/slot/registry.go\<close>: the interface \<open>Provider\<close> as a
  record of its methods over the state of the API server and the optional extension index, and the three
  adapters. The loops run over a Go map, so the order of the providers is a parameter.
\<close>

type_synonym 'w slot_state = "'w \<times> eg_index option"

record 'w SlotProvider =
  sp_Type :: ProviderType
  sp_Kind :: string
  sp_Ensure :: "slot_owner option \<Rightarrow> PortableConfig \<Rightarrow> 'w slot_state \<Rightarrow> (slot_error + string) \<times> 'w slot_state"
  sp_Delete :: "string \<Rightarrow> string \<Rightarrow> 'w slot_state \<Rightarrow> slot_error option \<times> 'w slot_state"

type_synonym 'w Registry = "(ProviderType \<times> 'w SlotProvider) list"

section \<open>The adapters\<close>

definition istioAdapter :: "'w slot_client \<Rightarrow> (string \<Rightarrow> string option) \<Rightarrow> 'w SlotProvider" where
  "istioAdapter c ip6 =
     \<lparr> sp_Type = ProviderIstio, sp_Kind = ''EnvoyFilter'',
       sp_Ensure = (\<lambda>owner p (w, eg).
         case EnsureEnvoyFilter c ip6 owner p w of
           (Some e, w') \<Rightarrow> (Inl e, w', eg)
         | (None, w') \<Rightarrow> (Inr (ResourceName (pc_Name p)), w', eg)),
       sp_Delete = (\<lambda>ns wafName (w, eg). case DeleteEnvoyFilter c ns wafName w of (e, w') \<Rightarrow> (e, w', eg)) \<rparr>"

definition ciliumAdapter :: "'w slot_client \<Rightarrow> (string \<Rightarrow> string option) \<Rightarrow> 'w SlotProvider" where
  "ciliumAdapter c ip6 =
     \<lparr> sp_Type = ProviderCilium, sp_Kind = ''CiliumEnvoyConfig'',
       sp_Ensure = (\<lambda>owner p (w, eg).
         case EnsureCiliumEnvoyConfig c ip6 owner p w of
           (Some e, w') \<Rightarrow> (Inl e, w', eg)
         | (None, w') \<Rightarrow> (Inr (ResourceName (pc_Name p)), w', eg)),
       sp_Delete = (\<lambda>ns wafName (w, eg). case DeleteCiliumEnvoyConfig c ns wafName w of (e, w') \<Rightarrow> (e, w', eg)) \<rparr>"

definition egAdapter :: "'w SlotProvider" where
  "egAdapter =
     \<lparr> sp_Type = ProviderEnvoyGateway, sp_Kind = ''ExtensionServer'',
       sp_Ensure = (\<lambda>owner p (w, eg). (Inr (pc_ExtensionName p), w, map_option (eg_Upsert p) eg)),
       sp_Delete = (\<lambda>ns wafName (w, eg). (None, w, map_option (eg_Delete ns wafName) eg)) \<rparr>"

section \<open>The registry\<close>

definition Register :: "'w SlotProvider \<Rightarrow> 'w Registry \<Rightarrow> 'w Registry" where
  "Register p r = AList.update (sp_Type p) p r"

definition NewRegistry :: "'w slot_client \<Rightarrow> (string \<Rightarrow> string option) \<Rightarrow> 'w Registry" where
  "NewRegistry c ip6 = Register egAdapter (Register (ciliumAdapter c ip6) (Register (istioAdapter c ip6) []))"

definition registry_Get :: "'w Registry \<Rightarrow> ProviderType \<Rightarrow> slot_error + 'w SlotProvider" where
  "registry_Get r t0 =
     (let t = (if t0 = [] \<or> t0 = ProviderAuto then ProviderEnvoyGateway else t0) in
      case map_of r t of None \<Rightarrow> Inl (UnsupportedProvider t) | Some p \<Rightarrow> Inr p)"

fun delete_slots ::
  "'w Registry \<Rightarrow> string \<Rightarrow> string \<Rightarrow> 'w slot_state \<Rightarrow> slot_error option \<times> 'w slot_state" where
  "delete_slots [] ns wafName s = (None, s)"
| "delete_slots ((t, p) # ps) ns wafName s =
     (case sp_Delete p ns wafName s of
        (Some e, s') \<Rightarrow> (Some e, s')
      | (None, s') \<Rightarrow> delete_slots ps ns wafName s')"

definition DeleteOthers ::
  "('w Registry \<Rightarrow> 'w Registry) \<Rightarrow> 'w Registry \<Rightarrow> string \<Rightarrow> string \<Rightarrow> ProviderType \<Rightarrow> 'w slot_state \<Rightarrow>
   slot_error option \<times> 'w slot_state" where
  "DeleteOthers order r ns wafName keep s = delete_slots (filter (\<lambda>(t, p). t \<noteq> keep) (order r)) ns wafName s"

definition DeleteAll ::
  "('w Registry \<Rightarrow> 'w Registry) \<Rightarrow> 'w Registry \<Rightarrow> string \<Rightarrow> string \<Rightarrow> 'w slot_state \<Rightarrow>
   slot_error option \<times> 'w slot_state" where
  "DeleteAll order r ns wafName s = delete_slots (order r) ns wafName s"

definition EnsureDesired ::
  "('w Registry \<Rightarrow> 'w Registry) \<Rightarrow> 'w Registry \<Rightarrow> slot_owner option \<Rightarrow> PortableConfig \<Rightarrow> 'w slot_state \<Rightarrow>
   (slot_error + string \<times> string) \<times> 'w slot_state" where
  "EnsureDesired order r owner p s =
     (case registry_Get r (pc_Provider p) of
        Inl e \<Rightarrow> (Inl e, s)
      | Inr desired \<Rightarrow>
          (case DeleteOthers order r (pc_Namespace p) (pc_Name p) (sp_Type desired) s of
             (Some e, s1) \<Rightarrow> (Inl e, s1)
           | (None, s1) \<Rightarrow>
               (case sp_Ensure desired owner p s1 of
                  (Inl e, s2) \<Rightarrow> (Inl e, s2)
                | (Inr name, s2) \<Rightarrow> (Inr (sp_Kind desired, name), s2))))"

end
