(* ===== verification/SlotThms.thy ===== *)
theory SlotThms
  imports SlotRegistry EcdsThms
begin

text \<open>
  What the slots promise: after a reconciliation a WAF is attached to its own platform and to no other,
  and where the attachment of Istio and Cilium puts the filters.
\<close>

section \<open>What a client relies on\<close>

text \<open>The object of a kind, namespace and name that the API server stores.\<close>

type_synonym 'w slot_view = "slot_kind \<Rightarrow> string \<Rightarrow> string \<Rightarrow> 'w \<Rightarrow> SlotObject option"

definition empty_object :: SlotObject where
  "empty_object = \<lparr> so_Labels = [], so_Owners = [], so_Spec = JO [] \<rparr>"

text \<open>
  The documented behaviour of the API server: a successful \<open>CreateOrUpdate\<close> has applied the change to
  this object, after a delete that is not an error the object is gone, and no other object changes.
\<close>

definition slot_store_ok :: "'w slot_client \<Rightarrow> 'w slot_view \<Rightarrow> bool" where
  "slot_store_ok c get \<longleftrightarrow>
     (\<forall>kind ns name f w w'. sl_CreateOrUpdate c kind ns name f w = (True, w') \<longrightarrow>
        get kind ns name w' = Some (f (case get kind ns name w of None \<Rightarrow> empty_object | Some x \<Rightarrow> x)) \<and>
        (\<forall>k n m. (k, n, m) \<noteq> (kind, ns, name) \<longrightarrow> get k n m w' = get k n m w)) \<and>
     (\<forall>kind ns name w a w'. sl_Delete c kind ns name w = (a, w') \<longrightarrow> a \<noteq> DeleteError \<longrightarrow>
        get kind ns name w' = None \<and> (\<forall>k n m. (k, n, m) \<noteq> (kind, ns, name) \<longrightarrow> get k n m w' = get k n m w))"

lemma slot_write_view:
  assumes "slot_store_ok c get" and "slot_write c kind ns name f w = (None, w')"
  shows "get kind ns name w' = Some (f (case get kind ns name w of None \<Rightarrow> empty_object | Some x \<Rightarrow> x))"
    and "(k, n, m) \<noteq> (kind, ns, name) \<Longrightarrow> get k n m w' = get k n m w"
  using assms unfolding slot_store_ok_def slot_write_def by (auto split: prod.splits if_splits)

lemma slot_delete_view:
  assumes "slot_store_ok c get" and "slot_delete c kind ns name w = (None, w')"
  shows "get kind ns name w' = None"
    and "(k, n, m) \<noteq> (kind, ns, name) \<Longrightarrow> get k n m w' = get k n m w"
  using assms unfolding slot_store_ok_def slot_delete_def by (auto split: prod.splits if_splits)

section \<open>The contract of an adapter\<close>

text \<open>A WAF whose slot objects are its own: not named like the access log of its namespace.\<close>

definition slot_key_ok :: "string \<times> string \<Rightarrow> bool" where
  "slot_key_ok k \<longleftrightarrow> waf_key_ok k \<and> ResourceName (snd k) \<noteq> AccessLogResourceName"

definition slots :: "'w slot_view \<Rightarrow> 'w slot_state \<Rightarrow> string \<times> string \<Rightarrow> ProviderType set" where
  "slots get s k =
     (if get EnvoyFilter (fst k) (ResourceName (snd k)) (fst s) \<noteq> None then {ProviderIstio} else {}) \<union>
     (if get CiliumEnvoyConfig (fst k) (ResourceName (snd k)) (fst s) \<noteq> None then {ProviderCilium} else {}) \<union>
     (case snd s of None \<Rightarrow> {} | Some idx \<Rightarrow> if eg_view idx k \<noteq> None then {ProviderEnvoyGateway} else {})"

locale slot_adapter =
  fixes adapter :: "'w slot_client \<Rightarrow> (string \<Rightarrow> string option) \<Rightarrow> 'w SlotProvider"
  assumes delete_slot:
    "slot_store_ok c get \<Longrightarrow> slot_key_ok k \<Longrightarrow> slot_key_ok k' \<Longrightarrow>
     sp_Delete (adapter c ip6) (fst k) (snd k) s = (None, s') \<Longrightarrow>
     slots get s' k' = (if k' = k then slots get s k' - {sp_Type (adapter c ip6)} else slots get s k') \<and>
     (snd s' = None \<longleftrightarrow> snd s = None)"
  and ensure_slot:
    "slot_store_ok c get \<Longrightarrow> slot_key_ok (pc_key p) \<Longrightarrow> slot_key_ok k' \<Longrightarrow> snd s \<noteq> None \<Longrightarrow>
     pc_Provider p = sp_Type (adapter c ip6) \<Longrightarrow> sp_Ensure (adapter c ip6) owner p s = (Inr name, s') \<Longrightarrow>
     slots get s' k' = (if k' = pc_key p then insert (pc_Provider p) (slots get s k') else slots get s k')"

lemma ResourceName_inj [simp]: "ResourceName a = ResourceName b \<longleftrightarrow> a = b"
  by (simp add: ResourceName_def)

lemma MaybeDelete_view:
  assumes "slot_store_ok c get" and "MaybeDeleteOTelAccessLogEnvoyFilter c ns except w = (None, w')"
    and "m \<noteq> AccessLogResourceName"
  shows "get k n m w' = get k n m w"
  using assms
  by (auto simp: MaybeDeleteOTelAccessLogEnvoyFilter_def deleteAccessLogEnvoyFilter_def
      split: waf_list.splits if_splits dest: slot_delete_view(2) [where k = k and n = n and m = m])

lemma EnsureEnvoyFilter_view:
  assumes "slot_store_ok c get" and "EnsureEnvoyFilter c ip6 owner p w = (None, w')" and "slot_key_ok (pc_key p)"
  shows "get EnvoyFilter (pc_Namespace p) (ResourceName (pc_Name p)) w' \<noteq> None"
    and "m \<noteq> AccessLogResourceName \<Longrightarrow> (k, n, m) \<noteq> (EnvoyFilter, pc_Namespace p, ResourceName (pc_Name p)) \<Longrightarrow>
      get k n m w' = get k n m w"
proof -
  obtain w1 where w1: "slot_write c EnvoyFilter (pc_Namespace p) (ResourceName (pc_Name p))
      (slot_change owner (pc_Name p) (buildSpec ip6 p)) w = (None, w1)"
    and rest: "(if pc_TelemetryManaged p then EnsureOTelAccessLogEnvoyFilter c p w1
          else MaybeDeleteOTelAccessLogEnvoyFilter c (pc_Namespace p) (pc_Name p) w1) = (None, w')"
    using assms(2) by (auto simp: EnsureEnvoyFilter_def split: prod.splits option.splits)
  have keep: "get k n m w' = get k n m w1" if "m \<noteq> AccessLogResourceName" for k n m
    using rest that MaybeDelete_view [OF assms(1)] slot_write_view(2) [OF assms(1)]
    by (auto simp: EnsureOTelAccessLogEnvoyFilter_def split: if_splits)
  have "ResourceName (pc_Name p) \<noteq> AccessLogResourceName" using assms(3) by (simp add: slot_key_ok_def pc_key_def)
  then show "get EnvoyFilter (pc_Namespace p) (ResourceName (pc_Name p)) w' \<noteq> None"
    using slot_write_view(1) [OF assms(1) w1] keep by simp
  show "get k n m w' = get k n m w"
    if "m \<noteq> AccessLogResourceName" "(k, n, m) \<noteq> (EnvoyFilter, pc_Namespace p, ResourceName (pc_Name p))"
    using keep [OF that(1)] slot_write_view(2) [OF assms(1) w1 that(2)] by simp
qed

lemma DeleteEnvoyFilter_view:
  assumes "slot_store_ok c get" and "DeleteEnvoyFilter c ns name w = (None, w')" and "ResourceName name \<noteq> AccessLogResourceName"
  shows "get EnvoyFilter ns (ResourceName name) w' = None"
    and "m \<noteq> AccessLogResourceName \<Longrightarrow> (k, n, m) \<noteq> (EnvoyFilter, ns, ResourceName name) \<Longrightarrow> get k n m w' = get k n m w"
proof -
  obtain w1 where w1: "slot_delete c EnvoyFilter ns (ResourceName name) w = (None, w1)"
    and rest: "MaybeDeleteOTelAccessLogEnvoyFilter c ns name w1 = (None, w')"
    using assms(2) by (auto simp: DeleteEnvoyFilter_def split: prod.splits option.splits)
  note keep = MaybeDelete_view [OF assms(1) rest]
  show "get EnvoyFilter ns (ResourceName name) w' = None"
    using keep [OF assms(3)] slot_delete_view(1) [OF assms(1) w1] by simp
  show "get k n m w' = get k n m w"
    if "m \<noteq> AccessLogResourceName" "(k, n, m) \<noteq> (EnvoyFilter, ns, ResourceName name)"
    using keep [OF that(1)] slot_delete_view(2) [OF assms(1) w1 that(2)] by simp
qed

lemma slot_key_name: "slot_key_ok k \<Longrightarrow> ResourceName (snd k) \<noteq> AccessLogResourceName" "slot_key_ok k \<Longrightarrow> waf_key_ok k"
  by (simp_all add: slot_key_ok_def)

lemma pc_key_parts: "pc_Namespace p = fst (pc_key p)" "pc_Name p = snd (pc_key p)"
  by (simp_all add: pc_key_def)

fun kind_provider :: "slot_kind \<Rightarrow> ProviderType" where
  "kind_provider EnvoyFilter = ProviderIstio"
| "kind_provider CiliumEnvoyConfig = ProviderCilium"

text \<open>A change of one slot object and of none of another WAF or kind, up to the access log.\<close>

definition one_object_changed :: "'w slot_view \<Rightarrow> slot_kind \<Rightarrow> string \<times> string \<Rightarrow> 'w \<Rightarrow> 'w \<Rightarrow> bool" where
  "one_object_changed get kind k w w' \<longleftrightarrow>
     (\<forall>x n m. m \<noteq> AccessLogResourceName \<longrightarrow> (x, n, m) \<noteq> (kind, fst k, ResourceName (snd k)) \<longrightarrow> get x n m w' = get x n m w)"

lemma slots_other:
  assumes "one_object_changed get kind k w w'" and "slot_key_ok k'" and "k' \<noteq> k"
  shows "slots get (w', eg) k' = slots get (w, eg) k'"
proof -
  have "get x (fst k') (ResourceName (snd k')) w' = get x (fst k') (ResourceName (snd k')) w" for x
    using assms slot_key_name(1) [OF assms(2)] unfolding one_object_changed_def by (auto simp: prod_eq_iff)
  then show ?thesis by (simp add: slots_def)
qed

lemma slots_same:
  assumes "one_object_changed get kind k w w'" and "slot_key_ok k"
  shows "slots get (w', eg) k =
    (if get kind (fst k) (ResourceName (snd k)) w' = None then slots get (w, eg) k - {kind_provider kind}
     else insert (kind_provider kind) (slots get (w, eg) k))"
proof -
  have "get x (fst k) (ResourceName (snd k)) w' = get x (fst k) (ResourceName (snd k)) w" if "x \<noteq> kind" for x
    using assms that slot_key_name(1) [OF assms(2)] unfolding one_object_changed_def by blast
  from this [of EnvoyFilter] this [of CiliumEnvoyConfig] show ?thesis
    by (cases kind) (auto simp: slots_def split: option.splits)
qed

lemma EnsureEnvoyFilter_one:
  assumes "slot_store_ok c get" and "EnsureEnvoyFilter c ip6 owner p w = (None, w')" and "slot_key_ok (pc_key p)"
  shows "one_object_changed get EnvoyFilter (pc_key p) w w' \<and> get EnvoyFilter (fst (pc_key p)) (ResourceName (snd (pc_key p))) w' \<noteq> None"
  using EnsureEnvoyFilter_view [OF assms] unfolding one_object_changed_def by (simp add: pc_key_def)

lemma DeleteEnvoyFilter_one:
  assumes "slot_store_ok c get" and "DeleteEnvoyFilter c (fst k) (snd k) w = (None, w')" and "slot_key_ok k"
  shows "one_object_changed get EnvoyFilter k w w' \<and> get EnvoyFilter (fst k) (ResourceName (snd k)) w' = None"
  using DeleteEnvoyFilter_view [OF assms(1,2) slot_key_name(1) [OF assms(3)]] unfolding one_object_changed_def by blast

lemma EnsureCilium_one:
  assumes "slot_store_ok c get" and "EnsureCiliumEnvoyConfig c ip6 owner p w = (None, w')"
  shows "one_object_changed get CiliumEnvoyConfig (pc_key p) w w' \<and>
    get CiliumEnvoyConfig (fst (pc_key p)) (ResourceName (snd (pc_key p))) w' \<noteq> None"
  using slot_write_view [OF assms(1) assms(2) [unfolded EnsureCiliumEnvoyConfig_def Let_def]]
  unfolding one_object_changed_def by (simp add: pc_key_def)

lemma DeleteCilium_one:
  assumes "slot_store_ok c get" and "DeleteCiliumEnvoyConfig c (fst k) (snd k) w = (None, w')"
  shows "one_object_changed get CiliumEnvoyConfig k w w' \<and> get CiliumEnvoyConfig (fst k) (ResourceName (snd k)) w' = None"
  using slot_delete_view [OF assms(1) assms(2) [unfolded DeleteCiliumEnvoyConfig_def]] unfolding one_object_changed_def by blast

lemma adapter_state:
  "sp_Delete (istioAdapter c ip6) ns name (w, eg) = (None, s') \<Longrightarrow> \<exists>w'. s' = (w', eg) \<and> DeleteEnvoyFilter c ns name w = (None, w')"
  "sp_Delete (ciliumAdapter c ip6) ns name (w, eg) = (None, s') \<Longrightarrow> \<exists>w'. s' = (w', eg) \<and> DeleteCiliumEnvoyConfig c ns name w = (None, w')"
  "sp_Ensure (istioAdapter c ip6) owner p (w, eg) = (Inr n, s') \<Longrightarrow> \<exists>w'. s' = (w', eg) \<and> EnsureEnvoyFilter c ip6 owner p w = (None, w')"
  "sp_Ensure (ciliumAdapter c ip6) owner p (w, eg) = (Inr n, s') \<Longrightarrow> \<exists>w'. s' = (w', eg) \<and> EnsureCiliumEnvoyConfig c ip6 owner p w = (None, w')"
  by (auto simp: istioAdapter_def ciliumAdapter_def split: prod.splits option.splits)

lemma adapter_types [simp]:
  "sp_Type (istioAdapter c ip6) = ProviderIstio" "sp_Type (ciliumAdapter c ip6) = ProviderCilium"
  "sp_Type egAdapter = ProviderEnvoyGateway"
  by (simp_all add: istioAdapter_def ciliumAdapter_def egAdapter_def)

lemma object_adapter:
  fixes adapter :: "'w slot_client \<Rightarrow> (string \<Rightarrow> string option) \<Rightarrow> 'w SlotProvider"
  assumes del: "\<And>c get k ip6 w eg s'. slot_store_ok c get \<Longrightarrow> slot_key_ok k \<Longrightarrow>
      sp_Delete (adapter c ip6) (fst k) (snd k) (w, eg) = (None, s') \<Longrightarrow>
      \<exists>w'. s' = (w', eg) \<and> one_object_changed get kind k w w' \<and> get kind (fst k) (ResourceName (snd k)) w' = None"
    and ens: "\<And>c get p ip6 owner w eg name s'. slot_store_ok c get \<Longrightarrow> slot_key_ok (pc_key p) \<Longrightarrow>
      sp_Ensure (adapter c ip6) owner p (w, eg) = (Inr name, s') \<Longrightarrow>
      \<exists>w'. s' = (w', eg) \<and> one_object_changed get kind (pc_key p) w w' \<and>
        get kind (fst (pc_key p)) (ResourceName (snd (pc_key p))) w' \<noteq> None"
    and ty: "\<And>c ip6. sp_Type (adapter c ip6) = kind_provider kind"
  shows "slot_adapter adapter"
proof
  fix c :: "'w slot_client" and get k k' ip6 and s s' :: "'w slot_state"
  assume a: "slot_store_ok c get" "slot_key_ok k" "slot_key_ok k'" "sp_Delete (adapter c ip6) (fst k) (snd k) s = (None, s')"
  obtain w eg where s: "s = (w, eg)" by (cases s)
  obtain w' where w': "s' = (w', eg)" "one_object_changed get kind k w w'" "get kind (fst k) (ResourceName (snd k)) w' = None"
    using del [OF a(1,2) a(4) [unfolded s]] by blast
  show "slots get s' k' = (if k' = k then slots get s k' - {sp_Type (adapter c ip6)} else slots get s k') \<and>
      (snd s' = None \<longleftrightarrow> snd s = None)"
    using slots_other [OF w'(2) a(3)] slots_same [OF w'(2) a(2)] w'(3) by (simp add: s w'(1) ty)
next
  fix c :: "'w slot_client" and get p k' ip6 owner name and s s' :: "'w slot_state"
  assume a: "slot_store_ok c get" "slot_key_ok (pc_key p)" "slot_key_ok k'" "pc_Provider p = sp_Type (adapter c ip6)"
    "sp_Ensure (adapter c ip6) owner p s = (Inr name, s')"
  obtain w eg where s: "s = (w, eg)" by (cases s)
  obtain w' where w': "s' = (w', eg)" "one_object_changed get kind (pc_key p) w w'"
      "get kind (fst (pc_key p)) (ResourceName (snd (pc_key p))) w' \<noteq> None"
    using ens [OF a(1,2) a(5) [unfolded s]] by blast
  show "slots get s' k' = (if k' = pc_key p then insert (pc_Provider p) (slots get s k') else slots get s k')"
    unfolding a(4) ty s w'(1) using slots_other [OF w'(2) a(3)] slots_same [OF w'(2) a(2)] w'(3) by simp
qed

interpretation istio: slot_adapter istioAdapter
proof (rule object_adapter [where kind = EnvoyFilter])
  show "\<exists>w'. s' = (w', eg) \<and> one_object_changed get EnvoyFilter k w w' \<and> get EnvoyFilter (fst k) (ResourceName (snd k)) w' = None"
    if "slot_store_ok c get" "slot_key_ok k" "sp_Delete (istioAdapter c ip6) (fst k) (snd k) (w, eg) = (None, s')"
    for c :: "'w slot_client" and get k ip6 w eg s'
    using adapter_state(1) [OF that(3)] DeleteEnvoyFilter_one [OF that(1) _ that(2)] by blast
  show "\<exists>w'. s' = (w', eg) \<and> one_object_changed get EnvoyFilter (pc_key p) w w' \<and>
      get EnvoyFilter (fst (pc_key p)) (ResourceName (snd (pc_key p))) w' \<noteq> None"
    if "slot_store_ok c get" "slot_key_ok (pc_key p)" "sp_Ensure (istioAdapter c ip6) owner p (w, eg) = (Inr name, s')"
    for c :: "'w slot_client" and get p ip6 owner w eg name s'
    using adapter_state(3) [OF that(3)] EnsureEnvoyFilter_one [OF that(1) _ that(2)] by blast
qed simp

interpretation cilium: slot_adapter ciliumAdapter
proof (rule object_adapter [where kind = CiliumEnvoyConfig])
  show "\<exists>w'. s' = (w', eg) \<and> one_object_changed get CiliumEnvoyConfig k w w' \<and>
      get CiliumEnvoyConfig (fst k) (ResourceName (snd k)) w' = None"
    if "slot_store_ok c get" "sp_Delete (ciliumAdapter c ip6) (fst k) (snd k) (w, eg) = (None, s')"
    for c :: "'w slot_client" and get k ip6 w eg s'
    using adapter_state(2) [OF that(2)] DeleteCilium_one [OF that(1)] by blast
  show "\<exists>w'. s' = (w', eg) \<and> one_object_changed get CiliumEnvoyConfig (pc_key p) w w' \<and>
      get CiliumEnvoyConfig (fst (pc_key p)) (ResourceName (snd (pc_key p))) w' \<noteq> None"
    if "slot_store_ok c get" "sp_Ensure (ciliumAdapter c ip6) owner p (w, eg) = (Inr name, s')"
    for c :: "'w slot_client" and get p ip6 owner w eg name s'
    using adapter_state(4) [OF that(2)] EnsureCilium_one [OF that(1)] by blast
qed simp

lemma slots_index:
  "slots get (w, Some idx) k = slots get (w, None) k \<union> (if eg_view idx k \<noteq> None then {ProviderEnvoyGateway} else {})"
  "ProviderEnvoyGateway \<notin> slots get (w, None) k"
  by (simp_all add: slots_def)

interpretation envoy_gateway: slot_adapter "\<lambda>c ip6. egAdapter"
proof
  fix c :: "'w slot_client" and get k k' and s s' :: "'w slot_state"
  assume a: "slot_key_ok k" "slot_key_ok k'" "sp_Delete egAdapter (fst k) (snd k) s = (None, s')"
  obtain w eg where s: "s = (w, eg)" by (cases s)
  have s': "s' = (w, map_option (eg_Delete (fst k) (snd k)) eg)" using a(3) by (simp add: egAdapter_def s)
  show "slots get s' k' = (if k' = k then slots get s k' - {sp_Type egAdapter} else slots get s k') \<and>
      (snd s' = None \<longleftrightarrow> snd s = None)"
  proof (cases eg)
    case (Some idx)
    then show ?thesis
      unfolding s s' using eg_view_Delete [OF slot_key_name(2) [OF a(1)] slot_key_name(2) [OF a(2)], of idx] slots_index(2) [of get w k]
      by (simp add: slots_index(1) Un_Diff)
  qed (simp add: s s' slots_index(2))
next
  fix c :: "'w slot_client" and get p k' owner name and s s' :: "'w slot_state"
  assume a: "slot_key_ok (pc_key p)" "slot_key_ok k'" "snd s \<noteq> None" "pc_Provider p = sp_Type egAdapter"
    "sp_Ensure egAdapter owner p s = (Inr name, s')"
  obtain w idx where s: "s = (w, Some idx)" using a(3) by (cases s) auto
  have s': "s' = (w, Some (eg_Upsert p idx))" using a(5) by (simp add: egAdapter_def s)
  have "is_eg p" using a(4) by (simp add: is_eg_def)
  then show "slots get s' k' = (if k' = pc_key p then insert (pc_Provider p) (slots get s k') else slots get s k')"
    unfolding s s' using eg_view_Upsert [of p k' idx] slot_key_name(2) [OF a(1)] slot_key_name(2) [OF a(2)] a(4)
    by (simp add: slots_index(1))
qed

section \<open>The registry\<close>

definition lawful :: "'w slot_client \<Rightarrow> 'w Registry \<Rightarrow> bool" where
  "lawful c r \<longleftrightarrow> (\<forall>(t, p) \<in> set r. \<exists>a ip6. slot_adapter a \<and> p = a c ip6 \<and> t = sp_Type p)"

lemma delete_slots_view:
  assumes "slot_store_ok c get" and "slot_key_ok k" and "slot_key_ok k'"
  shows "lawful c ps \<Longrightarrow> delete_slots ps (fst k) (snd k) s = (None, s') \<Longrightarrow>
    slots get s' k' = (if k' = k then slots get s k' - fst ` set ps else slots get s k') \<and> (snd s' = None \<longleftrightarrow> snd s = None)"
proof (induction ps arbitrary: s)
  case (Cons x ps)
  obtain t p where x: "x = (t, p)" by (cases x)
  obtain a ip6 where a: "slot_adapter a" "p = a c ip6" "t = sp_Type p" using Cons.prems(1) by (auto simp: lawful_def x)
  obtain s1 where s1: "sp_Delete p (fst k) (snd k) s = (None, s1)" "delete_slots ps (fst k) (snd k) s1 = (None, s')"
    using Cons.prems(2) by (auto simp: x split: prod.splits option.splits)
  have "lawful c ps" using Cons.prems(1) by (simp add: lawful_def)
  from Cons.IH [OF this s1(2)] slot_adapter.delete_slot [OF a(1) assms s1(1) [unfolded a(2)]] show ?case
    by (auto simp: x a)
qed auto

lemma NewRegistry_lawful: "lawful c (NewRegistry c ip6)"
  using istio.slot_adapter_axioms cilium.slot_adapter_axioms envoy_gateway.slot_adapter_axioms
  by (auto simp: lawful_def NewRegistry_def Register_def intro: exI [of _ "\<lambda>c ip6. egAdapter"])

lemma NewRegistry_types: "fst ` set (NewRegistry c ip6) = {ProviderIstio, ProviderCilium, ProviderEnvoyGateway}"
  by (auto simp: NewRegistry_def Register_def)

lemma NewRegistry_map: "map_of (NewRegistry c ip6) =
  [ProviderIstio \<mapsto> istioAdapter c ip6, ProviderCilium \<mapsto> ciliumAdapter c ip6, ProviderEnvoyGateway \<mapsto> egAdapter]"
  by (auto simp: NewRegistry_def Register_def fun_eq_iff)

lemma filter_types: "fst ` set (filter (\<lambda>(t, q). t \<noteq> x) r) = fst ` set r - {x}"
  by force

lemma slots_three: "slots get s k \<subseteq> {ProviderIstio, ProviderCilium, ProviderEnvoyGateway}"
  by (auto simp: slots_def split: option.splits if_splits)

lemma EnsureDesired_slots:
  assumes "slot_store_ok c get" and "\<And>r. set (order r) = set r"
    and "EnsureDesired order (NewRegistry c ip6) owner p s = (Inr (kind, name), s')"
    and "pc_Provider p \<in> {ProviderIstio, ProviderCilium, ProviderEnvoyGateway}"
    and "slot_key_ok (pc_key p)" and "slot_key_ok k" and "snd s \<noteq> None"
  shows "slots get s' k = (if k = pc_key p then {pc_Provider p} else slots get s k)"
proof -
  have "\<exists>a. slot_adapter a \<and> map_of (NewRegistry c ip6) (pc_Provider p) = Some (a c ip6) \<and> sp_Type (a c ip6) = pc_Provider p"
    using assms(4) istio.slot_adapter_axioms cilium.slot_adapter_axioms envoy_gateway.slot_adapter_axioms
    by (auto simp: NewRegistry_map intro: exI [of _ "\<lambda>c ip6. egAdapter"])
  then obtain a where a: "slot_adapter a" "registry_Get (NewRegistry c ip6) (pc_Provider p) = Inr (a c ip6)"
      "sp_Type (a c ip6) = pc_Provider p"
    using assms(4) by (auto simp: registry_Get_def Let_def split: option.splits)
  let ?rest = "filter (\<lambda>(t, q). t \<noteq> pc_Provider p) (order (NewRegistry c ip6))"
  obtain s1 where s1: "delete_slots ?rest (fst (pc_key p)) (snd (pc_key p)) s = (None, s1)"
      "sp_Ensure (a c ip6) owner p s1 = (Inr name, s')"
    using assms(3) a(2,3) by (auto simp: EnsureDesired_def DeleteOthers_def pc_key_def split: prod.splits option.splits sum.splits)
  have "lawful c ?rest" using NewRegistry_lawful [of c ip6] by (simp add: lawful_def assms(2))
  moreover have "fst ` set ?rest = {ProviderIstio, ProviderCilium, ProviderEnvoyGateway} - {pc_Provider p}"
    unfolding filter_types assms(2) NewRegistry_types ..
  ultimately have rest: "lawful c ?rest" "fst ` set ?rest = {ProviderIstio, ProviderCilium, ProviderEnvoyGateway} - {pc_Provider p}"
    by blast+
  note d = delete_slots_view [OF assms(1,5,6) rest(1) s1(1)]
  have "slots get s' k = (if k = pc_key p then insert (pc_Provider p) (slots get s1 k) else slots get s1 k)"
    using slot_adapter.ensure_slot [OF a(1) assms(1,5,6) _ _ s1(2)] d a(3) assms(7) by simp
  then show ?thesis using d rest(2) slots_three [of get s k] by auto
qed


section \<open>Where the filters end up\<close>

text \<open>
  The documented effect of an EnvoyFilter on the HTTP filters of a connection manager: a patch that
  adds a cluster leaves them alone, and one that inserts before the router puts its value directly
  before the first filter of that name.
\<close>

definition named :: "string \<Rightarrow> json \<Rightarrow> bool" where
  "named n v = (case v of JO kvs \<Rightarrow> map_of kvs ''name'' = Some (JS n) | _ \<Rightarrow> False)"

definition istio_patching :: "(json \<Rightarrow> json list \<Rightarrow> json list) \<Rightarrow> bool" where
  "istio_patching apply_patch \<longleftrightarrow>
     (\<forall>ctxName v chain. apply_patch (cluster_patch ctxName v) chain = chain) \<and>
     (\<forall>ctxName v pre router post. named ''envoy.filters.http.router'' router \<longrightarrow>
        list_all (\<lambda>f. \<not> named ''envoy.filters.http.router'' f) pre \<longrightarrow>
        apply_patch (filter_patch ctxName v) (pre @ router # post) = pre @ v # router # post)"

lemma fold_filter_patches:
  assumes "istio_patching ap" and "named ''envoy.filters.http.router'' router"
  shows "list_all (\<lambda>f. \<not> named ''envoy.filters.http.router'' f) pre \<Longrightarrow>
    list_all (\<lambda>v. \<not> named ''envoy.filters.http.router'' v) vs \<Longrightarrow>
    fold ap (map (filter_patch ctxName) vs) (pre @ [router]) = pre @ vs @ [router]"
proof (induction vs arbitrary: pre)
  case (Cons v vs)
  have "ap (filter_patch ctxName v) (pre @ [router]) = (pre @ [v]) @ [router]"
    using assms Cons.prems(1) unfolding istio_patching_def by simp
  with Cons.IH [of "pre @ [v]"] Cons.prems show ?case by simp
qed simp

lemma fold_cluster_patches:
  "istio_patching ap \<Longrightarrow> fold ap (map (cluster_patch ctxName) vs) chain = chain"
  by (induction vs) (simp_all add: istio_patching_def)

lemma stub_named: "named n (discovery_stub e cl) \<longleftrightarrow> e = n"
  by (auto simp: named_def discovery_stub_def)

lemma router_named: "named ''envoy.filters.http.router'' router_filter"
  by (simp add: named_def router_filter_def)

lemma istio_patches_split:
  "\<exists>clusters. istio_patches ip6 p =
     map (cluster_patch (istio_context p)) clusters @
     map (filter_patch (istio_context p)) (map (ecdsFilterValueNamed p) (rev (filter_names p)))"
proof -
  let ?c = "(case (if primaryHTTPURL p = [] then None else wasmCodeClusterValueURL ip6 (primaryHTTPURL p)) of None \<Rightarrow> [] | Some v \<Rightarrow> [v]) @
      [ecdsClusterValue p] @ (if pc_OTelHost p \<noteq> [] then [OTelClusterMap (pc_OTelHost p) (pc_OTelPort p)] else [])"
  show ?thesis
    by (rule exI [of _ ?c]) (simp add: istio_patches_def Let_def comp_def split: option.split)
qed

lemma istio_chain:
  assumes "istio_patching ap" and "\<And>n. n \<in> set (filter_names p) \<Longrightarrow> n \<noteq> ''envoy.filters.http.router''"
  shows "fold ap (istio_patches ip6 p) [router_filter] = map (ecdsFilterValueNamed p) (rev (filter_names p)) @ [router_filter]"
proof -
  obtain clusters where "istio_patches ip6 p = map (cluster_patch (istio_context p)) clusters @
      map (filter_patch (istio_context p)) (map (ecdsFilterValueNamed p) (rev (filter_names p)))"
    using istio_patches_split by blast
  moreover have "list_all (\<lambda>v. \<not> named ''envoy.filters.http.router'' v) (map (ecdsFilterValueNamed p) (rev (filter_names p)))"
    using assms(2) by (auto simp: list_all_iff ecdsFilterValueNamed_def stub_named)
  ultimately show ?thesis
    using fold_filter_patches [OF assms(1) router_named, of "[]" "map (ecdsFilterValueNamed p) (rev (filter_names p))"]
      fold_cluster_patches [OF assms(1)]
    by (simp del: map_map)
qed

lemma BuildFromWAF_names:
  assumes "BuildFromWAF gz (Some waf) rules opts = Inr p"
  shows "map pf_ExtensionName (pc_Filters p) =
      (if ChallengeEnabled (ws_Challenge (waf_Spec waf)) then [ChallengeExtensionName (waf_Namespace waf) (waf_Name waf)] else []) @
      [ExtensionName (waf_Namespace waf) (waf_Name waf)]"
  using assms by (auto simp: BuildFromWAF_def portable_config_def Let_def dest: buildChallengeFilter_Inr(3)
      split: if_splits sum.splits)

lemma BuildFromWAF_cluster:
  assumes "BuildFromWAF gz (Some waf) rules opts = Inr p"
  shows "pc_ECDSCluster p \<noteq> []"
proof -
  have "pr_cluster (resolveProvider waf opts) \<noteq> []"
    by (auto simp: resolveProvider_def provider_defaults_def DefaultECDSCluster_def str_or_def Let_def split_beta
        split: option.splits)
  then show ?thesis using assms by (auto simp: BuildFromWAF_def portable_config_def Let_def split: if_splits sum.splits)
qed

lemma extension_names:
  "ExtensionName ns name \<noteq> []" "ChallengeExtensionName ns name \<noteq> []"
  "ExtensionName ns name \<noteq> ''envoy.filters.http.router''" "ChallengeExtensionName ns name \<noteq> ''envoy.filters.http.router''"
  by (simp_all add: ExtensionName_def ChallengeExtensionName_def)

lemma filters_named:
  "(\<And>f. f \<in> set fs \<Longrightarrow> pf_ExtensionName f \<noteq> []) \<Longrightarrow>
   filter (\<lambda>n. n \<noteq> []) (map (\<lambda>f. if pf_ExtensionName f = [] then pf_WasmName f else pf_ExtensionName f) fs) =
   map pf_ExtensionName fs"
  by (induction fs) auto

lemma cilium_chain:
  assumes "pc_Filters p \<noteq> []" and "[] \<notin> set (map pf_ExtensionName (pc_Filters p))" and "pc_ECDSCluster p \<noteq> []"
  shows "httpFilters p = map (ecdsFilterValueNamed p) (map pf_ExtensionName (pc_Filters p)) @ [router_filter]"
proof -
  have "pf_ExtensionName f \<noteq> []" if "f \<in> set (pc_Filters p)" for f
    using assms(2) imageI [OF that, of pf_ExtensionName] by auto
  then show ?thesis
    using assms(1,3) by (simp add: httpFilters_def portableFilters_def ecdsHTTPFilter_def ecdsFilterValueNamed_def
        ecdsClusterName_def str_or_def filters_named)
qed

text \<open>
  C13: For a WAF with challenge, Cilium runs the challenge, then the WAF, then the router. The patches of
  the Istio slot, each inserted directly before the router, leave the challenge behind the WAF.
\<close>

theorem istio_challenge_after_waf:
  assumes "istio_patching ap" and "BuildFromWAF gz (Some waf) rules opts = Inr p"
    and "ChallengeEnabled (ws_Challenge (waf_Spec waf))"
  defines "stub \<equiv> ecdsFilterValueNamed p"
    and "challenge \<equiv> ChallengeExtensionName (waf_Namespace waf) (waf_Name waf)"
    and "engine \<equiv> ExtensionName (waf_Namespace waf) (waf_Name waf)"
  shows "httpFilters p = [stub challenge, stub engine, router_filter] \<and>
    fold ap (istio_patches ip6 p) [router_filter] = [stub engine, stub challenge, router_filter]"
proof -
  have names: "map pf_ExtensionName (pc_Filters p) = [challenge, engine]"
    using BuildFromWAF_names [OF assms(2)] assms(3) by (simp add: challenge_def engine_def)
  then have f: "pc_Filters p \<noteq> []" "filter_names p = [challenge, engine]" by (auto simp: filter_names_def)
  have ne: "challenge \<noteq> []" "engine \<noteq> []" "challenge \<noteq> ''envoy.filters.http.router''" "engine \<noteq> ''envoy.filters.http.router''"
    using extension_names by (simp_all add: challenge_def engine_def)
  have "httpFilters p = map stub [challenge, engine] @ [router_filter]"
    unfolding stub_def names [symmetric] using cilium_chain [OF f(1)] BuildFromWAF_cluster [OF assms(2)] names ne by simp
  moreover have "fold ap (istio_patches ip6 p) [router_filter] = map stub (rev [challenge, engine]) @ [router_filter]"
    unfolding stub_def f(2) [symmetric] 
    by (rule istio_chain [OF assms(1)]) (use f(2) ne in auto)
  ultimately show ?thesis by simp
qed

text \<open>
  A WAF named like the access log of its namespace gets no slot from Istio: the slot is written
  and then deleted as the access log that no managed WAF needs, and the result is success.
\<close>

theorem access_log_name_unprotected:
  assumes "slot_store_ok c get" and "EnsureEnvoyFilter c ip6 owner p w = (None, w')"
    and "pc_Name p = ''otel-access-log''" and "\<not> pc_TelemetryManaged p"
    and "\<And>w. \<exists>wafs. sl_ListWAFs c (pc_Namespace p) w = WafList wafs \<and> \<not> list_ex wafNeedsIstioAccessLog wafs"
  shows "get EnvoyFilter (pc_Namespace p) (ResourceName (pc_Name p)) w' = None"
proof -
  have name: "ResourceName (pc_Name p) = AccessLogResourceName"
    by (simp add: assms(3) ResourceName_def AccessLogResourceName_def)
  obtain w1 where w1: "MaybeDeleteOTelAccessLogEnvoyFilter c (pc_Namespace p) (pc_Name p) w1 = (None, w')"
    using assms(2,4) by (auto simp: EnsureEnvoyFilter_def split: prod.splits option.splits)
  obtain wafs where l: "sl_ListWAFs c (pc_Namespace p) w1 = WafList wafs" "\<not> list_ex wafNeedsIstioAccessLog wafs"
    using assms(5) by blast
  then have "\<not> list_ex (\<lambda>(x, d). waf_Name x \<noteq> pc_Name p \<and> wafNeedsIstioAccessLog (x, d)) wafs"
    by (auto simp: list_ex_iff)
  with w1 l(1) have "slot_delete c EnvoyFilter (pc_Namespace p) AccessLogResourceName w1 = (None, w')"
    by (simp add: MaybeDeleteOTelAccessLogEnvoyFilter_def deleteAccessLogEnvoyFilter_def)
  from slot_delete_view(1) [OF assms(1) this] show ?thesis unfolding name .
qed

section \<open>The theorems at concrete inputs\<close>

text \<open>An API server that stores the slot objects, without any WAF in its lists.\<close>

type_synonym demo_world = "slot_kind \<Rightarrow> string \<Rightarrow> string \<Rightarrow> SlotObject option"

definition demo_put :: "slot_kind \<Rightarrow> string \<Rightarrow> string \<Rightarrow> SlotObject option \<Rightarrow> demo_world \<Rightarrow> demo_world" where
  "demo_put kind ns name x w = (\<lambda>k n m. if (k, n, m) = (kind, ns, name) then x else w k n m)"

definition demo_slots :: "demo_world slot_client" where
  "demo_slots =
     \<lparr> sl_CreateOrUpdate = (\<lambda>kind ns name f w.
         (True, demo_put kind ns name (Some (f (case w kind ns name of None \<Rightarrow> empty_object | Some x \<Rightarrow> x))) w)),
       sl_Delete = (\<lambda>kind ns name w. (Deleted, demo_put kind ns name None w)),
       sl_ListWAFs = (\<lambda>ns w. WafList []),
       sl_LookupIP = (\<lambda>h w. None) \<rparr>"

abbreviation demo_get :: "demo_world slot_view" where
  "demo_get \<equiv> (\<lambda>k n m w. w k n m)"

lemma demo_slots_ok: "slot_store_ok demo_slots demo_get"
  by (auto simp: slot_store_ok_def demo_slots_def demo_put_def)

lemma demo_unmanaged: "\<not> pc_TelemetryManaged (demo_config ns name)"
  by (auto simp: demo_config_def demo_build_def BuildFromWAF_def portable_config_def demo_waf_def demo_opts_def
      moduleURL_def moduleSHA_def smap_get_def ChallengeEnabled_def ModuleModSecurity_def ModuleChallenge_def
      resolveProvider_def Let_def)

lemma demo_keys: "pc_Namespace (demo_config ns name) = ns" "pc_Name (demo_config ns name) = name"
  using demo_well_named(2) [of ns name] by (simp_all add: pc_key_def)

lemma demo_ensure_istio:
  "\<exists>w'. EnsureEnvoyFilter demo_slots ip6 owner (demo_config ns name) w = (None, w')"
  by (simp add: EnsureEnvoyFilter_def slot_write_def demo_slots_def demo_unmanaged MaybeDeleteOTelAccessLogEnvoyFilter_def
      deleteAccessLogEnvoyFilter_def slot_delete_def)

lemma demo_ensure:
  "\<exists>name' s'. EnsureDesired rev (NewRegistry demo_slots ip6) None (demo_config ns name) s = (Inr (''EnvoyFilter'', name'), s')"
proof -
  obtain w eg where s: "s = (w, eg)" by (cases s)
  have g: "registry_Get (NewRegistry demo_slots ip6) ProviderIstio = Inr (istioAdapter demo_slots ip6)"
    by (simp add: registry_Get_def NewRegistry_map)
  obtain w1 eg1 where d: "DeleteOthers rev (NewRegistry demo_slots ip6) ns name ProviderIstio s = (None, w1, eg1)"
    by (simp add: s DeleteOthers_def NewRegistry_def Register_def istioAdapter_def ciliumAdapter_def egAdapter_def
        DeleteCiliumEnvoyConfig_def slot_delete_def demo_slots_def)
  obtain w2 where e: "EnsureEnvoyFilter demo_slots ip6 None (demo_config ns name) w1 = (None, w2)"
    using demo_ensure_istio by blast
  show ?thesis
    by (simp add: EnsureDesired_def demo_filters(2) g demo_keys) (simp add: d e istioAdapter_def)
qed


text \<open>The patching of a connection manager, as far as the patches of a slot need it.\<close>

definition demo_patching :: "json \<Rightarrow> json list \<Rightarrow> json list" where
  "demo_patching p chain =
     (case p of
        JO [(k, JS target), match, (k', JO [operation, (k'', v)])] \<Rightarrow>
          if target = ''HTTP_FILTER''
          then takeWhile (\<lambda>f. \<not> named ''envoy.filters.http.router'' f) chain @
               v # dropWhile (\<lambda>f. \<not> named ''envoy.filters.http.router'' f) chain
          else chain
      | _ \<Rightarrow> chain)"

lemma demo_patching_ok: "istio_patching demo_patching"
  by (auto simp: istio_patching_def demo_patching_def cluster_patch_def filter_patch_def list_all_iff
      takeWhile_append2 dropWhile_append2)

theorem istio_challenge_after_waf_witness:
  "let p = demo_build (demo_waf ''a'' ''w'' ProviderIstio (Some demo_challenge))
   in httpFilters p =
        [ecdsFilterValueNamed p ''kubewaf/a/w/challenge'', ecdsFilterValueNamed p ''kubewaf/a/w'', router_filter] \<and>
      fold demo_patching (istio_patches (\<lambda>_. None) p) [router_filter] =
        [ecdsFilterValueNamed p ''kubewaf/a/w'', ecdsFilterValueNamed p ''kubewaf/a/w/challenge'', router_filter]"
  using istio_challenge_after_waf [OF demo_patching_ok demo_build_eq [OF disjI2 [OF refl], of "''a''" "''w''" ProviderIstio], of "\<lambda>_. None"]
  by (simp add: demo_waf_def ChallengeEnabled_def demo_challenge_def ChallengeExtensionName_def ExtensionName_def Let_def)

theorem access_log_name_unprotected_witness:
  "let r = EnsureEnvoyFilter demo_slots (\<lambda>_. None) None (demo_config ''a'' ''otel-access-log'') (\<lambda>_ _ _. None)
   in fst r = None \<and> snd r EnvoyFilter ''a'' (ResourceName ''otel-access-log'') = None"
proof -
  obtain w' where e: "EnsureEnvoyFilter demo_slots (\<lambda>_. None) None (demo_config ''a'' ''otel-access-log'') (\<lambda>_ _ _. None) = (None, w')"
    using demo_ensure_istio by blast
  have l: "\<exists>wafs. sl_ListWAFs demo_slots (pc_Namespace (demo_config ''a'' ''otel-access-log'')) w = WafList wafs \<and>
      \<not> list_ex wafNeedsIstioAccessLog wafs" for w
    by (simp add: demo_slots_def)
  show ?thesis
    using access_log_name_unprotected [OF demo_slots_ok e demo_keys(2) demo_unmanaged l] by (simp add: e demo_keys)
qed

end
