(* ===== verification/BackRefs.thy ===== *)
theory BackRefs
  imports Resolver
begin

text \<open>
  The helpers of \<open>internal/controller/controller.go\<close> that the controllers share: owner matching and the
  cleanup of back references on the SecRules and SecActions. A typed object is an unstructured one of
  its kind with its payload; the client also carries what the code uses of \<open>controllerutil\<close>.
\<close>

section \<open>The client\<close>

text \<open>A list of all objects of a kind, or an error: whether it is a missing match, and its text.\<close>

datatype back_list = BackItems "uobj list" | BackListError bool string

record 'w back_client =
  bc_List :: "string \<Rightarrow> 'w \<Rightarrow> back_list"
  bc_Get :: "string \<Rightarrow> string \<Rightarrow> string \<Rightarrow> 'w \<Rightarrow> uobj api_result"
  bc_StatusUpdate :: "uobj \<Rightarrow> 'w \<Rightarrow> bool \<times> 'w"
  bc_Update :: "uobj \<Rightarrow> 'w \<Rightarrow> bool \<times> 'w"
  bc_RemoveFinalizer :: "uobj \<Rightarrow> string \<Rightarrow> bool \<times> uobj"

datatype back_error =
    BackListFailed string
  | BackStatusFailed uobj
  | BackGetFailed "uobj api_result"
  | BackUpdateFailed uobj

definition isUnregisteredKind :: "bool \<Rightarrow> string \<Rightarrow> bool" where
  "isUnregisteredKind noMatch msg \<longleftrightarrow>
     noMatch \<or> str_contains msg ''no kind is registered'' \<or> str_contains msg ''no matches for kind''"

section \<open>Owners\<close>

text \<open>The kind of an owner from its type metadata, else from the name of its Go type.\<close>

definition ownerKindOf :: "string \<Rightarrow> string \<Rightarrow> string" where
  "ownerKindOf kind goType =
     (if kind \<noteq> [] then kind
      else if has_suffix goType ''.RuleSet'' \<or> has_suffix goType ''*RuleSet'' then ''RuleSet''
      else if str_contains goType ''.WAF'' \<and> \<not> str_contains goType ''WAFList'' then ''WAF''
      else [])"

definition matchesOwner :: "RuleSetRef \<Rightarrow> string \<Rightarrow> string \<Rightarrow> string \<Rightarrow> bool" where
  "matchesOwner ref ownerKind ownerName ownerNS \<longleftrightarrow>
     \<not> (rsr_Name ref \<noteq> ownerName \<or> rsr_Namespace ref \<noteq> ownerNS) \<and>
     (ownerKind = [] \<or> rsr_Kind ref = [] \<or> rsr_Kind ref = ownerKind)"

definition filterRefs :: "RuleSetRef list \<Rightarrow> string \<Rightarrow> string \<Rightarrow> string \<Rightarrow> RuleSetRef list \<times> bool" where
  "filterRefs refs ownerKind ownerName ownerNS =
     (filter (\<lambda>r. \<not> matchesOwner r ownerKind ownerName ownerNS) refs,
      list_ex (\<lambda>r. matchesOwner r ownerKind ownerName ownerNS) refs)"

section \<open>Back references\<close>

definition seclangBackRefs :: "uobj \<Rightarrow> RuleSetRef list" where
  "seclangBackRefs obj =
     (case uo_Payload obj of
        PSecRule sr \<Rightarrow> st_RuleSetRefs (sr_Status sr)
      | PSecAction sa \<Rightarrow> sas_RuleSetRefs (sa_Status sa)
      | _ \<Rightarrow> [])"

definition set_back_refs :: "RuleSetRef list \<Rightarrow> uobj \<Rightarrow> uobj" where
  "set_back_refs refs obj =
     (case uo_Payload obj of
        PSecRule sr \<Rightarrow> obj\<lparr> uo_Payload := PSecRule (sr\<lparr> sr_Status := (sr_Status sr)\<lparr> st_RuleSetRefs := refs \<rparr> \<rparr>) \<rparr>
      | PSecAction sa \<Rightarrow> obj\<lparr> uo_Payload := PSecAction (sa\<lparr> sa_Status := (sa_Status sa)\<lparr> sas_RuleSetRefs := refs \<rparr> \<rparr>) \<rparr>
      | _ \<Rightarrow> obj)"

text \<open>The common body of \<open>stripSecRuleBackRef\<close> and \<open>stripSecActionBackRef\<close>.\<close>

definition strip_back_ref ::
  "string \<Rightarrow> 'w back_client \<Rightarrow> uobj \<Rightarrow> string \<Rightarrow> string \<Rightarrow> string \<Rightarrow> 'w \<Rightarrow> back_error option \<times> 'w" where
  "strip_back_ref kind c obj ownerKind ownerName ownerNS w =
     (let (filtered, removed) = filterRefs (seclangBackRefs obj) ownerKind ownerName ownerNS;
          obj1 = set_back_refs filtered obj
      in if \<not> removed then (None, w)
         else (case bc_StatusUpdate c obj1 w of
                 (False, w1) \<Rightarrow> (Some (BackStatusFailed obj1), w1)
               | (True, w1) \<Rightarrow>
                   if filtered \<noteq> [] then (None, w1)
                   else (case bc_Get c kind (uo_Namespace obj) (uo_Name obj) w1 of
                           ApiOk fresh \<Rightarrow>
                             (case bc_RemoveFinalizer c fresh RuleSetRefFinalizer of
                                (False, fresh1) \<Rightarrow> (None, w1)
                              | (True, fresh1) \<Rightarrow>
                                  (case bc_Update c fresh1 w1 of
                                     (ok, w2) \<Rightarrow> (if ok then None else Some (BackUpdateFailed fresh1), w2)))
                         | ApiNotFound \<Rightarrow> (None, w1)
                         | e \<Rightarrow> (Some (BackGetFailed e), w1))))"

definition stripSecRuleBackRef ::
  "'w back_client \<Rightarrow> uobj \<Rightarrow> string \<Rightarrow> string \<Rightarrow> string \<Rightarrow> 'w \<Rightarrow> back_error option \<times> 'w" where
  "stripSecRuleBackRef = strip_back_ref ''SecRule''"

definition stripSecActionBackRef ::
  "'w back_client \<Rightarrow> uobj \<Rightarrow> string \<Rightarrow> string \<Rightarrow> string \<Rightarrow> 'w \<Rightarrow> back_error option \<times> 'w" where
  "stripSecActionBackRef = strip_back_ref ''SecAction''"

fun strip_all :: "(uobj \<Rightarrow> 'w \<Rightarrow> back_error option \<times> 'w) \<Rightarrow> uobj list \<Rightarrow> 'w \<Rightarrow> back_error option \<times> 'w" where
  "strip_all strip [] w = (None, w)"
| "strip_all strip (obj # objs) w =
     (case strip obj w of (Some e, w1) \<Rightarrow> (Some e, w1) | (None, w1) \<Rightarrow> strip_all strip objs w1)"

definition cleanup_kind ::
  "'w back_client \<Rightarrow> string \<Rightarrow> (uobj \<Rightarrow> 'w \<Rightarrow> back_error option \<times> 'w) \<Rightarrow> 'w \<Rightarrow> back_error option \<times> 'w" where
  "cleanup_kind c kind strip w =
     (case bc_List c kind w of
        BackItems objs \<Rightarrow> strip_all strip objs w
      | BackListError noMatch msg \<Rightarrow>
          if isUnregisteredKind noMatch msg then (None, w) else (Some (BackListFailed kind), w))"

definition CleanupBackReferences ::
  "'w back_client \<Rightarrow> string \<Rightarrow> string \<Rightarrow> string \<Rightarrow> 'w \<Rightarrow> back_error option \<times> 'w" where
  "CleanupBackReferences c ownerKind ownerName ownerNS w =
     (case cleanup_kind c ''SecRule'' (\<lambda>obj. stripSecRuleBackRef c obj ownerKind ownerName ownerNS) w of
        (Some e, w1) \<Rightarrow> (Some e, w1)
      | (None, w1) \<Rightarrow>
          cleanup_kind c ''SecAction'' (\<lambda>obj. stripSecActionBackRef c obj ownerKind ownerName ownerNS) w1)"

end
