(* ===== verification/WatchMap.thy ===== *)
theory WatchMap
  imports BackRefs
begin

text \<open>
  The reverse maps of \<open>internal/dataplane/index/waf_watch.go\<close>: from a changed RuleSet, SecRule or list
  to the WAFs to reconcile. A list by field index is \<open>None\<close> where the client reports an error. The set
  of WAFs is a list without repetition; the order in which its Go map is read is a parameter.
\<close>

section \<open>The client and the field indexes\<close>

record 'w watch_client =
  wc_WAFsByRef :: "string \<Rightarrow> 'w \<Rightarrow> WAF list option"
  wc_WAFs :: "'w \<Rightarrow> WAF list option"
  wc_WAFsIn :: "string \<Rightarrow> 'w \<Rightarrow> WAF list option"
  wc_RuleSetsByRef :: "string \<Rightarrow> 'w \<Rightarrow> uobj list option"

type_synonym request = "string \<times> string"

definition ref_kind :: "RuleRef \<Rightarrow> string" where
  "ref_kind ref = (if rr_Kind ref = [] then ''RuleSet'' else rr_Kind ref)"

definition ref_ns :: "string \<Rightarrow> RuleRef \<Rightarrow> string" where
  "ref_ns ownerNS ref = (if rr_Namespace ref = [] then ownerNS else rr_Namespace ref)"

definition RuleRefIndexKeys :: "string \<Rightarrow> RuleRef list \<Rightarrow> string list" where
  "RuleRefIndexKeys ownerNS refs =
     map (\<lambda>ref. ref_kind ref @ ''/'' @ ref_ns ownerNS ref @ ''/'' @ rr_Name ref) (filter (\<lambda>ref. rr_Name ref \<noteq> []) refs)"

definition IndexWAFRuleRefs :: "WAF \<Rightarrow> string list" where
  "IndexWAFRuleRefs waf = RuleRefIndexKeys (waf_Namespace waf) (ws_RuleSetRefs (waf_Spec waf))"

definition IndexRuleSetRuleRefs :: "uobj \<Rightarrow> string list" where
  "IndexRuleSetRuleRefs obj =
     (case as_RuleSet obj of None \<Rightarrow> [] | Some s \<Rightarrow> RuleRefIndexKeys (uo_Namespace obj) (rss_RuleRefs s))"

section \<open>The maps\<close>

definition waf_request :: "WAF \<Rightarrow> request" where
  "waf_request w = (waf_Namespace w, waf_Name w)"

definition add_requests :: "WAF list \<Rightarrow> request list \<Rightarrow> request list" where
  "add_requests wafs out = fold (\<lambda>w. List.insert (waf_request w)) wafs out"

definition collectWAFsForRuleSet ::
  "'w watch_client \<Rightarrow> string \<Rightarrow> string \<Rightarrow> 'w \<Rightarrow> request list \<Rightarrow> request list" where
  "collectWAFsForRuleSet c ns0 name w out =
     (if name = [] then out
      else (let ns = (if ns0 = [] then ''default'' else ns0) in
        case wc_WAFsByRef c (''RuleSet/'' @ ns @ ''/'' @ name) w of
          Some wafs \<Rightarrow> add_requests wafs out
        | None \<Rightarrow>
            (case wc_WAFs c w of
               None \<Rightarrow> out
             | Some wafs \<Rightarrow>
                 add_requests
                   (filter (\<lambda>x. list_ex (\<lambda>ref. ref_kind ref = ''RuleSet'' \<and> rr_Name ref = name \<and>
                                               ref_ns (waf_Namespace x) ref = ns)
                                        (ws_RuleSetRefs (waf_Spec x))) wafs)
                   out)))"

text \<open>The WAFs of the RuleSets that refer to a RuleSet.\<close>

definition collect_parents :: "'w watch_client \<Rightarrow> string \<Rightarrow> string \<Rightarrow> 'w \<Rightarrow> request list \<Rightarrow> request list" where
  "collect_parents c ns name w out =
     (case wc_RuleSetsByRef c (''RuleSet/'' @ ns @ ''/'' @ name) w of
        None \<Rightarrow> out
      | Some parents \<Rightarrow> fold (\<lambda>p. collectWAFsForRuleSet c (uo_Namespace p) (uo_Name p) w) parents out)"

definition MapRuleSetToWAFs :: "(request list \<Rightarrow> request list) \<Rightarrow> 'w watch_client \<Rightarrow> uobj \<Rightarrow> 'w \<Rightarrow> request list" where
  "MapRuleSetToWAFs order c rs w =
     (case as_RuleSet rs of
        None \<Rightarrow> []
      | Some s \<Rightarrow>
          order (collect_parents c (uo_Namespace rs) (uo_Name rs) w
                  (collectWAFsForRuleSet c (uo_Namespace rs) (uo_Name rs) w [])))"

definition back_ref_requests :: "'w watch_client \<Rightarrow> 'w \<Rightarrow> RuleSetRef \<Rightarrow> request list \<Rightarrow> request list" where
  "back_ref_requests c w ref out =
     (if rsr_Kind ref = ''WAF'' then List.insert (rsr_Namespace ref, rsr_Name ref) out
      else if rsr_Kind ref = ''RuleSet'' \<or> rsr_Kind ref = []
      then collect_parents c (rsr_Namespace ref) (rsr_Name ref) w
             (collectWAFsForRuleSet c (rsr_Namespace ref) (rsr_Name ref) w out)
      else out)"

definition MapSecLangToWAFs :: "(request list \<Rightarrow> request list) \<Rightarrow> 'w watch_client \<Rightarrow> uobj \<Rightarrow> 'w \<Rightarrow> request list" where
  "MapSecLangToWAFs order c obj w =
     (let refs = seclangBackRefs obj in
      if refs = [] then [] else order (fold (back_ref_requests c w) refs []))"

definition mapNamespaceWAFs :: "'w watch_client \<Rightarrow> string \<Rightarrow> 'w \<Rightarrow> request list" where
  "mapNamespaceWAFs c ns w = (case wc_WAFsIn c ns w of None \<Rightarrow> [] | Some wafs \<Rightarrow> map waf_request wafs)"

text \<open>The maps of the two kinds of list, which the code gives the same body.\<close>

definition MapPhraseListToWAFs :: "'w watch_client \<Rightarrow> string \<Rightarrow> 'w \<Rightarrow> request list" where
  "MapPhraseListToWAFs c listNS w = mapNamespaceWAFs c listNS w"

definition MapIPListToWAFs :: "'w watch_client \<Rightarrow> string \<Rightarrow> 'w \<Rightarrow> request list" where
  "MapIPListToWAFs c listNS w = mapNamespaceWAFs c listNS w"

end
