(* ===== verification/WafController.thy ===== *)
theory WafController
  imports BackRefs WatchMap SlotRegistry Pipeline
begin

text \<open>
  The controllers of \<open>internal/controller/waf\<close>: \<open>waf_controller.go\<close> with \<open>rulerefs.go\<close> and
  \<open>telemetry_sink.go\<close>, and \<open>ruleset_controller.go\<close>, over the pipeline, the slot registry and the back
  references.

  The cluster is a state \<open>'w\<close>; the clients of the components act on it. What the code uses of
  \<open>controllerutil\<close> and of \<open>meta\<close>, the texts of errors and the order of Go maps are parameters. Logging
  is left out.
\<close>

section \<open>Objects, clients and libraries\<close>

record MetaCondition =
  cn_Type :: string
  cn_Status :: bool
  cn_Reason :: string
  cn_Message :: string
  cn_ObservedGeneration :: int

record RuleRefStatus =
  rrs_Kind :: string
  rrs_Name :: string
  rrs_Namespace :: string

record WAFStatus =
  wfs_Conditions :: "MetaCondition list"
  wfs_Provider :: ProviderType
  wfs_ProviderDetection :: string
  wfs_Engine :: EngineType
  wfs_Mode :: string
  wfs_ChallengeEnabled :: bool
  wfs_ChallengeSecretName :: string
  wfs_ECDSResourceName :: string
  wfs_ECDSVersion :: "64 word"
  wfs_SlotKind :: string
  wfs_SlotName :: string
  wfs_RulesLoaded :: int
  wfs_ActionsLoaded :: int
  wfs_DirectivesCount :: int
  wfs_RenderedDirectives :: string
  wfs_RenderedDirectivesTruncated :: bool
  wfs_DataFilesCount :: int
  wfs_DataFilesRawBytes :: int
  wfs_DataFilesContentHash :: string
  wfs_RuleRefs :: "RuleRefStatus list"
  wfs_RuleRefsOmitted :: int
  wfs_RuleRefsTruncated :: bool

text \<open>A WAF with its type metadata (group, version and kind, often empty), UID and status.\<close>

record WAFObject =
  wo_Group :: string
  wo_Version :: string
  wo_Kind :: string
  wo_UID :: string
  wo_WAF :: WAF
  wo_Deleting :: bool
  wo_Finalizers :: "string list"
  wo_Generation :: int
  wo_Status :: WAFStatus

text \<open>The typed client of one kind; an update returns the stored object.\<close>

record ('x, 'w) obj_client =
  oc_Get :: "string \<Rightarrow> string \<Rightarrow> 'w \<Rightarrow> 'x api_result"
  oc_Update :: "'x \<Rightarrow> 'w \<Rightarrow> 'x api_result \<times> 'w"
  oc_StatusUpdate :: "'x \<Rightarrow> 'w \<Rightarrow> 'x api_result \<times> 'w"

record kube_lib =
  kl_ContainsFinalizer :: "string \<Rightarrow> string list \<Rightarrow> bool"
  kl_AddFinalizer :: "string \<Rightarrow> string list \<Rightarrow> bool \<times> string list"
  kl_RemoveFinalizer :: "string \<Rightarrow> string list \<Rightarrow> bool \<times> string list"
  kl_SetStatusCondition :: "MetaCondition \<Rightarrow> MetaCondition list \<Rightarrow> bool \<times> MetaCondition list"
  kl_RemoveStatusCondition :: "string \<Rightarrow> MetaCondition list \<Rightarrow> MetaCondition list"

text \<open>The texts of errors and reports, which only appear in messages.\<close>

record texts =
  tx_pipeline :: "pipeline_error \<Rightarrow> string"
  tx_upsert :: "ecds_error \<Rightarrow> string"
  tx_slot :: "slot_error \<Rightarrow> string"
  tx_references :: "ReferenceError list \<Rightarrow> string"
  tx_reference :: "ReferenceError \<Rightarrow> string"
  tx_detection :: "Result \<Rightarrow> string"
  tx_phrase_files :: "PhraseFilesResult \<Rightarrow> string"

definition Finalizer :: string where "Finalizer = ''finalizer.kubewaf.io''"
definition wafFinalizer :: string where "wafFinalizer = ''waf.kubewaf.io/ecds''"
definition maxRenderedDirectivesBytes :: nat where "maxRenderedDirectivesBytes = 64 * 1024"
definition maxWAFRuleRefs :: nat where "maxWAFRuleRefs = 256"

text \<open>\<open>InitHandler\<close>: the object with the common finalizer added in memory, and whether it was new.\<close>

definition InitHandler ::
  "('x \<Rightarrow> bool \<times> 'x) \<Rightarrow> ('x, 'w) obj_client \<Rightarrow> string \<Rightarrow> string \<Rightarrow> 'w \<Rightarrow> 'x api_result + bool \<times> 'x" where
  "InitHandler addFinalizer c ns name w =
     (case oc_Get c ns name w of ApiOk x \<Rightarrow> Inr (addFinalizer x) | e \<Rightarrow> Inl e)"

section \<open>Status texts\<close>

definition effectiveMode :: "string \<Rightarrow> string" where
  "effectiveMode mode = (if mode = WAFModeDetectionOnly then WAFModeDetectionOnly else WAFModeBlocking)"

text \<open>\<open>strings.LastIndex\<close> of the newline.\<close>

definition last_newline :: "string \<Rightarrow> nat option" where
  "last_newline s =
     (let tail = takeWhile (\<lambda>c. c \<noteq> newline) (rev s)
      in if length tail = length s then None else Some (length s - length tail - 1))"

definition truncation_marker :: string where
  "truncation_marker = newline # ''# ... truncated by kubeWAF (status size cap) ...'' @ [newline]"

definition renderDirectivesForStatus :: "string list \<Rightarrow> string \<times> bool" where
  "renderDirectivesForStatus directives =
     (if directives = [] then ([], False)
      else (let full = join [newline] directives in
        if length full \<le> maxRenderedDirectivesBytes then (full, False)
        else (let cut0 = maxRenderedDirectivesBytes;
                  cut = (case last_newline (take cut0 full) of
                           None \<Rightarrow> cut0 | Some i \<Rightarrow> if i > cut0 div 2 then i else cut0)
              in (take cut full @ truncation_marker, True))))"

definition refsMessage :: "texts \<Rightarrow> ReferenceError list \<Rightarrow> string" where
  "refsMessage tx errs =
     (if errs = [] then ''all references resolved''
      else itoa (int (length errs)) @ '' reference error(s): '' @ tx_references tx errs)"

text \<open>The text of an error of \<open>Publish\<close>, and the reason and message it becomes.\<close>

definition publish_error_text :: "texts \<Rightarrow> pipeline_error \<Rightarrow> string" where
  "publish_error_text tx err =
     (case err of
        PortableNil \<Rightarrow> ''portable config is nil''
      | ECDSNotConfigured \<Rightarrow> ''ECDSNotConfigured: ECDS server is not configured on the reconciler''
      | ECDSUpsertFailed e \<Rightarrow> ''ECDSUpsertFailed: '' @ tx_upsert tx e
      | _ \<Rightarrow> tx_pipeline tx err)"

definition publishErrorReason :: "string \<Rightarrow> string \<times> string" where
  "publishErrorReason s =
     (if has_prefix s ''ECDSNotConfigured:'' then (''ECDSNotConfigured'', trim_space (trim_prefix s ''ECDSNotConfigured:''))
      else if has_prefix s ''ECDSUpsertFailed:'' then (''ECDSUpsertFailed'', trim_space (trim_prefix s ''ECDSUpsertFailed:''))
      else (''PublishFailed'', s))"

section \<open>Rule references in the status\<close>

definition leaf_ref :: "uobj \<Rightarrow> RuleRefStatus" where
  "leaf_ref obj = \<lparr> rrs_Kind = uo_Kind obj, rrs_Name = uo_Name obj, rrs_Namespace = uo_Namespace obj \<rparr>"

definition leafRuleRefs :: "uobj list \<Rightarrow> RuleRefStatus list \<times> int \<times> bool" where
  "leafRuleRefs objects =
     (let leaves = sort_key (\<lambda>r. (rrs_Kind r, rrs_Namespace r, rrs_Name r)) (map leaf_ref (filter is_lang objects))
      in if length leaves > maxWAFRuleRefs
         then (take maxWAFRuleRefs leaves, to_int32 (int (length leaves - maxWAFRuleRefs)), True)
         else (leaves, 0, False))"

section \<open>The telemetry sink\<close>

definition managedObservabilityCM :: string where "managedObservabilityCM = ''kubewaf-managed-observability''"
definition ciliumOTelCM :: string where "ciliumOTelCM = ''kubewaf-cilium-otel''"

text \<open>\<open>operatorNamespace\<close> from the environment, where an unset variable reads as the empty string.\<close>

definition operatorNamespace :: "(string \<Rightarrow> string) \<Rightarrow> string" where
  "operatorNamespace getenv =
     (if getenv ''NAMESPACE'' \<noteq> [] then getenv ''NAMESPACE''
      else if getenv ''POD_NAMESPACE'' \<noteq> [] then getenv ''POD_NAMESPACE''
      else ''kubewaf-system'')"

text \<open>The data of a ConfigMap, \<open>None\<close> when reading it fails.\<close>

type_synonym 'w config_maps = "string \<Rightarrow> string \<Rightarrow> 'w \<Rightarrow> string_map option"

definition evaluateTelemetrySink ::
  "(string \<Rightarrow> string) \<Rightarrow> 'w config_maps \<Rightarrow> ProviderType \<Rightarrow> 'w \<Rightarrow> bool \<times> string \<times> string" where
  "evaluateTelemetrySink getenv cms provider w =
     (let ns = operatorNamespace getenv in
      case cms ns managedObservabilityCM w of
        None \<Rightarrow> (False, ''Absent'', ''managed observability ConfigMap missing or disabled'')
      | Some helm \<Rightarrow>
          if smap_get helm ''enabled'' \<noteq> ''true'' then (False, ''Absent'', ''managed observability is disabled'')
          else if provider = ProviderCilium then
            (case cms ns ciliumOTelCM w of
               None \<Rightarrow> (False, ''OTelClusterMissing'', ''Cilium remesh missing (ciliumOtelMerged!=true)'')
             | Some otel \<Rightarrow>
                 if smap_get otel ''ciliumOtelMerged'' \<noteq> ''true''
                 then (False, ''OTelClusterMissing'', ''Cilium remesh missing (ciliumOtelMerged!=true)'')
                 else (True, ''Ready'', ''Cilium bootstrap includes kubewaf_otel''))
          else if smap_get helm ''injectConfigured'' = ''true'' then (True, ''Ready'', ''Envoy OTel inject is configured'')
          else (False, ''Degraded'', ''managed observability enabled but inject is not configured''))"

definition telemetry_managed :: "WAF \<Rightarrow> bool" where
  "telemetry_managed waf = (case ws_Telemetry (waf_Spec waf) of None \<Rightarrow> False | Some t \<Rightarrow> wt_Mode t = TelemetryModeManaged)"

definition applyTelemetrySink ::
  "kube_lib \<Rightarrow> (string \<Rightarrow> string) \<Rightarrow> 'w config_maps \<Rightarrow> 'w \<Rightarrow> WAFObject \<Rightarrow> WAFObject" where
  "applyTelemetrySink lib getenv cms w x =
     (let conds = wfs_Conditions (wo_Status x) in
      x\<lparr> wo_Status := (wo_Status x)\<lparr> wfs_Conditions :=
        (if \<not> telemetry_managed (wo_WAF x) then kl_RemoveStatusCondition lib ''TelemetrySink'' conds
         else (case evaluateTelemetrySink getenv cms (wfs_Provider (wo_Status x)) w of
                 (st, reason, msg) \<Rightarrow>
                   snd (kl_SetStatusCondition lib
                          \<lparr> cn_Type = ''TelemetrySink'', cn_Status = st, cn_Reason = reason, cn_Message = msg,
                            cn_ObservedGeneration = wo_Generation x \<rparr> conds))) \<rparr> \<rparr>)"

definition isObservabilityConfigMap :: "string \<Rightarrow> bool" where
  "isObservabilityConfigMap name \<longleftrightarrow> name = managedObservabilityCM \<or> name = ciliumOTelCM"

definition requestsForManagedWAFs :: "WAF list \<Rightarrow> request list" where
  "requestsForManagedWAFs wafs = map waf_request (filter telemetry_managed wafs)"

text \<open>The watch of the two ConfigMaps: a change enqueues the WAFs with managed telemetry.\<close>

definition mapObsCM :: "(string \<Rightarrow> string) \<Rightarrow> 'w watch_client \<Rightarrow> string \<Rightarrow> string \<Rightarrow> 'w \<Rightarrow> request list" where
  "mapObsCM getenv c ns name w =
     (if ns \<noteq> operatorNamespace getenv \<or> \<not> isObservabilityConfigMap name then []
      else (case wc_WAFs c w of None \<Rightarrow> [] | Some wafs \<Rightarrow> requestsForManagedWAFs wafs))"

end
