(* ===== verification/WafReconcile.thy ===== *)
theory WafReconcile
  imports WafController
begin

text \<open>
  The reconcilers of \<open>internal/controller/waf\<close>: \<open>WAFReconciler\<close> of \<open>waf_controller.go\<close> and
  \<open>RuleSetReconciler\<close> of \<open>ruleset_controller.go\<close>. A reconciliation is a function of the state of the
  operator: the cluster, the publishers of this replica, the events and the gauges. \<open>None\<close> is a
  resolution of references that does not return.
\<close>

section \<open>The reconciler and its state\<close>

record ('w, 'a, 'm, 'u) reconciler =
  rw_cluster :: "('w, 'a, 'm, 'u) cluster"
  rw_ecds :: ecds_env
  rw_wafs :: "(WAFObject, 'w) obj_client"
  rw_slots :: "'w slot_client"
  rw_order :: "'w Registry \<Rightarrow> 'w Registry"
  rw_back :: "'w back_client"
  rw_config_maps :: "'w config_maps"
  rw_lib :: kube_lib
  rw_texts :: texts
  rw_getenv :: "string \<Rightarrow> string"
  rw_BuildOpts :: BuildOptions
  rw_Recorder :: bool

record waf_event =
  ev_Object :: request
  ev_Type :: string
  ev_Reason :: string
  ev_Message :: string

record 'w waf_state =
  wst_World :: 'w
  wst_Pubs :: Publishers
  wst_Events :: "waf_event list"
  wst_WAFReady :: "request \<rightharpoonup> int"
  wst_WAFCRSEnabled :: "request \<rightharpoonup> int"
  wst_RulesLoaded :: "request \<rightharpoonup> int"

datatype waf_error =
    GetFailed "WAFObject api_result"
  | UpdateFailed "WAFObject api_result"
  | StatusFailed "WAFObject api_result"
  | NotReady string string
  | SlotDeleteFailed slot_error
  | CleanupFailed back_error

datatype waf_outcome = WafDone | WafRequeue | WafError waf_error

definition object_request :: "WAFObject \<Rightarrow> request" where
  "object_request x = waf_request (wo_WAF x)"

definition in_world :: "('w \<Rightarrow> 'r \<times> 'w) \<Rightarrow> 'w waf_state \<Rightarrow> 'r \<times> 'w waf_state" where
  "in_world f s = (case f (wst_World s) of (r, w) \<Rightarrow> (r, s\<lparr> wst_World := w \<rparr>))"

text \<open>The registry works on the cluster and on the extension index the publishers share with it.\<close>

definition in_slots :: "('w slot_state \<Rightarrow> 'r \<times> 'w slot_state) \<Rightarrow> 'w waf_state \<Rightarrow> 'r \<times> 'w waf_state" where
  "in_slots f s =
     (case f (wst_World s, pub_EGExtension (wst_Pubs s)) of
        (r, w, eg) \<Rightarrow> (r, s\<lparr> wst_World := w, wst_Pubs := (wst_Pubs s)\<lparr> pub_EGExtension := eg \<rparr> \<rparr>))"

definition slotRegistry :: "('w, 'a, 'm, 'u) reconciler \<Rightarrow> 'w Registry" where
  "slotRegistry r = NewRegistry (rw_slots r) (ee_ip6 (rw_ecds r))"

definition eventf :: "('w, 'a, 'm, 'u) reconciler \<Rightarrow> WAFObject \<Rightarrow> string \<Rightarrow> string \<Rightarrow> string \<Rightarrow> 'w waf_state \<Rightarrow> 'w waf_state" where
  "eventf r x eventtype reason message s =
     (if \<not> rw_Recorder r then s
      else s\<lparr> wst_Events := wst_Events s @
             [\<lparr> ev_Object = object_request x, ev_Type = eventtype, ev_Reason = reason, ev_Message = message \<rparr>] \<rparr>)"

text \<open>A condition set on an object: whether that changed it, and the object.\<close>

definition set_condition ::
  "kube_lib \<Rightarrow> string \<Rightarrow> bool \<Rightarrow> string \<Rightarrow> string \<Rightarrow> WAFObject \<Rightarrow> bool \<times> WAFObject" where
  "set_condition lib ctype ok reason msg x =
     (case kl_SetStatusCondition lib
             \<lparr> cn_Type = ctype, cn_Status = ok, cn_Reason = reason, cn_Message = msg,
               cn_ObservedGeneration = wo_Generation x \<rparr> (wfs_Conditions (wo_Status x)) of
        (changed, conds) \<Rightarrow> (changed, x\<lparr> wo_Status := (wo_Status x)\<lparr> wfs_Conditions := conds \<rparr> \<rparr>))"

section \<open>Failure\<close>

definition markNotReady ::
  "('w, 'a, 'm, 'u) reconciler \<Rightarrow> WAFObject \<Rightarrow> string \<Rightarrow> string \<Rightarrow> 'w waf_state \<Rightarrow> waf_error \<times> 'w waf_state" where
  "markNotReady r x reason msg s =
     (let write = (\<lambda>y.
        let y1 = snd (set_condition (rw_lib r) ''Ready'' False reason msg y);
            s1 = snd (in_world (oc_StatusUpdate (rw_wafs r) y1) s);
            s2 = s1\<lparr> wst_WAFReady := (wst_WAFReady s1)(object_request y1 \<mapsto> 0) \<rparr>
        in (NotReady reason msg, eventf r y1 ''Warning'' reason msg s2))
      in case oc_Get (rw_wafs r) (fst (object_request x)) (snd (object_request x)) (wst_World s) of
           ApiOk y \<Rightarrow> write y
         | ApiNotFound \<Rightarrow> write x
         | e \<Rightarrow> (GetFailed e, s))"

definition not_ready ::
  "('w, 'a, 'm, 'u) reconciler \<Rightarrow> WAFObject \<Rightarrow> string \<Rightarrow> string \<Rightarrow> 'w waf_state \<Rightarrow> waf_outcome \<times> 'w waf_state" where
  "not_ready r x reason msg s = (case markNotReady r x reason msg s of (e, s') \<Rightarrow> (WafError e, s'))"

section \<open>Deletion\<close>

definition reconcileDelete ::
  "('w, 'a, 'm, 'u) reconciler \<Rightarrow> WAFObject \<Rightarrow> 'w waf_state \<Rightarrow> waf_outcome \<times> 'w waf_state" where
  "reconcileDelete r x s =
     (let ns = waf_Namespace (wo_WAF x); name = waf_Name (wo_WAF x);
          s1 = s\<lparr> wst_Pubs := DropLocal (rw_ecds r) ns name (wst_Pubs s) \<rparr>
      in case in_slots (DeleteAll (rw_order r) (slotRegistry r) ns name) s1 of
           (Some e, s2) \<Rightarrow> (WafError (SlotDeleteFailed e), s2)
         | (None, s2) \<Rightarrow>
             (case in_world (CleanupBackReferences (rw_back r) (ownerKindOf (wo_Kind x) ''*v1beta1.WAF'') name ns) s2 of
                (Some e, s3) \<Rightarrow> (WafError (CleanupFailed e), s3)
              | (None, s3) \<Rightarrow>
                  (let (removed1, fins1) = kl_RemoveFinalizer (rw_lib r) wafFinalizer (wo_Finalizers x);
                       (removed2, fins2) = kl_RemoveFinalizer (rw_lib r) Finalizer fins1;
                       finish = (\<lambda>t. (WafDone, t\<lparr> wst_WAFReady := (wst_WAFReady t)((ns, name) \<mapsto> 0) \<rparr>))
                   in if removed1 \<or> removed2
                      then (case in_world (oc_Update (rw_wafs r) (x\<lparr> wo_Finalizers := fins2 \<rparr>)) s3 of
                              (ApiOk y, s4) \<Rightarrow> finish s4
                            | (e, s4) \<Rightarrow> (WafError (UpdateFailed e), s4))
                      else finish s3)))"

section \<open>Reconciliation\<close>

text \<open>The options of \<open>Build\<close>; \<open>Publish\<close> reads \<open>SkipECDS\<close> only, which is false for both.\<close>

definition waf_options :: "BuildOptions \<Rightarrow> Options" where
  "waf_options opts = \<lparr> opt_BuildOpts = opts, opt_EnsureChallengeSecret = True, opt_LockRefs = True,
                        opt_SkipECDS = False, opt_RequireRefsOK = False \<rparr>"

definition slot_owner_of :: "WAFObject \<Rightarrow> slot_owner" where
  "slot_owner_of x = \<lparr> ow_Group = wo_Group x, ow_Version = wo_Version x, ow_Kind = wo_Kind x,
                       ow_Name = waf_Name (wo_WAF x), ow_UID = wo_UID x \<rparr>"

definition ready_message :: "texts \<Rightarrow> Result \<Rightarrow> PortableConfig \<Rightarrow> string \<Rightarrow> string \<Rightarrow> string" where
  "ready_message tx res p mode slotKind =
     (let (rulesN, actionsN) = CountSecLangObjects (res_ResolvedObjects res) in
      ''engine='' @ pc_Engine p @ '' mode='' @ mode @ '' provider='' @ pc_Provider p @ '' ECDS '' @ pc_ExtensionName p @
      '' rules='' @ itoa (int rulesN) @ '' actions='' @ itoa (int actionsN) @ '' directives='' @
      itoa (int (length (pc_Directives p))) @ '' slot='' @ slotKind @ '' ('' @ tx_detection tx res @ '')'')"

text \<open>The status of a WAF that is published and attached, before its conditions.\<close>

definition published_status ::
  "texts \<Rightarrow> Result \<Rightarrow> PortableConfig \<Rightarrow> ecds_server option \<Rightarrow> string \<Rightarrow> string \<Rightarrow> WAFObject \<Rightarrow> WAFStatus" where
  "published_status tx res p ecds slotKind slotName x =
     (let (rulesN, actionsN) = CountSecLangObjects (res_ResolvedObjects res);
          (rendered, truncated) = renderDirectivesForStatus (pc_Directives p);
          (refs, omitted, truncatedRefs) = leafRuleRefs (res_ResolvedObjects res);
          challenge = list_ex (\<lambda>f. pf_Role f = FilterRoleChallenge) (pc_Filters p)
      in (wo_Status x)
           \<lparr> wfs_Provider := pc_Provider p,
             wfs_ProviderDetection := tx_detection tx res,
             wfs_Engine := pc_Engine p,
             wfs_Mode := effectiveMode (ws_Mode (waf_Spec (wo_WAF x))),
             wfs_ChallengeEnabled := challenge,
             wfs_ChallengeSecretName := (if challenge then chr_SecretName (res_Challenge res) else []),
             wfs_ECDSResourceName := pc_ExtensionName p,
             wfs_ECDSVersion := (case ecds of None \<Rightarrow> wfs_ECDSVersion (wo_Status x) | Some srv \<Rightarrow> es_version srv),
             wfs_SlotKind := slotKind,
             wfs_SlotName := slotName,
             wfs_RulesLoaded := to_int32 (int rulesN),
             wfs_ActionsLoaded := to_int32 (int actionsN),
             wfs_DirectivesCount := to_int32 (int (length (pc_Directives p))),
             wfs_RenderedDirectives := rendered,
             wfs_RenderedDirectivesTruncated := truncated,
             wfs_RuleRefs := refs,
             wfs_RuleRefsOmitted := omitted,
             wfs_RuleRefsTruncated := truncatedRefs \<rparr>)"

definition phrase_file_status :: "kube_lib \<Rightarrow> texts \<Rightarrow> PhraseFilesResult option \<Rightarrow> WAFObject \<Rightarrow> WAFObject" where
  "phrase_file_status lib tx files x =
     (case files of
        None \<Rightarrow> x
      | Some pr \<Rightarrow>
          snd (set_condition lib ''PhraseListsResolved'' (pr_Ready pr) (pr_ConditionReason pr) (tx_phrase_files tx pr)
                 (x\<lparr> wo_Status := (wo_Status x)\<lparr> wfs_DataFilesCount := to_int32 (int (length (pr_Files pr))),
                                                wfs_DataFilesRawBytes := pr_RawBytes pr,
                                                wfs_DataFilesContentHash := pr_ContentHash pr \<rparr> \<rparr>)))"

definition write_ready ::
  "('w, 'a, 'm, 'u) reconciler \<Rightarrow> Result \<Rightarrow> PortableConfig \<Rightarrow> string \<Rightarrow> string \<Rightarrow> WAFObject \<Rightarrow> 'w waf_state \<Rightarrow>
   waf_outcome \<times> 'w waf_state" where
  "write_ready r res p slotKind slotName x s =
     (let x1 = x\<lparr> wo_Status := published_status (rw_texts r) res p (pub_ECDS (wst_Pubs s)) slotKind slotName x \<rparr>;
          x2 = applyTelemetrySink (rw_lib r) (rw_getenv r) (rw_config_maps r) (wst_World s) x1;
          x3 = phrase_file_status (rw_lib r) (rw_texts r) (res_PhraseFiles res) x2;
          msg = ready_message (rw_texts r) res p (wfs_Mode (wo_Status x3)) slotKind;
          x4 = snd (set_condition (rw_lib r) ''Ready'' True ''Ready'' msg x3)
      in case in_world (oc_StatusUpdate (rw_wafs r) x4) s of
           (ApiOk x5, s1) \<Rightarrow>
             (let k = object_request x5; s2 = eventf r x5 ''Normal'' ''Ready'' msg s1 in
              (WafDone,
               s2\<lparr> wst_WAFReady := (wst_WAFReady s2)(k \<mapsto> 1),
                   wst_WAFCRSEnabled := (wst_WAFCRSEnabled s2)(k \<mapsto> if ws_CRSEnable (waf_Spec (wo_WAF x5)) then 1 else 0),
                   wst_RulesLoaded := (wst_RulesLoaded s2)(k \<mapsto> int (fst (CountSecLangObjects (res_ResolvedObjects res)))) \<rparr>))
         | (e, s1) \<Rightarrow> (WafError (StatusFailed e), s1))"

definition ensure_slot ::
  "('w, 'a, 'm, 'u) reconciler \<Rightarrow> WAFObject \<Rightarrow> PortableConfig option \<Rightarrow> 'w waf_state \<Rightarrow>
   (slot_error + PortableConfig \<times> string \<times> string) \<times> 'w waf_state" where
  "ensure_slot r x portable s =
     (case portable of
        None \<Rightarrow> (Inl PortableMissing, s)
      | Some p \<Rightarrow>
          (case in_slots (EnsureDesired (rw_order r) (slotRegistry r) (Some (slot_owner_of x)) p) s of
             (Inl e, s1) \<Rightarrow> (Inl e, s1)
           | (Inr (slotKind, slotName), s1) \<Rightarrow> (Inr (p, slotKind, slotName), s1)))"

definition publish_and_attach ::
  "('w, 'a, 'm, 'u) reconciler \<Rightarrow> string \<Rightarrow> string \<Rightarrow> Result \<Rightarrow> WAFObject \<Rightarrow> 'w waf_state \<Rightarrow> waf_outcome \<times> 'w waf_state" where
  "publish_and_attach r ns name res x s =
     (case Publish (rw_ecds r) (res_Portable res) (waf_options (rw_BuildOpts r)) (wst_Pubs s) of
        (Some e, pubs) \<Rightarrow>
          (case publishErrorReason (publish_error_text (rw_texts r) e) of
             (reason, msg) \<Rightarrow> not_ready r x reason msg (s\<lparr> wst_Pubs := pubs \<rparr>))
      | (None, pubs) \<Rightarrow>
          (case ensure_slot r x (res_Portable res) (s\<lparr> wst_Pubs := pubs \<rparr>) of
             (Inl e, s1) \<Rightarrow> not_ready r x ''SlotFailed'' (tx_slot (rw_texts r) e) s1
           | (Inr (p, slotKind, slotName), s1) \<Rightarrow>
               (case oc_Get (rw_wafs r) ns name (wst_World s1) of
                  ApiOk y \<Rightarrow> write_ready r res p slotKind slotName y s1
                | e \<Rightarrow> (WafError (GetFailed e), s1))))"

text \<open>The condition on the references, and the run that ends there when one of them failed.\<close>

definition references_condition ::
  "('w, 'a, 'm, 'u) reconciler \<Rightarrow> ReferenceError list \<Rightarrow> WAFObject \<Rightarrow> bool \<times> WAFObject" where
  "references_condition r errs x =
     set_condition (rw_lib r) ''ReferencesResolved'' (errs = []) ''ReferenceResolve'' (refsMessage (rw_texts r) errs) x"

definition references_failed ::
  "('w, 'a, 'm, 'u) reconciler \<Rightarrow> ReferenceError list \<Rightarrow> WAFObject \<Rightarrow> 'w waf_state \<Rightarrow> waf_outcome \<times> 'w waf_state" where
  "references_failed r errs x s =
     (case references_condition r errs x of
        (changed, y) \<Rightarrow> (WafDone, if changed then snd (in_world (oc_StatusUpdate (rw_wafs r) y) s) else s))"

definition reconcile_live ::
  "('w, 'a, 'm, 'u) reconciler \<Rightarrow> string \<Rightarrow> string \<Rightarrow> WAFObject \<Rightarrow> 'w waf_state \<Rightarrow> (waf_outcome \<times> 'w waf_state) option" where
  "reconcile_live r ns name x s =
     (case Build (rw_cluster r) (wo_UID x) (wo_WAF x) (waf_options (rw_BuildOpts r)) (wst_World s) of
        None \<Rightarrow> None
      | Some (outcome, w) \<Rightarrow>
          (let s1 = s\<lparr> wst_World := w \<rparr> in
           Some (case outcome of
             Inl (e, res) \<Rightarrow>
               (case res of
                  Some res1 \<Rightarrow>
                    if res_ReferenceErrors res1 \<noteq> [] then references_failed r (res_ReferenceErrors res1) x s1
                    else not_ready r x ''BuildFailed'' (tx_pipeline (rw_texts r) e) s1
                | None \<Rightarrow> not_ready r x ''BuildFailed'' (tx_pipeline (rw_texts r) e) s1)
           | Inr res \<Rightarrow>
               if res_ReferenceErrors res \<noteq> [] then references_failed r (res_ReferenceErrors res) x s1
               else (case references_condition r [] x of
                       (False, y) \<Rightarrow> publish_and_attach r ns name res y s1
                     | (True, y) \<Rightarrow>
                         (case in_world (oc_StatusUpdate (rw_wafs r) y) s1 of
                            (ApiOk z, s2) \<Rightarrow> publish_and_attach r ns name res z s2
                          | (e, s2) \<Rightarrow> (WafError (StatusFailed e), s2))))))"

definition add_finalizer :: "kube_lib \<Rightarrow> string \<Rightarrow> WAFObject \<Rightarrow> bool \<times> WAFObject" where
  "add_finalizer lib f x =
     (case kl_AddFinalizer lib f (wo_Finalizers x) of (added, fins) \<Rightarrow> (added, x\<lparr> wo_Finalizers := fins \<rparr>))"

definition waf_Reconcile ::
  "('w, 'a, 'm, 'u) reconciler \<Rightarrow> string \<Rightarrow> string \<Rightarrow> 'w waf_state \<Rightarrow> (waf_outcome \<times> 'w waf_state) option" where
  "waf_Reconcile r ns name s =
     (case InitHandler (add_finalizer (rw_lib r) Finalizer) (rw_wafs r) ns name (wst_World s) of
        Inl e \<Rightarrow> Some (WafError (GetFailed e), s)
      | Inr (updated, x) \<Rightarrow>
          if wo_Deleting x then Some (reconcileDelete r x s)
          else if \<not> kl_ContainsFinalizer (rw_lib r) wafFinalizer (wo_Finalizers x) then
            Some (case in_world (oc_Update (rw_wafs r) (snd (add_finalizer (rw_lib r) wafFinalizer x))) s of
                    (ApiOk y, s1) \<Rightarrow> (WafRequeue, s1)
                  | (e, s1) \<Rightarrow> (WafError (UpdateFailed e), s1))
          else reconcile_live r ns name x s)"

section \<open>RuleSets\<close>

record RuleSetStatus =
  rst_Conditions :: "MetaCondition list"
  rst_RuleRefs :: "RuleRefStatus list"
  rst_RulesLoaded :: int
  rst_ActionsLoaded :: int

record RuleSetObject =
  ro_Kind :: string
  ro_Namespace :: string
  ro_Name :: string
  ro_Deleting :: bool
  ro_Finalizers :: "string list"
  ro_Generation :: int
  ro_Spec :: RuleSetSpec
  ro_Status :: RuleSetStatus

record 'w ruleset_reconciler =
  rr_fuel :: nat
  rr_refs :: "'w ref_client"
  rr_rulesets :: "(RuleSetObject, 'w) obj_client"
  rr_back :: "'w back_client"
  rr_lib :: kube_lib
  rr_texts :: texts

datatype ruleset_error =
    RsGetFailed "RuleSetObject api_result"
  | RsUpdateFailed "RuleSetObject api_result"
  | RsStatusFailed "RuleSetObject api_result"
  | RsCleanupFailed back_error
  | RsResolveFailed uobj

definition object_source :: "RuleSetObject \<Rightarrow> ref_source" where
  "object_source x = \<lparr> rs_Kind = ro_Kind x, rs_Namespace = ro_Namespace x, rs_Name = ro_Name x,
                       rs_Policy = Some (rss_AllowedRules (ro_Spec x)) \<rparr>"

definition ruleRefHandler ::
  "'w ruleset_reconciler \<Rightarrow> RuleSetObject \<Rightarrow> 'w \<Rightarrow> ((uobj + RuleSetObject \<times> uobj list) \<times> 'w) option" where
  "ruleRefHandler r x w =
     (case AddUpdateReconcile (rr_fuel r) (rr_refs r) (rss_RuleRefs (ro_Spec x)) (object_source x) w of
        None \<Rightarrow> None
      | Some ((objects, errs, Some obj), w1) \<Rightarrow> Some (Inl obj, w1)
      | Some ((objects, errs, None), w1) \<Rightarrow>
          (let cond = (if errs \<noteq> []
                       then \<lparr> cn_Type = ''ReferencesResolved'', cn_Status = False, cn_Reason = ''ResolvedRefsFailed'',
                              cn_Message = join '' '' (map (tx_reference (rr_texts r)) errs),
                              cn_ObservedGeneration = ro_Generation x \<rparr>
                       else \<lparr> cn_Type = ''ReferencesResolved'', cn_Status = True, cn_Reason = ''ResolvedRefs'',
                              cn_Message = [], cn_ObservedGeneration = ro_Generation x \<rparr>);
               conds = snd (kl_SetStatusCondition (rr_lib r) cond (rst_Conditions (ro_Status x)))
           in Some (Inr (x\<lparr> ro_Status := (ro_Status x)\<lparr> rst_Conditions := conds \<rparr> \<rparr>, objects), w1)))"

definition ruleset_status ::
  "'w ruleset_reconciler \<Rightarrow> RuleSetObject \<Rightarrow> 'w \<Rightarrow> (ruleset_error option \<times> 'w) option" where
  "ruleset_status r x w =
     (case ruleRefHandler r x w of
        None \<Rightarrow> None
      | Some (Inl obj, w1) \<Rightarrow> Some (Some (RsResolveFailed obj), w1)
      | Some (Inr (y, resolved), w1) \<Rightarrow>
          (let (rulesN, actionsN) = CountSecLangObjects resolved;
               z = y\<lparr> ro_Status := (ro_Status y)\<lparr> rst_RuleRefs := map leaf_ref resolved,
                                                  rst_RulesLoaded := to_int32 (int rulesN),
                                                  rst_ActionsLoaded := to_int32 (int actionsN) \<rparr> \<rparr>
           in case oc_StatusUpdate (rr_rulesets r) z w1 of
                (ApiOk _, w2) \<Rightarrow> Some (None, w2)
              | (e, w2) \<Rightarrow> Some (Some (RsStatusFailed e), w2)))"

definition ruleset_delete :: "'w ruleset_reconciler \<Rightarrow> RuleSetObject \<Rightarrow> 'w \<Rightarrow> ruleset_error option \<times> 'w" where
  "ruleset_delete r x w =
     (case CleanupBackReferences (rr_back r) (ownerKindOf (ro_Kind x) ''*v1beta1.RuleSet'') (ro_Name x) (ro_Namespace x) w of
        (Some e, w1) \<Rightarrow> (Some (RsCleanupFailed e), w1)
      | (None, w1) \<Rightarrow>
          (case kl_RemoveFinalizer (rr_lib r) Finalizer (ro_Finalizers x) of
             (False, fins) \<Rightarrow> (None, w1)
           | (True, fins) \<Rightarrow>
               (case oc_Update (rr_rulesets r) (x\<lparr> ro_Finalizers := fins \<rparr>) w1 of
                  (ApiOk _, w2) \<Rightarrow> (None, w2)
                | (e, w2) \<Rightarrow> (Some (RsUpdateFailed e), w2))))"

definition ruleset_Reconcile ::
  "'w ruleset_reconciler \<Rightarrow> string \<Rightarrow> string \<Rightarrow> 'w \<Rightarrow> (ruleset_error option \<times> 'w) option" where
  "ruleset_Reconcile r ns name w =
     (case InitHandler
             (\<lambda>x. case kl_AddFinalizer (rr_lib r) Finalizer (ro_Finalizers x) of
                    (added, fins) \<Rightarrow> (added, x\<lparr> ro_Finalizers := fins \<rparr>))
             (rr_rulesets r) ns name w of
        Inl ApiNotFound \<Rightarrow> Some (None, w)
      | Inl e \<Rightarrow> Some (Some (RsGetFailed e), w)
      | Inr (updated, x) \<Rightarrow>
          if ro_Deleting x then Some (ruleset_delete r x w)
          else if \<not> updated then ruleset_status r x w
          else (case oc_Update (rr_rulesets r) x w of
                  (ApiOk _, w1) \<Rightarrow>
                    (case oc_Get (rr_rulesets r) ns name w1 of
                       ApiOk y \<Rightarrow> ruleset_status r y w1
                     | e \<Rightarrow> Some (Some (RsGetFailed e), w1))
                | (e, w1) \<Rightarrow> Some (Some (RsUpdateFailed e), w1)))"

end
