(* ===== verification/BackRefsThms.thy ===== *)
theory BackRefsThms
  imports WatchMap ResolverThms AssemblyThms EcdsThms
begin

text \<open>
  What the back references promise: a cleanup unlocks exactly the objects of its owner, the references
  that a reconciliation writes never reach the stored status, and the WAFs a changed RuleSet enqueues.
\<close>

section \<open>What is stored\<close>

type_synonym obj_key = "string \<times> string \<times> string"

definition uo_key :: "uobj \<Rightarrow> obj_key" where
  "uo_key obj = (uo_Kind obj, uo_Namespace obj, uo_Name obj)"

text \<open>Of a stored object: its back references, which are status, and its finalizers.\<close>

type_synonym obj_lock = "RuleSetRef list \<times> string list"
type_synonym 'w lock_view = "'w \<Rightarrow> obj_key \<rightharpoonup> obj_lock"

definition lock_of :: "uobj \<Rightarrow> obj_lock" where
  "lock_of obj = (seclangBackRefs obj, uo_Finalizers obj)"

text \<open>
  The documented behaviour of the API server for a resource with a status subresource: a list shows
  what is stored, an update of the status changes nothing else, and an update of the object leaves the
  status as it is; an object without finalizers may go.
\<close>

definition back_store_ok :: "'w back_client \<Rightarrow> 'w lock_view \<Rightarrow> bool" where
  "back_store_ok c locks \<longleftrightarrow>
     (\<forall>kind w objs. bc_List c kind w = BackItems objs \<longrightarrow>
        distinct (map uo_key objs) \<and>
        (\<forall>obj \<in> set objs. uo_Kind obj = kind \<and> locks w (uo_key obj) = Some (lock_of obj)) \<and>
        (\<forall>ns name. locks w (kind, ns, name) \<noteq> None \<longrightarrow> (kind, ns, name) \<in> uo_key ` set objs)) \<and>
     (\<forall>kind ns name w obj. bc_Get c kind ns name w = ApiOk obj \<longrightarrow>
        uo_key obj = (kind, ns, name) \<and> locks w (kind, ns, name) = Some (lock_of obj)) \<and>
     (\<forall>kind ns name w. bc_Get c kind ns name w = ApiNotFound \<longrightarrow> locks w (kind, ns, name) = None) \<and>
     (\<forall>obj w w'. bc_StatusUpdate c obj w = (True, w') \<longrightarrow>
        (\<exists>refs fins. locks w (uo_key obj) = Some (refs, fins) \<and>
           locks w' = (locks w)(uo_key obj \<mapsto> (seclangBackRefs obj, fins)))) \<and>
     (\<forall>obj w w'. bc_Update c obj w = (True, w') \<longrightarrow>
        (\<exists>refs fins. locks w (uo_key obj) = Some (refs, fins) \<and>
           (locks w' = (locks w)(uo_key obj \<mapsto> (refs, uo_Finalizers obj)) \<or>
            uo_Finalizers obj = [] \<and> locks w' = (locks w)(uo_key obj := None)))) \<and>
     (\<forall>obj f. bc_RemoveFinalizer c obj f =
        (f \<in> set (uo_Finalizers obj), obj\<lparr> uo_Finalizers := filter (\<lambda>x. x \<noteq> f) (uo_Finalizers obj) \<rparr>))"

lemma store_list:
  assumes "back_store_ok c locks" and "bc_List c kind w = BackItems objs"
  shows "distinct (map uo_key objs)"
    and "obj \<in> set objs \<Longrightarrow> uo_Kind obj = kind \<and> locks w (uo_key obj) = Some (lock_of obj)"
    and "locks w (kind, ns, name) = Some l \<Longrightarrow> \<exists>obj \<in> set objs. uo_key obj = (kind, ns, name)"
proof -
  note store = assms(1)[unfolded back_store_ok_def, THEN conjunct1, rule_format, OF assms(2)]
  show "distinct (map uo_key objs)" using store by (rule conjunct1)
  show "uo_Kind obj = kind \<and> locks w (uo_key obj) = Some (lock_of obj)" if "obj \<in> set objs"
    using store [THEN conjunct2, THEN conjunct1] that by blast
  show "\<exists>obj \<in> set objs. uo_key obj = (kind, ns, name)" if "locks w (kind, ns, name) = Some l"
  proof -
    have "(kind, ns, name) \<in> uo_key ` set objs" using store [THEN conjunct2, THEN conjunct2] that by blast
    then show ?thesis by (metis imageE)
  qed
qed

lemma store_get:
  assumes "back_store_ok c locks"
  shows "bc_Get c kind ns name w = ApiOk obj \<Longrightarrow> uo_key obj = (kind, ns, name) \<and> locks w (kind, ns, name) = Some (lock_of obj)"
    and "bc_Get c kind ns name w = ApiNotFound \<Longrightarrow> locks w (kind, ns, name) = None"
  using assms[unfolded back_store_ok_def] by blast+

lemma store_write:
  assumes "back_store_ok c locks"
  shows "bc_StatusUpdate c obj w = (True, w') \<Longrightarrow> \<exists>refs fins. locks w (uo_key obj) = Some (refs, fins) \<and>
      locks w' = (locks w)(uo_key obj \<mapsto> (seclangBackRefs obj, fins))"
    and "bc_Update c obj w = (True, w') \<Longrightarrow> \<exists>refs fins. locks w (uo_key obj) = Some (refs, fins) \<and>
      (locks w' = (locks w)(uo_key obj \<mapsto> (refs, uo_Finalizers obj)) \<or>
       uo_Finalizers obj = [] \<and> locks w' = (locks w)(uo_key obj := None))"
    and "bc_RemoveFinalizer c obj f =
      (f \<in> set (uo_Finalizers obj), obj\<lparr> uo_Finalizers := filter (\<lambda>x. x \<noteq> f) (uo_Finalizers obj) \<rparr>)"
  using assms[unfolded back_store_ok_def] by blast+

section \<open>The cleanup\<close>

text \<open>What the cleanup for an owner makes of one stored object.\<close>

definition names_owner :: "string \<Rightarrow> string \<Rightarrow> string \<Rightarrow> RuleSetRef \<Rightarrow> bool" where
  "names_owner ownerKind ownerName ownerNS r \<longleftrightarrow>
     (rsr_Namespace r, rsr_Name r) = (ownerNS, ownerName) \<and> ([] \<in> {ownerKind, rsr_Kind r} \<or> rsr_Kind r = ownerKind)"

lemma matchesOwner_names_owner [simp]: "matchesOwner r k n ns = names_owner k n ns r"
  by (auto simp: matchesOwner_def names_owner_def)

definition unlock :: "string \<Rightarrow> string \<Rightarrow> string \<Rightarrow> obj_lock \<Rightarrow> obj_lock" where
  "unlock ownerKind ownerName ownerNS = (\<lambda>(refs, fins).
     let refs' = filter (\<lambda>r. \<not> names_owner ownerKind ownerName ownerNS r) refs in
     (refs', if refs' = [] \<and> refs \<noteq> [] then filter (\<lambda>f. f \<noteq> RuleSetRefFinalizer) fins else fins))"

definition unlocked :: "string \<Rightarrow> string \<Rightarrow> string \<Rightarrow> obj_lock \<Rightarrow> obj_lock option \<Rightarrow> bool" where
  "unlocked ownerKind ownerName ownerNS l v \<longleftrightarrow>
     v = Some (unlock ownerKind ownerName ownerNS l) \<or> v = None \<and> snd (unlock ownerKind ownerName ownerNS l) = []"

lemma set_back_refs_key [simp]: "uo_key (set_back_refs refs obj) = uo_key obj"
  by (simp add: uo_key_def set_back_refs_def split: payload.split)

lemma set_back_refs_refs: "seclangBackRefs obj \<noteq> [] \<Longrightarrow> seclangBackRefs (set_back_refs refs obj) = refs"
  by (simp add: seclangBackRefs_def set_back_refs_def split: payload.splits)

lemma unlock_kept:
  "\<not> list_ex (\<lambda>r. names_owner ok on ons r) refs \<Longrightarrow> unlock ok on ons (refs, fins) = (refs, fins)"
  by (auto simp: unlock_def Let_def list_ex_iff filter_id_conv)

lemmas strip_unfold = strip_back_ref_def filterRefs_def Let_def

lemma strip_back_ref_view:
  assumes ok: "back_store_ok c locks" and run: "strip_back_ref kind c obj k n ns w = (None, w')"
    and obj: "locks w (uo_key obj) = Some (lock_of obj)" "uo_Kind obj = kind"
  shows "\<exists>v. locks w' = (locks w)(uo_key obj := v) \<and> unlocked k n ns (lock_of obj) v"
proof (cases "list_ex (\<lambda>r. names_owner k n ns r) (seclangBackRefs obj)")
  case False
  then have "w' = w" using run by (simp add: strip_unfold)
  then show ?thesis
    using obj(1) unlock_kept [OF False] by (intro exI [of _ "Some (lock_of obj)"]) (auto simp: unlocked_def lock_of_def)
next
  case True
  let ?rest = "filter (\<lambda>r. \<not> names_owner k n ns r) (seclangBackRefs obj)"
  have ne: "seclangBackRefs obj \<noteq> []" using True by auto
  obtain w1 where w1: "bc_StatusUpdate c (set_back_refs ?rest obj) w = (True, w1)"
    using run True by (auto simp: strip_unfold split: prod.splits bool.splits)
  have v1: "locks w1 = (locks w)(uo_key obj \<mapsto> (?rest, uo_Finalizers obj))"
    using store_write(1) [OF ok w1] obj(1) ne by (auto simp: set_back_refs_refs lock_of_def)
  show ?thesis
  proof (cases "?rest = []")
    case False
    then have "w' = w1" using run True w1 by (simp add: strip_unfold)
    with v1 False show ?thesis by (intro exI [of _ "Some (?rest, uo_Finalizers obj)"]) (auto simp: unlocked_def unlock_def lock_of_def Let_def)
  next
    case rest: True
    have key: "(kind, uo_Namespace obj, uo_Name obj) = uo_key obj" using obj(2) by (simp add: uo_key_def)
    have u: "unlock k n ns (lock_of obj) = ([], filter (\<lambda>f. f \<noteq> RuleSetRefFinalizer) (uo_Finalizers obj))"
      using rest ne by (simp add: unlock_def lock_of_def Let_def)
    obtain fresh where g: "bc_Get c kind (uo_Namespace obj) (uo_Name obj) w1 = ApiOk fresh"
      using run True w1 rest v1 store_get(2) [OF ok, of kind "uo_Namespace obj" "uo_Name obj" w1]
      by (cases "bc_Get c kind (uo_Namespace obj) (uo_Name obj) w1") (simp_all add: strip_unfold key)
    have fresh: "uo_key fresh = uo_key obj" "uo_Finalizers fresh = uo_Finalizers obj" "seclangBackRefs fresh = []"
      using store_get(1) [OF ok g] v1 rest by (auto simp: key lock_of_def)
    show ?thesis
    proof (cases "RuleSetRefFinalizer \<in> set (uo_Finalizers obj)")
      case False
      then have "w' = w1" using run True w1 rest g fresh by (simp add: strip_unfold store_write(3) [OF ok])
      moreover have "filter (\<lambda>f. f \<noteq> RuleSetRefFinalizer) (uo_Finalizers obj) = uo_Finalizers obj"
        using False by (auto simp: filter_id_conv)
      ultimately show ?thesis using v1 rest u by (intro exI [of _ "Some ([], uo_Finalizers obj)"]) (simp add: unlocked_def)
    next
      case True
      let ?fresh = "fresh\<lparr> uo_Finalizers := filter (\<lambda>x. x \<noteq> RuleSetRefFinalizer) (uo_Finalizers obj) \<rparr>"
      have up: "bc_Update c ?fresh w1 = (True, w')"
        using run \<open>list_ex _ _\<close> w1 rest g fresh True
        by (auto simp: strip_unfold store_write(3) [OF ok] split: prod.splits if_splits)
      have fk: "uo_key ?fresh = uo_key obj" using fresh(1) by (simp add: uo_key_def)
      from store_write(2) [OF ok up] v1 rest fk
      have "locks w' = (locks w)(uo_key obj \<mapsto> unlock k n ns (lock_of obj)) \<or>
          snd (unlock k n ns (lock_of obj)) = [] \<and> locks w' = (locks w)(uo_key obj := None)"
        by (auto simp: u)
      then show ?thesis unfolding unlocked_def by blast
    qed
  qed
qed

lemma strip_all_view:
  assumes ok: "back_store_ok c locks"
  shows "strip_all (\<lambda>obj. strip_back_ref kind c obj k n ns) objs w = (None, w') \<Longrightarrow> distinct (map uo_key objs) \<Longrightarrow>
    (\<And>obj. obj \<in> set objs \<Longrightarrow> uo_Kind obj = kind \<and> locks w (uo_key obj) = Some (lock_of obj)) \<Longrightarrow>
    (\<forall>key. key \<notin> uo_key ` set objs \<longrightarrow> locks w' key = locks w key) \<and>
    (\<forall>obj \<in> set objs. unlocked k n ns (lock_of obj) (locks w' (uo_key obj)))"
proof (induction objs arbitrary: w)
  case (Cons x objs)
  obtain w1 where w1: "strip_back_ref kind c x k n ns w = (None, w1)"
    "strip_all (\<lambda>obj. strip_back_ref kind c obj k n ns) objs w1 = (None, w')"
    using Cons.prems(1) by (auto split: prod.splits option.splits)
  obtain v where v: "locks w1 = (locks w)(uo_key x := v)" "unlocked k n ns (lock_of x) v"
    using strip_back_ref_view [OF ok w1(1)] Cons.prems(3) [of x] by auto
  have x: "uo_key x \<notin> uo_key ` set objs" using Cons.prems(2) by simp
  have "uo_Kind obj = kind \<and> locks w1 (uo_key obj) = Some (lock_of obj)" if "obj \<in> set objs" for obj
  proof -
    have "uo_key obj \<noteq> uo_key x" using that x by (metis imageI)
    then show ?thesis using Cons.prems(3) [of obj] that v(1) by simp
  qed
  from Cons.IH [OF w1(2) _ this] Cons.prems(2)
  have ih: "\<forall>key. key \<notin> uo_key ` set objs \<longrightarrow> locks w' key = locks w1 key"
    "\<forall>obj \<in> set objs. unlocked k n ns (lock_of obj) (locks w' (uo_key obj))" by auto
  have "locks w' (uo_key x) = v" using ih(1) x v(1) by (metis fun_upd_same)
  then show ?case using ih v by simp
qed simp

lemma cleanup_kind_view:
  assumes ok: "back_store_ok c locks" and l: "bc_List c kind w = BackItems objs"
    and run: "cleanup_kind c kind (\<lambda>obj. strip_back_ref kind c obj k n ns) w = (None, w')"
  shows "locks w (kind, ons, name) = Some lk \<Longrightarrow> unlocked k n ns lk (locks w' (kind, ons, name))"
    and "fst key \<noteq> kind \<Longrightarrow> locks w' key = locks w key"
proof -
  have v: "\<forall>key. key \<notin> uo_key ` set objs \<longrightarrow> locks w' key = locks w key"
    "\<forall>obj \<in> set objs. unlocked k n ns (lock_of obj) (locks w' (uo_key obj))"
    using strip_all_view [OF ok, of kind k n ns objs w w'] run l store_list(1,2) [OF ok l] by (auto simp: cleanup_kind_def)
  show "unlocked k n ns lk (locks w' (kind, ons, name))" if lk: "locks w (kind, ons, name) = Some lk"
  proof -
    obtain obj where obj: "obj \<in> set objs" "uo_key obj = (kind, ons, name)" using store_list(3) [OF ok l lk] by blast
    have "lk = lock_of obj" using store_list(2) [OF ok l obj(1)] lk obj(2) by simp
    with v(2) obj show ?thesis by force
  qed
  show "locks w' key = locks w key" if "fst key \<noteq> kind"
  proof -
    have "key \<notin> uo_key ` set objs" using store_list(2) [OF ok l] that by (auto simp: uo_key_def)
    then show ?thesis using v(1) by blast
  qed
qed

lemma cleanup_view:
  assumes "back_store_ok c locks" and "CleanupBackReferences c k n ns w = (None, w')"
    and "\<And>kind w. \<exists>objs. bc_List c kind w = BackItems objs" and "locks w (kind, ons, name) = Some l"
  shows "if kind = ''SecRule'' \<or> kind = ''SecAction'' then unlocked k n ns l (locks w' (kind, ons, name))
         else locks w' (kind, ons, name) = Some l"
proof -
  obtain w1 where w1: "cleanup_kind c ''SecRule'' (\<lambda>obj. strip_back_ref ''SecRule'' c obj k n ns) w = (None, w1)"
    "cleanup_kind c ''SecAction'' (\<lambda>obj. strip_back_ref ''SecAction'' c obj k n ns) w1 = (None, w')"
    using assms(2)
    by (auto simp: CleanupBackReferences_def stripSecRuleBackRef_def stripSecActionBackRef_def split: prod.splits option.splits)
  obtain rules where r: "bc_List c ''SecRule'' w = BackItems rules" using assms(3) by blast
  obtain actions where a: "bc_List c ''SecAction'' w1 = BackItems actions" using assms(3) by blast
  note rule = cleanup_kind_view [OF assms(1) r w1(1)] and action = cleanup_kind_view [OF assms(1) a w1(2)]
  consider "kind = ''SecRule''" | "kind = ''SecAction''" | "kind \<noteq> ''SecRule''" "kind \<noteq> ''SecAction''" by blast
  then show ?thesis
  proof cases
    case 1
    then show ?thesis using rule(1) assms(4) action(2) [of "(kind, ons, name)"] by simp
  next
    case 2
    then show ?thesis using rule(2) [of "(kind, ons, name)"] assms(4) action(1) by simp
  next
    case 3
    then show ?thesis using rule(2) [of "(kind, ons, name)"] assms(4) action(2) [of "(kind, ons, name)"] by simp
  qed
qed

text \<open>
  C9: The cleanup for an owner removes that owner, and no other, from the back references of every SecRule
  and SecAction, and takes the reference finalizer from those that thereby lose their last reference; all
  other objects stay as they are.
\<close>

theorem cleanup_unlocks:
  assumes "back_store_ok c locks" and "CleanupBackReferences c k n ns w = (None, w')"
    and "\<And>kind w. \<exists>objs. bc_List c kind w = BackItems objs" and "locks w (kind, ons, name) = Some l"
  shows "if kind = ''SecRule'' \<or> kind = ''SecAction'' then unlocked k n ns l (locks w' (kind, ons, name))
         else locks w' (kind, ons, name) = Some l"
  using assms by (rule cleanup_view)

section \<open>Back references of a reconciliation\<close>

text \<open>
  The resolver saves its finalizer and back reference by one update of the object. The documented
  behaviour for a resource with a status subresource: such an update leaves the stored status alone.
\<close>

definition stored_refs :: "'w lock_view \<Rightarrow> 'w \<Rightarrow> obj_key \<rightharpoonup> RuleSetRef list" where
  "stored_refs locks w k = map_option fst (locks w k)"

definition update_keeps_status :: "'w ref_client \<Rightarrow> 'w lock_view \<Rightarrow> bool" where
  "update_keeps_status rc locks \<longleftrightarrow>
     (\<forall>obj w r w'. rc_Update rc obj w = (r, w') \<longrightarrow> stored_refs locks w' = stored_refs locks w)"

lemma lock_if_refs:
  assumes "update_keeps_status rc locks" and "lock_if lock rc obj source w = (r, w')"
  shows "stored_refs locks w' = stored_refs locks w"
proof -
  have u: "stored_refs locks (snd (rc_Update rc x w)) = stored_refs locks w" for x
    using assms(1) unfolding update_keeps_status_def by (metis prod.collapse)
  have "stored_refs locks (snd (lockObject rc obj source w)) = stored_refs locks w"
    using u by (auto simp: lockObject_def Let_def split_beta split: api_result.splits prod.splits)
  then show ?thesis using assms(2)
    by (auto simp: lock_if_def split: if_splits prod.splits option.splits api_result.splits)
qed

definition keeps_refs :: "'w lock_view \<Rightarrow> 'w expander \<Rightarrow> bool" where
  "keeps_refs locks rec \<longleftrightarrow>
     (\<forall>refs source w r w'. rec refs source w = Some (r, w') \<longrightarrow> stored_refs locks w' = stored_refs locks w)"

lemma reconcile_items_refs:
  assumes "update_keeps_status rc locks" and "keeps_refs locks rec"
  shows "reconcile_items rec rc lock ref source objs errs items w = Some (r, w') \<Longrightarrow>
    stored_refs locks w' = stored_refs locks w"
proof (induction items arbitrary: objs errs w)
  case (Cons x items)
  show ?case
  proof (cases "allowedObject rc w x source")
    case (Some e)
    with Cons.IH Cons.prems show ?thesis by simp
  next
    case None
    obtain e o1 w1 where l: "lock_if lock rc x source w = ((e, o1), w1)" by (metis prod.collapse)
    note w1 = lock_if_refs [OF assms(1) l]
    show ?thesis
    proof (cases e)
      case (Some a)
      with Cons.IH Cons.prems None l w1 show ?thesis by simp
    next
      case e: None
      show ?thesis
      proof (cases "uo_Kind o1 = ''RuleSet''")
        case False
        with Cons.IH Cons.prems None l w1 e show ?thesis by simp
      next
        case True
        then consider "as_RuleSet o1 = None" "w' = w1"
          | s objs2 errs2 f w2 where "rec (rss_RuleRefs s) (ruleset_source o1 s) w1 = Some ((objs2, errs2, f), w2)"
            "w' = w2 \<or> reconcile_items rec rc lock ref source (objs @ objs2 @ [o1]) (errs @ errs2) items w2 = Some (r, w')"
          using Cons.prems None l e by (auto split: option.splits prod.splits)
        then show ?thesis
        proof cases
          case 2
          then have "stored_refs locks w2 = stored_refs locks w1" using assms(2) unfolding keeps_refs_def by blast
          with 2 Cons.IH w1 show ?thesis by auto
        qed (simp add: w1)
      qed
    qed
  qed
qed simp

lemma reconcile_list_refs:
  assumes "update_keeps_status rc locks" and "keeps_refs locks rec"
  shows "reconcile_list rec rc lock source objs errs refs w = Some (r, w') \<Longrightarrow> stored_refs locks w' = stored_refs locks w"
proof (induction refs arbitrary: objs errs w)
  case (Cons ref refs)
  show ?case
  proof (cases "lookupRef rc w (applyRuleRefDefaults ref (rs_Namespace source))")
    case (Inl e)
    with Cons.IH Cons.prems show ?thesis by simp
  next
    case (Inr items)
    then obtain objs1 errs1 f w1 where
      "reconcile_items rec rc lock ref source objs errs items w = Some ((objs1, errs1, f), w1)"
      "w' = w1 \<or> reconcile_list rec rc lock source objs1 errs1 refs w1 = Some (r, w')"
      using Cons.prems by (auto split: option.splits prod.splits)
    with Cons.IH [of objs1 errs1 w1] reconcile_items_refs [OF assms] show ?thesis by auto
  qed
qed simp

lemma reconcileRefs_refs:
  assumes "update_keeps_status rc locks"
  shows "keeps_refs locks (reconcileRefs n rc lock)"
proof (induction n)
  case (Suc n)
  show ?case unfolding keeps_refs_def reconcileRefs.simps using reconcile_list_refs [OF assms Suc.IH] by blast
qed (simp add: keeps_refs_def)

lemma strip_nothing:
  "seclangBackRefs obj = [] \<Longrightarrow> strip_back_ref kind c obj k n ns w = (None, w)"
  by (simp add: strip_unfold)

lemma strip_all_nothing:
  "(\<And>obj. obj \<in> set objs \<Longrightarrow> seclangBackRefs obj = []) \<Longrightarrow> strip_all (\<lambda>obj. strip_back_ref kind c obj k n ns) objs w = (None, w)"
  by (induction objs) (simp_all add: strip_nothing)

text \<open>
  C10: A reconciliation stores no back reference: after any run that locks the references of a WAF or a
  RuleSet, in a cluster without back references, a changed SecRule or SecAction enqueues no WAF, and the
  cleanup for an owner removes no finalizer.
\<close>

theorem back_refs_never_stored:
  assumes "back_store_ok c locks" and "update_keeps_status rc locks"
    and "\<forall>key l. locks w key = Some l \<longrightarrow> fst l = []"
    and "AddUpdateReconcile fuel rc refs source w = Some (r, w')"
  shows "(\<forall>kind objs obj. bc_List c kind w' = BackItems objs \<longrightarrow> obj \<in> set objs \<longrightarrow> MapSecLangToWAFs order wc obj w' = []) \<and>
    (\<forall>w''. CleanupBackReferences c k n ns w' = (None, w'') \<longrightarrow> w'' = w')"
proof -
  have "stored_refs locks w' = stored_refs locks w"
    using reconcileRefs_refs [OF assms(2), of fuel True] assms(4) unfolding keeps_refs_def AddUpdateReconcile_def by blast
  then have "map_option fst (locks w' key) = map_option fst (locks w key)" for key
    by (metis stored_refs_def)
  then have empty: "fst l = []" if "locks w' key = Some l" for key l
    using that assms(3) [rule_format, of key] by (cases "locks w key") (metis option.simps(8,9) option.inject option.distinct(1))+
  have refs: "seclangBackRefs obj = []" if "bc_List c kind w' = BackItems objs" "obj \<in> set objs" for kind objs obj
    using store_list(2) [OF assms(1) that] empty [of "uo_key obj" "lock_of obj"] by (simp add: lock_of_def)
  have "cleanup_kind c kind (\<lambda>obj. strip_back_ref kind c obj k n ns) w' = (None, w'') \<Longrightarrow> w'' = w'" for kind w''
    using refs by (auto simp: cleanup_kind_def strip_all_nothing split: back_list.splits if_splits)
  then have "CleanupBackReferences c k n ns w' = (None, w'') \<Longrightarrow> w'' = w'" for w''
    by (auto simp: CleanupBackReferences_def stripSecRuleBackRef_def stripSecActionBackRef_def split: prod.splits option.splits)
  with refs show ?thesis by (auto simp: MapSecLangToWAFs_def)
qed

section \<open>What a changed RuleSet enqueues\<close>

text \<open>An owner names a RuleSet in its references, with the defaults of the kind and the namespace.\<close>

definition names_ruleset :: "string \<Rightarrow> RuleRef list \<Rightarrow> string \<Rightarrow> string \<Rightarrow> bool" where
  "names_ruleset ownerNS refs ns name \<longleftrightarrow>
     list_ex (\<lambda>ref. ref_kind ref = ''RuleSet'' \<and> rr_Name ref = name \<and> ref_ns ownerNS ref = ns) refs"

definition plain_refs :: "RuleRef list \<Rightarrow> bool" where
  "plain_refs refs \<longleftrightarrow> list_all (\<lambda>r. slash_free (rr_Kind r) \<and> slash_free (rr_Namespace r) \<and> slash_free (rr_Name r)) refs"

text \<open>
  The documented behaviour of a list by a field index: the objects whose index function has the key, or
  an error where the index is not registered; the plain list then answers.
\<close>

definition index_ok :: "'w watch_client \<Rightarrow> WAF list \<Rightarrow> uobj list \<Rightarrow> 'w \<Rightarrow> bool" where
  "index_ok c wafs rulesets w \<longleftrightarrow>
     (\<forall>key. wc_WAFsByRef c key w = Some (filter (\<lambda>x. key \<in> set (IndexWAFRuleRefs x)) wafs) \<or>
            wc_WAFsByRef c key w = None \<and> wc_WAFs c w = Some wafs) \<and>
     (\<forall>key. wc_RuleSetsByRef c key w = Some (filter (\<lambda>x. key \<in> set (IndexRuleSetRuleRefs x)) rulesets)) \<and>
     list_all (\<lambda>x. slash_free (waf_Namespace x) \<and> plain_refs (ws_RuleSetRefs (waf_Spec x))) wafs \<and>
     list_all (\<lambda>x. slash_free (uo_Namespace x) \<and> uo_Namespace x \<noteq> [] \<and> slash_free (uo_Name x) \<and> uo_Name x \<noteq> [] \<and>
                   (\<forall>s. as_RuleSet x = Some s \<longrightarrow> plain_refs (rss_RuleRefs s))) rulesets"

lemma key_inj:
  assumes "slash_free a" "slash_free b" "slash_free c" "slash_free a'" "slash_free b'" "slash_free c'"
  shows "a @ ''/'' @ b @ ''/'' @ c = a' @ ''/'' @ b' @ ''/'' @ c' \<longleftrightarrow> a = a' \<and> b = b' \<and> c = c'"
proof -
  have "split_on (CHR ''/'') (x @ ''/'' @ y @ ''/'' @ z) = [x, y, z]" if "slash_free x" "slash_free y" "slash_free z" for x y z
    using that by (simp add: slash_free_def split_on_append split_on_single)
  then show ?thesis using assms by (metis list.inject)
qed

lemma index_key_iff:
  assumes "plain_refs refs" "slash_free ownerNS" "slash_free ns" "slash_free name" "name \<noteq> []"
  shows "''RuleSet/'' @ ns @ ''/'' @ name \<in> set (RuleRefIndexKeys ownerNS refs) \<longleftrightarrow> names_ruleset ownerNS refs ns name"
proof -
  have "(''RuleSet/'' @ ns @ ''/'' @ name = ref_kind r @ ''/'' @ ref_ns ownerNS r @ ''/'' @ rr_Name r) =
      (ref_kind r = ''RuleSet'' \<and> rr_Name r = name \<and> ref_ns ownerNS r = ns)" if "r \<in> set refs" for r
  proof -
    have "slash_free (ref_kind r)" "slash_free (ref_ns ownerNS r)" "slash_free (rr_Name r)"
      using assms(1,2) that by (auto simp: plain_refs_def list_all_iff ref_kind_def ref_ns_def slash_free_def)
    from key_inj [OF _ assms(3,4) this, of "''RuleSet''"] show ?thesis by (auto simp: slash_free_def)
  qed
  then show ?thesis using assms(5) by (auto simp: RuleRefIndexKeys_def names_ruleset_def list_ex_iff)
qed

lemma set_add_requests [simp]: "set (add_requests wafs out) = waf_request ` set wafs \<union> set out"
  unfolding add_requests_def by (induction wafs arbitrary: out) auto

definition waf_names :: "WAF \<Rightarrow> uobj \<Rightarrow> bool" where
  "waf_names x rs \<longleftrightarrow> names_ruleset (waf_Namespace x) (ws_RuleSetRefs (waf_Spec x)) (uo_Namespace rs) (uo_Name rs)"

definition ruleset_names :: "uobj \<Rightarrow> uobj \<Rightarrow> bool" where
  "ruleset_names p rs \<longleftrightarrow>
     (case as_RuleSet p of None \<Rightarrow> False | Some s \<Rightarrow> names_ruleset (uo_Namespace p) (rss_RuleRefs s) (uo_Namespace rs) (uo_Name rs))"

lemma collect_set:
  assumes "index_ok c wafs rulesets w" and "rs \<in> set rulesets"
  shows "set (collectWAFsForRuleSet c (uo_Namespace rs) (uo_Name rs) w out) =
    waf_request ` {x \<in> set wafs. waf_names x rs} \<union> set out"
proof -
  let ?key = "''RuleSet/'' @ uo_Namespace rs @ ''/'' @ uo_Name rs"
  have rs: "slash_free (uo_Namespace rs)" "uo_Namespace rs \<noteq> []" "slash_free (uo_Name rs)" "uo_Name rs \<noteq> []"
    using assms by (auto simp: index_ok_def list_all_iff)
  have "?key \<in> set (IndexWAFRuleRefs x) \<longleftrightarrow> waf_names x rs" if "x \<in> set wafs" for x
    using assms(1) that rs unfolding IndexWAFRuleRefs_def waf_names_def
    by (intro index_key_iff) (auto simp: index_ok_def list_all_iff)
  then have f: "{x \<in> set wafs. ?key \<in> set (IndexWAFRuleRefs x)} = {x \<in> set wafs. waf_names x rs}" by blast
  have "wc_WAFsByRef c ?key w = Some (filter (\<lambda>x. ?key \<in> set (IndexWAFRuleRefs x)) wafs) \<or>
      wc_WAFsByRef c ?key w = None \<and> wc_WAFs c w = Some wafs"
    using assms(1) unfolding index_ok_def by blast
  then show ?thesis
  proof
    assume "wc_WAFsByRef c ?key w = Some (filter (\<lambda>x. ?key \<in> set (IndexWAFRuleRefs x)) wafs)"
    then show ?thesis using rs(2,4) f by (simp add: collectWAFsForRuleSet_def Let_def)
  next
    assume "wc_WAFsByRef c ?key w = None \<and> wc_WAFs c w = Some wafs"
    then show ?thesis using rs(2,4) by (simp add: collectWAFsForRuleSet_def Let_def waf_names_def names_ruleset_def)
  qed
qed

lemma collect_fold:
  assumes "index_ok c wafs rulesets w"
  shows "set ps \<subseteq> set rulesets \<Longrightarrow>
    set (fold (\<lambda>p. collectWAFsForRuleSet c (uo_Namespace p) (uo_Name p) w) ps out) =
    waf_request ` {x \<in> set wafs. \<exists>p \<in> set ps. waf_names x p} \<union> set out"
proof (induction ps arbitrary: out)
  case (Cons p ps)
  then show ?case using collect_set [OF assms, of p out] by auto
qed simp

text \<open>
  C11: A changed RuleSet enqueues exactly the WAFs that name it or that name a RuleSet which names it,
  whether or not the index is registered.
\<close>

theorem watch_exact:
  assumes "index_ok c wafs rulesets w" and "\<And>xs. set (order xs) = set xs"
    and "rs \<in> set rulesets" and "as_RuleSet rs = Some s"
  shows "set (MapRuleSetToWAFs order c rs w) =
    {waf_request x | x. x \<in> set wafs \<and> (waf_names x rs \<or> (\<exists>p \<in> set rulesets. ruleset_names p rs \<and> waf_names x p))}"
proof -
  let ?key = "''RuleSet/'' @ uo_Namespace rs @ ''/'' @ uo_Name rs"
  have rs: "slash_free (uo_Namespace rs)" "slash_free (uo_Name rs)" "uo_Name rs \<noteq> []"
    using assms(1,3) by (auto simp: index_ok_def list_all_iff)
  have idx: "?key \<in> set (IndexRuleSetRuleRefs p) \<longleftrightarrow> ruleset_names p rs" if "p \<in> set rulesets" for p
  proof (cases "as_RuleSet p")
    case (Some t)
    then have "plain_refs (rss_RuleRefs t)" "slash_free (uo_Namespace p)"
      using assms(1) that by (auto simp: index_ok_def list_all_iff)
    then show ?thesis
      using index_key_iff [OF _ _ rs, of "rss_RuleRefs t" "uo_Namespace p"] Some
      by (simp add: IndexRuleSetRuleRefs_def ruleset_names_def)
  qed (simp add: IndexRuleSetRuleRefs_def ruleset_names_def)
  define ps where "ps = filter (\<lambda>x. ?key \<in> set (IndexRuleSetRuleRefs x)) rulesets"
  have ps: "set ps = {p \<in> set rulesets. ruleset_names p rs}" unfolding ps_def set_filter using idx by blast
  have "wc_RuleSetsByRef c ?key w = Some ps"
    using assms(1) unfolding index_ok_def ps_def by blast
  then have "set (MapRuleSetToWAFs order c rs w) =
      waf_request ` {x \<in> set wafs. \<exists>p \<in> set ps. waf_names x p} \<union> waf_request ` {x \<in> set wafs. waf_names x rs}"
    using collect_set [OF assms(1,3), of "[]"] collect_fold [OF assms(1), of ps] ps
    by (simp add: MapRuleSetToWAFs_def assms(2,4) collect_parents_def)
  then show ?thesis unfolding ps by blast
qed

section \<open>The theorems at concrete inputs\<close>

text \<open>An API server with at most one object.\<close>

definition one_lock :: "uobj option lock_view" where
  "one_lock w k = (case w of None \<Rightarrow> None | Some x \<Rightarrow> if uo_key x = k then Some (lock_of x) else None)"

definition one_update :: "uobj \<Rightarrow> uobj option \<Rightarrow> bool \<times> uobj option" where
  "one_update obj w =
     (case w of
        None \<Rightarrow> (False, w)
      | Some x \<Rightarrow>
          if uo_key x = uo_key obj
          then (True, Some (x\<lparr> uo_Finalizers := uo_Finalizers obj \<rparr>))
          else (False, w))"

definition one_client :: "uobj option back_client" where
  "one_client =
     \<lparr> bc_List = (\<lambda>kind w. BackItems (case w of None \<Rightarrow> [] | Some x \<Rightarrow> if uo_Kind x = kind then [x] else [])),
       bc_Get = (\<lambda>kind ns name w.
         case w of None \<Rightarrow> ApiNotFound | Some x \<Rightarrow> if uo_key x = (kind, ns, name) then ApiOk x else ApiNotFound),
       bc_StatusUpdate = (\<lambda>obj w.
         case w of
           None \<Rightarrow> (False, w)
         | Some x \<Rightarrow>
             if uo_key x = uo_key obj \<and> seclangBackRefs (set_back_refs (seclangBackRefs obj) x) = seclangBackRefs obj
             then (True, Some (set_back_refs (seclangBackRefs obj) x)) else (False, w)),
       bc_Update = one_update,
       bc_RemoveFinalizer = (\<lambda>obj f.
         (f \<in> set (uo_Finalizers obj), obj\<lparr> uo_Finalizers := filter (\<lambda>x. x \<noteq> f) (uo_Finalizers obj) \<rparr>)) \<rparr>"

lemma set_back_refs_fins [simp]: "uo_Finalizers (set_back_refs refs obj) = uo_Finalizers obj"
  by (simp add: set_back_refs_def split: payload.split)

lemma with_finalizers [simp]:
  "uo_key (obj\<lparr> uo_Finalizers := fins \<rparr>) = uo_key obj"
  "seclangBackRefs (obj\<lparr> uo_Finalizers := fins \<rparr>) = seclangBackRefs obj"
  by (simp_all add: uo_key_def seclangBackRefs_def)

lemma uo_key_kind: "uo_key obj = (kind, ns, name) \<Longrightarrow> uo_Kind obj = kind"
  by (simp add: uo_key_def)

lemma one_client_ok: "back_store_ok one_client one_lock"
  unfolding back_store_ok_def
proof (intro conjI allI impI)
  fix kind w objs
  assume "bc_List one_client kind w = BackItems objs"
  then have objs: "objs = (case w of None \<Rightarrow> [] | Some x \<Rightarrow> if uo_Kind x = kind then [x] else [])" by (simp add: one_client_def)
  then show "distinct (map uo_key objs)" by (simp split: option.split)
  show "\<forall>obj \<in> set objs. uo_Kind obj = kind \<and> one_lock w (uo_key obj) = Some (lock_of obj)"
    using objs by (auto simp: one_lock_def split: option.splits if_splits)
  show "(kind, ns, name) \<in> uo_key ` set objs" if "one_lock w (kind, ns, name) \<noteq> None" for ns name
    using objs that by (auto simp: one_lock_def dest: uo_key_kind split: option.splits if_splits)
qed (auto simp: one_client_def one_lock_def one_update_def lock_of_def fun_eq_iff split: option.splits if_splits)

definition demo_back_ref :: RuleSetRef where
  "demo_back_ref = \<lparr> rsr_Name = ''rs'', rsr_Namespace = ''a'', rsr_Kind = ''RuleSet'', rsr_Group = [], rsr_Version = [] \<rparr>"

definition locked_rule :: uobj where
  "locked_rule = set_back_refs [demo_back_ref]
     ((demo_uobj (demo_secrule ''a'' 7 ''x''))\<lparr> uo_Finalizers := [RuleSetRefFinalizer, ''f''] \<rparr>)"

lemma locked_rule_lock: "one_lock (Some locked_rule) (''SecRule'', ''a'', ''r'') =
    Some ([demo_back_ref], [RuleSetRefFinalizer, ''f''])"
  by (simp add: one_lock_def locked_rule_def lock_of_def uo_key_def demo_uobj_def demo_secrule_def set_back_refs_def seclangBackRefs_def)

lemma locked_rule_run: "\<exists>w'. CleanupBackReferences one_client ''RuleSet'' ''rs'' ''a'' (Some locked_rule) = (None, w')"
  by (simp add: CleanupBackReferences_def stripSecRuleBackRef_def stripSecActionBackRef_def cleanup_kind_def strip_unfold
      one_client_def one_update_def locked_rule_def demo_uobj_def demo_secrule_def set_back_refs_def seclangBackRefs_def
      names_owner_def uo_key_def demo_back_ref_def)

theorem cleanup_unlocks_witness:
  "one_lock (snd (CleanupBackReferences one_client ''RuleSet'' ''rs'' ''a'' (Some locked_rule))) (''SecRule'', ''a'', ''r'') =
     Some ([], [''f''])"
proof -
  obtain w' where w': "CleanupBackReferences one_client ''RuleSet'' ''rs'' ''a'' (Some locked_rule) = (None, w')"
    using locked_rule_run by blast
  have l: "\<exists>objs. bc_List one_client kind w = BackItems objs" for kind w by (simp add: one_client_def)
  note u = cleanup_unlocks [OF one_client_ok w' l, OF locked_rule_lock]
  have "unlocked ''RuleSet'' ''rs'' ''a'' ([demo_back_ref], [RuleSetRefFinalizer, ''f'']) (one_lock w' (''SecRule'', ''a'', ''r''))"
    using u by (simp only: simp_thms if_True)
  moreover have "unlock ''RuleSet'' ''rs'' ''a'' ([demo_back_ref], [RuleSetRefFinalizer, ''f'']) = ([], [''f''])"
    by (simp add: unlock_def demo_back_ref_def names_owner_def RuleSetRefFinalizer_def)
  ultimately show ?thesis unfolding w' snd_conv unlocked_def by auto
qed

definition one_refs :: "uobj option ref_client" where
  "one_refs =
     \<lparr> rc_Get = (\<lambda>gvk ns name w. case w of None \<Rightarrow> ApiNotFound | Some x \<Rightarrow> ApiOk x),
       rc_List = (\<lambda>gvk sel w. ApiOk []), rc_GetNamespace = (\<lambda>ns w. ApiOk []),
       rc_Update = (\<lambda>x w. case one_update x w of (ok, w') \<Rightarrow> (if ok then ApiOk x else ApiConflict, w')),
       rc_AsSelector = (\<lambda>ls. None),
       rc_AddFinalizer = (\<lambda>x f. (f \<notin> set (uo_Finalizers x), x\<lparr> uo_Finalizers := List.insert f (uo_Finalizers x) \<rparr>)) \<rparr>"

lemma one_refs_ok: "update_keeps_status one_refs one_lock"
  by (auto simp: update_keeps_status_def one_refs_def one_update_def stored_refs_def one_lock_def lock_of_def fun_eq_iff
      split: option.splits if_splits)

text \<open>A stored SecRule without back references, as the lock of a run finds and leaves it.\<close>

definition free_rule :: uobj where
  "free_rule = (demo_uobj (demo_secrule ''a'' 7 ''x''))\<lparr> uo_Finalizers := [''f''] \<rparr>"

lemma free_rule_simps: "seclangBackRefs free_rule = []" "uo_Kind free_rule = ''SecRule''" "uo_Namespace free_rule = ''a''"
  "uo_Finalizers free_rule = [''f'']" "\<exists>sr. uo_Payload free_rule = PSecRule sr \<and> st_RuleSetRefs (sr_Status sr) = []"
  by (simp_all add: free_rule_def seclangBackRefs_def demo_uobj_def demo_secrule_def)

lemma free_rule_run:
  "\<exists>r. AddUpdateReconcile 1 one_refs [demo_ref ''SecRule'' ''r''] demo_source (Some free_rule) =
     Some (r, Some (free_rule\<lparr> uo_Finalizers := [RuleSetRefFinalizer, ''f''] \<rparr>))"
proof -
  obtain sr where sr: "uo_Payload free_rule = PSecRule sr" "st_RuleSetRefs (sr_Status sr) = []" using free_rule_simps(5) by blast
  have key: "uo_key free_rule = (''SecRule'', ''a'', uo_Name free_rule)" by (simp add: uo_key_def free_rule_simps)
  show ?thesis
    by (simp add: AddUpdateReconcile_def lookupRef_def applyRuleRefDefaults_def getDynamicObjects_def one_refs_def demo_ref_def
        demo_source_def Let_def allowedObject_def free_rule_simps lock_if_def lockObject_def add_back_ref_def sr AddRuleSetRef_def
        one_update_def uo_key_def RuleSetRefFinalizer_def)
qed

theorem back_refs_never_stored_witness:
  "\<exists>r w'. AddUpdateReconcile 1 one_refs [demo_ref ''SecRule'' ''r''] demo_source (Some free_rule) = Some (r, w') \<and>
     w' = Some (free_rule\<lparr> uo_Finalizers := [RuleSetRefFinalizer, ''f''] \<rparr>) \<and>
     (\<forall>wc. MapSecLangToWAFs id wc (free_rule\<lparr> uo_Finalizers := [RuleSetRefFinalizer, ''f''] \<rparr>) w' = []) \<and>
     (\<forall>w''. CleanupBackReferences one_client ''WAF'' ''w'' ''a'' w' = (None, w'') \<longrightarrow> w'' = w')"
proof -
  let ?x = "free_rule\<lparr> uo_Finalizers := [RuleSetRefFinalizer, ''f''] \<rparr>"
  obtain r where r: "AddUpdateReconcile 1 one_refs [demo_ref ''SecRule'' ''r''] demo_source (Some free_rule) = Some (r, Some ?x)"
    using free_rule_run by blast
  have free: "\<forall>key l. one_lock (Some free_rule) key = Some l \<longrightarrow> fst l = []"
    by (auto simp: one_lock_def lock_of_def free_rule_simps split: if_splits)
  have items: "bc_List one_client ''SecRule'' (Some ?x) = BackItems [?x]" by (simp add: one_client_def free_rule_simps)
  note never = back_refs_never_stored [OF one_client_ok one_refs_ok, OF free r]
  have "MapSecLangToWAFs id wc ?x (Some ?x) = []" for wc
    using never [THEN conjunct1, rule_format, OF items, of ?x] by simp
  moreover have "w'' = Some ?x" if "CleanupBackReferences one_client ''WAF'' ''w'' ''a'' (Some ?x) = (None, w'')" for w''
    using never [THEN conjunct2, rule_format, OF that] .
  ultimately show ?thesis using r by blast
qed

text \<open>A WAF that names a RuleSet, which names a RuleSet, which names a RuleSet.\<close>

definition nested_waf :: WAF where
  "nested_waf = (demo_waf ''a'' ''w'' ProviderIstio None)
     \<lparr> waf_Spec := (waf_Spec (demo_waf ''a'' ''w'' ProviderIstio None))\<lparr> ws_RuleSetRefs := [demo_ref [] ''outer''] \<rparr> \<rparr>"

definition nested_sets :: "uobj list" where
  "nested_sets = [demo_rs ''outer'' [demo_ref [] ''mid''], demo_rs ''mid'' [demo_ref [] ''inner''], demo_rs ''inner'' []]"

definition nested_watch :: "unit watch_client" where
  "nested_watch =
     \<lparr> wc_WAFsByRef = (\<lambda>key w. Some (filter (\<lambda>x. key \<in> set (IndexWAFRuleRefs x)) [nested_waf])),
       wc_WAFs = (\<lambda>w. None), wc_WAFsIn = (\<lambda>ns w. None),
       wc_RuleSetsByRef = (\<lambda>key w. Some (filter (\<lambda>x. key \<in> set (IndexRuleSetRuleRefs x)) nested_sets)) \<rparr>"

lemmas nested = nested_waf_def nested_sets_def demo_waf_def demo_rs_def demo_ref_def as_RuleSet_def waf_names_def
  ruleset_names_def names_ruleset_def ref_kind_def ref_ns_def

lemma nested_ok: "index_ok nested_watch [nested_waf] nested_sets ()"
  by (simp add: index_ok_def nested_watch_def plain_refs_def slash_free_def nested)

theorem watch_exact_witness:
  "set (MapRuleSetToWAFs id nested_watch (nested_sets ! 1) ()) = {(''a'', ''w'')} \<and>
   set (MapRuleSetToWAFs id nested_watch (nested_sets ! 2) ()) = {}"
proof -
  have "as_RuleSet (nested_sets ! 1) \<noteq> None" "as_RuleSet (nested_sets ! 2) \<noteq> None" by (simp_all add: nested)
  then obtain s t where s: "as_RuleSet (nested_sets ! 1) = Some s" "as_RuleSet (nested_sets ! 2) = Some t" by blast
  have m: "nested_sets ! 1 \<in> set nested_sets" "nested_sets ! 2 \<in> set nested_sets" by (simp_all add: nested_sets_def)
  show ?thesis
    using watch_exact [OF nested_ok _ m(1) s(1), of id] watch_exact [OF nested_ok _ m(2) s(2), of id]
    by (simp add: waf_request_def nested)
qed

end
