(* ===== verification/WafReconcileThms.thy ===== *)
theory WafReconcileThms
  imports WafReconcile BackRefsThms SlotThms PipelineThms
begin

text \<open>
  What a reconciliation of a WAF promises: the size of the status it writes, that a ready WAF is served
  and attached, that a deleted WAF keeps its finalizer until nothing of it is left, and what a failed
  reference leaves behind.
\<close>

section \<open>The size of the status\<close>

lemma last_newline_Some:
  assumes "last_newline s = Some i"
  shows "i < length s \<and> s ! i = newline \<and> newline \<notin> set (drop (Suc i) s)"
proof -
  let ?tail = "takeWhile (\<lambda>c. c \<noteq> newline) (rev s)"
  have lt: "length ?tail \<noteq> length s" and i: "i = length s - length ?tail - 1"
    using assms by (auto simp: last_newline_def Let_def split: if_splits)
  have len: "length ?tail < length (rev s)" using lt length_takeWhile_le [of "\<lambda>c. c \<noteq> newline" "rev s"] by simp
  have "rev s ! length ?tail = newline" using nth_length_takeWhile [OF len] by simp
  then have "s ! i = newline" using len i by (simp add: rev_nth)
  moreover have "drop (Suc i) s = rev ?tail"
  proof -
    have "?tail = take (length ?tail) (rev s)" by (metis takeWhile_eq_take)
    then have "rev ?tail = drop (length s - length ?tail) s" by (metis rev_rev_ident rev_take length_rev)
    then show ?thesis using i len by (simp add: Suc_diff_Suc)
  qed
  moreover have "newline \<notin> set (rev ?tail)" by (auto dest: set_takeWhileD)
  ultimately show ?thesis using i len by simp
qed

lemma last_newline_None:
  assumes "last_newline s = None"
  shows "newline \<notin> set s"
proof -
  let ?tail = "takeWhile (\<lambda>c. c \<noteq> newline) (rev s)"
  have "length ?tail = length (rev s)" using assms by (simp add: last_newline_def Let_def split: if_splits)
  then have "?tail = rev s" using takeWhile_eq_take [of "\<lambda>c. c \<noteq> newline" "rev s"] by simp
  then have "\<forall>c \<in> set (rev s). c \<noteq> newline" by (simp only: takeWhile_eq_all_conv)
  then show ?thesis by auto
qed

text \<open>Where a text of more than \<open>m\<close> bytes is cut: at the last newline of its second half, if it has one.\<close>

definition cut_at :: "nat \<Rightarrow> string \<Rightarrow> nat \<Rightarrow> bool" where
  "cut_at m full k \<longleftrightarrow>
     m div 2 < k \<and> k \<le> m \<and>
     (full ! k = newline \<or> k = m \<and> newline \<notin> set (drop (Suc (m div 2)) (take m full)))"

lemma cut_found:
  assumes "m < length full" and "0 < m"
  shows "cut_at m full (case last_newline (take m full) of None \<Rightarrow> m | Some i \<Rightarrow> if i > m div 2 then i else m)"
proof (cases "last_newline (take m full)")
  case None
  then show ?thesis using last_newline_None [OF None] assms(2) by (auto simp: cut_at_def dest: in_set_dropD)
next
  case (Some i)
  note i = last_newline_Some [OF Some]
  show ?thesis
  proof (cases "i > m div 2")
    case True
    then show ?thesis using Some i assms by (auto simp: cut_at_def)
  next
    case False
    then have "set (drop (Suc (m div 2)) (take m full)) \<subseteq> set (drop (Suc i) (take m full))"
      by (intro set_drop_subset_set_drop) simp
    with False Some i assms(2) show ?thesis by (auto simp: cut_at_def)
  qed
qed

lemma renderDirectivesForStatus_cases:
  assumes "renderDirectivesForStatus ds = (t, truncated)"
  shows "if truncated then \<exists>k. cut_at maxRenderedDirectivesBytes (join [newline] ds) k \<and> t = take k (join [newline] ds) @ truncation_marker
    else t = join [newline] ds \<and> length t \<le> maxRenderedDirectivesBytes"
proof (cases "ds = []")
  case True
  then show ?thesis using assms by (auto simp: renderDirectivesForStatus_def)
next
  case ne: False
  show ?thesis
  proof (cases "length (join [newline] ds) \<le> maxRenderedDirectivesBytes")
    case True
    then show ?thesis using ne assms by (auto simp: renderDirectivesForStatus_def)
  next
    case False
    have "0 < maxRenderedDirectivesBytes" by (simp add: maxRenderedDirectivesBytes_def)
    from cut_found [OF _ this, of "join [newline] ds"] False ne assms show ?thesis
      by (auto simp: renderDirectivesForStatus_def Let_def)
  qed
qed

lemma leafRuleRefs_cases:
  assumes "leafRuleRefs objects = (refs, omitted, truncated)" and "length objects < 2 ^ 31"
  shows "length refs \<le> 256 \<and> int (length refs) + omitted = int (length (filter is_lang objects)) \<and> truncated = (omitted > 0) \<and>
    sorted_wrt (\<lambda>a b. (rrs_Kind a, rrs_Namespace a, rrs_Name a) \<le> (rrs_Kind b, rrs_Namespace b, rrs_Name b)) refs"
proof -
  let ?key = "\<lambda>r. (rrs_Kind r, rrs_Namespace r, rrs_Name r)"
  let ?leaves = "sort_key ?key (map leaf_ref (filter is_lang objects))"
  have len: "length ?leaves = length (filter is_lang objects)" by simp
  have small: "length (filter is_lang objects) < 2 ^ 31" using assms(2) length_filter_le [of is_lang objects] by linarith
  have sorted: "sorted_wrt (\<lambda>a b. ?key a \<le> ?key b) ?leaves"
    using sorted_sort_key [of ?key "map leaf_ref (filter is_lang objects)"] by (simp add: sorted_map)
  show ?thesis
  proof (cases "length ?leaves > maxWAFRuleRefs")
    case True
    then have r: "refs = take 256 ?leaves" "omitted = to_int32 (int (length ?leaves - 256))" "truncated"
      using assms(1) by (auto simp: leafRuleRefs_def Let_def maxWAFRuleRefs_def)
    have "to_int32 (int (length ?leaves - 256)) = int (length ?leaves - 256)"
      using small len by (simp add: to_int32_def)
    with r True len sorted show ?thesis by (auto simp: maxWAFRuleRefs_def sorted_wrt_take)
  next
    case False
    then show ?thesis using assms(1) len sorted by (auto simp: leafRuleRefs_def Let_def maxWAFRuleRefs_def)
  qed
qed

text \<open>
  C7: The status of a published WAF is bounded: at most 65586 bytes of directives, cut at a line where the
  second half of the limit has one and then marked as cut, and at most 256 rule references, in order, with
  the number of those left out.
\<close>

theorem status_bounded:
  assumes "length (res_ResolvedObjects res) < 2 ^ 31"
    and st_def: "st = published_status tx res p ecds slotKind slotName x" and full_def: "full = join [newline] (pc_Directives p)"
  shows "length (wfs_RenderedDirectives st) \<le> 65586 \<and>
    (if wfs_RenderedDirectivesTruncated st
     then \<exists>k. cut_at 65536 full k \<and> wfs_RenderedDirectives st = take k full @ truncation_marker
     else wfs_RenderedDirectives st = full) \<and>
    length (wfs_RuleRefs st) \<le> 256 \<and>
    int (length (wfs_RuleRefs st)) + wfs_RuleRefsOmitted st = int (length (filter is_lang (res_ResolvedObjects res))) \<and>
    (wfs_RuleRefsTruncated st \<longleftrightarrow> wfs_RuleRefsOmitted st > 0)"
proof -
  obtain t b where t: "renderDirectivesForStatus (pc_Directives p) = (t, b)" by (cases "renderDirectivesForStatus (pc_Directives p)")
  obtain refs n c where r: "leafRuleRefs (res_ResolvedObjects res) = (refs, n, c)" by (metis prod_cases3)
  have st: "wfs_RenderedDirectives st = t" "wfs_RenderedDirectivesTruncated st = b" "wfs_RuleRefs st = refs"
    "wfs_RuleRefsOmitted st = n" "wfs_RuleRefsTruncated st = c"
    by (simp_all add: st_def published_status_def t r split_beta Let_def)
  have m: "maxRenderedDirectivesBytes = 65536" "length truncation_marker = 50"
    by (simp_all add: maxRenderedDirectivesBytes_def truncation_marker_def)
  note d = renderDirectivesForStatus_cases [OF t, unfolded m(1), folded full_def]
  have "length t \<le> 65586"
    using d m(2) by (auto simp: cut_at_def split: if_splits)
  then show ?thesis using d leafRuleRefs_cases [OF r assms(1)] unfolding st by (auto split: if_splits)
qed

section \<open>What an operation leaves alone\<close>

text \<open>An observation of the cluster that the deletes of slots, the writes of back references or those of WAFs keep.\<close>

definition keeps_slots :: "'w slot_client \<Rightarrow> ('w \<Rightarrow> 'b) \<Rightarrow> bool" where
  "keeps_slots c obs \<longleftrightarrow> (\<forall>kind n m w. obs (snd (sl_Delete c kind n m w)) = obs w)"

definition keeps_back :: "'w back_client \<Rightarrow> ('w \<Rightarrow> 'b) \<Rightarrow> bool" where
  "keeps_back c obs \<longleftrightarrow>
     (\<forall>obj w. obs (snd (bc_StatusUpdate c obj w)) = obs w) \<and> (\<forall>obj w. obs (snd (bc_Update c obj w)) = obs w)"

definition keeps_wafs :: "('x, 'w) obj_client \<Rightarrow> ('w \<Rightarrow> 'b) \<Rightarrow> bool" where
  "keeps_wafs c obs \<longleftrightarrow>
     (\<forall>x w. obs (snd (oc_Update c x w)) = obs w) \<and> (\<forall>x w. obs (snd (oc_StatusUpdate c x w)) = obs w)"

lemma slot_delete_keeps: "keeps_slots c obs \<Longrightarrow> obs (snd (slot_delete c kind n m w)) = obs w"
  by (auto simp: slot_delete_def keeps_slots_def split_beta)

lemma istio_delete_keeps:
  assumes "keeps_slots c obs"
  shows "obs (snd (DeleteEnvoyFilter c ns name w)) = obs w"
proof -
  have "obs (snd (MaybeDeleteOTelAccessLogEnvoyFilter c ns except w1)) = obs w1" for except w1
    using slot_delete_keeps [OF assms]
    by (auto simp: MaybeDeleteOTelAccessLogEnvoyFilter_def deleteAccessLogEnvoyFilter_def split: waf_list.split)
  then show ?thesis
    using slot_delete_keeps [OF assms, of EnvoyFilter ns "ResourceName name" w]
    by (auto simp: DeleteEnvoyFilter_def split: prod.splits option.splits)
qed

lemma cilium_delete_keeps: "keeps_slots c obs \<Longrightarrow> obs (snd (DeleteCiliumEnvoyConfig c ns name w)) = obs w"
  using slot_delete_keeps by (fastforce simp: DeleteCiliumEnvoyConfig_def)

lemma registry_delete_keeps:
  assumes "keeps_slots c obs" and "(t, q) \<in> set (NewRegistry c ip6)"
  shows "obs (fst (snd (sp_Delete q ns name s))) = obs (fst s)"
  using assms(2) istio_delete_keeps [OF assms(1)] cilium_delete_keeps [OF assms(1)]
  by (cases s) (auto simp: NewRegistry_def Register_def istioAdapter_def ciliumAdapter_def egAdapter_def split_beta)

lemma delete_slots_keeps:
  assumes "keeps_slots c obs"
  shows "set ps \<subseteq> set (NewRegistry c ip6) \<Longrightarrow> obs (fst (snd (delete_slots ps ns name s))) = obs (fst s)"
proof (induction ps arbitrary: s)
  case (Cons x ps)
  obtain t q where x: "x = (t, q)" by (cases x)
  have q: "obs (fst (snd (sp_Delete q ns name s))) = obs (fst s)"
    using registry_delete_keeps [OF assms, of t q ip6] Cons.prems x by simp
  show ?case
    using q Cons.IH [of "snd (sp_Delete q ns name s)"] Cons.prems by (auto simp: x split: prod.splits option.splits)
qed simp

lemma strip_keeps:
  assumes "keeps_back c obs"
  shows "obs (snd (strip_back_ref kind c obj k n ns w)) = obs w"
proof -
  have u: "obs w1 = obs w" if "bc_StatusUpdate c x w = (b, w1)" for x w w1 b
    using assms that unfolding keeps_back_def by (metis snd_conv)
  have v: "obs w1 = obs w" if "bc_Update c x w = (b, w1)" for x w w1 b
    using assms that unfolding keeps_back_def by (metis snd_conv)
  show ?thesis
    by (auto simp: strip_unfold split: prod.splits bool.splits api_result.splits dest!: u v)
qed

lemma strip_all_keeps:
  assumes "keeps_back c obs"
  shows "obs (snd (strip_all (\<lambda>obj. strip_back_ref kind c obj k n ns) objs w)) = obs w"
proof (induction objs arbitrary: w)
  case (Cons x objs)
  then show ?case using strip_keeps [OF assms, of kind x k n ns w] by (auto split: prod.splits option.splits)
qed simp

lemma cleanup_keeps:
  assumes "keeps_back c obs"
  shows "obs (snd (CleanupBackReferences c k n ns w)) = obs w"
proof -
  have "obs (snd (cleanup_kind c kind (\<lambda>obj. strip_back_ref kind c obj k n ns) w)) = obs w" for kind w
    using strip_all_keeps [OF assms] by (auto simp: cleanup_kind_def split: back_list.splits)
  then show ?thesis
    unfolding CleanupBackReferences_def stripSecRuleBackRef_def stripSecActionBackRef_def
    by (auto split: prod.splits option.splits) (metis snd_conv)+
qed

section \<open>Deletion\<close>

text \<open>
  Objects of different kinds are stored apart: slot objects, WAFs, and SecRules with SecActions; and an
  update of a WAF that fails leaves it as it was.
\<close>

definition stored_apart :: "('w, 'a, 'm, 'u) reconciler \<Rightarrow> 'w slot_view \<Rightarrow> 'w lock_view \<Rightarrow> bool" where
  "stored_apart r get locks \<longleftrightarrow>
     (\<forall>ns name. keeps_slots (rw_slots r) (oc_Get (rw_wafs r) ns name) \<and> keeps_back (rw_back r) (oc_Get (rw_wafs r) ns name)) \<and>
     (\<forall>k n m. keeps_back (rw_back r) (get k n m) \<and> keeps_wafs (rw_wafs r) (get k n m)) \<and>
     keeps_slots (rw_slots r) locks \<and> keeps_wafs (rw_wafs r) locks \<and>
     (\<forall>x w e w' ns name. oc_Update (rw_wafs r) x w = (e, w') \<longrightarrow> (\<forall>y. e \<noteq> ApiOk y) \<longrightarrow>
        oc_Get (rw_wafs r) ns name w' = oc_Get (rw_wafs r) ns name w)"

lemma slots_same_wafs:
  "(\<And>k n m. get k n m w' = get k n m w) \<Longrightarrow> slots get (w', eg) = slots get (w, eg)"
  by (simp add: slots_def fun_eq_iff)

lemma DeleteAll_slots:
  assumes "slot_store_ok c get" and "\<And>q. set (order q) = set q" and "slot_key_ok (ns, name)"
    and "DeleteAll order (NewRegistry c ip6) ns name s = (None, s')"
  shows "slots get s' (ns, name) = {} \<and> (snd s' = None \<longleftrightarrow> snd s = None)"
proof -
  have "lawful c (order (NewRegistry c ip6))" using NewRegistry_lawful [of c ip6] by (simp add: lawful_def assms(2))
  from delete_slots_view [OF assms(1,3,3) this] assms(4)
  have "slots get s' (ns, name) = slots get s (ns, name) - fst ` set (order (NewRegistry c ip6))" "snd s' = None \<longleftrightarrow> snd s = None"
    by (auto simp: DeleteAll_def)
  then show ?thesis using slots_three [of get s "(ns, name)"] unfolding assms(2) NewRegistry_types by blast
qed

text \<open>The steps of a deletion that ends well, and where a deletion that fails stops.\<close>

lemma reconcileDelete_cases:
  assumes "reconcileDelete r x s = (out, s')"
  defines "ns \<equiv> waf_Namespace (wo_WAF x)" and "name \<equiv> waf_Name (wo_WAF x)"
  defines "pubs \<equiv> DropLocal (rw_ecds r) (waf_Namespace (wo_WAF x)) (waf_Name (wo_WAF x)) (wst_Pubs s)"
  obtains e w eg where
      "DeleteAll (rw_order r) (slotRegistry r) ns name (wst_World s, pub_EGExtension pubs) = (Some e, w, eg)"
      "out \<noteq> WafDone" "wst_World s' = w"
  | e w eg w1 where
      "DeleteAll (rw_order r) (slotRegistry r) ns name (wst_World s, pub_EGExtension pubs) = (None, w, eg)"
      "CleanupBackReferences (rw_back r) (ownerKindOf (wo_Kind x) ''*v1beta1.WAF'') name ns w = (Some e, w1)"
      "out \<noteq> WafDone" "wst_World s' = w1"
  | w eg w1 where
      "DeleteAll (rw_order r) (slotRegistry r) ns name (wst_World s, pub_EGExtension pubs) = (None, w, eg)"
      "CleanupBackReferences (rw_back r) (ownerKindOf (wo_Kind x) ''*v1beta1.WAF'') name ns w = (None, w1)"
      "wst_Pubs s' = pubs\<lparr> pub_EGExtension := eg \<rparr>"
      "out = WafDone \<and> wst_World s' = w1 \<or>
       (\<exists>y a. oc_Update (rw_wafs r) y w1 = (a, wst_World s') \<and> (out = WafDone \<longleftrightarrow> (\<exists>z. a = ApiOk z)))"
proof -
  obtain e0 w eg where d: "DeleteAll (rw_order r) (slotRegistry r) ns name (wst_World s, pub_EGExtension pubs) = (e0, w, eg)"
    by (metis prod_cases3)
  show thesis
  proof (cases e0)
    case (Some e)
    with assms(1) d that(1) show thesis
      by (auto simp: reconcileDelete_def in_slots_def Let_def pubs_def ns_def name_def)
  next
    case None
    obtain e1 w1 where c: "CleanupBackReferences (rw_back r) (ownerKindOf (wo_Kind x) ''*v1beta1.WAF'') name ns w = (e1, w1)"
      by (metis surj_pair)
    show thesis
    proof (cases e1)
      case (Some e)
      with assms(1) d None c that(2) show thesis
        by (auto simp: reconcileDelete_def in_slots_def in_world_def Let_def pubs_def ns_def name_def)
    next
      case e1: None
      obtain b1 f1 where f1: "kl_RemoveFinalizer (rw_lib r) wafFinalizer (wo_Finalizers x) = (b1, f1)" by (metis surj_pair)
      obtain b2 f2 where f2: "kl_RemoveFinalizer (rw_lib r) Finalizer f1 = (b2, f2)" by (metis surj_pair)
      obtain a w2 where u: "oc_Update (rw_wafs r) (x\<lparr> wo_Finalizers := f2 \<rparr>) w1 = (a, w2)" by (metis surj_pair)
      note run = assms(1) [unfolded reconcileDelete_def in_slots_def in_world_def Let_def]
      have "wst_Pubs s' = pubs\<lparr> pub_EGExtension := eg \<rparr>"
        using run d None c e1 f1 f2 u by (auto simp: pubs_def ns_def name_def split: if_splits api_result.splits)
      moreover have "if b1 \<or> b2 then wst_World s' = w2 \<and> (out = WafDone \<longleftrightarrow> (\<exists>z. a = ApiOk z)) else out = WafDone \<and> wst_World s' = w1"
        using run d None c e1 f1 f2 u by (cases a) (auto simp: pubs_def ns_def name_def split: if_splits)
      ultimately show thesis
        using that(3) [OF d [unfolded None] c [unfolded e1]] u by (metis (no_types))
    qed
  qed
qed

lemma add_finalizer_same [simp]:
  "wo_WAF (snd (add_finalizer lib f x)) = wo_WAF x" "wo_Deleting (snd (add_finalizer lib f x)) = wo_Deleting x"
  "wo_UID (snd (add_finalizer lib f x)) = wo_UID x" "wo_Status (snd (add_finalizer lib f x)) = wo_Status x"
  "wo_Kind (snd (add_finalizer lib f x)) = wo_Kind x" "wo_Generation (snd (add_finalizer lib f x)) = wo_Generation x"
  by (simp_all add: add_finalizer_def split: prod.split)

lemma waf_Reconcile_found:
  assumes "oc_Get (rw_wafs r) ns name (wst_World s) = ApiOk x"
  defines "x1 \<equiv> snd (add_finalizer (rw_lib r) Finalizer x)"
  shows "waf_Reconcile r ns name s =
    (if wo_Deleting x then Some (reconcileDelete r x1 s)
     else if \<not> kl_ContainsFinalizer (rw_lib r) wafFinalizer (wo_Finalizers x1) then
       Some (case in_world (oc_Update (rw_wafs r) (snd (add_finalizer (rw_lib r) wafFinalizer x1))) s of
               (ApiOk y, s1) \<Rightarrow> (WafRequeue, s1)
             | (e, s1) \<Rightarrow> (WafError (UpdateFailed e), s1))
     else reconcile_live r ns name x1 s)"
  by (cases "add_finalizer (rw_lib r) Finalizer x")
    (use add_finalizer_same(2) [of "rw_lib r" Finalizer x] in \<open>simp add: waf_Reconcile_def InitHandler_def assms\<close>)

lemma stored_apart_keeps:
  assumes "stored_apart r get locks"
  shows "keeps_slots (rw_slots r) (oc_Get (rw_wafs r) ns name)" and "keeps_back (rw_back r) (oc_Get (rw_wafs r) ns name)"
    and "keeps_back (rw_back r) (get k n m)" and "keeps_wafs (rw_wafs r) (get k n m)"
    and "keeps_slots (rw_slots r) locks" and "keeps_wafs (rw_wafs r) locks"
  using assms unfolding stored_apart_def by blast+

lemma DeleteAll_keeps:
  assumes "keeps_slots (rw_slots r) obs" and "\<And>q. set (rw_order r q) = set q"
    and "DeleteAll (rw_order r) (slotRegistry r) ns name (w0, eg0) = (e, w, eg)"
  shows "obs w = obs w0"
proof -
  have "set (rw_order r (slotRegistry r)) \<subseteq> set (NewRegistry (rw_slots r) (ee_ip6 (rw_ecds r)))"
    by (simp add: assms(2) slotRegistry_def)
  from delete_slots_keeps [OF assms(1) this, of ns name "(w0, eg0)"] assms(3) show ?thesis by (simp add: DeleteAll_def)
qed

text \<open>
  C6: A WAF keeps its finalizers until nothing of it is left. A reconciliation of a deleted WAF that
  succeeds ends with no slot on any platform, no ECDS resource and no back reference to it; one that fails
  leaves the stored WAF unchanged, so that it is tried again.
\<close>

theorem finalizer_dropped_last:
  assumes store: "slot_store_ok (rw_slots r) get" "back_store_ok (rw_back r) locks" "stored_apart r get locks"
    and order: "\<And>q. set (rw_order r q) = set q" and lists: "\<And>kind w. \<exists>objs. bc_List (rw_back r) kind w = BackItems objs"
    and waf: "oc_Get (rw_wafs r) ns name (wst_World s) = ApiOk x" "wo_Deleting x" "waf_request (wo_WAF x) = (ns, name)"
    and key: "slot_key_ok (ns, name)" and ecds: "pub_ECDS (wst_Pubs s) = Some srv" "pub_EGExtension (wst_Pubs s) = Some idx"
    and run: "waf_Reconcile r ns name s = Some (out, s')"
  shows "if out = WafDone
    then slots get (wst_World s', pub_EGExtension (wst_Pubs s')) (ns, name) = {} \<and>
         (\<exists>srv'. pub_ECDS (wst_Pubs s') = Some srv' \<and> waf_resources srv' (ns, name) = Map.empty) \<and>
         (\<forall>kind ons n l. kind \<in> {''SecRule'', ''SecAction''} \<longrightarrow> locks (wst_World s) (kind, ons, n) = Some l \<longrightarrow>
            unlocked (ownerKindOf (wo_Kind x) ''*v1beta1.WAF'') name ns l (locks (wst_World s') (kind, ons, n)))
    else oc_Get (rw_wafs r) ns name (wst_World s') = ApiOk x"
proof -
  let ?x = "snd (add_finalizer (rw_lib r) Finalizer x)"
  let ?reg = "slotRegistry r" and ?owner = "ownerKindOf (wo_Kind x) ''*v1beta1.WAF''"
  have n: "waf_Namespace (wo_WAF x) = ns" "waf_Name (wo_WAF x) = name" using waf(3) by (simp_all add: waf_request_def)
  have del: "reconcileDelete r ?x s = (out, s')" using run waf(2) by (simp add: waf_Reconcile_found [OF waf(1)])
  define pubs where "pubs = DropLocal (rw_ecds r) ns name (wst_Pubs s)"
  have kw: "waf_key_ok (ns, name)" using key by (simp add: slot_key_ok_def)
  note gk = stored_apart_keeps(1,2) [OF store(3), of ns name] stored_apart_keeps(3-6) [OF store(3)]
  have same: "oc_Get (rw_wafs r) ns name w = ApiOk x" "locks w = locks (wst_World s)"
    if "DeleteAll (rw_order r) ?reg ns name (wst_World s, eg0) = (e, w, eg)" for e w eg eg0
    using DeleteAll_keeps [OF gk(1) order that] DeleteAll_keeps [OF gk(5) order that] waf(1) by simp_all
  from del show ?thesis
  proof (cases rule: reconcileDelete_cases)
    case (1 e w eg)
    then show ?thesis using same(1) by (simp add: n pubs_def [symmetric])
  next
    case (2 e w eg w1)
    then show ?thesis using same(1) cleanup_keeps [OF gk(2), of ?owner name ns w] by (simp add: n)
  next
    case (3 w eg w1)
    note d = 3(1) [simplified n add_finalizer_same, folded pubs_def]
      and c = 3(2) [simplified n add_finalizer_same] and p = 3(3) [simplified n add_finalizer_same, folded pubs_def]
    obtain srv' idx' where pubs: "pubs = \<lparr> pub_ECDS = Some srv', pub_EGExtension = Some idx' \<rparr>"
      "waf_resources srv' (ns, name) = Map.empty"
      using DropLocal_view [OF ecds kw, of "rw_ecds r"] kw by (auto simp: pubs_def)
    have sl: "slots get (w, eg) (ns, name) = {}"
      using DeleteAll_slots [OF store(1) order key d [unfolded slotRegistry_def]] by simp
    have w1: "oc_Get (rw_wafs r) ns name w1 = ApiOk x" "get k n m w1 = get k n m w" for k n m
      using same(1) [OF d] cleanup_keeps [OF gk(2), of ?owner name ns w] cleanup_keeps [OF gk(3), of k n m ?owner name ns w] c by simp_all
    have u: "unlocked ?owner name ns l (locks w1 (kind, ons, n))"
      if "kind \<in> {''SecRule'', ''SecAction''}" "locks (wst_World s) (kind, ons, n) = Some l" for kind ons n l
      using cleanup_view [OF store(2) c lists, of kind ons n l] that same(2) [OF d] by auto
    have s': "get k n m (wst_World s') = get k n m w1" "locks (wst_World s') = locks w1" for k n m
      using 3(4) gk(4,6) unfolding keeps_wafs_def by (metis snd_conv)+
    have "slots get (wst_World s', eg) = slots get (w, eg)" by (rule slots_same_wafs) (simp add: s' w1)
    moreover have "oc_Get (rw_wafs r) ns name (wst_World s') = ApiOk x" if "out \<noteq> WafDone"
      using 3(4) that store(3) w1(1) unfolding stored_apart_def by metis
    ultimately show ?thesis using pubs p sl u s' by auto
  qed
qed

section \<open>A ready WAF\<close>

definition find_condition :: "string \<Rightarrow> WAFObject \<Rightarrow> MetaCondition option" where
  "find_condition t x = find (\<lambda>c. cn_Type c = t) (wfs_Conditions (wo_Status x))"

text \<open>
  The documented behaviour of \<open>meta.SetStatusCondition\<close>: the condition of that type is the given one,
  the others stay, and without a change all do.
\<close>

definition conditions_ok :: "kube_lib \<Rightarrow> bool" where
  "conditions_ok lib \<longleftrightarrow>
     (\<forall>c conds. find (\<lambda>d. cn_Type d = cn_Type c) (snd (kl_SetStatusCondition lib c conds)) = Some c \<and>
        (\<forall>t. t \<noteq> cn_Type c \<longrightarrow>
           find (\<lambda>d. cn_Type d = t) (snd (kl_SetStatusCondition lib c conds)) = find (\<lambda>d. cn_Type d = t) conds) \<and>
        (\<not> fst (kl_SetStatusCondition lib c conds) \<longrightarrow> snd (kl_SetStatusCondition lib c conds) = conds))"

text \<open>The documented behaviour of the typed client: reads by name, and a status update that succeeds is stored.\<close>

definition waf_store_ok :: "(WAFObject, 'w) obj_client \<Rightarrow> bool" where
  "waf_store_ok c \<longleftrightarrow>
     (\<forall>ns name w x. oc_Get c ns name w = ApiOk x \<longrightarrow> object_request x = (ns, name)) \<and>
     (\<forall>x w y w'. oc_StatusUpdate c x w = (ApiOk y, w') \<longrightarrow>
        wo_Status y = wo_Status x \<and> oc_Get c (fst (object_request x)) (snd (object_request x)) w' = ApiOk y) \<and>
     (\<forall>x w a w' ns name. oc_StatusUpdate c x w = (a, w') \<longrightarrow> (\<forall>y. a \<noteq> ApiOk y) \<longrightarrow> oc_Get c ns name w' = oc_Get c ns name w)"

lemma set_condition_same [simp]:
  "wo_WAF (snd (set_condition lib t ok reason msg x)) = wo_WAF x"
  "wo_Generation (snd (set_condition lib t ok reason msg x)) = wo_Generation x"
  "wfs_ECDSVersion (wo_Status (snd (set_condition lib t ok reason msg x))) = wfs_ECDSVersion (wo_Status x)"
  "wfs_Provider (wo_Status (snd (set_condition lib t ok reason msg x))) = wfs_Provider (wo_Status x)"
  "wfs_SlotKind (wo_Status (snd (set_condition lib t ok reason msg x))) = wfs_SlotKind (wo_Status x)"
  "wfs_SlotName (wo_Status (snd (set_condition lib t ok reason msg x))) = wfs_SlotName (wo_Status x)"
  by (simp_all add: set_condition_def split: prod.split)

lemma set_condition_found:
  assumes "conditions_ok lib"
  shows "find_condition t (snd (set_condition lib t ok reason msg x)) =
      Some \<lparr> cn_Type = t, cn_Status = ok, cn_Reason = reason, cn_Message = msg, cn_ObservedGeneration = wo_Generation x \<rparr>"
    and "t' \<noteq> t \<Longrightarrow> find_condition t' (snd (set_condition lib t ok reason msg x)) = find_condition t' x"
proof -
  let ?c = "\<lparr> cn_Type = t, cn_Status = ok, cn_Reason = reason, cn_Message = msg, cn_ObservedGeneration = wo_Generation x \<rparr>"
  note law = assms [unfolded conditions_ok_def, rule_format, of ?c "wfs_Conditions (wo_Status x)"]
  show "find_condition t (snd (set_condition lib t ok reason msg x)) = Some ?c"
    using law by (simp add: find_condition_def set_condition_def split_beta)
  show "find_condition t' (snd (set_condition lib t ok reason msg x)) = find_condition t' x" if "t' \<noteq> t"
    using law that by (simp add: find_condition_def set_condition_def split_beta)
qed

lemma later_status [simp]:
  "wo_WAF (phrase_file_status lib tx files x) = wo_WAF x"
  "wfs_ECDSVersion (wo_Status (phrase_file_status lib tx files x)) = wfs_ECDSVersion (wo_Status x)"
  "wfs_Provider (wo_Status (phrase_file_status lib tx files x)) = wfs_Provider (wo_Status x)"
  "wfs_SlotKind (wo_Status (phrase_file_status lib tx files x)) = wfs_SlotKind (wo_Status x)"
  "wfs_SlotName (wo_Status (phrase_file_status lib tx files x)) = wfs_SlotName (wo_Status x)"
  "wo_WAF (applyTelemetrySink lib env cms w x) = wo_WAF x"
  "wfs_ECDSVersion (wo_Status (applyTelemetrySink lib env cms w x)) = wfs_ECDSVersion (wo_Status x)"
  "wfs_Provider (wo_Status (applyTelemetrySink lib env cms w x)) = wfs_Provider (wo_Status x)"
  "wfs_SlotKind (wo_Status (applyTelemetrySink lib env cms w x)) = wfs_SlotKind (wo_Status x)"
  "wfs_SlotName (wo_Status (applyTelemetrySink lib env cms w x)) = wfs_SlotName (wo_Status x)"
  by (simp_all add: phrase_file_status_def applyTelemetrySink_def Let_def split: option.split prod.split)

lemma published_status_fields:
  "wfs_ECDSVersion (published_status tx res p (Some srv) k n x) = es_version srv"
  "wfs_Provider (published_status tx res p e k n x) = pc_Provider p"
  "wfs_SlotKind (published_status tx res p e k n x) = k"
  "wfs_SlotName (published_status tx res p e k n x) = n"
  by (simp_all add: published_status_def split_beta Let_def)

text \<open>What the stored WAF shows after a run that published \<open>p\<close> from the server \<open>srv\<close>.\<close>

definition shows_ready :: "WAFObject \<Rightarrow> PortableConfig \<Rightarrow> ecds_server \<Rightarrow> string \<Rightarrow> string \<Rightarrow> bool" where
  "shows_ready x p srv slotKind slotName \<longleftrightarrow>
     (\<exists>c. find_condition ''Ready'' x = Some c \<and> cn_Status c) \<and> wfs_ECDSVersion (wo_Status x) = es_version srv \<and>
     wfs_Provider (wo_Status x) = pc_Provider p \<and> wfs_SlotKind (wo_Status x) = slotKind \<and> wfs_SlotName (wo_Status x) = slotName"

lemma write_ready_done:
  assumes "write_ready r res p slotKind slotName x s = (WafDone, s')" and "conditions_ok (rw_lib r)"
    and "waf_store_ok (rw_wafs r)" and "pub_ECDS (wst_Pubs s) = Some srv"
  shows "\<exists>y z. oc_StatusUpdate (rw_wafs r) y (wst_World s) = (ApiOk z, wst_World s') \<and> wst_Pubs s' = wst_Pubs s \<and>
    oc_Get (rw_wafs r) (fst (object_request x)) (snd (object_request x)) (wst_World s') = ApiOk z \<and>
    shows_ready z p srv slotKind slotName"
proof -
  define x3 where "x3 = phrase_file_status (rw_lib r) (rw_texts r) (res_PhraseFiles res)
    (applyTelemetrySink (rw_lib r) (rw_getenv r) (rw_config_maps r) (wst_World s)
      (x\<lparr> wo_Status := published_status (rw_texts r) res p (pub_ECDS (wst_Pubs s)) slotKind slotName x \<rparr>))"
  define y where "y = snd (set_condition (rw_lib r) ''Ready'' True ''Ready'' (ready_message (rw_texts r) res p (wfs_Mode (wo_Status x3)) slotKind) x3)"
  obtain a w' where u: "oc_StatusUpdate (rw_wafs r) y (wst_World s) = (a, w')" by (metis surj_pair)
  have run: "write_ready r res p slotKind slotName x s =
      (case in_world (oc_StatusUpdate (rw_wafs r) y) s of
         (ApiOk x5, s1) \<Rightarrow>
           (let k = object_request x5; s2 = eventf r x5 ''Normal'' ''Ready'' (ready_message (rw_texts r) res p (wfs_Mode (wo_Status x3)) slotKind) s1 in
            (WafDone,
             s2\<lparr> wst_WAFReady := (wst_WAFReady s2)(k \<mapsto> 1),
                 wst_WAFCRSEnabled := (wst_WAFCRSEnabled s2)(k \<mapsto> if ws_CRSEnable (waf_Spec (wo_WAF x5)) then 1 else 0),
                 wst_RulesLoaded := (wst_RulesLoaded s2)(k \<mapsto> int (fst (CountSecLangObjects (res_ResolvedObjects res)))) \<rparr>))
       | (e, s1) \<Rightarrow> (WafError (StatusFailed e), s1))"
    by (simp only: write_ready_def Let_def x3_def y_def)
  obtain z where z: "a = ApiOk z" "wst_World s' = w'" "wst_Pubs s' = wst_Pubs s"
    using assms(1) u unfolding run by (cases a) (auto simp: in_world_def Let_def eventf_def split: if_splits)
  have law: "wo_Status z = wo_Status y" "oc_Get (rw_wafs r) (fst (object_request y)) (snd (object_request y)) w' = ApiOk z"
    using assms(3) u z(1) unfolding waf_store_ok_def by blast+
  have "object_request y = object_request x" by (simp add: object_request_def y_def x3_def)
  moreover have "shows_ready y p srv slotKind slotName"
    using set_condition_found(1) [OF assms(2)] by (simp add: shows_ready_def y_def x3_def published_status_fields assms(4))
  then have "shows_ready z p srv slotKind slotName" by (simp add: shows_ready_def find_condition_def law(1))
  ultimately show ?thesis using u z law(2) by auto
qed

lemma not_ready_not_done [simp]: "not_ready r x reason msg s \<noteq> (WafDone, s')"
  by (simp add: not_ready_def split: prod.split)

lemma publish_and_attach_done:
  assumes "publish_and_attach r ns name res x s = (WafDone, s')" and "res_Portable res = Some p"
  obtains srv srv' w eg slotKind slotName y where
    "pub_ECDS (wst_Pubs s) = Some srv" "Upsert (ee_ip6 (rw_ecds r)) (ee_accept (rw_ecds r)) p srv = (None, srv')"
    "EnsureDesired (rw_order r) (slotRegistry r) (Some (slot_owner_of x)) p
       (wst_World s, map_option (eg_Upsert p) (pub_EGExtension (wst_Pubs s))) = (Inr (slotKind, slotName), w, eg)"
    "oc_Get (rw_wafs r) ns name w = ApiOk y"
    "write_ready r res p slotKind slotName y
       (s\<lparr> wst_World := w, wst_Pubs := \<lparr> pub_ECDS = Some srv', pub_EGExtension = eg \<rparr> \<rparr>) = (WafDone, s')"
proof -
  obtain a pubs where pub: "Publish (rw_ecds r) (Some p) (waf_options (rw_BuildOpts r)) (wst_Pubs s) = (a, pubs)" by (metis surj_pair)
  have a: "a = None"
    using assms pub by (cases a) (auto simp: publish_and_attach_def split: prod.splits)
  obtain srv srv' where srv: "pub_ECDS (wst_Pubs s) = Some srv"
      "Upsert (ee_ip6 (rw_ecds r)) (ee_accept (rw_ecds r)) p srv = (None, srv')"
      "pubs = \<lparr> pub_ECDS = Some srv', pub_EGExtension = map_option (eg_Upsert p) (pub_EGExtension (wst_Pubs s)) \<rparr>"
    using pub [unfolded a] by (auto simp: Publish_def waf_options_def publish_eg_def split: option.splits prod.splits)
  obtain e w eg where e: "EnsureDesired (rw_order r) (slotRegistry r) (Some (slot_owner_of x)) p
      (wst_World s, map_option (eg_Upsert p) (pub_EGExtension (wst_Pubs s))) = (e, w, eg)" by (metis prod_cases3)
  have run: "(case ensure_slot r x (Some p) (s\<lparr> wst_Pubs := pubs \<rparr>) of
       (Inl e, s1) \<Rightarrow> not_ready r x ''SlotFailed'' (tx_slot (rw_texts r) e) s1
     | (Inr (p, slotKind, slotName), s1) \<Rightarrow>
         (case oc_Get (rw_wafs r) ns name (wst_World s1) of
            ApiOk y \<Rightarrow> write_ready r res p slotKind slotName y s1
          | e \<Rightarrow> (WafError (GetFailed e), s1))) = (WafDone, s')"
    using assms pub a by (simp add: publish_and_attach_def)
  obtain slotKind slotName where k: "e = Inr (slotKind, slotName)"
    using run e by (cases e) (auto simp: ensure_slot_def in_slots_def srv(3))
  obtain y where y: "oc_Get (rw_wafs r) ns name w = ApiOk y"
    using run e k by (cases "oc_Get (rw_wafs r) ns name w") (auto simp: ensure_slot_def in_slots_def srv(3))
  have "write_ready r res p slotKind slotName y
      (s\<lparr> wst_World := w, wst_Pubs := \<lparr> pub_ECDS = Some srv', pub_EGExtension = eg \<rparr> \<rparr>) = (WafDone, s')"
    using run e k y by (simp add: ensure_slot_def in_slots_def srv(3))
  from that [OF srv(1,2) e [unfolded k] y this] show thesis .
qed

lemma reconcile_live_done:
  assumes "reconcile_live r ns name x s = Some (WafDone, s')"
    and "Build (rw_cluster r) (wo_UID x) (wo_WAF x) (waf_options (rw_BuildOpts r)) (wst_World s) = Some (Inr res, w1)"
    and "res_ReferenceErrors res = []"
  obtains y s1 where "publish_and_attach r ns name res y s1 = (WafDone, s')" "wst_Pubs s1 = wst_Pubs s"
proof -
  obtain b y where b: "references_condition r [] x = (b, y)" by (metis surj_pair)
  show thesis
  proof (cases b)
    case False
    with assms b that show thesis by (auto simp: reconcile_live_def)
  next
    case True
    obtain a w2 where u: "oc_StatusUpdate (rw_wafs r) y w1 = (a, w2)" by (metis surj_pair)
    with assms b True that show thesis by (cases a) (auto simp: reconcile_live_def in_world_def)
  qed
qed


section \<open>A failed reference\<close>

text \<open>
  C8: A failed reference ends the run before anything is published and leaves the Ready condition of the
  stored WAF and its gauge as they were, without an error and so without a retry.
\<close>

theorem failed_reference_keeps_ready:
  assumes lib: "conditions_ok (rw_lib r)" and store: "waf_store_ok (rw_wafs r)"
    and waf: "oc_Get (rw_wafs r) ns name (wst_World s) = ApiOk x" "\<not> wo_Deleting x"
      "kl_ContainsFinalizer (rw_lib r) wafFinalizer (wo_Finalizers (snd (add_finalizer (rw_lib r) Finalizer x)))"
    and build: "Build (rw_cluster r) (wo_UID x) (wo_WAF x) (waf_options (rw_BuildOpts r)) (wst_World s) = Some (Inr res, w1)"
      "res_ReferenceErrors res \<noteq> []" "oc_Get (rw_wafs r) ns name w1 = ApiOk x"
  shows "\<exists>s' z. waf_Reconcile r ns name s = Some (WafDone, s') \<and> wst_Pubs s' = wst_Pubs s \<and> wst_WAFReady s' = wst_WAFReady s \<and>
    oc_Get (rw_wafs r) ns name (wst_World s') = ApiOk z \<and> find_condition ''Ready'' z = find_condition ''Ready'' x"
proof -
  let ?x = "snd (add_finalizer (rw_lib r) Finalizer x)" and ?errs = "res_ReferenceErrors res"
  obtain b y where y: "references_condition r ?errs ?x = (b, y)" by (metis surj_pair)
  have y': "y = snd (references_condition r ?errs ?x)" by (simp add: y)
  have ready: "find_condition ''Ready'' y = find_condition ''Ready'' x"
    unfolding y' references_condition_def using set_condition_found(2) [OF lib] by (simp add: find_condition_def)
  have req: "object_request y = (ns, name)"
    using store waf(1) unfolding waf_store_ok_def y' references_condition_def by (simp add: object_request_def)
  obtain a w2 where u: "oc_StatusUpdate (rw_wafs r) y w1 = (a, w2)" by (metis surj_pair)
  have run: "waf_Reconcile r ns name s = Some (WafDone, s\<lparr> wst_World := if b then w2 else w1 \<rparr>)"
    using waf build(1,2) y u
    by (simp add: waf_Reconcile_found [OF waf(1)] reconcile_live_def references_failed_def in_world_def)
  have "\<exists>z. oc_Get (rw_wafs r) ns name (if b then w2 else w1) = ApiOk z \<and> find_condition ''Ready'' z = find_condition ''Ready'' x"
  proof (cases "b \<and> (\<exists>z. a = ApiOk z)")
    case True
    then obtain z where "a = ApiOk z" by blast
    then have "wo_Status z = wo_Status y" "oc_Get (rw_wafs r) ns name w2 = ApiOk z"
      using store u req unfolding waf_store_ok_def by fastforce+
    with ready True show ?thesis by (simp add: find_condition_def)
  next
    case False
    then have "b \<Longrightarrow> oc_Get (rw_wafs r) ns name w2 = oc_Get (rw_wafs r) ns name w1"
      using store u unfolding waf_store_ok_def by blast
    with build(3) show ?thesis by auto
  qed
  with run show ?thesis by auto
qed

section \<open>The theorems at concrete inputs\<close>

text \<open>A cluster with slot objects and at most one WAF, and without rules.\<close>

record op_world =
  ow_Slots :: demo_world
  ow_WAF :: "WAFObject option"

definition op_slots :: "op_world slot_client" where
  "op_slots =
     \<lparr> sl_CreateOrUpdate = (\<lambda>kind ns name f w.
         (True, w\<lparr> ow_Slots := demo_put kind ns name
            (Some (f (case ow_Slots w kind ns name of None \<Rightarrow> empty_object | Some x \<Rightarrow> x))) (ow_Slots w) \<rparr>)),
       sl_Delete = (\<lambda>kind ns name w. (Deleted, w\<lparr> ow_Slots := demo_put kind ns name None (ow_Slots w) \<rparr>)),
       sl_ListWAFs = (\<lambda>ns w. WafList []),
       sl_LookupIP = (\<lambda>h w. None) \<rparr>"

abbreviation op_get :: "op_world slot_view" where
  "op_get \<equiv> (\<lambda>k n m w. ow_Slots w k n m)"

definition op_wafs :: "(WAFObject, op_world) obj_client" where
  "op_wafs =
     \<lparr> oc_Get = (\<lambda>ns name w.
         case ow_WAF w of None \<Rightarrow> ApiNotFound | Some x \<Rightarrow> if object_request x = (ns, name) then ApiOk x else ApiNotFound),
       oc_Update = (\<lambda>x w.
         case ow_WAF w of
           None \<Rightarrow> (ApiNotFound, w)
         | Some y \<Rightarrow> if object_request y = object_request x then (ApiOk x, w\<lparr> ow_WAF := Some x \<rparr>) else (ApiNotFound, w)),
       oc_StatusUpdate = (\<lambda>x w.
         case ow_WAF w of
           None \<Rightarrow> (ApiNotFound, w)
         | Some y \<Rightarrow>
             if object_request y = object_request x
             then (ApiOk (y\<lparr> wo_Status := wo_Status x \<rparr>), w\<lparr> ow_WAF := Some (y\<lparr> wo_Status := wo_Status x \<rparr>) \<rparr>)
             else (ApiNotFound, w)) \<rparr>"

definition op_back :: "op_world back_client" where
  "op_back = \<lparr> bc_List = (\<lambda>kind w. BackItems []), bc_Get = (\<lambda>kind ns name w. ApiNotFound),
     bc_StatusUpdate = (\<lambda>obj w. (False, w)), bc_Update = (\<lambda>obj w. (False, w)),
     bc_RemoveFinalizer = (\<lambda>obj f.
       (f \<in> set (uo_Finalizers obj), obj\<lparr> uo_Finalizers := filter (\<lambda>x. x \<noteq> f) (uo_Finalizers obj) \<rparr>)) \<rparr>"

definition op_lib :: kube_lib where
  "op_lib =
     \<lparr> kl_ContainsFinalizer = (\<lambda>f fins. f \<in> set fins),
       kl_AddFinalizer = (\<lambda>f fins. (f \<notin> set fins, if f \<in> set fins then fins else fins @ [f])),
       kl_RemoveFinalizer = (\<lambda>f fins. (f \<in> set fins, filter (\<lambda>x. x \<noteq> f) fins)),
       kl_SetStatusCondition = (\<lambda>c conds.
         let conds' = (if list_ex (\<lambda>d. cn_Type d = cn_Type c) conds
                       then map (\<lambda>d. if cn_Type d = cn_Type c then c else d) conds else conds @ [c])
         in (conds' \<noteq> conds, conds')),
       kl_RemoveStatusCondition = (\<lambda>t conds. filter (\<lambda>d. cn_Type d \<noteq> t) conds) \<rparr>"

definition op_refs :: "op_world ref_client" where
  "op_refs = \<lparr> rc_Get = (\<lambda>gvk ns name w. ApiNotFound), rc_List = (\<lambda>gvk sel w. ApiOk []), rc_GetNamespace = (\<lambda>ns w. ApiOk []),
     rc_Update = (\<lambda>x w. (ApiNotFound, w)), rc_AsSelector = (\<lambda>ls. None), rc_AddFinalizer = (\<lambda>x f. (False, x)) \<rparr>"

definition op_cluster :: "(op_world, string \<times> string, SecRuleMetadata, string) cluster" where
  "op_cluster =
     \<lparr> cl_fuel = 1, cl_refs = op_refs,
       cl_secrets = \<lparr> sc_Get = (\<lambda>ns n w. ApiNotFound), sc_Create = (\<lambda>s w. (ApiOk s, w)), sc_Update = (\<lambda>s w. (ApiOk s, w)),
                      sc_Rand = (\<lambda>k w. (None, w)) \<rparr>,
       cl_scheme = None, cl_reader = (\<lambda>w. cl_reader demo_cluster ()),
       cl_files = (\<lambda>w. demo_pf), cl_pack = (\<lambda>b. None), cl_sha = id, cl_gzip = Some,
       cl_printer = demo_pattern_printer, cl_severities = severityNameToLevel \<rparr>"

definition op_texts :: texts where
  "op_texts = \<lparr> tx_pipeline = (\<lambda>_. []), tx_upsert = (\<lambda>_. []), tx_slot = (\<lambda>_. []), tx_references = (\<lambda>_. []),
     tx_reference = (\<lambda>_. []), tx_detection = (\<lambda>_. []), tx_phrase_files = (\<lambda>_. []) \<rparr>"

definition op_rec :: "(op_world, string \<times> string, SecRuleMetadata, string) reconciler" where
  "op_rec = \<lparr> rw_cluster = op_cluster, rw_ecds = demo_env, rw_wafs = op_wafs, rw_slots = op_slots, rw_order = id, rw_back = op_back,
     rw_config_maps = (\<lambda>ns name w. None), rw_lib = op_lib, rw_texts = op_texts, rw_getenv = (\<lambda>_. []),
     rw_BuildOpts = demo_opts, rw_Recorder = True \<rparr>"

definition op_status :: WAFStatus where
  "op_status =
     \<lparr> wfs_Conditions = [], wfs_Provider = [], wfs_ProviderDetection = [], wfs_Engine = [], wfs_Mode = [],
       wfs_ChallengeEnabled = False, wfs_ChallengeSecretName = [], wfs_ECDSResourceName = [], wfs_ECDSVersion = 0,
       wfs_SlotKind = [], wfs_SlotName = [], wfs_RulesLoaded = 0, wfs_ActionsLoaded = 0, wfs_DirectivesCount = 0,
       wfs_RenderedDirectives = [], wfs_RenderedDirectivesTruncated = False, wfs_DataFilesCount = 0, wfs_DataFilesRawBytes = 0,
       wfs_DataFilesContentHash = [], wfs_RuleRefs = [], wfs_RuleRefsOmitted = 0, wfs_RuleRefsTruncated = False \<rparr>"

definition op_waf :: "RuleRef list \<Rightarrow> bool \<Rightarrow> WAFObject" where
  "op_waf refs deleting =
     \<lparr> wo_Group = [], wo_Version = [], wo_Kind = [], wo_UID = ''u'', wo_WAF = demo_wired refs, wo_Deleting = deleting,
       wo_Finalizers = [Finalizer, wafFinalizer], wo_Generation = 1, wo_Status = op_status \<rparr>"

text \<open>The WAF is in the cluster, with a slot on Cilium.\<close>

definition op_state :: "RuleRef list \<Rightarrow> bool \<Rightarrow> op_world waf_state" where
  "op_state refs deleting =
     \<lparr> wst_World = \<lparr> ow_Slots = demo_put CiliumEnvoyConfig ''a'' (ResourceName ''w'') (Some empty_object) (\<lambda>_ _ _. None),
                     ow_WAF = Some (op_waf refs deleting) \<rparr>,
       wst_Pubs = demo_pubs, wst_Events = [], wst_WAFReady = Map.empty, wst_WAFCRSEnabled = Map.empty, wst_RulesLoaded = Map.empty \<rparr>"

lemma op_rec_simps [simp]:
  "rw_cluster op_rec = op_cluster" "rw_ecds op_rec = demo_env" "rw_wafs op_rec = op_wafs" "rw_slots op_rec = op_slots"
  "rw_order op_rec = id" "rw_back op_rec = op_back" "rw_lib op_rec = op_lib" "rw_texts op_rec = op_texts"
  "rw_BuildOpts op_rec = demo_opts" "ee_ip6 demo_env = Some" "ee_accept demo_env = (\<lambda>_ _. True)"
  by (simp_all add: op_rec_def demo_env_def)

lemma op_slots_ok: "slot_store_ok op_slots op_get"
  by (auto simp: slot_store_ok_def op_slots_def demo_put_def)

lemma op_wafs_ok: "waf_store_ok op_wafs"
  by (auto simp: waf_store_ok_def op_wafs_def object_request_def split: option.splits if_splits)

lemma op_back_ok: "back_store_ok op_back (\<lambda>w k. None)"
  by (simp add: back_store_ok_def op_back_def)

lemma find_map_set:
  "list_ex (\<lambda>d. cn_Type d = cn_Type c) conds \<Longrightarrow>
   find (\<lambda>d. cn_Type d = cn_Type c) (map (\<lambda>d. if cn_Type d = cn_Type c then c else d) conds) = Some c"
  "t \<noteq> cn_Type c \<Longrightarrow>
   find (\<lambda>d. cn_Type d = t) (map (\<lambda>d. if cn_Type d = cn_Type c then c else d) conds) = find (\<lambda>d. cn_Type d = t) conds"
  by (induction conds) auto

lemma find_append_one: "find P (xs @ [c]) = (case find P xs of None \<Rightarrow> if P c then Some c else None | Some d \<Rightarrow> Some d)"
  by (induction xs) auto

lemma find_none: "\<not> list_ex P xs \<Longrightarrow> find P xs = None"
  by (induction xs) auto

lemma op_lib_ok: "conditions_ok op_lib"
  by (auto simp: conditions_ok_def op_lib_def Let_def find_map_set find_append_one find_none split: option.split)

lemma op_apart: "stored_apart op_rec op_get (\<lambda>w k. None)"
  by (auto simp: stored_apart_def keeps_slots_def keeps_back_def keeps_wafs_def op_slots_def op_wafs_def op_back_def
      split: option.splits if_splits)

lemma op_resolve:
  "AddUpdateReconcile 1 op_refs [] source w = Some (([], [], None), w)"
  "AddUpdateReconcile 1 op_refs [demo_ref [] ''gone''] source w =
     Some (([], [LookupFailed (demo_ref [] ''gone'') (LookupGet ApiNotFound)], None), w)"
  by (simp_all add: AddUpdateReconcile_def lookupRef_def applyRuleRefDefaults_def getDynamicObjects_def op_refs_def demo_ref_def Let_def)

lemma op_scan: "ScanPmFromFileBasenames (BuildDirectives (demo_wired refs) []) = []"
proof -
  have "BuildDirectives (demo_wired refs) [] = [''Include @kubewaf-defaults'', ''SecRuleEngine On'', ''SecDebugLogLevel 1'']"
    unfolding demo_wired_def demo_waf_def by code_simp
  moreover have "ScanPmFromFileBasenames [''Include @kubewaf-defaults'', ''SecRuleEngine On'', ''SecDebugLogLevel 1''] = []"
    by code_simp
  ultimately show ?thesis by simp
qed

lemma op_config:
  "\<exists>p ts. BuildFromWAF Some (Some (demo_wired refs)) [] demo_opts = Inr p \<and> BuildTypedExtensionConfigs Some p = Inr ts \<and>
     pc_Provider p = ProviderIstio \<and> \<not> pc_TelemetryManaged p"
  by (simp add: BuildFromWAF_def portable_config_def demo_opts_def moduleURL_def moduleSHA_def smap_get_def
      ModuleModSecurity_def ModuleChallenge_def Let_def resolveProvider_def demo_wired_def demo_waf_def
      BuildTypedExtensionConfigs_def wasmFetchCluster_def ProviderIstio_def ProviderCilium_def
      buildOne_def buildVMConfig_def demo_url str_or_def WasmCodeCluster_def ChallengeEnabled_def)

lemma op_built:
  assumes "AddUpdateReconcile 1 op_refs refs (waf_source (demo_wired refs)) w = Some (([], errs, None), w)"
  shows "\<exists>res p ts. Build op_cluster ''u'' (demo_wired refs) (waf_options demo_opts) w = Some (Inr res, w) \<and>
    res_ReferenceErrors res = errs \<and> res_Portable res = Some p \<and> BuildTypedExtensionConfigs Some p = Inr ts \<and>
    pc_Provider p = ProviderIstio \<and> \<not> pc_TelemetryManaged p \<and> pc_key p = (''a'', ''w'')"
proof -
  let ?waf = "demo_wired refs"
  let ?pr = "DiscoverAndResolvePhraseFiles id demo_pf (\<lambda>b. None) ?waf (BuildDirectives ?waf []) []"
  have pr: "pr_Ready ?pr" "pr_DroppedBasenames ?pr = []" "pr_Files ?pr = []"
    unfolding DiscoverAndResolvePhraseFiles_def op_scan
    by (simp_all add: checkPhraseListRefs_def checkIPListRefs_def collectRuleSetLocalRefs_def List.map_filter_def)
  have waf: "ws_RuleSetRefs (waf_Spec ?waf) = refs" "\<not> ChallengeEnabled (ws_Challenge (waf_Spec ?waf))" "\<not> NeedsProviderDiscovery ?waf"
    by (simp_all add: demo_wired_def demo_waf_def ChallengeEnabled_def NeedsProviderDiscovery_def)
  obtain p ts where p: "BuildFromWAF Some (Some ?waf) [] demo_opts = Inr p" "BuildTypedExtensionConfigs Some p = Inr ts"
    "pc_Provider p = ProviderIstio" "\<not> pc_TelemetryManaged p" using op_config by blast
  have key: "pc_key p = (''a'', ''w'')" using BuildFromWAF_filters [OF p(1)] by (simp add: demo_wired_def demo_waf_def)
  obtain res where r: "finish_build op_cluster ?waf (waf_options demo_opts) [] errs [] no_hmac w = Inr res"
    "res_Portable res = Some p" "res_ReferenceErrors res = errs"
    using pr p(1) waf by (simp add: finish_build_def op_cluster_def build_options_def waf_options_def with_files_def Let_def)
  have "GetSecRule severityNameToLevel demo_pattern_printer [] = Inr []"
    by (simp add: GetSecRule_def GetSecLang_def lang_items_def)
  then have "Build op_cluster ''u'' ?waf (waf_options demo_opts) w = Some (Inr res, w)"
    using assms r(1) waf by (simp add: Build_def op_cluster_def waf_options_def build_challenge_def)
  with r(2,3) p key show ?thesis by blast
qed

lemma op_found: "oc_Get op_wafs ''a'' ''w'' (wst_World (op_state refs deleting)) = ApiOk (op_waf refs deleting)"
  "object_request (op_waf refs deleting) = (''a'', ''w'')" "waf_request (wo_WAF (op_waf refs deleting)) = (''a'', ''w'')"
  "wo_Deleting (op_waf refs deleting) = deleting" "wo_UID (op_waf refs deleting) = ''u''" "wo_WAF (op_waf refs deleting) = demo_wired refs"
  by (simp_all add: op_wafs_def op_state_def op_waf_def object_request_def waf_request_def demo_wired_def demo_waf_def)

lemma op_key_ok: "slot_key_ok (''a'', ''w'')"
  by (simp add: slot_key_ok_def waf_key_ok_def slash_free_def ResourceName_def AccessLogResourceName_def)

lemma op_finalizers: "snd (add_finalizer op_lib Finalizer (op_waf refs deleting)) = op_waf refs deleting"
  by (simp add: add_finalizer_def op_lib_def op_waf_def)

theorem status_bounded_witness:
  "length (wfs_RenderedDirectives (published_status op_texts
     \<lparr> res_Portable = None, res_Challenge = no_hmac, res_ReferenceErrors = [], res_ResolvedObjects = [], res_PhraseFiles = None \<rparr>
     ((demo_config ''a'' ''w'')\<lparr> pc_Directives := [replicate 70000 (CHR ''x'')] \<rparr>) None [] [] (op_waf [] False))) \<le> 65586"
  by (rule status_bounded [OF _ refl refl, THEN conjunct1]) simp

lemma op_delete_run: "\<exists>s'. waf_Reconcile op_rec ''a'' ''w'' (op_state [] True) = Some (WafDone, s')"
proof -
  let ?s = "op_state [] True"
  obtain w eg where d: "DeleteAll id (slotRegistry op_rec) ''a'' ''w'' (wst_World ?s, pub_EGExtension (DropLocal demo_env ''a'' ''w'' (wst_Pubs ?s))) = (None, w, eg)"
      "ow_WAF w = Some (op_waf [] True)"
    by (simp add: DeleteAll_def slotRegistry_def NewRegistry_def Register_def istioAdapter_def ciliumAdapter_def egAdapter_def
        DeleteEnvoyFilter_def DeleteCiliumEnvoyConfig_def slot_delete_def op_slots_def MaybeDeleteOTelAccessLogEnvoyFilter_def
        deleteAccessLogEnvoyFilter_def op_state_def)
  have c: "CleanupBackReferences op_back k n ns w = (None, w)" for k n ns
    by (simp add: CleanupBackReferences_def cleanup_kind_def op_back_def)
  have f: "kl_RemoveFinalizer op_lib wafFinalizer (wo_Finalizers (op_waf [] True)) = (True, [Finalizer])"
    "kl_RemoveFinalizer op_lib Finalizer [Finalizer] = (True, [])"
    by (simp_all add: op_lib_def op_waf_def wafFinalizer_def Finalizer_def)
  have u: "oc_Update op_wafs ((op_waf [] True)\<lparr> wo_Finalizers := [] \<rparr>) w = (ApiOk ((op_waf [] True)\<lparr> wo_Finalizers := [] \<rparr>), w\<lparr> ow_WAF := Some ((op_waf [] True)\<lparr> wo_Finalizers := [] \<rparr>) \<rparr>)"
    using d(2) by (simp add: op_wafs_def object_request_def)
  have n: "waf_Namespace (wo_WAF (op_waf [] True)) = ''a''" "waf_Name (wo_WAF (op_waf [] True)) = ''w''"
    using op_found(3) by (simp_all add: waf_request_def)
  show ?thesis
    using waf_Reconcile_found [of op_rec "''a''" "''w''" ?s "op_waf [] True"]
    by (simp add: op_found op_finalizers) (simp add: reconcileDelete_def in_slots_def in_world_def Let_def n d c f u)
qed

theorem finalizer_dropped_last_witness:
  "\<exists>s' srv'. waf_Reconcile op_rec ''a'' ''w'' (op_state [] True) = Some (WafDone, s') \<and>
     slots op_get (wst_World (op_state [] True), Some []) (''a'', ''w'') = {ProviderCilium} \<and>
     slots op_get (wst_World s', pub_EGExtension (wst_Pubs s')) (''a'', ''w'') = {} \<and>
     pub_ECDS (wst_Pubs s') = Some srv' \<and> waf_resources srv' (''a'', ''w'') = Map.empty"
proof -
  obtain s' where s': "waf_Reconcile op_rec ''a'' ''w'' (op_state [] True) = Some (WafDone, s')" using op_delete_run by blast
  have l: "\<exists>objs. bc_List (rw_back op_rec) kind w = BackItems objs" for kind w by (simp add: op_back_def)
  have p: "pub_ECDS (wst_Pubs (op_state [] True)) = Some (New (\<lambda>_ _. True))" "pub_EGExtension (wst_Pubs (op_state [] True)) = Some []"
    by (simp_all add: op_state_def demo_pubs_def)
  have r: "slot_store_ok (rw_slots op_rec) op_get" "back_store_ok (rw_back op_rec) (\<lambda>w k. None)"
    "oc_Get (rw_wafs op_rec) ''a'' ''w'' (wst_World (op_state [] True)) = ApiOk (op_waf [] True)" "wo_Deleting (op_waf [] True)"
    by (simp_all add: op_slots_ok op_back_ok op_found)
  have "slots op_get (wst_World s', pub_EGExtension (wst_Pubs s')) (''a'', ''w'') = {} \<and>
      (\<exists>srv'. pub_ECDS (wst_Pubs s') = Some srv' \<and> waf_resources srv' (''a'', ''w'') = Map.empty)"
    using finalizer_dropped_last [OF r(1,2) op_apart _ l r(3,4) op_found(3) op_key_ok p s'] by simp
  moreover have "slots op_get (wst_World (op_state [] True), Some []) (''a'', ''w'') = {ProviderCilium}"
    by (simp add: slots_def op_state_def demo_put_def eg_view_def)
  ultimately show ?thesis using s' by blast
qed

text \<open>A run on a live WAF: its configuration is published, the slot is written and the status stored.\<close>

lemma op_ensure:
  assumes "pc_Provider p = ProviderIstio" and "\<not> pc_TelemetryManaged p" and "ow_WAF (fst s) = x"
  shows "\<exists>name w eg. EnsureDesired id (slotRegistry op_rec) owner p s = (Inr (''EnvoyFilter'', name), w, eg) \<and> ow_WAF w = x"
proof -
  obtain w eg where s: "s = (w, eg)" by (cases s)
  have g: "registry_Get (slotRegistry op_rec) ProviderIstio = Inr (istioAdapter op_slots Some)"
    by (simp add: registry_Get_def NewRegistry_map slotRegistry_def)
  obtain w1 eg1 where d: "DeleteOthers id (slotRegistry op_rec) (pc_Namespace p) (pc_Name p) ProviderIstio s = (None, w1, eg1)" "ow_WAF w1 = x"
    using assms(3) by (simp add: s DeleteOthers_def slotRegistry_def NewRegistry_def Register_def istioAdapter_def ciliumAdapter_def
        egAdapter_def DeleteCiliumEnvoyConfig_def slot_delete_def op_slots_def)
  obtain w2 where e: "EnsureEnvoyFilter op_slots Some owner p w1 = (None, w2)" "ow_WAF w2 = x"
    using assms(2) d(2) by (simp add: EnsureEnvoyFilter_def slot_write_def op_slots_def MaybeDeleteOTelAccessLogEnvoyFilter_def
        deleteAccessLogEnvoyFilter_def slot_delete_def)
  show ?thesis using e(2) by (simp add: EnsureDesired_def assms(1) g) (simp add: d e istioAdapter_def)
qed

lemma op_status_update:
  "ow_WAF w = Some y \<Longrightarrow> object_request x = object_request y \<Longrightarrow>
   oc_StatusUpdate op_wafs x w = (ApiOk (y\<lparr> wo_Status := wo_Status x \<rparr>), w\<lparr> ow_WAF := Some (y\<lparr> wo_Status := wo_Status x \<rparr>) \<rparr>)"
  by (simp add: op_wafs_def)

lemma op_attach:
  assumes "res_Portable res = Some p" and "pc_Provider p = ProviderIstio" and "\<not> pc_TelemetryManaged p"
    and "BuildTypedExtensionConfigs Some p = Inr ts" and "wst_Pubs s = demo_pubs"
    and "ow_WAF (wst_World s) = Some y" and "object_request y = (''a'', ''w'')"
  shows "\<exists>s'. publish_and_attach op_rec ''a'' ''w'' res x s = (WafDone, s')"
proof -
  obtain srv where u: "Upsert Some (\<lambda>_ _. True) p (New (\<lambda>_ _. True)) = (None, srv)"
    using assms(4) by (simp add: Upsert_def publishLocked_def Let_def)
  have pub: "Publish demo_env (Some p) (waf_options demo_opts) demo_pubs = (None, \<lparr> pub_ECDS = Some srv, pub_EGExtension = Some (eg_Upsert p []) \<rparr>)"
    by (simp add: Publish_def waf_options_def demo_pubs_def u publish_eg_def)
  obtain n w eg where e: "EnsureDesired id (slotRegistry op_rec) (Some (slot_owner_of x)) p (wst_World s, Some (eg_Upsert p [])) = (Inr (''EnvoyFilter'', n), w, eg)"
      "ow_WAF w = Some y"
    using op_ensure [OF assms(2,3), of "(wst_World s, Some (eg_Upsert p []))"] assms(6) by fastforce
  have g: "oc_Get op_wafs ''a'' ''w'' w = ApiOk y" using e(2) assms(7) by (simp add: op_wafs_def)
  let ?s = "s\<lparr> wst_World := w, wst_Pubs := \<lparr> pub_ECDS = Some srv, pub_EGExtension = eg \<rparr> \<rparr>"
  have "\<exists>s'. write_ready op_rec res p ''EnvoyFilter'' n y ?s = (WafDone, s')"
    by (simp add: write_ready_def Let_def in_world_def op_status_update [OF e(2)] object_request_def)
  then show ?thesis
    using pub e g by (simp add: publish_and_attach_def assms(1,5) ensure_slot_def in_slots_def)
qed

lemma op_live: "wo_Finalizers (op_waf refs False) = [Finalizer, wafFinalizer]" "kl_ContainsFinalizer op_lib wafFinalizer [Finalizer, wafFinalizer]"
  by (simp_all add: op_waf_def op_lib_def)


theorem failed_reference_keeps_ready_witness:
  "\<exists>s' z. waf_Reconcile op_rec ''a'' ''w'' (op_state [demo_ref [] ''gone''] False) = Some (WafDone, s') \<and>
     wst_Pubs s' = demo_pubs \<and> oc_Get op_wafs ''a'' ''w'' (wst_World s') = ApiOk z \<and> find_condition ''Ready'' z = None"
proof -
  let ?s = "op_state [demo_ref [] ''gone''] False" and ?x = "op_waf [demo_ref [] ''gone''] False"
  obtain res where b: "Build op_cluster ''u'' (demo_wired [demo_ref [] ''gone'']) (waf_options demo_opts) (wst_World ?s) = Some (Inr res, wst_World ?s)"
      "res_ReferenceErrors res \<noteq> []"
    using op_built [OF op_resolve(2)] by (metis list.distinct(1))
  have "\<exists>s' z. waf_Reconcile op_rec ''a'' ''w'' ?s = Some (WafDone, s') \<and> wst_Pubs s' = wst_Pubs ?s \<and> wst_WAFReady s' = wst_WAFReady ?s \<and>
      oc_Get (rw_wafs op_rec) ''a'' ''w'' (wst_World s') = ApiOk z \<and> find_condition ''Ready'' z = find_condition ''Ready'' ?x"
    by (rule failed_reference_keeps_ready [where res = res and ?w1.0 = "wst_World ?s"])
      (use b in \<open>simp_all add: op_lib_ok op_wafs_ok op_found op_finalizers op_live\<close>)
  moreover have "find_condition ''Ready'' ?x = None" "wst_Pubs ?s = demo_pubs"
    by (simp_all add: find_condition_def op_waf_def op_status_def op_state_def)
  ultimately show ?thesis by auto
qed

end
