(* ===== verification/Spec2Isabelle.thy ===== *)
theory Spec2Isabelle
  imports PromQLWalk IdPoolThms ExtServerThms ResolverThms ConvertThms PhraseFilesThms AssemblyThms ProbeThms WebhookThms
    ChallengeThms DiscoverThms PipelineThms SecLangSchema SlotThms WafReconcileThms
begin

text \<open>
  Verification of kubewaf, a Kubernetes operator that turns SecLang custom resources into a WAF
  filter configuration, publishes it to Envoy data planes and serves per-WAF telemetry queries.

  Theories so far: \<^verbatim>\<open>Prelude\<close> (Go strings and results) and
  \<^verbatim>\<open>PromQL\<close> (the tenant query rewriter).
\<close>

end
